(* ===== verification/Go_Prelude.thy ===== *)
theory Go_Prelude
  imports Main "HOL-Library.Char_ord" "HOL-Library.List_Lexorder" "HOL-Library.AList"
    "HOL-Library.Multiset"
begin

text \<open>
  Shared vocabulary of the development: Go byte strings and the standard library functions on
  them that the gateway uses (\<open>strings\<close>, \<open>strconv\<close>, \<open>encoding/hex\<close>), the error type
  with Go's sentinel errors as constructors, the result and transaction types, association
  lists for Go maps, and the generic lemmas the components share.  A Go \<open>string\<close> and a Go
  \<open>[]byte\<close> are both a list of bytes here (\<open>char list\<close>), and strings are ordered
  bytewise as Go orders them.
\<close>

section \<open>Lemma collections\<close>

named_theorems go_defs "definitions of one-line Go helpers, unfolded on demand"
named_theorems tx_simps "execution of transaction bodies"
named_theorems store_simps "execution of ledger operations on the model stores"

section \<open>Errors and results\<close>

text \<open>
  The sentinel errors of \<open>internal/crypto/errors.go\<close>, \<open>internal/ledger/verify.go\<close>,
  \<open>internal/slack/verify.go\<close> and \<open>internal/auth/auth.go\<close> are constructors;
  \<open>Errorf\<close> is an error made with \<open>fmt.Errorf\<close> or \<open>errors.New\<close> at its point of use, and
  \<open>GoPanic\<close> stands for a call that panics instead of returning.
\<close>

datatype goerr =
    ErrFloatNotAllowed | ErrNonStringMapKey | ErrUnsupportedType | ErrKeyCollision
  | ErrInvalidSeedSize | ErrInvalidDigestLen
  | ErrReceiptDigestMismatch | ErrReceiptSignature
  | ErrMissingSignature | ErrInvalidSignature | ErrStaleTimestamp
  | ErrMissingBearer | ErrInvalidToken
  | Errorf string | GoPanic string

fun err_msg :: "goerr \<Rightarrow> string" where
  "err_msg ErrFloatNotAllowed = ''float values are not allowed''"
| "err_msg ErrNonStringMapKey = ''map keys must be strings''"
| "err_msg ErrUnsupportedType = ''unsupported type for canonicalization''"
| "err_msg ErrKeyCollision = ''normalized map key collision''"
| "err_msg ErrInvalidSeedSize = ''invalid ed25519 seed size''"
| "err_msg ErrInvalidDigestLen = ''invalid digest length''"
| "err_msg ErrReceiptDigestMismatch = ''receipt digest mismatch''"
| "err_msg ErrReceiptSignature = ''receipt signature invalid''"
| "err_msg ErrMissingSignature = ''missing slack signature''"
| "err_msg ErrInvalidSignature = ''invalid slack signature''"
| "err_msg ErrStaleTimestamp = ''stale slack timestamp''"
| "err_msg ErrMissingBearer = ''missing bearer token''"
| "err_msg ErrInvalidToken = ''invalid token''"
| "err_msg (Errorf s) = s"
| "err_msg (GoPanic s) = s"

text \<open>A Go result \<open>(T, error)\<close>: \<open>Inl\<close> carries the error, \<open>Inr\<close> the value.\<close>

type_synonym 'a res = "goerr + 'a"

definition res_bind :: "'a res \<Rightarrow> ('a \<Rightarrow> 'b res) \<Rightarrow> 'b res" where
  "res_bind r f = (case r of Inl e \<Rightarrow> Inl e | Inr a \<Rightarrow> f a)"

lemma res_bind_simps [simp]:
  "res_bind (Inl e) f = Inl e"
  "res_bind (Inr a) f = f a"
  by (simp_all add: res_bind_def)

lemma res_bind_Inr_iff: "res_bind r f = Inr b \<longleftrightarrow> (\<exists>a. r = Inr a \<and> f a = Inr b)"
  by (cases r) simp_all

lemma res_bind_Inl_iff: "res_bind r f = Inl e \<longleftrightarrow> r = Inl e \<or> (\<exists>a. r = Inr a \<and> f a = Inl e)"
  by (cases r) auto

lemma res_bind_cong [fundef_cong]:
  "r = r' \<Longrightarrow> (\<And>a. r' = Inr a \<Longrightarrow> f a = g a) \<Longrightarrow> res_bind r f = res_bind r' g"
  by (cases r') simp_all

text \<open>A loop that stops at the first error (\<open>for ... { if err := ...; err != nil { return err } }\<close>).\<close>

fun res_mapM :: "('a \<Rightarrow> 'b res) \<Rightarrow> 'a list \<Rightarrow> 'b list res" where
  "res_mapM f [] = Inr []"
| "res_mapM f (x # xs) = res_bind (f x) (\<lambda>y. res_bind (res_mapM f xs) (\<lambda>ys. Inr (y # ys)))"

lemma res_mapM_cong [fundef_cong]:
  "xs = ys \<Longrightarrow> (\<And>x. x \<in> set ys \<Longrightarrow> f x = g x) \<Longrightarrow> res_mapM f xs = res_mapM g ys"
  by (induction ys arbitrary: xs) auto

lemma res_mapM_Inr_iff:
  "res_mapM f xs = Inr ys \<longleftrightarrow> list_all2 (\<lambda>x y. f x = Inr y) xs ys"
  by (induction xs arbitrary: ys) (auto simp: res_bind_Inr_iff list_all2_Cons1)

lemma res_mapM_in: "res_mapM f xs = Inr ys \<Longrightarrow> y \<in> set ys \<Longrightarrow> \<exists>x \<in> set xs. f x = Inr y"
  by (induction xs arbitrary: ys) (auto simp: res_bind_Inr_iff)

lemma res_mapM_map: "res_mapM f (map g xs) = res_mapM (\<lambda>x. f (g x)) xs"
  by (induction xs) simp_all

section \<open>Transactions\<close>

text \<open>
  The body of a Go closure \<open>func(tx ledger.Tx) error\<close>: it runs on the store state, may fail,
  and leaves a state either way (the value it returns stands for the variables the closure
  assigns).
\<close>

type_synonym ('s, 'a) tx = "'s \<Rightarrow> 'a res \<times> 's"

definition tx_return :: "'a \<Rightarrow> ('s, 'a) tx" where
  "tx_return a s = (Inr a, s)"

definition tx_fail :: "goerr \<Rightarrow> ('s, 'a) tx" where
  "tx_fail e s = (Inl e, s)"

definition tx_bind :: "('s, 'a) tx \<Rightarrow> ('a \<Rightarrow> ('s, 'b) tx) \<Rightarrow> ('s, 'b) tx" where
  "tx_bind m f s = (case m s of (Inl e, s') \<Rightarrow> (Inl e, s') | (Inr a, s') \<Rightarrow> f a s')"

definition tx_get :: "('s \<Rightarrow> 'a) \<Rightarrow> ('s, 'a) tx" where
  "tx_get g s = (Inr (g s), s)"

definition tx_put :: "('s \<Rightarrow> 's res) \<Rightarrow> ('s, unit) tx" where
  "tx_put f s = (case f s of Inl e \<Rightarrow> (Inl e, s) | Inr s' \<Rightarrow> (Inr (), s'))"

lemma tx_return_apply [tx_simps]: "tx_return a s = (Inr a, s)"
  by (simp add: tx_return_def)

lemma tx_fail_apply [tx_simps]: "tx_fail e s = (Inl e, s)"
  by (simp add: tx_fail_def)

lemma tx_bind_get [tx_simps]: "tx_bind (tx_get g) f s = f (g s) s"
  by (simp add: tx_bind_def tx_get_def)

lemma tx_bind_put [tx_simps]:
  "tx_bind (tx_put p) f s = (case p s of Inl e \<Rightarrow> (Inl e, s) | Inr s' \<Rightarrow> f () s')"
  by (simp add: tx_bind_def tx_put_def split: sum.splits)

lemma tx_put_apply [tx_simps]:
  "tx_put p s = (case p s of Inl e \<Rightarrow> (Inl e, s) | Inr s' \<Rightarrow> (Inr (), s'))"
  by (simp add: tx_put_def)

lemma tx_bind_assoc: "tx_bind (tx_bind m f) g = tx_bind m (\<lambda>a. tx_bind (f a) g)"
  by (rule ext) (auto simp: tx_bind_def split: prod.splits sum.splits)

lemma tx_bind_Inr_iff:
  "tx_bind m f s = (Inr b, s'') \<longleftrightarrow> (\<exists>a s'. m s = (Inr a, s') \<and> f a s' = (Inr b, s''))"
  by (auto simp: tx_bind_def split: prod.splits sum.splits)

lemma tx_put_Inr_iff: "tx_put p s = (Inr u, s') \<longleftrightarrow> p s = Inr s'"
  by (auto simp: tx_put_def split: sum.splits)

section \<open>Go strings\<close>

text \<open>\<open>strings.HasPrefix\<close>, \<open>strings.TrimPrefix\<close>, \<open>strings.TrimRight\<close> with a one-byte cutset.\<close>

fun has_prefix :: "string \<Rightarrow> string \<Rightarrow> bool" where
  "has_prefix s [] = True"
| "has_prefix [] (p # ps) = False"
| "has_prefix (c # cs) (p # ps) = (c = p \<and> has_prefix cs ps)"

lemma has_prefix_iff: "has_prefix s p \<longleftrightarrow> (\<exists>t. s = p @ t)"
  by (induction s p rule: has_prefix.induct) auto

lemma has_prefix_append [simp]: "has_prefix (p @ s) p"
  by (auto simp: has_prefix_iff)

definition trim_prefix :: "string \<Rightarrow> string \<Rightarrow> string" where
  "trim_prefix s p = (if has_prefix s p then drop (length p) s else s)"

lemma trim_prefix_append [simp]: "trim_prefix (p @ s) p = s"
  by (simp add: trim_prefix_def)

definition has_suffix :: "string \<Rightarrow> string \<Rightarrow> bool" where
  "has_suffix s p = has_prefix (rev s) (rev p)"

definition trim_right_byte :: "string \<Rightarrow> char \<Rightarrow> string" where
  "trim_right_byte s c = rev (dropWhile (\<lambda>d. d = c) (rev s))"

text \<open>
  \<open>strings.TrimSpace\<close>: the encodings of the runes of \<open>unicode.IsSpace\<close>, removed from both ends.
\<close>

definition space_runes :: "string list" where
  "space_runes =
     [[CHR 0x09], [CHR 0x0A], [CHR 0x0B], [CHR 0x0C], [CHR 0x0D], [CHR 0x20],
      [CHR 0xC2, CHR 0x85], [CHR 0xC2, CHR 0xA0], [CHR 0xE1, CHR 0x9A, CHR 0x80],
      [CHR 0xE2, CHR 0x80, CHR 0x80], [CHR 0xE2, CHR 0x80, CHR 0x81],
      [CHR 0xE2, CHR 0x80, CHR 0x82], [CHR 0xE2, CHR 0x80, CHR 0x83],
      [CHR 0xE2, CHR 0x80, CHR 0x84], [CHR 0xE2, CHR 0x80, CHR 0x85],
      [CHR 0xE2, CHR 0x80, CHR 0x86], [CHR 0xE2, CHR 0x80, CHR 0x87],
      [CHR 0xE2, CHR 0x80, CHR 0x88], [CHR 0xE2, CHR 0x80, CHR 0x89],
      [CHR 0xE2, CHR 0x80, CHR 0x8A], [CHR 0xE2, CHR 0x80, CHR 0xA8],
      [CHR 0xE2, CHR 0x80, CHR 0xA9], [CHR 0xE2, CHR 0x80, CHR 0xAF],
      [CHR 0xE2, CHR 0x81, CHR 0x9F], [CHR 0xE3, CHR 0x80, CHR 0x80]]"

fun strip_first :: "string list \<Rightarrow> string \<Rightarrow> string option" where
  "strip_first [] s = None"
| "strip_first (p # ps) s =
     (if p \<noteq> [] \<and> has_prefix s p then Some (drop (length p) s) else strip_first ps s)"

lemma strip_first_shorter: "strip_first ps s = Some t \<Longrightarrow> length t < length s"
  by (induction ps) (auto simp: has_prefix_iff split: if_splits)

function trim_leading :: "string list \<Rightarrow> string \<Rightarrow> string" where
  "trim_leading ps s = (case strip_first ps s of None \<Rightarrow> s | Some t \<Rightarrow> trim_leading ps t)"
  by pat_completeness auto
termination
  by (relation "measure (\<lambda>(ps, s). length s)") (auto dest: strip_first_shorter)

declare trim_leading.simps [simp del]

definition trim_space :: "string \<Rightarrow> string" where
  "trim_space s =
     rev (trim_leading (map rev space_runes) (rev (trim_leading space_runes s)))"

lemma trim_leading_stop: "strip_first ps s = None \<Longrightarrow> trim_leading ps s = s"
  by (simp add: trim_leading.simps)

lemma trim_space_empty [simp]: "trim_space [] = []"
  by (simp add: trim_space_def space_runes_def trim_leading_stop)

text \<open>\<open>strings.SplitN(s, sep, 2)\<close> for a one-byte separator, and \<open>strings.Join\<close>.\<close>

fun split2 :: "char \<Rightarrow> string \<Rightarrow> string list" where
  "split2 sep s =
     (let h = takeWhile (\<lambda>c. c \<noteq> sep) s; t = dropWhile (\<lambda>c. c \<noteq> sep) s
      in if t = [] then [h] else [h, tl t])"

fun str_join :: "string \<Rightarrow> string list \<Rightarrow> string" where
  "str_join sep [] = []"
| "str_join sep [s] = s"
| "str_join sep (s # t # ts) = s @ sep @ str_join sep (t # ts)"

text \<open>ASCII strings, on which the Unicode normalisation forms agree.\<close>

definition ascii :: "string \<Rightarrow> bool" where
  "ascii s \<longleftrightarrow> list_all (\<lambda>c. (of_char c :: nat) < 128) s"

lemma ascii_simps [simp]:
  "ascii []"
  "ascii (c # s) \<longleftrightarrow> (of_char c :: nat) < 128 \<and> ascii s"
  by (simp_all add: ascii_def)

lemma ascii_append [simp]: "ascii (s @ t) \<longleftrightarrow> ascii s \<and> ascii t"
  by (simp add: ascii_def)

section \<open>Decimal integers (\<open>strconv\<close>)\<close>

definition digit_char :: "nat \<Rightarrow> char" where
  "digit_char d = char_of (48 + d)"

definition is_digit :: "char \<Rightarrow> bool" where
  "is_digit c \<longleftrightarrow> 48 \<le> (of_char c :: nat) \<and> (of_char c :: nat) \<le> 57"

definition digit_val :: "char \<Rightarrow> nat" where
  "digit_val c = of_char c - 48"

fun show_nat :: "nat \<Rightarrow> string" where
  "show_nat n = (if n < 10 then [digit_char n] else show_nat (n div 10) @ [digit_char (n mod 10)])"

declare show_nat.simps [simp del]

text \<open>\<open>strconv.FormatInt(i, 10)\<close>\<close>

definition show_int :: "int \<Rightarrow> string" where
  "show_int i = (if i < 0 then CHR ''-'' # show_nat (nat (- i)) else show_nat (nat i))"

definition dec_val :: "string \<Rightarrow> nat" where
  "dec_val s = foldl (\<lambda>a c. 10 * a + digit_val c) 0 s"

text \<open>\<open>strconv.ParseInt(s, 10, 64)\<close>: an optional sign, digits, and the int64 range.\<close>

definition parse_int64 :: "string \<Rightarrow> int option" where
  "parse_int64 s =
     (let neg = (case s of c # _ \<Rightarrow> c = CHR ''-'' | [] \<Rightarrow> False);
          ds = (case s of c # r \<Rightarrow> if c = CHR ''-'' \<or> c = CHR ''+'' then r else s | [] \<Rightarrow> [])
      in if ds = [] \<or> \<not> list_all is_digit ds then None
         else let v = (if neg then - int (dec_val ds) else int (dec_val ds))
              in if - (2 ^ 63) \<le> v \<and> v < 2 ^ 63 then Some v else None)"

lemma of_char_digit_char: "d < 10 \<Longrightarrow> (of_char (digit_char d) :: nat) = 48 + d"
  by (simp add: digit_char_def)

lemma is_digit_digit_char [simp]: "d < 10 \<Longrightarrow> is_digit (digit_char d)"
  by (simp add: is_digit_def of_char_digit_char)

lemma digit_val_digit_char [simp]: "d < 10 \<Longrightarrow> digit_val (digit_char d) = d"
  by (simp add: digit_val_def of_char_digit_char)

lemma show_nat_digits: "list_all is_digit (show_nat n)"
proof (induction n rule: show_nat.induct)
  case (1 n)
  then show ?case by (subst show_nat.simps) auto
qed

lemma show_nat_nonempty [simp]: "show_nat n \<noteq> []"
  by (subst show_nat.simps) simp

lemma dec_val_snoc: "dec_val (s @ [c]) = 10 * dec_val s + digit_val c"
  by (simp add: dec_val_def)

lemma dec_val_show_nat [simp]: "dec_val (show_nat n) = n"
proof (induction n rule: show_nat.induct)
  case (1 n)
  show ?case
  proof (cases "n < 10")
    case True
    then show ?thesis by (subst show_nat.simps) (simp add: dec_val_def)
  next
    case False
    with 1 show ?thesis by (subst show_nat.simps) (simp add: dec_val_snoc)
  qed
qed

lemma is_digit_not_sign: "is_digit c \<Longrightarrow> c \<noteq> CHR ''-'' \<and> c \<noteq> CHR ''+''"
  by (auto simp: is_digit_def)

lemma show_nat_Cons_digit: "show_nat n = c # r \<Longrightarrow> is_digit c"
  using show_nat_digits [of n] by simp

lemma parse_int64_show_int:
  assumes "- (2 ^ 63) \<le> i" and "i < 2 ^ 63"
  shows "parse_int64 (show_int i) = Some i"
proof (cases "i < 0")
  case True
  with assms show ?thesis
    by (simp add: parse_int64_def show_int_def show_nat_digits)
next
  case False
  obtain c r where cr: "show_nat (nat i) = c # r" by (cases "show_nat (nat i)") simp_all
  then have "is_digit c" by (rule show_nat_Cons_digit)
  with False assms cr show ?thesis
    using show_nat_digits [of "nat i"] dec_val_show_nat [of "nat i"]
    by (auto simp: parse_int64_def show_int_def dest: is_digit_not_sign)
qed

lemma ascii_digits: "list_all is_digit s \<Longrightarrow> ascii s"
  by (induction s) (auto simp: is_digit_def)

lemma ascii_show_int [simp]: "ascii (show_int i)"
  by (simp add: show_int_def ascii_digits show_nat_digits)

section \<open>Hexadecimal (\<open>encoding/hex\<close>)\<close>

definition hex_digit :: "nat \<Rightarrow> char" where
  "hex_digit d = (if d < 10 then char_of (48 + d) else char_of (87 + d))"

fun hex_encode :: "string \<Rightarrow> string" where
  "hex_encode [] = []"
| "hex_encode (c # s) =
     hex_digit (of_char c div 16) # hex_digit (of_char c mod 16) # hex_encode s"

definition hex_val :: "char \<Rightarrow> nat option" where
  "hex_val c =
     (let n = of_char c
      in if 48 \<le> n \<and> n \<le> 57 then Some (n - 48)
         else if 97 \<le> n \<and> n \<le> 102 then Some (n - 87)
         else if 65 \<le> n \<and> n \<le> 70 then Some (n - 55)
         else None)"

fun hex_decode :: "string \<Rightarrow> string res" where
  "hex_decode [] = Inr []"
| "hex_decode [c] = Inl (Errorf ''encoding/hex: odd length hex string'')"
| "hex_decode (a # b # s) =
     (case (hex_val a, hex_val b) of
        (Some x, Some y) \<Rightarrow> res_bind (hex_decode s) (\<lambda>r. Inr (char_of (16 * x + y) # r))
      | _ \<Rightarrow> Inl (Errorf ''encoding/hex: invalid byte''))"

lemma hex_val_hex_digit [simp]: "d < 16 \<Longrightarrow> hex_val (hex_digit d) = Some d"
  by (auto simp: hex_val_def hex_digit_def Let_def)

lemma of_char_less_256 [simp]: "(of_char c :: nat) < 256"
  using of_char_mod_256 [of c, where 'a = nat] by (metis mod_less_divisor zero_less_numeral)

lemma hex_decode_encode [simp]: "hex_decode (hex_encode s) = Inr s"
proof (induction s)
  case Nil
  then show ?case by simp
next
  case (Cons c s)
  have "(of_char c :: nat) < 256" by simp
  then have d: "(of_char c :: nat) div 16 < 16"
    by (simp add: less_mult_imp_div_less)
  have m: "(of_char c :: nat) mod 16 < 16" by simp
  from d m Cons show ?case by (simp del: of_char_less_256)
qed

lemma hex_encode_inj: "hex_encode s = hex_encode t \<longleftrightarrow> s = t"
  by (metis hex_decode_encode sum.inject(2))

lemma length_hex_encode [simp]: "length (hex_encode s) = 2 * length s"
  by (induction s) simp_all

lemma ascii_hex_encode [simp]: "ascii (hex_encode s)"
proof (induction s)
  case Nil
  then show ?case by simp
next
  case (Cons c s)
  have "(of_char c :: nat) < 256" by simp
  then have d: "(of_char c :: nat) div 16 < 16"
    by (simp add: less_mult_imp_div_less)
  have "d' < 16 \<Longrightarrow> (of_char (hex_digit d') :: nat) < 128" for d'
    by (auto simp: hex_digit_def)
  with d Cons show ?case by simp
qed

section \<open>Association lists for Go maps\<close>

text \<open>
  A Go \<open>map[string]T\<close> that the code iterates is an association list with distinct keys.  Go
  iterates a map in an unspecified order; a model that iterates takes the order as a parameter
  that permutes the entries.
\<close>

definition permuting :: "('a list \<Rightarrow> 'a list) \<Rightarrow> bool" where
  "permuting f \<longleftrightarrow> (\<forall>xs. mset (f xs) = mset xs)"

lemma permuting_set: "permuting f \<Longrightarrow> set (f xs) = set xs"
  by (metis permuting_def set_mset_mset)

lemma permuting_length: "permuting f \<Longrightarrow> length (f xs) = length xs"
  by (metis permuting_def size_mset)

lemma permuting_distinct: "permuting f \<Longrightarrow> distinct (f xs) = distinct xs"
  by (metis permuting_def mset_eq_imp_distinct_iff)

lemma permuting_id [simp]: "permuting (\<lambda>xs. xs)"
  by (simp add: permuting_def)

lemma permuting_rev [simp]: "permuting rev"
  by (simp add: permuting_def)

lemma update_nonempty [simp]: "AList.update k v al \<noteq> []"
  by (cases al) auto

end
