(* ===== verification/Go_Http.thy ===== *)
theory Go_Http
  imports Go_Prelude
begin

text \<open>
  What the handlers use of \<open>net/http\<close> and \<open>net/url\<close>: requests and responses as records, and the
  decoding of form-encoded bodies.
\<close>

section \<open>Requests and responses\<close>

text \<open>
  \<open>hq_EscapedPath\<close> is the path as it was sent, \<open>hq_Path\<close> the unescaped one; \<open>hq_Header\<close> is
  \<open>r.Header.Get\<close> (empty for an absent header), \<open>hq_Body\<close> what \<open>io.ReadAll\<close> gives, \<open>hq_TLS\<close> whether the
  connection is encrypted.
\<close>

record http_request =
  hq_EscapedPath :: string
  hq_Path :: string
  hq_Header :: "string \<Rightarrow> string"
  hq_Body :: "string res"
  hq_Host :: string
  hq_TLS :: bool

record 'b http_response =
  hs_Status :: int
  hs_Header :: "(string \<times> string) list"
  hs_Payload :: 'b

section \<open>Percent encoding\<close>

text \<open>\<open>url.QueryUnescape\<close>: \<open>None\<close> is an \<open>EscapeError\<close>.\<close>

fun query_unescape :: "string \<Rightarrow> string option" where
  "query_unescape [] = Some []"
| "query_unescape (c # s) =
    (if c = CHR ''%'' then
       (case s of
          a # b # t \<Rightarrow>
            (case (hex_val a, hex_val b) of
               (Some x, Some y) \<Rightarrow> map_option ((#) (char_of (16 * x + y))) (query_unescape t)
             | _ \<Rightarrow> None)
        | _ \<Rightarrow> None)
     else if c = CHR ''+'' then map_option ((#) (CHR '' '')) (query_unescape s)
     else map_option ((#) c) (query_unescape s))"

text \<open>An encoding that a client may use, after \<open>url.QueryEscape\<close>.\<close>

definition unreserved :: "char \<Rightarrow> bool" where
  "unreserved c \<longleftrightarrow>
     (let n = of_char c :: nat
      in (48 \<le> n \<and> n \<le> 57) \<or> (65 \<le> n \<and> n \<le> 90) \<or> (97 \<le> n \<and> n \<le> 122) \<or>
         c = CHR ''-'' \<or> c = CHR ''_'' \<or> c = CHR ''.'' \<or> c = CHR ''~'')"

definition escape_byte :: "char \<Rightarrow> string" where
  "escape_byte c =
    (if unreserved c then [c]
     else if c = CHR '' '' then ''+''
     else [CHR ''%'', hex_digit (of_char c div 16), hex_digit (of_char c mod 16)])"

definition query_escape :: "string \<Rightarrow> string" where
  "query_escape s = concat (map escape_byte s)"

lemma query_unescape_escape_byte:
  "query_unescape (escape_byte c @ t) = map_option ((#) c) (query_unescape t)"
proof (cases "unreserved c \<or> c = CHR '' ''")
  case True
  then have "escape_byte c = [c] \<and> c \<noteq> CHR ''%'' \<and> c \<noteq> CHR ''+'' \<or> c = CHR '' '' \<and> escape_byte c = ''+''"
    by (auto simp: escape_byte_def unreserved_def Let_def)
  then show ?thesis by auto
next
  case False
  have d: "(of_char c :: nat) div 16 < 16" by (simp add: less_mult_imp_div_less)
  have m: "16 * ((of_char c :: nat) div 16) + of_char c mod 16 = of_char c" by simp
  have "escape_byte c = [CHR ''%'', hex_digit (of_char c div 16), hex_digit (of_char c mod 16)]"
    using False by (simp add: escape_byte_def)
  with d show ?thesis by (simp del: mult_div_mod_eq add: m)
qed

lemma query_unescape_escape [simp]: "query_unescape (query_escape s) = Some s"
proof -
  have "query_unescape (query_escape s @ []) = Some s"
    by (induction s) (simp_all add: query_escape_def query_unescape_escape_byte)
  then show ?thesis by simp
qed

section \<open>Forms\<close>

text \<open>\<open>strings.Cut\<close> around a one-byte separator.\<close>

definition str_cut :: "char \<Rightarrow> string \<Rightarrow> string \<times> string" where
  "str_cut sep s = (takeWhile (\<lambda>c. c \<noteq> sep) s, drop 1 (dropWhile (\<lambda>c. c \<noteq> sep) s))"

lemma str_cut_none: "(\<And>c. c \<in> set s \<Longrightarrow> c \<noteq> sep) \<Longrightarrow> str_cut sep s = (s, [])"
  by (induction s) (auto simp: str_cut_def)

lemma str_cut_shorter: "s \<noteq> [] \<Longrightarrow> length (snd (str_cut sep s)) < length s"
  using length_dropWhile_le [of "\<lambda>c. c \<noteq> sep" s] by (cases s) (auto simp: str_cut_def le_imp_less_Suc
      dest: le_less_trans [OF diff_le_self])

text \<open>
  \<open>url.ParseQuery\<close>: the pairs in the order of the body and the error that is returned with them; a
  pair that does not decode is left out.
\<close>

definition first_error :: "goerr option \<Rightarrow> goerr \<Rightarrow> goerr option" where
  "first_error err e = (case err of None \<Rightarrow> Some e | Some _ \<Rightarrow> err)"

function parse_pairs ::
  "string \<Rightarrow> (string \<times> string) list \<Rightarrow> goerr option \<Rightarrow> (string \<times> string) list \<times> goerr option"
where
  "parse_pairs query m err =
    (if query = [] then (m, err)
     else case str_cut (CHR ''&'') query of (key, query') \<Rightarrow>
       if CHR '';'' \<in> set key
       then parse_pairs query' m (Some (Errorf ''invalid semicolon separator in query''))
       else if key = [] then parse_pairs query' m err
       else case str_cut (CHR ''='') key of (k, v) \<Rightarrow>
         (case query_unescape k of
            None \<Rightarrow> parse_pairs query' m (first_error err (Errorf ''invalid URL escape''))
          | Some k' \<Rightarrow>
              (case query_unescape v of
                 None \<Rightarrow> parse_pairs query' m (first_error err (Errorf ''invalid URL escape''))
               | Some v' \<Rightarrow> parse_pairs query' (m @ [(k', v')]) err)))"
  by pat_completeness auto
termination
proof (relation "measure (\<lambda>(q, m, err). length q)", goal_cases)
  case 1
  then show ?case by simp
qed (simp, metis snd_conv str_cut_shorter)+

declare parse_pairs.simps [simp del]

definition ParseQuery :: "string \<Rightarrow> (string \<times> string) list res" where
  "ParseQuery query =
    (case parse_pairs query [] None of (m, None) \<Rightarrow> Inr m | (m, Some e) \<Rightarrow> Inl e)"

text \<open>\<open>Values.Get\<close>: the first value of a key, or the empty string.\<close>

definition values_get :: "(string \<times> string) list \<Rightarrow> string \<Rightarrow> string" where
  "values_get m k = (case map_of m k of None \<Rightarrow> [] | Some v \<Rightarrow> v)"

lemma hex_digit_plain:
  assumes "n < 16"
  shows "hex_digit n \<notin> {CHR ''&'', CHR '';'', CHR ''=''}"
proof
  assume "hex_digit n \<in> {CHR ''&'', CHR '';'', CHR ''=''}"
  moreover have "hex_val CHR ''&'' = None" "hex_val CHR '';'' = None" "hex_val CHR ''='' = None"
    by (simp_all add: hex_val_def)
  ultimately show False using hex_val_hex_digit [OF assms] by auto
qed

lemma escape_byte_plain: "c \<in> set (escape_byte d) \<Longrightarrow> c \<notin> {CHR ''&'', CHR '';'', CHR ''=''}"
proof -
  have "(of_char d :: nat) div 16 < 16" by (simp add: less_mult_imp_div_less)
  from hex_digit_plain [OF this] hex_digit_plain [of "of_char d mod 16"]
  show "c \<in> set (escape_byte d) \<Longrightarrow> c \<notin> {CHR ''&'', CHR '';'', CHR ''=''}"
    by (auto simp: escape_byte_def unreserved_def Let_def split: if_splits)
qed

lemma query_escape_plain: "c \<in> set (query_escape s) \<Longrightarrow> c \<notin> {CHR ''&'', CHR '';'', CHR ''=''}"
  using escape_byte_plain by (fastforce simp: query_escape_def)

text \<open>A body with one pair whose key needs no escaping.\<close>

lemma ParseQuery_one:
  assumes "key \<noteq> []" and "list_all unreserved key"
  shows "ParseQuery (key @ CHR ''='' # query_escape v) = Inr [(key, v)]"
proof -
  have e: "escape_byte c = [c]" if "c \<in> set key" for c
    using that assms(2) by (simp add: escape_byte_def list_all_iff)
  then have "query_escape key = key" unfolding query_escape_def by (induction key) simp_all
  then have k: "query_unescape key = Some key" using query_unescape_escape [of key] by simp
  have plain: "c \<noteq> CHR ''&''" "c \<noteq> CHR '';''" "c \<noteq> CHR ''=''" if "c \<in> set key" for c
    using escape_byte_plain [of c c] e [OF that] by auto
  let ?b = "key @ CHR ''='' # query_escape v"
  have b: "c \<noteq> CHR ''&'' \<and> c \<noteq> CHR '';''" if "c \<in> set ?b" for c
    using that plain [of c] query_escape_plain [of c v] by auto
  have c1: "str_cut (CHR ''&'') ?b = (?b, [])" by (rule str_cut_none) (use b in blast)
  have c2: "str_cut (CHR ''='') ?b = (key, query_escape v)"
    using plain(3) by (simp add: str_cut_def takeWhile_append dropWhile_append)
  have "parse_pairs ?b [] None = parse_pairs [] [(key, v)] None"
    using assms(1) b k by (subst parse_pairs.simps) (auto simp: c1 c2)
  then show ?thesis by (simp add: ParseQuery_def parse_pairs.simps)
qed

end
