(* ===== verification/Go_Json.thy ===== *)
theory Go_Json
  imports Go_Prelude
begin

text \<open>
  The part of Go's \<open>unicode/utf8\<close> and \<open>encoding/json\<close> that the gateway relies on: UTF-8
  decoding of byte strings, the string escaping of \<open>json.Marshal\<close> (HTML escaping on, invalid
  UTF-8 replaced by U+FFFD), the compact printing of a JSON tree, and the parser behind
  \<open>json.Unmarshal\<close>.  The main fact is the round trip \<open>json_parse_print\<close>: parsing a printed
  tree gives the tree back with its strings sanitised.  The nesting limit of Go's scanner
  (10000 levels) is not modelled.
\<close>

section \<open>UTF-8\<close>

definition byte_in :: "nat \<Rightarrow> nat \<Rightarrow> char \<Rightarrow> bool" where
  "byte_in lo hi c \<longleftrightarrow> lo \<le> of_char c \<and> (of_char c :: nat) \<le> hi"

text \<open>
  The length of the well-formed UTF-8 sequence at the head of a string, 0 when there is none:
  \<open>utf8_width\<close> is the length its first byte announces, \<open>utf8_second\<close> the range the second
  byte is accepted in (the tables \<open>first\<close> and \<open>acceptRanges\<close> of \<open>unicode/utf8\<close>).
\<close>

definition utf8_width :: "char \<Rightarrow> nat" where
  "utf8_width a =
    (if byte_in 0 0x7F a then 1 else if byte_in 0xC2 0xDF a then 2
     else if byte_in 0xE0 0xEF a then 3 else if byte_in 0xF0 0xF4 a then 4 else 0)"

definition utf8_second :: "char \<Rightarrow> char \<Rightarrow> bool" where
  "utf8_second a b =
    byte_in (if a = CHR 0xE0 then 0xA0 else if a = CHR 0xF0 then 0x90 else 0x80)
            (if a = CHR 0xED then 0x9F else if a = CHR 0xF4 then 0x8F else 0xBF) b"

fun utf8_len :: "string \<Rightarrow> nat" where
  "utf8_len [] = 0"
| "utf8_len (a # s) =
    (let k = utf8_width a
     in if k = 0 \<or> length s < k - 1 then 0
        else if k = 1 then 1
        else if utf8_second a (hd s) \<and> list_all (byte_in 0x80 0xBF) (take (k - 2) (tl s)) then k
        else 0)"

lemma utf8_len_le: "utf8_len s \<le> length s"
  by (cases s) (auto simp: Let_def)

lemma utf8_len_prefix:
  assumes "utf8_len s > 0"
  shows "utf8_len (take (utf8_len s) s @ t) = utf8_len s"
proof (cases s)
  case Nil
  with assms show ?thesis by simp
next
  case (Cons a s')
  define k where "k = utf8_width a"
  from assms Cons have k: "utf8_len s = k" "k > 0" "k - 1 \<le> length s'"
    by (auto simp: k_def Let_def split: if_splits)
  have tk: "take k s @ t = a # take (k - 1) s' @ t"
    using k(2) Cons by (cases k) simp_all
  show ?thesis
  proof (cases "k = 1")
    case True
    with k tk show ?thesis by (simp add: k_def)
  next
    case False
    with k obtain b u where s': "s' = b # u" by (cases s') auto
    from False k have "k - 1 = Suc (k - 2)" by simp
    then have tk': "take (k - 1) s' = b # take (k - 2) u" by (simp add: s')
    from assms Cons s' False k
    have ok: "utf8_second a b" "list_all (byte_in 0x80 0xBF) (take (k - 2) u)"
      by (auto simp: k_def Let_def split: if_splits)
    from k s' False have "k - 2 \<le> length u" by simp
    with ok False k show ?thesis
      unfolding k(1) tk tk' by (simp add: k_def [symmetric] Let_def)
  qed
qed

declare utf8_len.simps(2) [simp del]

definition replacement :: string where
  "replacement = [CHR 0xEF, CHR 0xBF, CHR 0xBD]"

lemma utf8_len_replacement [simp]: "utf8_len (CHR 0xEF # CHR 0xBF # CHR 0xBD # t) = 3"
  by (simp add: utf8_len.simps utf8_width_def utf8_second_def byte_in_def)

text \<open>Every byte that starts no well-formed sequence becomes U+FFFD.\<close>

function sanitize :: "string \<Rightarrow> string" where
  "sanitize [] = []"
| "sanitize (c # r) =
     (let k = utf8_len (c # r)
      in if k = 0 then replacement @ sanitize r
         else take k (c # r) @ sanitize (drop k (c # r)))"
  by pat_completeness auto
termination
  by (relation "measure length") auto

declare sanitize.simps(2) [simp del]

lemma sanitize_valid_prefix:
  assumes "utf8_len s = k" and "k > 0"
  shows "sanitize (take k s @ t) = take k s @ sanitize t"
proof -
  from assms utf8_len_le [of s] have len: "length (take k s) = k" by simp
  from assms obtain c r where s: "s = c # r" by (cases s) auto
  from assms utf8_len_prefix [of s t] have u: "utf8_len (take k s @ t) = k" by simp
  from s assms(2) obtain r' where tk: "take k s = c # r'" by (cases k) auto
  from len have k: "k = Suc (length r')" by (simp add: tk)
  have "sanitize (c # r' @ t) = take k (c # r' @ t) @ sanitize (drop k (c # r' @ t))"
    using u assms(2) tk by (simp add: sanitize.simps(2))
  then show ?thesis unfolding tk by (simp add: k)
qed

lemma sanitize_replacement: "sanitize (replacement @ t) = replacement @ sanitize t"
  by (simp add: replacement_def sanitize.simps(2) [of "CHR 0xEF"] numeral_3_eq_3)

lemma sanitize_idem [simp]: "sanitize (sanitize s) = sanitize s"
proof (induction s rule: sanitize.induct)
  case 1
  then show ?case by simp
next
  case (2 c r)
  show ?case
  proof (cases "utf8_len (c # r) = 0")
    case True
    then show ?thesis using "2.IH"(1) [OF refl] by (simp add: sanitize.simps(2) [of c r] sanitize_replacement)
  next
    case False
    with "2.IH"(2) [OF refl] show ?thesis
      by (simp add: sanitize.simps(2) [of c r] sanitize_valid_prefix Let_def)
  qed
qed

lemma utf8_len_ascii: "(of_char c :: nat) < 128 \<Longrightarrow> utf8_len (c # r) = 1"
  by (simp add: utf8_len.simps utf8_width_def byte_in_def)

lemma sanitize_ascii_Cons: "(of_char c :: nat) < 128 \<Longrightarrow> sanitize (c # r) = c # sanitize r"
  by (simp add: sanitize.simps(2) utf8_len_ascii)

lemma sanitize_ascii [simp]: "ascii s \<Longrightarrow> sanitize s = s"
  by (induction s) (simp_all add: sanitize_ascii_Cons)

text \<open>\<open>utf8.EncodeRune\<close> for a code point.\<close>

definition utf8_enc :: "nat \<Rightarrow> string" where
  "utf8_enc r =
    (if r < 0x80 then [char_of r]
     else if r < 0x800 then [char_of (0xC0 + r div 64), char_of (0x80 + r mod 64)]
     else if (0xD800 \<le> r \<and> r \<le> 0xDFFF) \<or> r > 0x10FFFF then replacement
     else if r < 0x10000 then
       [char_of (0xE0 + r div 4096), char_of (0x80 + r div 64 mod 64), char_of (0x80 + r mod 64)]
     else [char_of (0xF0 + r div 262144), char_of (0x80 + r div 4096 mod 64),
           char_of (0x80 + r div 64 mod 64), char_of (0x80 + r mod 64)])"

section \<open>JSON trees\<close>

datatype jval =
    JNull | JBool bool | JNum string | JStr string
  | JArr "jval list" | JObj "(string \<times> jval) list"

text \<open>\<open>appendString\<close> of \<open>encoding/json\<close> (Go 1.24); \<open>h\<close> is \<open>escapeHTML\<close>.\<close>

definition escape_byte :: "bool \<Rightarrow> char \<Rightarrow> string" where
  "escape_byte h c =
    (if c = CHR 0x22 \<or> c = CHR 0x5C then [CHR 0x5C, c]
     else if c = CHR 0x08 then [CHR 0x5C, CHR ''b'']
     else if c = CHR 0x0C then [CHR 0x5C, CHR ''f'']
     else if c = CHR 0x0A then [CHR 0x5C, CHR ''n'']
     else if c = CHR 0x0D then [CHR 0x5C, CHR ''r'']
     else if c = CHR 0x09 then [CHR 0x5C, CHR ''t'']
     else if (of_char c :: nat) < 0x20 \<or> (h \<and> (c = CHR ''<'' \<or> c = CHR ''>'' \<or> c = CHR ''&'')) then
       [CHR 0x5C, CHR ''u'', CHR ''0'', CHR ''0'',
        hex_digit (of_char c div 16), hex_digit (of_char c mod 16)]
     else [c])"

function escape_body :: "bool \<Rightarrow> string \<Rightarrow> string" where
  "escape_body h [] = []"
| "escape_body h (c # r) =
     (if (of_char c :: nat) < 128 then escape_byte h c @ escape_body h r
      else let k = utf8_len (c # r)
           in if k = 0 then CHR 0x5C # ''ufffd'' @ escape_body h r
              else if take k (c # r) = [CHR 0xE2, CHR 0x80, CHR 0xA8] then
                CHR 0x5C # ''u2028'' @ escape_body h (drop k (c # r))
              else if take k (c # r) = [CHR 0xE2, CHR 0x80, CHR 0xA9] then
                CHR 0x5C # ''u2029'' @ escape_body h (drop k (c # r))
              else take k (c # r) @ escape_body h (drop k (c # r)))"
  by pat_completeness auto
termination
  by (relation "measure (\<lambda>(h, s). length s)") auto

declare escape_body.simps(2) [simp del]

definition json_string :: "bool \<Rightarrow> string \<Rightarrow> string" where
  "json_string h s = CHR 0x22 # escape_body h s @ [CHR 0x22]"

text \<open>The compact rendering of a tree.\<close>

fun json_text :: "bool \<Rightarrow> jval \<Rightarrow> string" where
  "json_text h JNull = ''null''"
| "json_text h (JBool b) = (if b then ''true'' else ''false'')"
| "json_text h (JNum n) = n"
| "json_text h (JStr s) = json_string h s"
| "json_text h (JArr xs) = CHR ''['' # str_join '','' (map (json_text h) xs) @ '']''"
| "json_text h (JObj kvs) =
     CHR ''{'' # str_join '','' (map (\<lambda>(k, v). json_string h k @ CHR '':'' # json_text h v) kvs) @ ''}''"

text \<open>\<open>json.Marshal\<close> escapes for HTML.\<close>

abbreviation quote_body :: "string \<Rightarrow> string" where
  "quote_body \<equiv> escape_body True"

abbreviation json_quote :: "string \<Rightarrow> string" where
  "json_quote \<equiv> json_string True"

abbreviation json_print :: "jval \<Rightarrow> string" where
  "json_print \<equiv> json_text True"


section \<open>Parsing\<close>

definition is_ws :: "char \<Rightarrow> bool" where
  "is_ws c \<longleftrightarrow> c = CHR 0x20 \<or> c = CHR 0x09 \<or> c = CHR 0x0A \<or> c = CHR 0x0D"

definition skip_ws :: "string \<Rightarrow> string" where
  "skip_ws = dropWhile is_ws"

definition hex4 :: "string \<Rightarrow> (nat \<times> string) option" where
  "hex4 s =
    (case s of a # b # c # d # r \<Rightarrow>
       (case (hex_val a, hex_val b, hex_val c, hex_val d) of
          (Some w, Some x, Some y, Some z) \<Rightarrow> Some (4096 * w + 256 * x + 16 * y + z, r)
        | _ \<Rightarrow> None)
     | _ \<Rightarrow> None)"

lemma hex4_length: "hex4 s = Some (n, r) \<Longrightarrow> length r < length s"
  by (auto simp: hex4_def split: list.splits option.splits)

text \<open>
  A \<open>\u\<close> escape, the two characters \<open>\u\<close> already read: a surrogate pair is combined, a lone
  surrogate becomes U+FFFD.
\<close>

definition unescape_u :: "string \<Rightarrow> (string \<times> string) option" where
  "unescape_u s =
    (case hex4 s of None \<Rightarrow> None
     | Some (r1, t) \<Rightarrow>
        if 0xD800 \<le> r1 \<and> r1 \<le> 0xDFFF then
          (case t of a # b # u \<Rightarrow>
             if a = CHR 0x5C \<and> b = CHR ''u'' then
               (case hex4 u of
                  Some (r2, v) \<Rightarrow>
                    if r1 \<le> 0xDBFF \<and> 0xDC00 \<le> r2 \<and> r2 \<le> 0xDFFF
                    then Some (utf8_enc (0x10000 + (r1 - 0xD800) * 1024 + (r2 - 0xDC00)), v)
                    else Some (replacement, t)
                | None \<Rightarrow> Some (replacement, t))
             else Some (replacement, t)
           | _ \<Rightarrow> Some (replacement, t))
        else Some (utf8_enc r1, t))"

lemma unescape_u_length: "unescape_u s = Some (x, r) \<Longrightarrow> length r < length s"
  by (auto simp: unescape_u_def split: option.splits list.splits if_splits dest!: hex4_length)

definition unescape_char :: "char \<Rightarrow> char option" where
  "unescape_char e =
    (if e = CHR 0x22 \<or> e = CHR 0x5C \<or> e = CHR ''/'' then Some e
     else if e = CHR ''b'' then Some (CHR 0x08)
     else if e = CHR ''f'' then Some (CHR 0x0C)
     else if e = CHR ''n'' then Some (CHR 0x0A)
     else if e = CHR ''r'' then Some (CHR 0x0D)
     else if e = CHR ''t'' then Some (CHR 0x09)
     else None)"

text \<open>The rest of a string literal after its opening quote: its value and what follows.\<close>

function parse_str :: "string \<Rightarrow> (string \<times> string) option" where
  "parse_str [] = None"
| "parse_str (c # r) =
     (if c = CHR 0x22 then Some ([], r)
      else if c = CHR 0x5C then
        (case r of [] \<Rightarrow> None
         | e # t \<Rightarrow>
             if e = CHR ''u'' then
               (case unescape_u t of None \<Rightarrow> None
                | Some (x, u) \<Rightarrow> map_option (\<lambda>(y, v). (x @ y, v)) (parse_str u))
             else
               (case unescape_char e of None \<Rightarrow> None
                | Some x \<Rightarrow> map_option (\<lambda>(y, v). (x # y, v)) (parse_str t)))
      else if (of_char c :: nat) < 0x20 then None
      else let k = utf8_len (c # r)
           in if k = 0 then map_option (\<lambda>(y, v). (replacement @ y, v)) (parse_str r)
              else map_option (\<lambda>(y, v). (take k (c # r) @ y, v)) (parse_str (drop k (c # r))))"
  by pat_completeness auto
termination
  by (relation "measure length") (auto dest!: unescape_u_length)

declare parse_str.simps(2) [simp del]

definition parse_digits :: "string \<Rightarrow> (string \<times> string) option" where
  "parse_digits s =
    (if takeWhile is_digit s = [] then None
     else Some (takeWhile is_digit s, dropWhile is_digit s))"

definition parse_int_part :: "string \<Rightarrow> (string \<times> string) option" where
  "parse_int_part s =
    (case s of [] \<Rightarrow> None
     | c # r \<Rightarrow> if c = CHR ''0'' then Some (''0'', r) else parse_digits s)"

definition parse_frac :: "string \<Rightarrow> (string \<times> string) option" where
  "parse_frac s =
    (case s of [] \<Rightarrow> Some ([], s)
     | c # r \<Rightarrow> if c = CHR ''.'' then map_option (\<lambda>(d, t). (c # d, t)) (parse_digits r)
                else Some ([], s))"

definition parse_exp :: "string \<Rightarrow> (string \<times> string) option" where
  "parse_exp s =
    (case s of [] \<Rightarrow> Some ([], s)
     | c # r \<Rightarrow>
        if c = CHR ''e'' \<or> c = CHR ''E'' then
          (case r of [] \<Rightarrow> None
           | g # t \<Rightarrow> if g = CHR ''+'' \<or> g = CHR ''-''
                      then map_option (\<lambda>(d, u). (c # g # d, u)) (parse_digits t)
                      else map_option (\<lambda>(d, u). (c # d, u)) (parse_digits r))
        else Some ([], s))"

definition parse_number :: "string \<Rightarrow> (string \<times> string) option" where
  "parse_number s =
    (let sg = (case s of c # _ \<Rightarrow> if c = CHR ''-'' then [c] else [] | [] \<Rightarrow> []);
         s1 = drop (length sg) s
     in case parse_int_part s1 of None \<Rightarrow> None
        | Some (i, s2) \<Rightarrow>
          (case parse_frac s2 of None \<Rightarrow> None
           | Some (f, s3) \<Rightarrow>
             (case parse_exp s3 of None \<Rightarrow> None
              | Some (e, s4) \<Rightarrow> Some (sg @ i @ f @ e, s4))))"

fun parse_value :: "nat \<Rightarrow> string \<Rightarrow> (jval \<times> string) option"
  and parse_elems :: "nat \<Rightarrow> string \<Rightarrow> (jval list \<times> string) option"
  and parse_members :: "nat \<Rightarrow> string \<Rightarrow> ((string \<times> jval) list \<times> string) option"
where
  "parse_value 0 s = None"
| "parse_value (Suc n) s =
    (case skip_ws s of [] \<Rightarrow> None
     | c # r \<Rightarrow>
        if c = CHR 0x22 then map_option (\<lambda>(x, t). (JStr x, t)) (parse_str r)
        else if c = CHR ''{'' then
          (case skip_ws r of [] \<Rightarrow> None
           | d # t \<Rightarrow> if d = CHR ''}'' then Some (JObj [], t)
                      else map_option (\<lambda>(kvs, u). (JObj kvs, u)) (parse_members n (d # t)))
        else if c = CHR ''['' then
          (case skip_ws r of [] \<Rightarrow> None
           | d # t \<Rightarrow> if d = CHR '']'' then Some (JArr [], t)
                      else map_option (\<lambda>(xs, u). (JArr xs, u)) (parse_elems n (d # t)))
        else if c = CHR ''t'' then
          (if has_prefix r ''rue'' then Some (JBool True, drop 3 r) else None)
        else if c = CHR ''f'' then
          (if has_prefix r ''alse'' then Some (JBool False, drop 4 r) else None)
        else if c = CHR ''n'' then
          (if has_prefix r ''ull'' then Some (JNull, drop 3 r) else None)
        else map_option (\<lambda>(x, t). (JNum x, t)) (parse_number (c # r)))"
| "parse_elems 0 s = None"
| "parse_elems (Suc n) s =
    (case parse_value n s of None \<Rightarrow> None
     | Some (v, t) \<Rightarrow>
        (case skip_ws t of [] \<Rightarrow> None
         | c # u \<Rightarrow> if c = CHR '','' then map_option (\<lambda>(vs, w). (v # vs, w)) (parse_elems n u)
                    else if c = CHR '']'' then Some ([v], u) else None))"
| "parse_members 0 s = None"
| "parse_members (Suc n) s =
    (case skip_ws s of [] \<Rightarrow> None
     | q # r \<Rightarrow>
        if q \<noteq> CHR 0x22 then None
        else (case parse_str r of None \<Rightarrow> None
              | Some (k, t) \<Rightarrow>
                 (case skip_ws t of [] \<Rightarrow> None
                  | c # u \<Rightarrow>
                     if c \<noteq> CHR '':'' then None
                     else (case parse_value n u of None \<Rightarrow> None
                           | Some (v, w) \<Rightarrow>
                              (case skip_ws w of [] \<Rightarrow> None
                               | d # x \<Rightarrow>
                                  if d = CHR '','' then
                                    map_option (\<lambda>(kvs, y). ((k, v) # kvs, y)) (parse_members n x)
                                  else if d = CHR ''}'' then Some ([(k, v)], x) else None)))))"

text \<open>
  A whole document.  Every call spends one unit of fuel and at most two calls are made per byte
  read, so twice the length is enough (\<open>parse_fuel\<close> below).
\<close>

definition json_parse :: "string \<Rightarrow> jval option" where
  "json_parse s =
    (case parse_value (2 * length s + 2) s of None \<Rightarrow> None
     | Some (v, t) \<Rightarrow> if skip_ws t = [] then Some v else None)"

section \<open>The round trip\<close>

text \<open>
  What a tree becomes when it is printed and parsed: its strings and keys sanitised, the rest
  unchanged.
\<close>

fun json_sanitize :: "jval \<Rightarrow> jval" where
  "json_sanitize JNull = JNull"
| "json_sanitize (JBool b) = JBool b"
| "json_sanitize (JNum n) = JNum n"
| "json_sanitize (JStr s) = JStr (sanitize s)"
| "json_sanitize (JArr xs) = JArr (map json_sanitize xs)"
| "json_sanitize (JObj kvs) = JObj (map (\<lambda>(k, v). (sanitize k, json_sanitize v)) kvs)"

text \<open>The number literals of a tree are literals of the grammar.\<close>

definition number_literal :: "string \<Rightarrow> bool" where
  "number_literal n \<longleftrightarrow> parse_number n = Some (n, [])"

fun json_numbers :: "jval \<Rightarrow> bool" where
  "json_numbers (JNum n) \<longleftrightarrow> number_literal n"
| "json_numbers (JArr xs) \<longleftrightarrow> (\<forall>x \<in> set xs. json_numbers x)"
| "json_numbers (JObj kvs) \<longleftrightarrow> (\<forall>kv \<in> set kvs. json_numbers (snd kv))"
| "json_numbers _ \<longleftrightarrow> True"

lemma unescape_u_ascii:
  assumes "(of_char c :: nat) < 128"
  shows "unescape_u (CHR ''0'' # CHR ''0'' # hex_digit (of_char c div 16)
           # hex_digit (of_char c mod 16) # t) = Some ([c], t)"
proof -
  have d: "(of_char c :: nat) div 16 < 16" using assms by (simp add: less_mult_imp_div_less)
  have "hex_val CHR ''0'' = Some 0" by (simp add: hex_val_def)
  with d have "hex4 (CHR ''0'' # CHR ''0'' # hex_digit (of_char c div 16)
      # hex_digit (of_char c mod 16) # t) = Some (of_char c, t)"
    by (simp add: hex4_def)
  with assms show ?thesis by (simp add: unescape_u_def utf8_enc_def)
qed

lemma parse_str_esc_byte:
  assumes "(of_char c :: nat) < 128"
  shows "parse_str (escape_byte h c @ t) = map_option (\<lambda>(y, v). (c # y, v)) (parse_str t)"
proof (cases "escape_byte h c = [c]")
  case True
  then have "c \<noteq> CHR 0x22 \<and> c \<noteq> CHR 0x5C \<and> \<not> (of_char c :: nat) < 0x20"
    by (auto simp: escape_byte_def split: if_splits)
  with True show ?thesis
    by (simp add: parse_str.simps(2) [of c] utf8_len_ascii [OF assms])
next
  case False
  then show ?thesis
    unfolding escape_byte_def
    by (auto simp: parse_str.simps(2) [of "CHR 0x5C"] unescape_char_def unescape_u_ascii [OF assms]
        split: if_splits)
qed

lemma parse_str_raw:
  assumes "utf8_len s = k" and "k > 0" and "s = c # r" and "\<not> (of_char c :: nat) < 128"
  shows "parse_str (take k s @ t) = map_option (\<lambda>(y, v). (take k s @ y, v)) (parse_str t)"
proof -
  from assms utf8_len_le [of s] have len: "length (take k s) = k" by simp
  from assms utf8_len_prefix [of s t] have u: "utf8_len (take k s @ t) = k" by simp
  from assms obtain r' where tk: "take k s = c # r'" by (cases k) auto
  from len have k: "k = Suc (length r')" by (simp add: tk)
  have "c \<noteq> CHR 0x22 \<and> c \<noteq> CHR 0x5C \<and> \<not> (of_char c :: nat) < 0x20"
    using assms(4) by auto
  with u show ?thesis unfolding tk by (simp add: k parse_str.simps(2) [of c])
qed

lemma char_of_bytes:
  "char_of (0xE2 :: nat) = CHR 0xE2" "char_of (0x80 :: nat) = CHR 0x80"
  "char_of (0xA8 :: nat) = CHR 0xA8" "char_of (0xA9 :: nat) = CHR 0xA9"
  "char_of (0xEF :: nat) = CHR 0xEF" "char_of (0xBF :: nat) = CHR 0xBF"
  "char_of (0xBD :: nat) = CHR 0xBD"
  by (simp_all add: char_of_eq_iff of_char_def)

lemma unescape_u_fffd: "unescape_u (''fffd'' @ t) = Some (replacement, t)"
  by (simp add: unescape_u_def hex4_def hex_val_def utf8_enc_def replacement_def char_of_bytes)

lemma unescape_u_2028:
  "unescape_u (''2028'' @ t) = Some ([CHR 0xE2, CHR 0x80, CHR 0xA8], t)"
  "unescape_u (''2029'' @ t) = Some ([CHR 0xE2, CHR 0x80, CHR 0xA9], t)"
  by (simp_all add: unescape_u_def hex4_def hex_val_def utf8_enc_def char_of_bytes)

lemma parse_str_u:
  "unescape_u t = Some (x, u) \<Longrightarrow>
   parse_str (CHR 0x5C # CHR ''u'' # t) = map_option (\<lambda>(y, v). (x @ y, v)) (parse_str u)"
  by (simp add: parse_str.simps(2))

lemmas parse_str_escapes =
  parse_str_u [OF unescape_u_fffd, simplified]
  parse_str_u [OF unescape_u_2028(1), simplified]
  parse_str_u [OF unescape_u_2028(2), simplified]

lemma parse_str_quote_body: "parse_str (escape_body h s @ CHR 0x22 # t) = Some (sanitize s, t)"
proof (induction h s rule: escape_body.induct)
  case (1 h)
  then show ?case by (simp add: parse_str.simps(2))
next
  case (2 h c r)
  show ?case
  proof (cases "(of_char c :: nat) < 128")
    case True
    with "2.IH"(1) show ?thesis
      by (simp add: escape_body.simps(2) parse_str_esc_byte sanitize_ascii_Cons)
  next
    case nascii: False
    define k where "k = utf8_len (c # r)"
    show ?thesis
    proof (cases "k = 0")
      case True
      with nascii "2.IH"(2) [OF nascii refl] show ?thesis
        by (simp add: escape_body.simps(2) sanitize.simps(2) k_def parse_str_escapes)
    next
      case k: False
      have san: "sanitize (c # r) = take k (c # r) @ sanitize (drop k (c # r))"
        using k by (simp add: sanitize.simps(2) k_def Let_def)
      have IH: "parse_str (escape_body h (drop k (c # r)) @ CHR 0x22 # t)
          = Some (sanitize (drop k (c # r)), t)"
        using "2.IH"(3-5) [OF nascii k_def] k by blast
      show ?thesis
        using IH k parse_str_raw [OF k_def [symmetric] _ refl nascii]
        by (auto simp: escape_body.simps(2) nascii k_def [symmetric] san parse_str_escapes Let_def)
    qed
  qed
qed

text \<open>A printed value is followed by the end of the input or by one of these bytes.\<close>

definition value_end :: "string \<Rightarrow> bool" where
  "value_end t \<longleftrightarrow> t = [] \<or> hd t = CHR '','' \<or> hd t = CHR '']'' \<or> hd t = CHR ''}'' \<or> hd t = CHR 0x0A"

lemma value_end_simps [simp]:
  "value_end []" "value_end (CHR 0x0A # t)" "value_end (CHR '','' # t)" "value_end (CHR '']'' # t)" "value_end (CHR ''}'' # t)"
  by (simp_all add: value_end_def)

lemma skip_ws_non [simp]: "\<not> is_ws c \<Longrightarrow> skip_ws (c # t) = c # t"
  by (simp add: skip_ws_def)

lemma is_ws_consts [simp]:
  "\<not> is_ws (CHR 0x22)" "\<not> is_ws (CHR ''{'')" "\<not> is_ws (CHR ''['')" "\<not> is_ws (CHR '']'')"
  "\<not> is_ws (CHR ''}'')" "\<not> is_ws (CHR '','')" "\<not> is_ws (CHR '':'')" "\<not> is_ws (CHR ''t'')"
  "\<not> is_ws (CHR ''f'')" "\<not> is_ws (CHR ''n'')" "\<not> is_ws (CHR ''-'')"
  by (simp_all add: is_ws_def)

lemma is_digit_consts [simp]:
  "\<not> is_digit (CHR '','')" "\<not> is_digit (CHR '']'')" "\<not> is_digit (CHR ''}'')"
  "\<not> is_digit (CHR ''-'')" "\<not> is_digit (CHR 0x22)" "\<not> is_digit (CHR ''{'')"
  "\<not> is_digit (CHR ''['')" "\<not> is_digit (CHR ''t'')" "\<not> is_digit (CHR ''f'')"
  "\<not> is_digit (CHR ''n'')"
  by (simp_all add: is_digit_def)

lemma is_digit_not_ws: "is_digit c \<Longrightarrow> \<not> is_ws c"
  by (auto simp: is_digit_def is_ws_def)

lemma takeWhile_digits:
  assumes "list_all is_digit s" and "value_end t"
  shows "takeWhile is_digit (s @ t) = s \<and> dropWhile is_digit (s @ t) = t"
proof -
  from assms(2) have "takeWhile is_digit t = [] \<and> dropWhile is_digit t = t"
    by (cases t) (auto simp: value_end_def is_digit_def)
  with assms(1) show ?thesis by (auto simp: list_all_iff takeWhile_append dropWhile_append)
qed

lemma show_nat_zero: "show_nat 0 = ''0''"
  by (simp add: show_nat.simps digit_char_def char_of_eq_iff of_char_def)

lemma show_nat_hd: "n > 0 \<Longrightarrow> hd (show_nat n) \<noteq> CHR ''0''"
proof (induction n rule: show_nat.induct)
  case (1 n)
  show ?case
  proof (cases "n < 10")
    case True
    with "1.prems" have "digit_val (hd (show_nat n)) = n" by (subst show_nat.simps) simp
    with "1.prems" show ?thesis by (auto simp: digit_val_def)
  next
    case False
    with 1 show ?thesis by (subst show_nat.simps) simp
  qed
qed

lemma parse_int_part_show:
  assumes "value_end t"
  shows "parse_int_part (show_nat n @ t) = Some (show_nat n, t)"
proof (cases "n = 0")
  case True
  then show ?thesis by (simp add: parse_int_part_def show_nat_zero)
next
  case False
  obtain c r where cr: "show_nat n = c # r" by (cases "show_nat n") simp_all
  from False show_nat_hd [of n] cr have "c \<noteq> CHR ''0''" by simp
  with cr takeWhile_digits [OF show_nat_digits assms, of n] show ?thesis
    by (simp add: parse_int_part_def parse_digits_def)
qed

lemma parse_frac_exp_end: "value_end t \<Longrightarrow> parse_frac t = Some ([], t) \<and> parse_exp t = Some ([], t)"
  by (cases t) (auto simp: parse_frac_def parse_exp_def value_end_def)

lemma parse_number_show_int:
  assumes "value_end t"
  shows "parse_number (show_int i @ t) = Some (show_int i, t)"
proof (cases "i < 0")
  case True
  with assms show ?thesis
    by (simp add: parse_number_def show_int_def parse_int_part_show parse_frac_exp_end)
next
  case False
  obtain c r where cr: "show_nat (nat i) = c # r" by (cases "show_nat (nat i)") simp_all
  then have "c \<noteq> CHR ''-''" using show_nat_Cons_digit is_digit_not_sign by blast
  with False assms cr parse_int_part_show [OF assms, of "nat i"] show ?thesis
    by (simp add: parse_number_def show_int_def parse_frac_exp_end)
qed

lemma number_literal_show_int [simp]: "number_literal (show_int i)"
  using parse_number_show_int [of "[]" i] by (simp add: number_literal_def)

text \<open>A literal followed by the end of a value is read as the literal.\<close>

lemma dropWhile_end: "value_end t \<Longrightarrow> dropWhile is_digit (s @ t) = dropWhile is_digit s @ t"
  "value_end t \<Longrightarrow> takeWhile is_digit (s @ t) = takeWhile is_digit s"
proof -
  have no: "\<not> is_digit (hd t)" if "value_end t" "t \<noteq> []"
    using that by (cases t) (auto simp: value_end_def is_digit_def)
  show "value_end t \<Longrightarrow> dropWhile is_digit (s @ t) = dropWhile is_digit s @ t"
  proof (induction s)
    case Nil
    then show ?case using no by (cases t) auto
  qed auto
  show "value_end t \<Longrightarrow> takeWhile is_digit (s @ t) = takeWhile is_digit s"
  proof (induction s)
    case Nil
    then show ?case using no by (cases t) auto
  qed auto
qed

lemma parse_digits_end:
  "value_end t \<Longrightarrow> parse_digits s = Some (d, u) \<Longrightarrow> parse_digits (s @ t) = Some (d, u @ t)"
  by (auto simp: parse_digits_def dropWhile_end split: if_splits)

lemma parse_parts_end:
  assumes "value_end t"
  shows "parse_int_part s = Some (d, u) \<Longrightarrow> parse_int_part (s @ t) = Some (d, u @ t)"
    and "parse_frac s = Some (d, u) \<Longrightarrow> parse_frac (s @ t) = Some (d, u @ t)"
    and "parse_exp s = Some (d, u) \<Longrightarrow> parse_exp (s @ t) = Some (d, u @ t)"
proof -
  note ends = parse_frac_exp_end [OF assms] and digits = parse_digits_end [OF assms]
  show "parse_int_part s = Some (d, u) \<Longrightarrow> parse_int_part (s @ t) = Some (d, u @ t)"
    using digits [of s] by (auto simp: parse_int_part_def split: list.splits if_splits)
  show "parse_frac s = Some (d, u) \<Longrightarrow> parse_frac (s @ t) = Some (d, u @ t)"
    using ends digits by (cases s) (auto simp: parse_frac_def split: if_splits)
  show "parse_exp s = Some (d, u) \<Longrightarrow> parse_exp (s @ t) = Some (d, u @ t)"
  proof (cases s)
    case (Cons c r)
    then show "parse_exp s = Some (d, u) \<Longrightarrow> parse_exp (s @ t) = Some (d, u @ t)"
      using digits [of r] digits [of "tl r"] by (cases r) (auto simp: parse_exp_def split: if_splits)
  qed (use ends in \<open>auto simp: parse_exp_def\<close>)
qed

lemma number_literal_Cons:
  assumes "number_literal n"
  obtains c r where "n = c # r" and "c = CHR ''-'' \<or> is_digit c"
proof (cases n)
  case (Cons c r)
  have "c = CHR ''-'' \<or> is_digit c"
  proof (rule ccontr)
    assume no: "\<not> (c = CHR ''-'' \<or> is_digit c)"
    then have "c \<noteq> CHR ''0''" by (auto simp: is_digit_def)
    with no have "parse_number n = None"
      by (simp add: Cons parse_number_def parse_int_part_def parse_digits_def)
    with assms show False by (simp add: number_literal_def)
  qed
  with Cons that show thesis by blast
qed (use assms in \<open>simp add: number_literal_def parse_number_def parse_int_part_def\<close>)

lemma parse_number_end:
  assumes "number_literal n" and "value_end t"
  shows "parse_number (n @ t) = Some (n, t)"
proof -
  obtain c r where n: "n = c # r" by (rule number_literal_Cons [OF assms(1)])
  define s1 where "s1 = (if c = CHR ''-'' then r else n)"
  from assms(1) n obtain i s2 f s3 e s4 where p: "parse_int_part s1 = Some (i, s2)" "parse_frac s2 = Some (f, s3)"
      "parse_exp s3 = Some (e, s4)" "(if c = CHR ''-'' then [c] else []) @ i @ f @ e = n" "s4 = []"
    by (auto simp: number_literal_def parse_number_def s1_def split: option.splits if_splits)
  note q = parse_parts_end(1) [OF assms(2) p(1)] parse_parts_end(2) [OF assms(2) p(2)]
    parse_parts_end(3) [OF assms(2) p(3)]
  have s: "drop (length (if c = CHR ''-'' then [c] else [])) (n @ t) = s1 @ t" by (simp add: s1_def n)
  have "parse_number (n @ t) = Some ((if c = CHR ''-'' then [c] else []) @ i @ f @ e, s4 @ t)"
    using q s by (simp add: parse_number_def n)
  with p(4,5) show ?thesis by simp
qed

lemma show_int_Cons: "\<exists>c r. show_int i = c # r \<and> (c = CHR ''-'' \<or> is_digit c)"
  using show_nat_Cons_digit [of "nat i"] show_nat_nonempty [of "nat i"]
  by (cases "show_nat (nat i)") (auto simp: show_int_def)

text \<open>The fuel one value needs, and a bound on it by the printed length.\<close>

fun json_fuel :: "jval \<Rightarrow> nat" where
  "json_fuel (JArr xs) = Suc (sum_list (map (\<lambda>x. Suc (json_fuel x)) xs))"
| "json_fuel (JObj kvs) = Suc (sum_list (map (\<lambda>kv. Suc (json_fuel (snd kv))) kvs))"
| "json_fuel _ = 1"

text \<open>The first byte of a printed value.\<close>

definition value_start :: "char \<Rightarrow> bool" where
  "value_start c \<longleftrightarrow> \<not> is_ws c \<and> c \<noteq> CHR '']'' \<and> c \<noteq> CHR ''}''"

lemma json_print_Cons: "json_numbers j \<Longrightarrow> \<exists>c r. json_text h j = c # r \<and> value_start c"
proof (cases j)
  case (JNum n)
  moreover assume "json_numbers j"
  ultimately have "number_literal n" by simp
  then obtain c r where "n = c # r" "c = CHR ''-'' \<or> is_digit c" by (rule number_literal_Cons)
  with JNum show ?thesis by (auto simp: value_start_def dest: is_digit_not_ws)
qed (auto simp: json_string_def value_start_def split: if_splits)

lemma str_join_Cons: "str_join sep (s # ss) = s @ (if ss = [] then [] else sep @ str_join sep ss)"
  by (cases ss) simp_all

text \<open>The recursive calls of the round trip, for a value that is already known to parse back.\<close>

definition parses_back :: "jval \<Rightarrow> bool" where
  "parses_back j \<longleftrightarrow>
     (\<forall>h n t. json_fuel j \<le> n \<longrightarrow> value_end t \<longrightarrow>
        parse_value n (json_text h j @ t) = Some (json_sanitize j, t))"

lemma parse_elems_print:
  assumes "\<forall>x \<in> set xs. parses_back x" and "xs \<noteq> []"
    and "sum_list (map (\<lambda>x. Suc (json_fuel x)) xs) \<le> n"
  shows "parse_elems n (str_join '','' (map (json_text h) xs) @ CHR '']'' # t)
           = Some (map json_sanitize xs, t)"
  using assms
proof (induction xs arbitrary: n)
  case Nil
  then show ?case by simp
next
  case (Cons x xs)
  then obtain m where m: "n = Suc m" by (cases n) auto
  with Cons.prems have fx: "json_fuel x \<le> m"
    and fs: "sum_list (map (\<lambda>x. Suc (json_fuel x)) xs) \<le> m" by auto
  from Cons.prems have pb: "parses_back x" by simp
  show ?case
  proof (cases xs)
    case Nil
    with pb fx show ?thesis by (simp add: m parses_back_def)
  next
    case (Cons y ys)
    with Cons.IH [OF _ _ fs] Cons.prems pb fx show ?thesis
      by (simp add: m parses_back_def str_join_Cons)
  qed
qed

lemma parse_members_print:
  assumes "\<forall>kv \<in> set kvs. parses_back (snd kv)" and "kvs \<noteq> []"
    and "sum_list (map (\<lambda>kv. Suc (json_fuel (snd kv))) kvs) \<le> n"
  shows "parse_members n
          (str_join '','' (map (\<lambda>(k, v). json_string h k @ CHR '':'' # json_text h v) kvs) @ CHR ''}'' # t)
           = Some (map (\<lambda>(k, v). (sanitize k, json_sanitize v)) kvs, t)"
  using assms
proof (induction kvs arbitrary: n)
  case Nil
  then show ?case by simp
next
  case (Cons kv kvs)
  obtain k v where kv: "kv = (k, v)" by (cases kv)
  from Cons obtain m where m: "n = Suc m" by (cases n) auto
  with Cons.prems kv have fx: "json_fuel v \<le> m"
    and fs: "sum_list (map (\<lambda>kv. Suc (json_fuel (snd kv))) kvs) \<le> m" by auto
  from Cons.prems kv have pb: "parses_back v" by simp
  show ?case
  proof (cases kvs)
    case Nil
    with pb fx show ?thesis by (simp add: m kv parses_back_def json_string_def parse_str_quote_body)
  next
    case (Cons y ys)
    with Cons.IH [OF _ _ fs] Cons.prems pb fx show ?thesis
      by (simp add: m kv parses_back_def str_join_Cons json_string_def parse_str_quote_body)
  qed
qed

lemma parses_back_JArr:
  assumes "\<forall>x \<in> set xs. parses_back x" and "json_numbers (JArr xs)"
  shows "parses_back (JArr xs)"
  unfolding parses_back_def
proof (intro allI impI)
  fix h n t
  assume f: "json_fuel (JArr xs) \<le> n"
  then obtain m where m: "n = Suc m" "sum_list (map (\<lambda>x. Suc (json_fuel x)) xs) \<le> m"
    by (cases n) auto
  show "parse_value n (json_text h (JArr xs) @ t) = Some (json_sanitize (JArr xs), t)"
  proof (cases xs)
    case Nil
    then show ?thesis by (simp add: m)
  next
    case (Cons x ys)
    with assms(2) json_print_Cons [of x h] obtain c r
      where c: "json_text h x = c # r" "value_start c" by auto
    from c Cons have "\<exists>r'. str_join '','' (map (json_text h) xs) @ CHR '']'' # t = c # r'"
      by (simp add: str_join_Cons)
    then obtain r' where r': "str_join '','' (map (json_text h) xs) @ CHR '']'' # t = c # r'" ..
    with parse_elems_print [OF assms(1) _ m(2), of h t] Cons
    have pe: "parse_elems m (c # r') = Some (map json_sanitize xs, t)" by simp
    from c(2) pe show ?thesis by (simp add: m r' value_start_def)
  qed
qed

lemma parses_back_JObj:
  assumes "\<forall>kv \<in> set kvs. parses_back (snd kv)"
  shows "parses_back (JObj kvs)"
  unfolding parses_back_def
proof (intro allI impI)
  fix h n t
  let ?m = "map (\<lambda>(k, v). json_string h k @ CHR '':'' # json_text h v) kvs"
  assume f: "json_fuel (JObj kvs) \<le> n"
  then obtain m where m: "n = Suc m" "sum_list (map (\<lambda>kv. Suc (json_fuel (snd kv))) kvs) \<le> m"
    by (cases n) auto
  show "parse_value n (json_text h (JObj kvs) @ t) = Some (json_sanitize (JObj kvs), t)"
  proof (cases kvs)
    case Nil
    then show ?thesis by (simp add: m)
  next
    case (Cons kv ys)
    then have "\<exists>r'. str_join '','' ?m @ CHR ''}'' # t = CHR 0x22 # r'"
      by (cases kv) (simp add: str_join_Cons json_string_def)
    then obtain r' where r': "str_join '','' ?m @ CHR ''}'' # t = CHR 0x22 # r'" ..
    with parse_members_print [OF assms _ m(2), of h t] Cons
    have pm: "parse_members m (CHR 0x22 # r')
        = Some (map (\<lambda>(k, v). (sanitize k, json_sanitize v)) kvs, t)" by simp
    then show ?thesis by (simp add: m r')
  qed
qed

lemma parses_back_all: "json_numbers j \<Longrightarrow> parses_back j"
proof (induction j)
  case (JNum n)
  then have i: "number_literal n" by simp
  then obtain c r where c: "n = c # r" "c = CHR ''-'' \<or> is_digit c" by (rule number_literal_Cons)
  show ?case
    unfolding parses_back_def
  proof (intro allI impI)
    fix h f t
    assume "json_fuel (JNum n) \<le> f" and end_t: "value_end t"
    then obtain m where "f = Suc m" by (cases f) auto
    with c parse_number_end [OF i end_t]
    show "parse_value f (json_text h (JNum n) @ t) = Some (json_sanitize (JNum n), t)"
      using is_digit_not_ws [of c] by auto
  qed
next
  case (JStr s)
  show ?case
    unfolding parses_back_def
  proof (intro allI impI)
    fix h f t
    assume "json_fuel (JStr s) \<le> f"
    then obtain m where "f = Suc m" by (cases f) auto
    then show "parse_value f (json_text h (JStr s) @ t) = Some (json_sanitize (JStr s), t)"
      by (simp add: json_string_def parse_str_quote_body)
  qed
next
  case (JArr xs)
  then show ?case by (intro parses_back_JArr) auto
next
  case (JObj kvs)
  then show ?case by (intro parses_back_JObj) (auto elim!: snds.cases)
next
  case JNull
  show ?case by (auto simp: parses_back_def dest!: Suc_le_D)
next
  case (JBool b)
  show ?case by (auto simp: parses_back_def dest!: Suc_le_D)
qed

lemma str_join_length:
  "ss \<noteq> [] \<Longrightarrow> length (str_join '','' ss) + 1 = sum_list (map (\<lambda>s. Suc (length s)) ss)"
proof (induction ss)
  case (Cons s ss)
  then show ?case by (cases "ss = []") (simp_all add: str_join_Cons)
qed simp

lemma json_print_length: "json_numbers j \<Longrightarrow> length (json_text h j) \<ge> 1"
  using json_print_Cons [of j h] by auto

lemma sum_list_le_double:
  assumes "\<And>x. x \<in> set xs \<Longrightarrow> f x \<le> 2 * (g x :: nat)"
  shows "sum_list (map (\<lambda>x. Suc (f x)) xs) \<le> 2 * sum_list (map (\<lambda>x. Suc (g x)) xs)"
  using assms
proof (induction xs)
  case Nil
  then show ?case by simp
next
  case (Cons x xs)
  then have "f x \<le> 2 * g x"
    and "sum_list (map (\<lambda>x. Suc (f x)) xs) \<le> 2 * sum_list (map (\<lambda>x. Suc (g x)) xs)"
    by simp_all
  then show ?case by simp
qed

lemma json_fuel_bound: "json_numbers j \<Longrightarrow> json_fuel j \<le> 2 * length (json_text h j)"
proof (induction j)
  case (JArr xs)
  show ?case
  proof (cases "xs = []")
    case False
    have "sum_list (map (\<lambda>x. Suc (json_fuel x)) xs)
        \<le> 2 * sum_list (map (\<lambda>x. Suc (length (json_text h x))) xs)"
      using JArr by (intro sum_list_le_double) auto
    also have "\<dots> = 2 * (length (str_join '','' (map (json_text h) xs)) + 1)"
      using False str_join_length [of "map (json_text h) xs"] by (simp add: comp_def)
    finally show ?thesis by simp
  qed simp
next
  case (JObj kvs)
  let ?pr = "\<lambda>kv. json_string h (fst kv) @ CHR '':'' # json_text h (snd kv)"
  show ?case
  proof (cases "kvs = []")
    case False
    have "json_fuel (snd kv) \<le> 2 * length (?pr kv)" if "kv \<in> set kvs" for kv
    proof -
      have "snd kv \<in> Basic_BNFs.snds kv" by (cases kv) simp
      with that JObj.IH [of kv "snd kv"] JObj.prems
      have "json_fuel (snd kv) \<le> 2 * length (json_text h (snd kv))" by simp
      then show ?thesis by simp
    qed
    then have "sum_list (map (\<lambda>kv. Suc (json_fuel (snd kv))) kvs)
        \<le> 2 * sum_list (map (\<lambda>kv. Suc (length (?pr kv))) kvs)"
      by (rule sum_list_le_double)
    also have "\<dots> = 2 * (length (str_join '','' (map ?pr kvs)) + 1)"
      using False str_join_length [of "map ?pr kvs"] by (simp add: comp_def)
    finally show ?thesis by (simp add: case_prod_beta')
  qed simp
next
  case (JNum n)
  then show ?case using json_print_length [of "JNum n" h] by simp
qed (simp_all add: json_string_def)

theorem json_parse_print:
  assumes "json_numbers j"
  shows "json_parse (json_text h j) = Some (json_sanitize j)"
proof -
  let ?n = "2 * length (json_text h j) + 2"
  have "json_fuel j \<le> ?n" using json_fuel_bound [OF assms, of h] by simp
  with parses_back_all [OF assms] have "parse_value ?n (json_text h j @ []) = Some (json_sanitize j, [])"
    unfolding parses_back_def using value_end_simps(1) by blast
  then show ?thesis by (simp add: json_parse_def skip_ws_def)
qed

text \<open>\<open>Encoder.Encode\<close> ends the document with a newline.\<close>

lemma json_parse_print_line:
  assumes "json_numbers j"
  shows "json_parse (json_text h j @ [CHR 0x0A]) = Some (json_sanitize j)"
proof -
  let ?n = "2 * length (json_text h j @ [CHR 0x0A]) + 2"
  have "json_fuel j \<le> ?n" using json_fuel_bound [OF assms, of h] by simp
  with parses_back_all [OF assms] have "parse_value ?n (json_text h j @ [CHR 0x0A]) = Some (json_sanitize j, [CHR 0x0A])"
    unfolding parses_back_def using value_end_simps(2) by blast
  then show ?thesis by (simp add: json_parse_def skip_ws_def is_ws_def del: parse_value.simps)
qed

lemma json_print_inj:
  "json_numbers j \<Longrightarrow> json_numbers j' \<Longrightarrow> json_text h j = json_text h j' \<Longrightarrow> json_sanitize j = json_sanitize j'"
  using json_parse_print by (metis option.inject)

section \<open>Fuel\<close>

text \<open>More fuel never changes a result.\<close>

lemma parse_fuel_mono:
  "parse_value n s = Some r \<Longrightarrow> parse_value (n + k) s = Some r"
  "parse_elems n s = Some r2 \<Longrightarrow> parse_elems (n + k) s = Some r2"
  "parse_members n s = Some r3 \<Longrightarrow> parse_members (n + k) s = Some r3"
proof (induction n s and n s and n s arbitrary: r and r2 and r3
    rule: parse_value_parse_elems_parse_members.induct)
  case (2 n s)
  from "2.prems" obtain c r where c: "skip_ws s = c # r" by (auto split: list.splits)
  from "2.prems" have "c = CHR ''{'' \<or> c = CHR ''['' \<Longrightarrow> \<exists>d t. skip_ws r = d # t"
    by (auto simp: c split: list.splits)
  with "2.prems" "2.IH" [OF c] c show ?case
    by (auto split: if_splits)
next
  case (4 n s)
  from "4.prems" obtain v t c u where v: "parse_value n s = Some (v, t)" "skip_ws t = c # u"
    by (auto split: option.splits list.splits)
  from "4.IH"(1) [OF v(1)] have v': "parse_value (n + k) s = Some (v, t)" .
  from "4.prems" "4.IH"(2) [OF v(1) refl v(2)] v v' show ?case
    by (auto split: if_splits)
next
  case (6 n s)
  from "6.prems" obtain r key t u v w d x where q: "skip_ws s = CHR 0x22 # r"
    and pk: "parse_str r = Some (key, t)" and c: "skip_ws t = CHR '':'' # u"
    and pv: "parse_value n u = Some (v, w)" and d: "skip_ws w = d # x"
    by (auto split: option.splits list.splits if_splits)
  from "6.IH"(1) [OF q _ pk refl c _ pv] have pv': "parse_value (n + k) u = Some (v, w)" by simp
  from "6.prems" "6.IH"(2) [OF q _ pk refl c _ pv refl d] q pk c pv d pv' show ?case
    by (auto split: if_splits)
qed simp_all

end
