(* ===== verification/Go_Types.thy ===== *)
theory Go_Types
  imports Go_Json
begin

text \<open>
  The data types of \<open>pkg/types\<close> as records, field by field, with the enumerated outcome status
  as a datatype whose string form is the stored one, and the dynamic Go values (\<open>any\<close>) that
  the canonicalizer walks by reflection.
\<close>

section \<open>Dynamic Go values\<close>

text \<open>
  The values that occur inside an \<open>any\<close>.  A typed nil (pointer, map, slice) is distinct from the
  untyped nil; a map lists its entries in some order; a float carries the literal
  \<open>json.Marshal\<close> prints for it; \<open>VIntMap\<close> is a map whose keys are not strings and \<open>VOther\<close> a
  struct, channel or function value.
\<close>

datatype goval =
    VNil | VNilPtr | VNilMap | VNilSlice
  | VStr string | VBool bool | VInt int | VUint nat | VFloat string | VNumber string
  | VPtr goval | VMap "(string \<times> goval) list" | VSlice "goval list" | VIntMap | VOther

section \<open>pkg/types/receipt.go\<close>

datatype outcome_status =
    OutcomeApprovalPending | OutcomeApprovalApproved | OutcomeApprovalDenied
  | OutcomeIssuingCredentials | OutcomeIssuedCredentials | OutcomeDenied | OutcomeIssueFailed

fun outcome_str :: "outcome_status \<Rightarrow> string" where
  "outcome_str OutcomeApprovalPending = ''approval_pending''"
| "outcome_str OutcomeApprovalApproved = ''approval_approved''"
| "outcome_str OutcomeApprovalDenied = ''approval_denied''"
| "outcome_str OutcomeIssuingCredentials = ''issuing_credentials''"
| "outcome_str OutcomeIssuedCredentials = ''issued_credentials''"
| "outcome_str OutcomeDenied = ''denied''"
| "outcome_str OutcomeIssueFailed = ''issue_failed''"

definition outcome_list :: "outcome_status list" where
  "outcome_list =
     [OutcomeApprovalPending, OutcomeApprovalApproved, OutcomeApprovalDenied,
      OutcomeIssuingCredentials, OutcomeIssuedCredentials, OutcomeDenied, OutcomeIssueFailed]"

text \<open>A status string read back: \<open>None\<close> is any string that is no constant of the enumeration.\<close>

definition outcome_parse :: "string \<Rightarrow> outcome_status option" where
  "outcome_parse s = List.find (\<lambda>o'. outcome_str o' = s) outcome_list"

lemma outcome_parse_str [simp]: "outcome_parse (outcome_str o') = Some o'"
  by (cases o') (simp_all add: outcome_parse_def outcome_list_def)

lemma outcome_str_inj [simp]: "outcome_str a = outcome_str b \<longleftrightarrow> a = b"
  by (metis outcome_parse_str option.inject)

record receipt_actor =
  ra_Kind :: string
  ra_Subject :: string
  ra_Issuer :: string
  ra_Repo :: string
  ra_Workflow :: string
  ra_RunID :: string
  ra_SHA :: string

record receipt_request =
  rq_RequestID :: string
  rq_Action :: string
  rq_Resource :: string
  rq_Env :: string
  rq_Intent :: goval

record receipt_policy =
  rp_PolicyID :: string
  rp_PolicyVersion :: string
  rp_PolicyHash :: string

record approver =
  ap_Kind :: string
  ap_ID :: string
  ap_Display :: string

record receipt_approval =
  rap_Required :: bool
  rap_ApprovalID :: string
  rap_Status :: string
  rap_ApprovedAt :: string
  rap_Approver :: "approver option"

record credential_grant =
  cg_Provider :: string
  cg_Method :: string
  cg_RoleARN :: string
  cg_Region :: string
  cg_TTLSeconds :: int
  cg_ScopeDigest :: string

record outcome_error =
  oe_Code :: string
  oe_Msg :: string

record receipt_outcome =
  ro_Status :: string
  ro_IssuedAt :: string
  ro_ExpiresAt :: string
  ro_Error :: "outcome_error option"

record context_ref =
  cr_ContextID :: string
  cr_RecordHash :: string
  cr_ContentHash :: string

record decision_ref =
  dr_DecisionID :: string
  dr_InputsDigest :: string
  dr_RecordHash :: string
  dr_ContentDigest :: string

record receipt_refs =
  rf_Context :: "context_ref option"
  rf_Decision :: "decision_ref option"

section \<open>pkg/types/interaction_ref.go\<close>

record interaction_ref =
  ir_Mode :: string
  ir_SessionID :: string
  ir_CallID :: string
  ir_TurnID :: string
  ir_TurnIndex :: int
  ir_TurnStartedAt :: string
  ir_TurnEndedAt :: string
  ir_Jurisdiction :: string
  ir_ConsentState :: string
  ir_RedactionMode :: string

section \<open>pkg/types/context.go and pkg/types/decision.go\<close>

record context_source =
  cs_Kind :: string
  cs_Repo :: string
  cs_Workflow :: string
  cs_RunID :: string
  cs_Actor :: string
  cs_Ref :: string
  cs_SHA :: string

record context_inputs =
  ci_Action :: string
  ci_Resource :: string
  ci_Env :: string
  ci_Intent :: goval

record context_evidence =
  ce_PlanDigest :: string
  ce_DiffURL :: string

record context_record =
  cx_Schema :: string
  cx_ContextID :: string
  cx_CreatedAt :: string
  cx_Source :: context_source
  cx_Inputs :: context_inputs
  cx_Evidence :: context_evidence

record decision_policy =
  dp_PolicyID :: string
  dp_PolicyVersion :: string
  dp_PolicyHash :: string

record decision_record =
  dc_Schema :: string
  dc_DecisionID :: string
  dc_CreatedAt :: string
  dc_ContextID :: string
  dc_Policy :: decision_policy
  dc_Verdict :: string
  dc_ReasonCodes :: "string list"
  dc_RequiresApproval :: bool
  dc_Risk :: string

end
