(* ===== verification/Go_Struct.thy ===== *)
theory Go_Struct
  imports Go_Json Go_Types
begin

text \<open>
  Decoding JSON objects into Go structs (\<open>encoding/json\<close>): a member is stored in the field whose
  name equals its key up to case folding, repeated members are stored one after the other, unknown
  members are ignored, null leaves a string, number or struct unchanged and clears a pointer, and a
  value of the wrong kind makes \<open>json.Unmarshal\<close> return an error.
\<close>

section \<open>Field names\<close>

definition upper_ascii :: "char \<Rightarrow> char" where
  "upper_ascii c =
    (let n = of_char c :: nat in if 97 \<le> n \<and> n \<le> 122 then char_of (n - 32) else c)"

text \<open>
  \<open>foldName\<close>: ASCII letters fold to upper case, and U+017F and U+212A are the only other runes that
  fold to an ASCII letter.
\<close>

fun fold_name :: "string \<Rightarrow> string" where
  "fold_name [] = []"
| "fold_name (c # s) =
    (if c = CHR 0xC5 \<and> take 1 s = [CHR 0xBF] then CHR ''S'' # fold_name (drop 1 s)
     else if c = CHR 0xE2 \<and> take 2 s = [CHR 0x84, CHR 0xAA] then CHR ''K'' # fold_name (drop 2 s)
     else upper_ascii c # fold_name s)"

text \<open>The names of the struct tags are lower case.\<close>

lemma upper_ascii_letters:
  "upper_ascii (CHR ''a'') = CHR ''A''" "upper_ascii (CHR ''b'') = CHR ''B''" "upper_ascii (CHR ''c'') = CHR ''C''"
  "upper_ascii (CHR ''d'') = CHR ''D''" "upper_ascii (CHR ''e'') = CHR ''E''" "upper_ascii (CHR ''f'') = CHR ''F''"
  "upper_ascii (CHR ''g'') = CHR ''G''" "upper_ascii (CHR ''h'') = CHR ''H''" "upper_ascii (CHR ''i'') = CHR ''I''"
  "upper_ascii (CHR ''j'') = CHR ''J''" "upper_ascii (CHR ''k'') = CHR ''K''" "upper_ascii (CHR ''l'') = CHR ''L''"
  "upper_ascii (CHR ''m'') = CHR ''M''" "upper_ascii (CHR ''n'') = CHR ''N''" "upper_ascii (CHR ''o'') = CHR ''O''"
  "upper_ascii (CHR ''p'') = CHR ''P''" "upper_ascii (CHR ''q'') = CHR ''Q''" "upper_ascii (CHR ''r'') = CHR ''R''"
  "upper_ascii (CHR ''s'') = CHR ''S''" "upper_ascii (CHR ''t'') = CHR ''T''" "upper_ascii (CHR ''u'') = CHR ''U''"
  "upper_ascii (CHR ''v'') = CHR ''V''" "upper_ascii (CHR ''w'') = CHR ''W''" "upper_ascii (CHR ''x'') = CHR ''X''"
  "upper_ascii (CHR ''y'') = CHR ''Y''" "upper_ascii (CHR ''z'') = CHR ''Z''" "upper_ascii (CHR ''_'') = CHR ''_''"
  by code_simp+

definition field_values :: "string \<Rightarrow> (string \<times> jval) list \<Rightarrow> jval list" where
  "field_values name ms = map snd (filter (\<lambda>m. fold_name (fst m) = fold_name name) ms)"

lemma field_values_one:
  assumes "distinct (map fst ms)"
    and "\<forall>k \<in> fst ` set ms. fold_name k = fold_name name \<longrightarrow> k = name"
  shows "field_values name ms = (case map_of ms name of None \<Rightarrow> [] | Some v \<Rightarrow> [v])"
  using assms
proof (induction ms)
  case Nil
  then show ?case by (simp add: field_values_def)
next
  case (Cons m ms)
  show ?case
  proof (cases "fst m = name")
    case True
    then have "name \<notin> fst ` set ms" using Cons.prems(1) by auto
    then have "\<forall>m' \<in> set ms. fold_name (fst m') \<noteq> fold_name name"
      using Cons.prems(2) by (metis image_eqI list.set_intros(2))
    then have "filter (\<lambda>m. fold_name (fst m) = fold_name name) ms = []" by (simp add: filter_empty_conv)
    with True show ?thesis by (simp add: field_values_def)
  next
    case False
    with Cons have "fold_name (fst m) \<noteq> fold_name name" by auto
    with False Cons show ?thesis by (simp add: field_values_def split: option.splits)
  qed
qed

section \<open>Field decoders\<close>

fun fold_field :: "('a \<Rightarrow> jval \<Rightarrow> 'a option) \<Rightarrow> 'a \<Rightarrow> jval list \<Rightarrow> 'a option" where
  "fold_field dec old [] = Some old"
| "fold_field dec old (v # vs) = Option.bind (dec old v) (\<lambda>new. fold_field dec new vs)"

fun decode_string :: "string \<Rightarrow> jval \<Rightarrow> string option" where
  "decode_string old (JStr s) = Some s"
| "decode_string old JNull = Some old"
| "decode_string old _ = None"

fun decode_bool :: "bool \<Rightarrow> jval \<Rightarrow> bool option" where
  "decode_bool old (JBool b) = Some b"
| "decode_bool old JNull = Some old"
| "decode_bool old _ = None"

fun decode_int :: "int \<Rightarrow> jval \<Rightarrow> int option" where
  "decode_int old (JNum n) = parse_int64 n"
| "decode_int old JNull = Some old"
| "decode_int old _ = None"

text \<open>A struct value, a pointer to a struct (allocated on demand), and the top level.\<close>

fun decode_struct ::
  "((string \<times> jval) list \<Rightarrow> 'a \<Rightarrow> 'a option) \<Rightarrow> 'a \<Rightarrow> jval \<Rightarrow> 'a option"
where
  "decode_struct dec old (JObj ms) = dec ms old"
| "decode_struct dec old JNull = Some old"
| "decode_struct dec old _ = None"

fun decode_ptr ::
  "((string \<times> jval) list \<Rightarrow> 'a \<Rightarrow> 'a option) \<Rightarrow> 'a \<Rightarrow> 'a option \<Rightarrow> jval \<Rightarrow> 'a option option"
where
  "decode_ptr dec zero old (JObj ms) =
    map_option Some (dec ms (case old of None \<Rightarrow> zero | Some r \<Rightarrow> r))"
| "decode_ptr dec zero old JNull = Some None"
| "decode_ptr dec zero old _ = None"

definition string_field :: "string \<Rightarrow> (string \<times> jval) list \<Rightarrow> string \<Rightarrow> string option" where
  "string_field name ms old = fold_field decode_string old (field_values name ms)"

definition int_field :: "string \<Rightarrow> (string \<times> jval) list \<Rightarrow> int \<Rightarrow> int option" where
  "int_field name ms old = fold_field decode_int old (field_values name ms)"

definition bool_field :: "string \<Rightarrow> (string \<times> jval) list \<Rightarrow> bool \<Rightarrow> bool option" where
  "bool_field name ms old = fold_field decode_bool old (field_values name ms)"

definition ptr_field ::
  "string \<Rightarrow> ((string \<times> jval) list \<Rightarrow> 'a \<Rightarrow> 'a option) \<Rightarrow> 'a \<Rightarrow> (string \<times> jval) list \<Rightarrow> 'a option \<Rightarrow>
   'a option option"
where
  "ptr_field name dec zero ms old = fold_field (decode_ptr dec zero) old (field_values name ms)"

definition struct_field ::
  "string \<Rightarrow> ((string \<times> jval) list \<Rightarrow> 'a \<Rightarrow> 'a option) \<Rightarrow> (string \<times> jval) list \<Rightarrow> 'a \<Rightarrow> 'a option"
where
  "struct_field name dec ms old = fold_field (decode_struct dec) old (field_values name ms)"

text \<open>\<open>json.Unmarshal\<close> into a struct variable that holds its zero value.\<close>

definition unmarshal_struct ::
  "((string \<times> jval) list \<Rightarrow> 'a \<Rightarrow> 'a option) \<Rightarrow> 'a \<Rightarrow> string \<Rightarrow> 'a option"
where
  "unmarshal_struct dec zero body =
    Option.bind (json_parse body) (\<lambda>j. decode_struct dec zero j)"

text \<open>A member whose name no other member folds to.\<close>

lemma string_field_member:
  assumes "distinct (map fold_name names)" and "map fst ms = names" and "map_of ms name = Some (JStr s)"
  shows "string_field name ms old = Some s"
proof -
  have d: "distinct (map fst ms)" using assms(1,2) by (metis distinct_map)
  from assms(3) have "name \<in> set names" using assms(2) by (metis domI domIff map_of_eq_None_iff list.set_map)
  then have "\<forall>k \<in> fst ` set ms. fold_name k = fold_name name \<longrightarrow> k = name"
    using assms(1) unfolding list.set_map [symmetric] assms(2) by (auto simp: distinct_map dest: inj_onD)
  from field_values_one [OF d this] assms(3) show ?thesis by (simp add: string_field_def)
qed

end
