(* ===== verification/Go_Decode.thy ===== *)
theory Go_Decode
  imports Go_Struct
begin

text \<open>
  Decoding JSON into slices of structs, into \<open>any\<close> and into \<open>map[string]any\<close>, and reading the first
  value of a stream (\<open>json.NewDecoder(r).Decode\<close>).  A slice that is decoded twice, because its member
  is repeated, decodes into the elements it already has, those beyond its length included.
\<close>

section \<open>Slices of structs\<close>

fun decode_elems ::
  "((string \<times> jval) list \<Rightarrow> 'a \<Rightarrow> 'a option) \<Rightarrow> 'a \<Rightarrow> 'a list \<Rightarrow> jval list \<Rightarrow> 'a list option"
where
  "decode_elems dec zero backing [] = Some backing"
| "decode_elems dec zero backing (v # vs) =
    Option.bind (decode_struct dec (case backing of [] \<Rightarrow> zero | b # _ \<Rightarrow> b) v) (\<lambda>x.
    map_option ((#) x) (decode_elems dec zero (tl backing) vs))"

text \<open>A slice is its length and its backing array.\<close>

fun decode_slice ::
  "((string \<times> jval) list \<Rightarrow> 'a \<Rightarrow> 'a option) \<Rightarrow> 'a \<Rightarrow> nat \<times> 'a list \<Rightarrow> jval \<Rightarrow> (nat \<times> 'a list) option"
where
  "decode_slice dec zero old (JArr vs) =
    (if vs = [] then Some (0, [])
     else map_option (Pair (length vs)) (decode_elems dec zero (snd old) vs))"
| "decode_slice dec zero old JNull = Some (0, [])"
| "decode_slice dec zero old _ = None"

definition slice_field ::
  "string \<Rightarrow> ((string \<times> jval) list \<Rightarrow> 'a \<Rightarrow> 'a option) \<Rightarrow> 'a \<Rightarrow> (string \<times> jval) list \<Rightarrow> 'a list option"
where
  "slice_field name dec zero ms =
    map_option (\<lambda>(n, backing). take n backing)
      (fold_field (decode_slice dec zero) (0, []) (field_values name ms))"

text \<open>A slice of strings, the same way.\<close>

fun decode_strings :: "string list \<Rightarrow> jval list \<Rightarrow> string list option" where
  "decode_strings backing [] = Some backing"
| "decode_strings backing (v # vs) =
    Option.bind (decode_string (case backing of [] \<Rightarrow> [] | b # _ \<Rightarrow> b) v) (\<lambda>x.
    map_option ((#) x) (decode_strings (tl backing) vs))"

fun decode_string_slice :: "nat \<times> string list \<Rightarrow> jval \<Rightarrow> (nat \<times> string list) option" where
  "decode_string_slice old (JArr vs) =
    (if vs = [] then Some (0, []) else map_option (Pair (length vs)) (decode_strings (snd old) vs))"
| "decode_string_slice old JNull = Some (0, [])"
| "decode_string_slice old _ = None"

definition strings_field :: "string \<Rightarrow> (string \<times> jval) list \<Rightarrow> string list option" where
  "strings_field name ms =
    map_option (\<lambda>(n, backing). take n backing)
      (fold_field decode_string_slice (0, []) (field_values name ms))"

section \<open>Dynamic values\<close>

text \<open>
  \<open>float64\<close> is what \<open>json.Marshal\<close> prints for the \<open>float64\<close> nearest to a number literal, \<open>None\<close> when the
  literal is out of range.  A member repeated in an object overwrites the earlier ones.
\<close>

definition last_wins :: "(string \<times> 'v) list \<Rightarrow> (string \<times> 'v) list" where
  "last_wins kvs = AList.clearjunk (rev kvs)"

fun any_of_json :: "(string \<Rightarrow> string option) \<Rightarrow> jval \<Rightarrow> goval option" where
  "any_of_json float64 JNull = Some VNil"
| "any_of_json float64 (JBool b) = Some (VBool b)"
| "any_of_json float64 (JNum n) = map_option VFloat (float64 n)"
| "any_of_json float64 (JStr s) = Some (VStr s)"
| "any_of_json float64 (JArr vs) = map_option VSlice (those (map (any_of_json float64) vs))"
| "any_of_json float64 (JObj kvs) =
    map_option (\<lambda>ms. VMap (last_wins ms))
      (those (map (\<lambda>(k, v). map_option (Pair k) (any_of_json float64 v)) kvs))"

definition entries :: "goval \<Rightarrow> (string \<times> goval) list" where
  "entries v = (case v of VMap kvs \<Rightarrow> kvs | _ \<Rightarrow> [])"

text \<open>An object decoded into a map adds its members to those the map has.\<close>

fun decode_any_map :: "(string \<Rightarrow> string option) \<Rightarrow> goval \<Rightarrow> jval \<Rightarrow> goval option" where
  "decode_any_map float64 old (JObj kvs) =
    map_option (\<lambda>v. VMap (last_wins (entries old @ rev (entries v)))) (any_of_json float64 (JObj kvs))"
| "decode_any_map float64 old JNull = Some VNilMap"
| "decode_any_map float64 old _ = None"

definition any_map_field ::
  "(string \<Rightarrow> string option) \<Rightarrow> string \<Rightarrow> (string \<times> jval) list \<Rightarrow> goval \<Rightarrow> goval option"
where
  "any_map_field float64 name ms old = fold_field (decode_any_map float64) old (field_values name ms)"

section \<open>Streams\<close>

text \<open>\<open>Decoder.Decode\<close> reads one value and leaves what follows it.\<close>

definition json_first :: "string \<Rightarrow> jval option" where
  "json_first s = map_option fst (parse_value (2 * length s + 2) s)"

definition decode_first ::
  "((string \<times> jval) list \<Rightarrow> 'a \<Rightarrow> 'a option) \<Rightarrow> 'a \<Rightarrow> string \<Rightarrow> 'a option"
where
  "decode_first dec zero body = Option.bind (json_first body) (\<lambda>j. decode_struct dec zero j)"

lemma json_first_parse: "json_parse s = Some j \<Longrightarrow> json_first s = Some j"
  by (auto simp: json_parse_def json_first_def split: option.splits prod.splits if_splits)

lemma json_first_print: "json_numbers j \<Longrightarrow> json_first (json_print j) = Some (json_sanitize j)"
  by (rule json_first_parse) (rule json_parse_print)

lemma decode_first_struct: "unmarshal_struct dec zero body = Some r \<Longrightarrow> decode_first dec zero body = Some r"
  by (auto simp: unmarshal_struct_def decode_first_def json_first_parse split: Option.bind_splits)

section \<open>Decoding whose error is ignored\<close>

text \<open>
  When the error of \<open>json.Unmarshal\<close> is dropped, a syntax error leaves the target as it is, and a value
  of the wrong kind leaves its field as it is while the rest is decoded; a pointer is allocated
  before its value is found to be of the wrong kind.
\<close>

definition keep_old :: "('a \<Rightarrow> jval \<Rightarrow> 'a option) \<Rightarrow> 'a \<Rightarrow> jval \<Rightarrow> 'a" where
  "keep_old dec old v = (case dec old v of None \<Rightarrow> old | Some x \<Rightarrow> x)"

definition lenient_string :: "string \<Rightarrow> (string \<times> jval) list \<Rightarrow> string \<Rightarrow> string" where
  "lenient_string name ms old = foldl (keep_old decode_string) old (field_values name ms)"

definition lenient_int :: "string \<Rightarrow> (string \<times> jval) list \<Rightarrow> int \<Rightarrow> int" where
  "lenient_int name ms old = foldl (keep_old decode_int) old (field_values name ms)"

definition lenient_bool :: "string \<Rightarrow> (string \<times> jval) list \<Rightarrow> bool \<Rightarrow> bool" where
  "lenient_bool name ms old = foldl (keep_old decode_bool) old (field_values name ms)"

definition struct_value :: "((string \<times> jval) list \<Rightarrow> 'a \<Rightarrow> 'a) \<Rightarrow> 'a \<Rightarrow> jval \<Rightarrow> 'a" where
  "struct_value dec old v = (case v of JObj ms \<Rightarrow> dec ms old | _ \<Rightarrow> old)"

definition ptr_value :: "((string \<times> jval) list \<Rightarrow> 'a \<Rightarrow> 'a) \<Rightarrow> 'a \<Rightarrow> 'a option \<Rightarrow> jval \<Rightarrow> 'a option" where
  "ptr_value dec zero old v =
    (case v of JNull \<Rightarrow> None
     | _ \<Rightarrow> Some (struct_value dec (case old of None \<Rightarrow> zero | Some x \<Rightarrow> x) v))"

definition lenient_struct ::
  "string \<Rightarrow> ((string \<times> jval) list \<Rightarrow> 'a \<Rightarrow> 'a) \<Rightarrow> (string \<times> jval) list \<Rightarrow> 'a \<Rightarrow> 'a"
where
  "lenient_struct name dec ms old = foldl (struct_value dec) old (field_values name ms)"

definition lenient_ptr ::
  "string \<Rightarrow> ((string \<times> jval) list \<Rightarrow> 'a \<Rightarrow> 'a) \<Rightarrow> 'a \<Rightarrow> (string \<times> jval) list \<Rightarrow> 'a option \<Rightarrow> 'a option"
where
  "lenient_ptr name dec zero ms old = foldl (ptr_value dec zero) old (field_values name ms)"

definition unmarshal_lenient :: "((string \<times> jval) list \<Rightarrow> 'a \<Rightarrow> 'a) \<Rightarrow> 'a \<Rightarrow> string \<Rightarrow> 'a" where
  "unmarshal_lenient dec zero body =
    (case json_parse body of None \<Rightarrow> zero | Some j \<Rightarrow> struct_value dec zero j)"

lemma lenient_nil [simp]:
  "field_values name ms = [] \<Longrightarrow> lenient_string name ms s = s"
  "field_values name ms = [] \<Longrightarrow> lenient_int name ms i = i"
  "field_values name ms = [] \<Longrightarrow> lenient_bool name ms b = b"
  "field_values name ms = [] \<Longrightarrow> lenient_ptr name dec zero ms p = p"
  by (simp_all add: lenient_string_def lenient_int_def lenient_bool_def lenient_ptr_def)

end
