(* ===== verification/Go_Time.thy ===== *)
theory Go_Time
  imports Go_Prelude "HOL-Library.Word"
begin

text \<open>
  Instants and durations (\<open>time\<close>): an instant is the number of nanoseconds since the Unix epoch,
  a duration a signed 64-bit count of nanoseconds, and \<open>rfc3339\<close> is
  \<open>t.UTC().Format(time.RFC3339)\<close> for the years 1 to 9999.
\<close>

section \<open>The calendar\<close>

definition leap_year :: "nat \<Rightarrow> bool" where
  "leap_year y \<longleftrightarrow> y mod 4 = 0 \<and> (y mod 100 \<noteq> 0 \<or> y mod 400 = 0)"

definition year_length :: "nat \<Rightarrow> nat" where
  "year_length y = (if leap_year y then 366 else 365)"

definition month_lengths :: "nat \<Rightarrow> nat list" where
  "month_lengths y = [31, if leap_year y then 29 else 28, 31, 30, 31, 30, 31, 31, 30, 31, 30, 31]"

lemma year_length_pos [simp]: "year_length y > 0"
  by (simp add: year_length_def)

text \<open>The year that day \<open>d\<close>, counted from the first of January of \<open>y\<close>, falls in.\<close>

function year_day :: "nat \<Rightarrow> nat \<Rightarrow> nat \<times> nat" where
  "year_day y d = (if d < year_length y then (y, d) else year_day (y + 1) (d - year_length y))"
  by pat_completeness auto
termination
proof (relation "measure snd", goal_cases)
  case (2 y d)
  moreover have "0 < year_length y" by (rule year_length_pos)
  ultimately have "d - year_length y < d" by linarith
  then show ?case by simp
qed simp

declare year_day.simps [simp del]

fun month_day :: "nat \<Rightarrow> nat list \<Rightarrow> nat \<Rightarrow> nat \<times> nat" where
  "month_day m [] d = (m, d)"
| "month_day m (l # ls) d = (if d < l then (m, d) else month_day (m + 1) ls (d - l))"

definition pad_nat :: "nat \<Rightarrow> nat \<Rightarrow> string" where
  "pad_nat w n = (let s = show_nat n in replicate (w - length s) (CHR ''0'') @ s)"

text \<open>Seconds since the start of year 1; a cycle of 400 years has 146097 days.\<close>

definition date_string :: "nat \<Rightarrow> string" where
  "date_string days =
    (case year_day (1 + 400 * (days div 146097)) (days mod 146097) of (y, d) \<Rightarrow>
     case month_day 1 (month_lengths y) d of (m, d') \<Rightarrow>
       pad_nat 4 y @ ''-'' @ pad_nat 2 m @ ''-'' @ pad_nat 2 (d' + 1))"

definition clock_string :: "nat \<Rightarrow> string" where
  "clock_string secs =
    pad_nat 2 (secs div 3600) @ '':'' @ pad_nat 2 (secs div 60 mod 60) @ '':'' @ pad_nat 2 (secs mod 60)"

definition epoch_seconds :: int where
  "epoch_seconds = 62135596800"

definition rfc3339_seconds :: "int \<Rightarrow> string" where
  "rfc3339_seconds unix =
    (let t = nat (unix + epoch_seconds)
     in date_string (t div 86400) @ ''T'' @ clock_string (t mod 86400) @ ''Z'')"

definition rfc3339 :: "int \<Rightarrow> string" where
  "rfc3339 ns = rfc3339_seconds (ns div 1000000000)"

section \<open>Durations\<close>

type_synonym duration = "64 word"

definition second :: duration where
  "second = 1000000000"

definition minute :: duration where
  "minute = 60 * second"

definition time_Add :: "int \<Rightarrow> duration \<Rightarrow> int" where
  "time_Add t d = t + sint d"

end
