(* ===== verification/Go_Base64.thy ===== *)
theory Go_Base64
  imports Go_Prelude
begin

text \<open>
  Go's \<open>encoding/base64\<close> (\<open>StdEncoding\<close> with padding, \<open>RawURLEncoding\<close> without) on byte
  strings, with the round trip of the standard encoding, and the facts about
  \<open>strings.TrimSpace\<close> on printable text that the key file loader needs.
\<close>

definition b64_std :: "nat \<Rightarrow> char" where
  "b64_std n =
    (if n < 26 then char_of (65 + n) else if n < 52 then char_of (71 + n)
     else if n < 62 then char_of (n - 4) else if n = 62 then CHR ''+'' else CHR ''/'')"

definition b64_val :: "char \<Rightarrow> char \<Rightarrow> char \<Rightarrow> nat option" where
  "b64_val c62 c63 c =
    (let n = of_char c
     in if 65 \<le> n \<and> n \<le> 90 then Some (n - 65)
        else if 97 \<le> n \<and> n \<le> 122 then Some (n - 71)
        else if 48 \<le> n \<and> n \<le> 57 then Some (n + 4)
        else if c = c62 then Some 62 else if c = c63 then Some 63 else None)"

lemma b64_val_std: "n < 64 \<Longrightarrow> b64_val (CHR ''+'') (CHR ''/'') (b64_std n) = Some n"
  by (auto simp: b64_val_def b64_std_def Let_def)

lemma b64_std_code:
  "n < 64 \<Longrightarrow> 43 \<le> (of_char (b64_std n) :: nat) \<and> (of_char (b64_std n) :: nat) \<le> 122
     \<and> (of_char (b64_std n) :: nat) \<noteq> 61"
  by (auto simp: b64_std_def take_bit_eq_mod)

lemma b64_std_cases:
  "n < 64 \<Longrightarrow> 43 \<le> (of_char (b64_std n) :: nat) \<and> (of_char (b64_std n) :: nat) \<le> 122
     \<and> b64_std n \<noteq> CHR ''=''"
  using b64_std_code [of n] by auto

fun base64_encode :: "string \<Rightarrow> string" where
  "base64_encode [] = []"
| "base64_encode [a] =
     (let x = of_char a in [b64_std (x div 4), b64_std (x mod 4 * 16), CHR ''='', CHR ''=''])"
| "base64_encode [a, b] =
     (let x = of_char a; y = of_char b
      in [b64_std (x div 4), b64_std (x mod 4 * 16 + y div 16), b64_std (y mod 16 * 4), CHR ''=''])"
| "base64_encode (a # b # c # s) =
     (let x = of_char a; y = of_char b; z = of_char c
      in b64_std (x div 4) # b64_std (x mod 4 * 16 + y div 16)
         # b64_std (y mod 16 * 4 + z div 64) # b64_std (z mod 64) # base64_encode s)"

text \<open>
  Decoding reads groups of four symbols; \<open>pad\<close> says whether the last group is padded.  Carriage
  returns and newlines are skipped wherever they stand, as Go does.
\<close>

definition b64_quad :: "nat \<Rightarrow> nat \<Rightarrow> nat \<Rightarrow> nat \<Rightarrow> string" where
  "b64_quad w x y z =
     [char_of (w * 4 + x div 16), char_of (x mod 16 * 16 + y div 4), char_of (y mod 4 * 64 + z)]"

fun b64_groups :: "(char \<Rightarrow> nat option) \<Rightarrow> bool \<Rightarrow> string \<Rightarrow> string option" where
  "b64_groups v pad [] = Some []"
| "b64_groups v pad (p # q # r # s # t) =
     (case (v p, v q) of
        (Some w, Some x) \<Rightarrow>
          (if pad \<and> r = CHR ''='' \<and> s = CHR ''='' \<and> t = [] then Some (take 1 (b64_quad w x 0 0))
           else case v r of None \<Rightarrow> None
           | Some y \<Rightarrow>
              if pad \<and> s = CHR ''='' \<and> t = [] then Some (take 2 (b64_quad w x y 0))
              else (case v s of None \<Rightarrow> None
                    | Some z \<Rightarrow> map_option (\<lambda>u. b64_quad w x y z @ u) (b64_groups v pad t)))
      | _ \<Rightarrow> None)"
| "b64_groups v pad [p, q, r] =
     (if pad then None
      else case (v p, v q, v r) of
        (Some w, Some x, Some y) \<Rightarrow> Some (take 2 (b64_quad w x y 0)) | _ \<Rightarrow> None)"
| "b64_groups v pad [p, q] =
     (if pad then None
      else case (v p, v q) of (Some w, Some x) \<Rightarrow> Some (take 1 (b64_quad w x 0 0)) | _ \<Rightarrow> None)"
| "b64_groups v pad [p] = None"

definition not_newline :: "char \<Rightarrow> bool" where
  "not_newline c \<longleftrightarrow> c \<noteq> CHR 0x0A \<and> c \<noteq> CHR 0x0D"

definition base64_decode :: "string \<Rightarrow> string res" where
  "base64_decode s =
    (case b64_groups (b64_val (CHR ''+'') (CHR ''/'')) True (filter not_newline s) of
       None \<Rightarrow> Inl (Errorf ''illegal base64 data'') | Some t \<Rightarrow> Inr t)"

definition base64_rawurl_decode :: "string \<Rightarrow> string res" where
  "base64_rawurl_decode s =
    (case b64_groups (b64_val (CHR ''-'') (CHR ''_'')) False (filter not_newline s) of
       None \<Rightarrow> Inl (Errorf ''illegal base64 data'') | Some t \<Rightarrow> Inr t)"

section \<open>Round trip\<close>

lemma b64_std_plain [simp]:
  assumes "n < 64"
  shows "b64_std n \<noteq> CHR ''=''" "not_newline (b64_std n)"
  using b64_std_cases [OF assms] by (auto simp: not_newline_def)

lemma char_div_mod:
  "(of_char c :: nat) div 4 < 64" "(of_char c :: nat) div 16 < 16" "(of_char c :: nat) div 64 < 4"
  using of_char_less_256 [of c] by (simp_all add: less_mult_imp_div_less)

lemma b64_mix:
  fixes x y :: nat
  shows "y < 16 \<Longrightarrow> x mod 4 * 16 + y < 64" "y < 4 \<Longrightarrow> x mod 16 * 4 + y < 64"
proof -
  have "x mod 4 < 4" "x mod 16 < 16" by simp_all
  then show "y < 16 \<Longrightarrow> x mod 4 * 16 + y < 64" "y < 4 \<Longrightarrow> x mod 16 * 4 + y < 64" by linarith+
qed

lemma digit_div_mod:
  fixes a b n :: nat
  shows "b < n \<Longrightarrow> (a * n + b) div n = a" "b < n \<Longrightarrow> (a * n + b) mod n = b"
  by simp_all

lemma b64_join:
  fixes x y z :: nat
  assumes "y < 256" and "z < 256"
  shows "x div 4 * 4 + (x mod 4 * 16 + y div 16) div 16 = x"
    and "(x mod 4 * 16 + y div 16) mod 16 * 16 + (y mod 16 * 4 + z div 64) div 4 = y"
    and "(y mod 16 * 4 + z div 64) mod 4 * 64 + z mod 64 = z"
proof -
  from assms have y: "y div 16 < 16" and z: "z div 64 < 4" by simp_all
  show "x div 4 * 4 + (x mod 4 * 16 + y div 16) div 16 = x"
    unfolding digit_div_mod(1) [OF y] by simp
  show "(x mod 4 * 16 + y div 16) mod 16 * 16 + (y mod 16 * 4 + z div 64) div 4 = y"
    unfolding digit_div_mod(2) [OF y] digit_div_mod(1) [OF z] by simp
  show "(y mod 16 * 4 + z div 64) mod 4 * 64 + z mod 64 = z"
    unfolding digit_div_mod(2) [OF z] by simp
qed

lemma b64_quad_join:
  "b64_quad (of_char a div 4) (of_char a mod 4 * 16 + of_char b div 16)
     (of_char b mod 16 * 4 + of_char c div 64) (of_char c mod 64) = [a, b, c]"
  unfolding b64_quad_def b64_join [OF of_char_less_256 of_char_less_256] by simp

lemma b64_quad_join2:
  "take 2 (b64_quad (of_char a div 4) (of_char a mod 4 * 16 + of_char b div 16)
     (of_char b mod 16 * 4) 0) = [a, b]"
proof -
  have z: "(0 :: nat) < 256" by simp
  note j = b64_join(1,2) [OF of_char_less_256 [of b] z, where x = "of_char a"]
  show ?thesis unfolding b64_quad_def using j by simp
qed

lemma b64_quad_join1:
  "take 1 (b64_quad (of_char a div 4) (of_char a mod 4 * 16) 0 0) = [a]"
proof -
  have z: "(0 :: nat) < 256" by simp
  note j = b64_join(1) [OF z z, where x = "of_char a"]
  show ?thesis unfolding b64_quad_def using j by simp
qed

lemmas b64_mix0 = b64_mix(1) [of 0, simplified] b64_mix(2) [of 0, simplified]

lemma base64_encode_groups:
  "b64_groups (b64_val (CHR ''+'') (CHR ''/'')) True (base64_encode s) = Some s"
proof (induction s rule: base64_encode.induct)
  case 1
  then show ?case by simp
next
  case (2 a)
  show ?case
    using b64_quad_join1 [of a] by (simp add: Let_def b64_val_std char_div_mod b64_mix0)
next
  case (3 a b)
  show ?case
    using b64_quad_join2 [of a b] by (simp add: Let_def b64_val_std char_div_mod b64_mix b64_mix0)
next
  case (4 a b c s)
  then show ?case
    using b64_quad_join [of a b c] by (simp add: Let_def b64_val_std char_div_mod b64_mix)
qed

lemma base64_encode_plain: "list_all not_newline (base64_encode s)"
  by (induction s rule: base64_encode.induct)
    (simp_all add: Let_def char_div_mod b64_mix b64_mix0, simp_all add: not_newline_def)

theorem base64_decode_encode [simp]: "base64_decode (base64_encode s) = Inr s"
  using base64_encode_plain [of s]
  by (simp add: base64_decode_def base64_encode_groups list_all_iff)

section \<open>Trimming printable text\<close>

text \<open>Printable ASCII other than the space.\<close>

definition graphic :: "char \<Rightarrow> bool" where
  "graphic c \<longleftrightarrow> 0x21 \<le> (of_char c :: nat) \<and> (of_char c :: nat) < 0x7F"

lemma strip_first_hd: "list_all (\<lambda>p. p \<noteq> [] \<longrightarrow> hd p \<noteq> c) ps \<Longrightarrow> strip_first ps (c # s) = None"
proof (induction ps)
  case (Cons p ps)
  then show ?case by (cases p) auto
qed simp

lemma space_runes_not_graphic:
  "list_all (\<lambda>p. \<not> graphic (hd p)) space_runes"
  "list_all (\<lambda>p. \<not> graphic (hd p)) (map rev space_runes)"
  by (simp_all add: space_runes_def graphic_def)

lemma strip_first_graphic:
  assumes "graphic c"
  shows "strip_first space_runes (c # s) = None"
    and "strip_first (map rev space_runes) (c # s) = None"
  using assms space_runes_not_graphic by (auto intro!: strip_first_hd simp: list_all_iff)

lemma trim_leading_graphic:
  "s \<noteq> [] \<Longrightarrow> graphic (hd s) \<Longrightarrow> trim_leading space_runes s = s"
  "s \<noteq> [] \<Longrightarrow> graphic (hd s) \<Longrightarrow> trim_leading (map rev space_runes) s = s"
  by (cases s; simp add: trim_leading_stop strip_first_graphic)+

lemma trim_space_graphic:
  assumes "s \<noteq> []" and "graphic (hd s)" and "graphic (last s)"
  shows "trim_space s = s"
  using assms by (simp add: trim_space_def trim_leading_graphic hd_rev)

lemma trim_leading_newline: "trim_leading (map rev space_runes) (CHR 0x0A # s) = trim_leading (map rev space_runes) s"
  by (subst trim_leading.simps) (simp add: space_runes_def)

lemma trim_space_newline:
  assumes "s \<noteq> []" and "graphic (hd s)" and "graphic (last s)"
  shows "trim_space (s @ [CHR 0x0A]) = s"
  using assms by (simp add: trim_space_def trim_leading_graphic trim_leading_newline hd_rev)

lemma graphic_hex_digit: "d < 16 \<Longrightarrow> graphic (hex_digit d)"
  by (auto simp: graphic_def hex_digit_def)

lemma hex_encode_graphic: "list_all graphic (hex_encode s)"
proof (induction s)
  case (Cons c s)
  then show ?case by (simp add: graphic_hex_digit char_div_mod)
qed simp

lemma b64_std_graphic: "n < 64 \<Longrightarrow> graphic (b64_std n)"
  using b64_std_cases [of n] by (auto simp: graphic_def)

lemma base64_encode_graphic: "list_all graphic (base64_encode s)"
  by (induction s rule: base64_encode.induct)
    (simp_all add: Let_def char_div_mod b64_mix b64_mix0 b64_std_graphic, simp_all add: graphic_def)

end
