(* ===== verification/Canonical.thy ===== *)
theory Canonical
  imports Go_Types
begin

text \<open>
  \<open>internal/crypto/canonical.go\<close>: canonical JSON.  \<open>Canonicalize\<close> walks a dynamic value,
  normalises strings and map keys with \<open>nfc\<close> (\<open>golang.org/x/text/unicode/norm\<close>, a parameter
  here), drops nil map entries, sorts map keys bytewise, and refuses floats, non-string keys,
  unsupported types and keys that collide after normalisation.  The lemmas show that the bytes
  do not depend on the order in which Go iterates a map, that they are the compact rendering of
  a tree (\<open>canon_tree\<close>), and that parsing them gives this tree back, so equal bytes come from
  equal trees.
\<close>

section \<open>The code\<close>

definition writeString :: "(string \<Rightarrow> string) \<Rightarrow> string \<Rightarrow> string" where
  "writeString nfc s = json_quote (nfc s)"

definition stringsHasFloat :: "string \<Rightarrow> bool" where
  "stringsHasFloat s = list_ex (\<lambda>c. c = CHR ''.'' \<or> c = CHR ''e'' \<or> c = CHR ''E'') s"

definition writeJSONNumber :: "string \<Rightarrow> string res" where
  "writeJSONNumber n =
    (if stringsHasFloat n then Inl ErrFloatNotAllowed
     else case parse_int64 n of None \<Rightarrow> Inl ErrFloatNotAllowed | Some v \<Rightarrow> Inr (show_int v))"

fun isNilValue :: "goval \<Rightarrow> bool" where
  "isNilValue VNil = True"
| "isNilValue VNilPtr = True"
| "isNilValue VNilMap = True"
| "isNilValue VNilSlice = True"
| "isNilValue _ = False"

text \<open>The first loop of \<open>writeMap\<close>: normalised keys, collisions, nil entries.\<close>

fun collectEntries ::
  "(string \<Rightarrow> string) \<Rightarrow> bool \<Rightarrow> string list \<Rightarrow> (string \<times> goval) list \<Rightarrow> (string \<times> goval) list res"
where
  "collectEntries nfc strip seen [] = Inr []"
| "collectEntries nfc strip seen ((k, v) # kvs) =
    (let k' = nfc k
     in if k' \<in> set seen then Inl ErrKeyCollision
        else if strip \<and> isNilValue v then collectEntries nfc strip (k' # seen) kvs
        else res_bind (collectEntries nfc strip (k' # seen) kvs) (\<lambda>es. Inr ((k', v) # es)))"

lemma collectEntries_values:
  "collectEntries nfc strip seen kvs = Inr es \<Longrightarrow> kv \<in> set es \<Longrightarrow> snd kv \<in> snd ` set kvs"
proof (induction kvs arbitrary: seen es)
  case Nil
  then show ?case by simp
next
  case (Cons p kvs)
  obtain k v where "p = (k, v)" by (cases p)
  with Cons show ?case
    by (fastforce simp: Let_def res_bind_Inr_iff split: if_splits)
qed

lemma size_map_entry: "snd kv \<in> snd ` set kvs \<Longrightarrow> size (snd kv) < size (VMap kvs)"
proof -
  assume "snd kv \<in> snd ` set kvs"
  then obtain p where "p \<in> set kvs" and p: "snd p = snd kv" by auto
  then have "size_prod (\<lambda>_. 0) size p \<le> size_list (size_prod (\<lambda>_. 0) size) kvs"
    by (intro size_list_estimation') auto
  moreover have "size (snd p) < size_prod (\<lambda>_. 0) size p" by (cases p) simp
  ultimately show ?thesis using p by simp
qed

text \<open>
  The pointer loop of \<open>writeValue\<close> (\<open>for rv.Kind() == reflect.Pointer\<close>).  It runs after the
  type switch on \<open>json.Number\<close>, so a number behind a pointer is of kind \<open>String\<close> afterwards.
\<close>

fun deref :: "goval \<Rightarrow> goval" where
  "deref (VPtr v) = deref v"
| "deref (VNumber n) = VStr n"
| "deref v = v"

lemma size_deref: "size (deref v) \<le> size v"
  by (induction v rule: deref.induct) simp_all

lemma deref_not_ptr: "deref v \<noteq> VPtr w"
  by (induction v rule: deref.induct) simp_all

function (sequential) writeValue :: "(string \<Rightarrow> string) \<Rightarrow> bool \<Rightarrow> goval \<Rightarrow> string res" where
  "writeValue nfc strip VNil = Inr ''null''"
| "writeValue nfc strip (VNumber n) = writeJSONNumber n"
| "writeValue nfc strip VNilPtr = Inr ''null''"
| "writeValue nfc strip (VPtr v) =
     writeValue nfc strip (deref v)"
| "writeValue nfc strip (VStr s) = Inr (writeString nfc s)"
| "writeValue nfc strip (VBool b) = Inr (if b then ''true'' else ''false'')"
| "writeValue nfc strip (VInt i) = Inr (show_int i)"
| "writeValue nfc strip (VUint n) = Inr (show_int (int n))"
| "writeValue nfc strip (VFloat f) = Inl ErrFloatNotAllowed"
| "writeValue nfc strip VIntMap = Inl ErrNonStringMapKey"
| "writeValue nfc strip VNilMap = Inr ''{}''"
| "writeValue nfc strip (VMap kvs) =
     res_bind (collectEntries nfc strip [] kvs) (\<lambda>es.
       res_bind
         (res_mapM (\<lambda>kv. res_bind (writeValue nfc strip (snd kv))
                           (\<lambda>t. Inr (writeString nfc (fst kv) @ CHR '':'' # t)))
           (sort_key fst es))
         (\<lambda>ts. Inr (CHR ''{'' # str_join '','' ts @ ''}'')))"
| "writeValue nfc strip VNilSlice = Inr ''null''"
| "writeValue nfc strip (VSlice vs) =
     res_bind (res_mapM (writeValue nfc strip) vs)
       (\<lambda>ts. Inr (CHR ''['' # str_join '','' ts @ '']''))"
| "writeValue nfc strip VOther = Inl ErrUnsupportedType"
  by pat_completeness auto
termination
proof (relation "measure (\<lambda>(nfc, strip, v). size v)", goal_cases)
  case 1
  show ?case by simp
next
  case (2 nfc strip v)
  show ?case using size_deref [of v] by simp
next
  case (3 nfc strip kvs es kv)
  then have "snd kv \<in> snd ` set kvs" using collectEntries_values by fastforce
  from size_map_entry [OF this] show ?case by simp
next
  case (4 nfc strip vs v)
  then have "size v \<le> size_list size vs" by (intro size_list_estimation') auto
  then show ?case by simp
qed

definition Canonicalize :: "(string \<Rightarrow> string) \<Rightarrow> goval \<Rightarrow> string res" where
  "Canonicalize nfc v = writeValue nfc True v"

section \<open>The bytes do not depend on map iteration order\<close>

text \<open>
  Two values that differ only in the order in which some of their maps list their entries, at
  any depth.  The keys of a Go map are distinct.
\<close>

inductive gv_perm :: "goval \<Rightarrow> goval \<Rightarrow> bool" where
  perm_refl: "gv_perm v v"
| perm_ptr: "gv_perm v w \<Longrightarrow> gv_perm (VPtr v) (VPtr w)"
| perm_slice: "list_all2 gv_perm vs ws \<Longrightarrow> gv_perm (VSlice vs) (VSlice ws)"
| perm_map: "list_all2 (rel_prod (=) gv_perm) kvs kvs' \<Longrightarrow> mset kvs' = mset kvs'' \<Longrightarrow>
     gv_perm (VMap kvs) (VMap kvs'')"

lemma gv_perm_isNilValue: "gv_perm v w \<Longrightarrow> isNilValue v = isNilValue w"
  by (induction rule: gv_perm.induct) simp_all

definition keptEntries :: "(string \<Rightarrow> string) \<Rightarrow> bool \<Rightarrow> (string \<times> goval) list \<Rightarrow> (string \<times> goval) list" where
  "keptEntries nfc strip kvs =
     filter (\<lambda>kv. \<not> (strip \<and> isNilValue (snd kv))) (map (\<lambda>kv. (nfc (fst kv), snd kv)) kvs)"

lemma collectEntries_eq:
  "collectEntries nfc strip seen kvs =
     (if distinct (map (nfc \<circ> fst) kvs) \<and> set (map (nfc \<circ> fst) kvs) \<inter> set seen = {}
      then Inr (keptEntries nfc strip kvs) else Inl ErrKeyCollision)"
proof (induction kvs arbitrary: seen)
  case Nil
  then show ?case by (simp add: keptEntries_def)
next
  case (Cons kv kvs)
  obtain k v where "kv = (k, v)" by (cases kv)
  then show ?case
    using Cons.IH [of "nfc k # seen"] by (auto simp: keptEntries_def Let_def) (force simp: disjoint_iff image_iff)+
qed

lemma keptEntries_keys:
  "distinct (map (nfc \<circ> fst) kvs) \<Longrightarrow> distinct (map fst (keptEntries nfc strip kvs))"
  unfolding keptEntries_def by (rule distinct_map_filter) (simp add: comp_def)

lemma keptEntries_sorted_perm:
  assumes "mset kvs = mset kvs'" and "distinct (map (nfc \<circ> fst) kvs)"
  shows "sort_key fst (keptEntries nfc strip kvs) = sort_key fst (keptEntries nfc strip kvs')"
proof (rule sort_key_inj_key_eq)
  show "mset (keptEntries nfc strip kvs) = mset (sort_key fst (keptEntries nfc strip kvs'))"
    using assms(1) by (simp add: keptEntries_def)
  show "inj_on fst (set (keptEntries nfc strip kvs))"
    using keptEntries_keys [OF assms(2)] by (simp add: distinct_map)
qed simp

lemma distinct_perm: "mset xs = mset ys \<Longrightarrow> distinct (map f xs) = distinct (map f ys)"
  by (metis mset_eq_imp_distinct_iff mset_map)

lemma insort_key_rel:
  "list_all2 (rel_prod (=) R) xs ys \<Longrightarrow> rel_prod (=) R x y \<Longrightarrow>
   list_all2 (rel_prod (=) R) (insort_key fst x xs) (insort_key fst y ys)"
  by (induction rule: list_all2_induct) (auto elim!: rel_prod.cases)

lemma sort_key_rel:
  "list_all2 (rel_prod (=) R) xs ys \<Longrightarrow>
   list_all2 (rel_prod (=) R) (sort_key fst xs) (sort_key fst ys)"
  by (induction rule: list_all2_induct) (auto simp: sort_key_def intro: insort_key_rel)

lemma keptEntries_rel:
  assumes "list_all2 (rel_prod (=) R) kvs kvs'"
    and "\<And>v w. R v w \<Longrightarrow> isNilValue v = isNilValue w"
  shows "list_all2 (rel_prod (=) R) (keptEntries nfc strip kvs) (keptEntries nfc strip kvs')"
  using assms(1)
  by (induction rule: list_all2_induct)
    (auto simp: keptEntries_def rel_prod_sel dest: assms(2))

lemma rel_keys: "list_all2 (rel_prod (=) R) kvs kvs' \<Longrightarrow> map fst kvs = map fst kvs'"
  by (induction rule: list_all2_induct) (auto simp: rel_prod_sel)

lemma res_mapM_rel:
  "list_all2 R xs ys \<Longrightarrow> (\<And>x y. R x y \<Longrightarrow> f x = f y) \<Longrightarrow> res_mapM f xs = res_mapM f ys"
  by (induction rule: list_all2_induct) auto

lemma writeValue_deref:
  assumes "gv_perm v w" and "writeValue nfc strip v = writeValue nfc strip w"
  shows "writeValue nfc strip (deref v) = writeValue nfc strip (deref w)"
  using assms by (cases rule: gv_perm.cases) simp_all

theorem writeValue_perm: "gv_perm v w \<Longrightarrow> writeValue nfc strip v = writeValue nfc strip w"
proof (induction rule: gv_perm.induct)
  case (perm_refl v)
  show ?case ..
next
  case (perm_ptr v w)
  then show ?case using writeValue_deref [OF perm_ptr] by simp
next
  case (perm_slice vs ws)
  then have "res_mapM (writeValue nfc strip) vs = res_mapM (writeValue nfc strip) ws"
    by (auto intro!: res_mapM_rel)
  then show ?case by simp
next
  case (perm_map kvs kvs' kvs'')
  let ?R = "\<lambda>v w. gv_perm v w \<and> writeValue nfc strip v = writeValue nfc strip w"
  have R: "list_all2 (rel_prod (=) ?R) kvs kvs'"
    using perm_map.IH by (rule list.rel_mono_strong) (auto simp: rel_prod_sel)
  have keys: "map (nfc \<circ> fst) kvs = map (nfc \<circ> fst) kvs'"
    using rel_keys [OF R] by (metis map_map)
  have dist: "distinct (map (nfc \<circ> fst) kvs) = distinct (map (nfc \<circ> fst) kvs'')"
    unfolding keys using perm_map.hyps by (rule distinct_perm)
  show ?case
  proof (cases "distinct (map (nfc \<circ> fst) kvs)")
    case True
    let ?w = "\<lambda>kv. res_bind (writeValue nfc strip (snd kv))
                (\<lambda>t. Inr (writeString nfc (fst kv) @ CHR '':'' # t))"
    have "list_all2 (rel_prod (=) ?R) (keptEntries nfc strip kvs) (keptEntries nfc strip kvs')"
      using R by (rule keptEntries_rel) (auto dest: gv_perm_isNilValue)
    then have "res_mapM ?w (sort_key fst (keptEntries nfc strip kvs))
        = res_mapM ?w (sort_key fst (keptEntries nfc strip kvs'))"
      by (intro res_mapM_rel [OF sort_key_rel]) (auto simp: rel_prod_sel)
    also have "sort_key fst (keptEntries nfc strip kvs') = sort_key fst (keptEntries nfc strip kvs'')"
      using perm_map.hyps True by (intro keptEntries_sorted_perm) (simp_all only: keys)
    finally show ?thesis using True dist by (simp add: collectEntries_eq)
  next
    case False
    then show ?thesis using dist by (simp add: collectEntries_eq)
  qed
qed

section \<open>The bytes are the rendering of a tree\<close>

text \<open>The JSON tree a value stands for: keys normalised, sorted, nil entries dropped.\<close>

function (sequential) canon_tree :: "(string \<Rightarrow> string) \<Rightarrow> goval \<Rightarrow> jval res" where
  "canon_tree nfc (VNumber n) =
     (if stringsHasFloat n then Inl ErrFloatNotAllowed
      else case parse_int64 n of None \<Rightarrow> Inl ErrFloatNotAllowed | Some v \<Rightarrow> Inr (JNum (show_int v)))"
| "canon_tree nfc (VPtr v) = canon_tree nfc (deref v)"
| "canon_tree nfc (VStr s) = Inr (JStr (nfc s))"
| "canon_tree nfc (VBool b) = Inr (JBool b)"
| "canon_tree nfc (VInt i) = Inr (JNum (show_int i))"
| "canon_tree nfc (VUint n) = Inr (JNum (show_int (int n)))"
| "canon_tree nfc (VFloat f) = Inl ErrFloatNotAllowed"
| "canon_tree nfc VIntMap = Inl ErrNonStringMapKey"
| "canon_tree nfc VNilMap = Inr (JObj [])"
| "canon_tree nfc (VMap kvs) =
     (if distinct (map (nfc \<circ> fst) kvs) then
        res_bind
          (res_mapM (\<lambda>kv. res_bind (canon_tree nfc (snd kv)) (\<lambda>t. Inr (nfc (fst kv), t)))
            (sort_key fst (keptEntries nfc True kvs)))
          (\<lambda>ms. Inr (JObj ms))
      else Inl ErrKeyCollision)"
| "canon_tree nfc (VSlice vs) = res_bind (res_mapM (canon_tree nfc) vs) (\<lambda>ts. Inr (JArr ts))"
| "canon_tree nfc VOther = Inl ErrUnsupportedType"
| "canon_tree nfc _ = Inr JNull"
  by pat_completeness auto
termination
proof (relation "measure (\<lambda>(nfc, v). size v)", goal_cases)
  case 1
  show ?case by simp
next
  case (2 nfc v)
  show ?case using size_deref [of v] by simp
next
  case (3 nfc kvs kv)
  then have "snd kv \<in> snd ` set kvs" by (force simp: keptEntries_def)
  from size_map_entry [OF this] show ?case by simp
next
  case (4 nfc vs v)
  then have "size v \<le> size_list size vs" by (intro size_list_estimation') auto
  then show ?case by simp
qed

lemma res_mapM_factor:
  assumes "\<And>x. x \<in> set xs \<Longrightarrow> f x = res_bind (g x) (\<lambda>y. Inr (h y))"
  shows "res_mapM f xs = res_bind (res_mapM g xs) (\<lambda>ys. Inr (map h ys))"
  using assms
proof (induction xs)
  case Nil
  then show ?case by simp
next
  case (Cons x xs)
  then show ?case by (cases "g x"; cases "res_mapM g xs") simp_all
qed

text \<open>
  What the development relies on of Unicode normalisation form C: it is idempotent and leaves
  ASCII strings alone (UAX 15).
\<close>

definition nfc_laws :: "(string \<Rightarrow> string) \<Rightarrow> bool" where
  "nfc_laws nfc \<longleftrightarrow> (\<forall>s. nfc (nfc s) = nfc s) \<and> (\<forall>s. ascii s \<longrightarrow> nfc s = s)"

lemma nfc_laws_id [simp]: "nfc_laws (\<lambda>s. s)"
  by (simp add: nfc_laws_def)

lemma nfc_idem: "nfc_laws nfc \<Longrightarrow> nfc (nfc s) = nfc s"
  by (simp add: nfc_laws_def)

lemma nfc_ascii: "nfc_laws nfc \<Longrightarrow> ascii s \<Longrightarrow> nfc s = s"
  by (simp add: nfc_laws_def)

lemma keptEntries_key_nfc:
  "kv \<in> set (sort_key fst (keptEntries nfc strip kvs)) \<Longrightarrow> \<exists>k. fst kv = nfc k"
  by (auto simp: keptEntries_def)

theorem writeValue_canon_tree:
  assumes "nfc_laws nfc"
  shows "writeValue nfc True v = res_bind (canon_tree nfc v) (\<lambda>t. Inr (json_print t))"
  using assms
proof (induction nfc v rule: canon_tree.induct)
  case (10 nfc kvs)
  let ?g = "\<lambda>kv. res_bind (canon_tree nfc (snd kv)) (\<lambda>t. Inr (nfc (fst kv), t))"
  let ?h = "\<lambda>(k, t). json_quote k @ CHR '':'' # json_print t"
  show ?case
  proof (cases "distinct (map (nfc \<circ> fst) kvs)")
    case True
    have "res_mapM (\<lambda>kv. res_bind (writeValue nfc True (snd kv))
             (\<lambda>t. Inr (writeString nfc (fst kv) @ CHR '':'' # t)))
           (sort_key fst (keptEntries nfc True kvs))
         = res_bind (res_mapM ?g (sort_key fst (keptEntries nfc True kvs))) (\<lambda>ys. Inr (map ?h ys))"
    proof (rule res_mapM_factor)
      fix kv
      assume kv: "kv \<in> set (sort_key fst (keptEntries nfc True kvs))"
      have "writeValue nfc True (snd kv) = res_bind (canon_tree nfc (snd kv)) (\<lambda>t. Inr (json_print t))"
        using "10.IH" [OF True kv "10.prems"] .
      then show "res_bind (writeValue nfc True (snd kv))
              (\<lambda>t. Inr (writeString nfc (fst kv) @ CHR '':'' # t))
            = res_bind (?g kv) (\<lambda>y. Inr (?h y))"
        by (cases "canon_tree nfc (snd kv)") (simp_all add: writeString_def)
    qed
    then show ?thesis
      using True by (simp add: collectEntries_eq)
        (cases "res_mapM ?g (sort_key fst (keptEntries nfc True kvs))"; simp)
  next
    case False
    then show ?thesis by (simp add: collectEntries_eq)
  qed
next
  case (11 nfc vs)
  then have "res_mapM (writeValue nfc True) vs
      = res_bind (res_mapM (canon_tree nfc) vs) (\<lambda>ys. Inr (map json_print ys))"
    by (intro res_mapM_factor) simp
  then show ?case by (cases "res_mapM (canon_tree nfc) vs") simp_all
qed (simp_all add: writeString_def writeJSONNumber_def split: option.splits)

lemma canon_tree_ints: "canon_tree nfc v = Inr t \<Longrightarrow> json_numbers t"
proof (induction nfc v arbitrary: t rule: canon_tree.induct)
  case (10 nfc kvs)
  then obtain ms where d: "distinct (map (nfc \<circ> fst) kvs)" and t: "t = JObj ms"
    and ms: "res_mapM (\<lambda>kv. res_bind (canon_tree nfc (snd kv)) (\<lambda>t. Inr (nfc (fst kv), t)))
      (sort_key fst (keptEntries nfc True kvs)) = Inr ms"
    by (auto simp: res_bind_Inr_iff split: if_splits)
  have "json_numbers (snd m)" if "m \<in> set ms" for m
  proof -
    from res_mapM_in [OF ms that] obtain kv where
      kv: "kv \<in> set (sort_key fst (keptEntries nfc True kvs))" and "canon_tree nfc (snd kv) = Inr (snd m)"
      by (auto simp: res_bind_Inr_iff)
    with "10.IH" [OF d kv] show ?thesis by blast
  qed
  then show ?case by (simp add: t)
next
  case (11 nfc vs)
  then obtain ts where t: "t = JArr ts" and ts: "res_mapM (canon_tree nfc) vs = Inr ts"
    by (auto simp: res_bind_Inr_iff)
  with res_mapM_in [OF ts] "11.IH" show ?case by fastforce
qed (auto split: option.splits if_splits)

theorem Canonicalize_parse:
  assumes "nfc_laws nfc" and "Canonicalize nfc v = Inr b"
  shows "\<exists>t. canon_tree nfc v = Inr t \<and> json_parse b = Some (json_sanitize t)"
proof -
  from assms obtain t where t: "canon_tree nfc v = Inr t" "b = json_print t"
    by (auto simp: Canonicalize_def writeValue_canon_tree res_bind_Inr_iff)
  with json_parse_print [OF canon_tree_ints [OF t(1)], of True] show ?thesis by simp
qed

theorem Canonicalize_inj:
  assumes "nfc_laws nfc" and "Canonicalize nfc v = Inr b" and "Canonicalize nfc w = Inr b"
  shows "\<exists>t u. canon_tree nfc v = Inr t \<and> canon_tree nfc w = Inr u \<and> json_sanitize t = json_sanitize u"
  using Canonicalize_parse [OF assms(1,2)] Canonicalize_parse [OF assms(1,3)] by auto

end
