(* ===== verification/Crypto.thy ===== *)
theory Crypto
  imports Go_Base64 Canonical
begin

text \<open>
  \<open>internal/crypto/sign.go\<close>, \<open>keys.go\<close> and \<open>ed25519_files.go\<close>: digests, Ed25519 signing
  and verification with their length checks, and the key file loader.  SHA-256 and the Ed25519
  group operations are parameters (\<open>prims\<close>); what is documented of them is \<open>prims_laws\<close>.
  The layout of an Ed25519 key (seed, then public key) is Go's and is written out.
\<close>

record prims =
  pr_sha256 :: "string \<Rightarrow> string"
  pr_edpub :: "string \<Rightarrow> string"
  pr_edsign :: "string \<Rightarrow> string \<Rightarrow> string"
  pr_edverify :: "string \<Rightarrow> string \<Rightarrow> string \<Rightarrow> bool"

definition prims_laws :: "prims \<Rightarrow> bool" where
  "prims_laws p \<longleftrightarrow>
     (\<forall>m. length (pr_sha256 p m) = 32) \<and>
     (\<forall>seed. length seed = 32 \<longrightarrow> length (pr_edpub p seed) = 32) \<and>
     (\<forall>seed m. length seed = 32 \<longrightarrow>
        pr_edverify p (pr_edpub p seed) m (pr_edsign p (seed @ pr_edpub p seed) m))"

text \<open>A concrete instance, for the witnesses: a length-preserving checksum that pads to 32 bytes.\<close>

definition toy_prims :: prims where
  "toy_prims =
     \<lparr>pr_sha256 = (\<lambda>m. take 32 (m @ replicate 32 (CHR 0x00))),
      pr_edpub = (\<lambda>s. s),
      pr_edsign = (\<lambda>k m. drop 32 k @ m),
      pr_edverify = (\<lambda>pub m sg. sg = pub @ m)\<rparr>"

lemma prims_laws_toy [simp]: "prims_laws toy_prims"
  by (simp add: prims_laws_def toy_prims_def min_def)

lemma length_sha256: "prims_laws p \<Longrightarrow> length (pr_sha256 p m) = 32"
  by (simp add: prims_laws_def)

section \<open>internal/crypto/sign.go\<close>

definition DigestBytes :: "prims \<Rightarrow> string \<Rightarrow> string" where
  "DigestBytes p d = pr_sha256 p d"

definition DigestHex :: "prims \<Rightarrow> string \<Rightarrow> string" where
  "DigestHex p d = hex_encode (pr_sha256 p d)"

definition DigestWithPrefix :: "prims \<Rightarrow> string \<Rightarrow> string" where
  "DigestWithPrefix p d = ''sha256:'' @ DigestHex p d"

text \<open>\<open>ed25519.Sign\<close> and \<open>ed25519.Verify\<close> panic on a key of the wrong length.\<close>

definition SignEd25519 :: "prims \<Rightarrow> string \<Rightarrow> string \<Rightarrow> string res" where
  "SignEd25519 p privateKey digest =
    (if length digest \<noteq> 32 then Inl ErrInvalidDigestLen
     else if length privateKey \<noteq> 64 then Inl (GoPanic ''ed25519: bad private key length'')
     else Inr (pr_edsign p privateKey digest))"

definition VerifyEd25519 :: "prims \<Rightarrow> string \<Rightarrow> string \<Rightarrow> string \<Rightarrow> bool res" where
  "VerifyEd25519 p publicKey digest sig =
    (if length digest \<noteq> 32 then Inl ErrInvalidDigestLen
     else if length publicKey \<noteq> 32 then Inl (GoPanic ''ed25519: bad public key length'')
     else Inr (pr_edverify p publicKey digest sig))"

text \<open>\<open>ed25519.NewKeyFromSeed\<close> and \<open>PrivateKey.Public\<close>.\<close>

definition NewKeyFromSeed :: "prims \<Rightarrow> string \<Rightarrow> string" where
  "NewKeyFromSeed p seed = seed @ pr_edpub p seed"

definition PublicOf :: "string \<Rightarrow> string" where
  "PublicOf priv = drop 32 priv"

section \<open>internal/crypto/keys.go\<close>

definition KeyPairFromSeed :: "prims \<Rightarrow> string \<Rightarrow> (string \<times> string) res" where
  "KeyPairFromSeed p seed =
    (if length seed \<noteq> 32 then Inl ErrInvalidSeedSize
     else let priv = NewKeyFromSeed p seed in Inr (priv, PublicOf priv))"

section \<open>internal/crypto/ed25519\_files.go\<close>

definition decodeBytes :: "string \<Rightarrow> string res" where
  "decodeBytes raw =
    (let trim = trim_space raw
     in if trim = [] then Inl (Errorf ''empty key file'')
        else if has_prefix trim ''base64:'' then base64_decode (trim_prefix trim ''base64:'')
        else if has_prefix trim ''hex:'' then hex_decode (trim_prefix trim ''hex:'')
        else if length raw = 64 \<or> length raw = 32 then Inr raw
        else case hex_decode trim of Inr out \<Rightarrow> Inr out
        | Inl _ \<Rightarrow>
          (case base64_decode trim of Inr out \<Rightarrow> Inr out
           | Inl _ \<Rightarrow>
             (case base64_rawurl_decode trim of Inr out \<Rightarrow> Inr out
              | Inl _ \<Rightarrow> Inl (Errorf ''unrecognized key encoding''))))"

text \<open>\<open>file\<close> is what \<open>os.ReadFile\<close> returns for the path.\<close>

definition LoadEd25519PrivateKey :: "prims \<Rightarrow> string res \<Rightarrow> (string \<times> string) res" where
  "LoadEd25519PrivateKey p file =
    res_bind file (\<lambda>raw. res_bind (decodeBytes raw) (\<lambda>data.
      if length data = 64 then Inr (data, PublicOf data)
      else if length data = 32 then
        (let priv = NewKeyFromSeed p data in Inr (priv, PublicOf priv))
      else Inl (Errorf (''unsupported private key length: '' @ show_int (int (length data))))))"

section \<open>Facts\<close>

lemma DigestWithPrefix_inj:
  "DigestWithPrefix p a = DigestWithPrefix p b \<longleftrightarrow> pr_sha256 p a = pr_sha256 p b"
  by (simp add: DigestWithPrefix_def DigestHex_def hex_encode_inj)

lemma DigestWithPrefix_nonempty [simp]: "DigestWithPrefix p a \<noteq> []"
  by (simp add: DigestWithPrefix_def)

lemma length_DigestWithPrefix: "prims_laws p \<Longrightarrow> length (DigestWithPrefix p a) = 71"
  by (simp add: DigestWithPrefix_def DigestHex_def length_sha256)

theorem sign_verify:
  assumes "prims_laws p" and "KeyPairFromSeed p seed = Inr (priv, pub)" and "length m = 32"
  shows "\<exists>sig. SignEd25519 p priv m = Inr sig \<and> VerifyEd25519 p pub m sig = Inr True"
  using assms
  by (auto simp: KeyPairFromSeed_def SignEd25519_def VerifyEd25519_def NewKeyFromSeed_def
      PublicOf_def prims_laws_def Let_def split: if_splits)

lemma hex_encode_hd_last:
  assumes "s \<noteq> []"
  shows "hex_encode s \<noteq> []" "graphic (hd (hex_encode s))" "graphic (last (hex_encode s))"
proof -
  show ne: "hex_encode s \<noteq> []" using assms by (cases s) simp_all
  with hex_encode_graphic [of s] show "graphic (hd (hex_encode s))" "graphic (last (hex_encode s))"
    by (simp_all add: list_all_iff)
qed

text \<open>Hexadecimal text starts with neither of the two prefixes.\<close>

lemma hex_digit_not:
  assumes "d < 16"
  shows "hex_digit d \<noteq> CHR ''h''" "hex_digit d \<noteq> CHR ''s''"
  using hex_val_hex_digit [OF assms] by (auto simp: hex_val_def)

lemma hex_encode_no_prefix:
  "\<not> has_prefix (hex_encode s) ''hex:''" "\<not> has_prefix (hex_encode s) ''base64:''"
proof -
  have c: "c \<in> set (hex_encode s) \<Longrightarrow> c \<noteq> CHR ''h'' \<and> c \<noteq> CHR ''s''" for c
    by (induction s) (auto simp: hex_digit_not char_div_mod)
  show "\<not> has_prefix (hex_encode s) ''hex:''"
    using c [of "CHR ''h''"] by (auto simp: has_prefix_iff)
  show "\<not> has_prefix (hex_encode s) ''base64:''"
    using c [of "CHR ''s''"] by (auto simp: has_prefix_iff)
qed

text \<open>
  A bare hexadecimal seed: with a trailing newline it is decoded, without one the text has the
  length of a raw private key and is taken as that key.
\<close>

lemma decodeBytes_hex_newline:
  assumes "length seed = 32"
  shows "decodeBytes (hex_encode seed @ [CHR 0x0A]) = Inr seed"
proof -
  from assms have "seed \<noteq> []" by auto
  note h = hex_encode_hd_last [OF this]
  show ?thesis
    using trim_space_newline [OF h] h(1) hex_encode_no_prefix [of seed] assms
    by (simp add: decodeBytes_def)
qed

lemma decodeBytes_hex_bare:
  assumes "length seed = 32"
  shows "decodeBytes (hex_encode seed) = Inr (hex_encode seed)"
proof -
  from assms have "seed \<noteq> []" by auto
  note h = hex_encode_hd_last [OF this]
  show ?thesis
    using trim_space_graphic [OF h] h(1) hex_encode_no_prefix [of seed] assms
    by (simp add: decodeBytes_def)
qed

end
