(* ===== verification/Slack_Handler.thy ===== *)
theory Slack_Handler
  imports Go_Http Go_Decode Go_Time Crypto
begin

unbundle bit_operations_syntax

text \<open>
  \<open>internal/slack/verify.go\<close> and \<open>internal/slack/handler.go\<close>: the endpoint that receives the
  button presses of Slack, checks their signature and decides an approval.
\<close>

section \<open>Time and HMAC\<close>

text \<open>
  \<open>time.Unix\<close> keeps the seconds since year 1 in an \<open>int64\<close>; \<open>t.Sub(u)\<close> is cut at the range of a
  \<open>Duration\<close>.
\<close>

definition time_Unix :: "int \<Rightarrow> int" where
  "time_Unix sec = 1000000000 * (sint (word_of_int (sec + epoch_seconds) :: 64 word) - epoch_seconds)"

definition time_Sub :: "int \<Rightarrow> int \<Rightarrow> duration" where
  "time_Sub t u = word_of_int (max (- (2 ^ 63)) (min (2 ^ 63 - 1) (t - u)))"

lemma sint_word64:
  "- (2 ^ 63) \<le> k \<Longrightarrow> k < 2 ^ 63 \<Longrightarrow> sint (word_of_int k :: 64 word) = k"
  "2 ^ 63 \<le> k \<Longrightarrow> k < 2 ^ 64 \<Longrightarrow> sint (word_of_int k :: 64 word) = k - 2 ^ 64"
proof -
  have shift: "sint (word_of_int k :: 64 word) = (k + 2 ^ 63) mod 2 ^ 64 - 2 ^ 63"
    by (simp add: sint_sbintrunc' signed_take_bit_eq_take_bit_shift take_bit_eq_mod)
  {
    assume "- (2 ^ 63) \<le> k" and "k < 2 ^ 63"
    then have "(k + 2 ^ 63) mod 2 ^ 64 = k + 2 ^ 63" by (intro mod_pos_pos_trivial) auto
    with shift show "sint (word_of_int k :: 64 word) = k" by simp
  next
    assume "2 ^ 63 \<le> k" and "k < 2 ^ 64"
    then have "(k + 2 ^ 63 - 2 ^ 64) mod 2 ^ 64 = k + 2 ^ 63 - 2 ^ 64" by (intro mod_pos_pos_trivial) auto
    then have "(k + 2 ^ 63) mod 2 ^ 64 = k + 2 ^ 63 - 2 ^ 64" by (metis minus_mod_self2)
    with shift show "sint (word_of_int k :: 64 word) = k - 2 ^ 64" by linarith
  }
qed

lemma sint_time_Sub: "sint (time_Sub t u) = max (- (2 ^ 63)) (min (2 ^ 63 - 1) (t - u))"
  unfolding time_Sub_def by (rule sint_word64) auto

lemma time_Unix_exact:
  assumes "- (2 ^ 63) \<le> sec + epoch_seconds" and "sec + epoch_seconds < 2 ^ 63"
  shows "time_Unix sec = 1000000000 * sec"
  unfolding time_Unix_def sint_word64(1) [OF assms] by simp

text \<open>\<open>hmac.New(sha256.New, key)\<close> on one message; the block of SHA-256 has 64 bytes.\<close>

definition xor_bytes :: "nat \<Rightarrow> string \<Rightarrow> string" where
  "xor_bytes b s = map (\<lambda>c. char_of ((of_char c :: nat) XOR b)) s"

definition hmac_sha256 :: "prims \<Rightarrow> string \<Rightarrow> string \<Rightarrow> string" where
  "hmac_sha256 pr key msg =
    (let k = (if length key > 64 then pr_sha256 pr key else key);
         block = k @ replicate (64 - length k) (CHR 0x00)
     in pr_sha256 pr (xor_bytes 0x5C block @ pr_sha256 pr (xor_bytes 0x36 block @ msg)))"

section \<open>internal/slack/verify.go\<close>

text \<open>What Slack signs, and the signature it sends.\<close>

definition slackSignature :: "prims \<Rightarrow> string \<Rightarrow> string \<Rightarrow> string \<Rightarrow> string" where
  "slackSignature pr secret timestamp body =
    ''v0='' @ hex_encode (hmac_sha256 pr secret (''v0:'' @ timestamp @ '':'' @ body))"

definition VerifySignature ::
  "prims \<Rightarrow> string \<Rightarrow> string \<Rightarrow> string \<Rightarrow> string \<Rightarrow> int \<Rightarrow> unit res"
where
  "VerifySignature pr signingSecret signature timestamp body now =
    (if signature = [] \<or> timestamp = [] then Inl ErrMissingSignature
     else case parse_int64 timestamp of
       None \<Rightarrow> Inl ErrInvalidSignature
     | Some ts \<Rightarrow>
         let requestTime = time_Unix ts
         in if sint (time_Sub now requestTime) > sint (5 * minute) \<or>
               sint (time_Sub requestTime now) > sint (5 * minute)
            then Inl ErrStaleTimestamp
            else if slackSignature pr signingSecret timestamp body \<noteq> signature
            then Inl ErrInvalidSignature else Inr ())"

section \<open>internal/slack/handler.go\<close>

record slack_action =
  sa_ActionID :: string
  sa_Value :: string

definition zero_action :: slack_action where
  "zero_action = \<lparr>sa_ActionID = [], sa_Value = []\<rparr>"

definition decodeAction :: "(string \<times> jval) list \<Rightarrow> slack_action \<Rightarrow> slack_action option" where
  "decodeAction ms a =
    Option.bind (string_field ''action_id'' ms (sa_ActionID a)) (\<lambda>i.
    Option.bind (string_field ''value'' ms (sa_Value a)) (\<lambda>v.
      Some \<lparr>sa_ActionID = i, sa_Value = v\<rparr>))"

text \<open>\<open>slackPayload\<close> has one field, so a payload is its list of actions.\<close>

definition decodePayload :: "(string \<times> jval) list \<Rightarrow> slack_action list \<Rightarrow> slack_action list option" where
  "decodePayload ms old = slice_field ''actions'' decodeAction zero_action ms"

definition parsePayload :: "string \<Rightarrow> slack_action list res" where
  "parsePayload body =
    res_bind (ParseQuery body) (\<lambda>values.
      let payloadStr = values_get values ''payload''
      in if payloadStr = [] then Inl (Errorf ''missing payload'')
         else case unmarshal_struct decodePayload [] payloadStr of
           None \<Rightarrow> Inl (Errorf ''invalid payload'')
         | Some actions \<Rightarrow>
             if actions = [] then Inl (Errorf ''missing actions'') else Inr actions)"

definition parseAction :: "slack_action list \<Rightarrow> (string \<times> string) res" where
  "parseAction payload =
    (let action = hd payload
     in if sa_ActionID action \<noteq> [] then Inr (sa_Value action, sa_ActionID action)
        else if sa_Value action = [] then Inl (Errorf ''missing action value'')
        else case split2 (CHR '':'') (sa_Value action) of
          [p0, p1] \<Rightarrow> Inr (p1, p0)
        | _ \<Rightarrow> Inl (Errorf ''invalid action value''))"

text \<open>\<open>ih_Approver\<close> is nil, or the \<open>Approve\<close> of the service.\<close>

record 's interaction_handler =
  ih_SigningSecret :: string
  ih_Approver :: "(string \<Rightarrow> string \<Rightarrow> string \<Rightarrow> ('s, string) tx) option"

text \<open>The decision an action asks for.\<close>

definition actionStatus :: "string \<Rightarrow> string" where
  "actionStatus action = (if action = ''approve'' then ''approved'' else ''denied'')"

text \<open>The part after the signature check: \<open>now\<close> is the clock when the approval is made.\<close>

definition applyInteraction ::
  "(string \<Rightarrow> string \<Rightarrow> string \<Rightarrow> ('s, string) tx) \<Rightarrow> string \<Rightarrow> int \<Rightarrow> 's \<Rightarrow> int \<times> 's"
where
  "applyInteraction approver body now s =
    (case parsePayload body of
       Inl _ \<Rightarrow> (400, s)
     | Inr payload \<Rightarrow>
         (case parseAction payload of
            Inl _ \<Rightarrow> (400, s)
          | Inr (approvalID, action) \<Rightarrow>
              (case approver approvalID (actionStatus action) (rfc3339 now) s of
                 (Inl _, s') \<Rightarrow> (500, s')
               | (Inr _, s') \<Rightarrow> (200, s'))))"

text \<open>\<open>now1\<close> and \<open>now2\<close> are what the clock gives the two times it is read; the result is the status.\<close>

definition HandleInteractions ::
  "prims \<Rightarrow> 's interaction_handler \<Rightarrow> int \<Rightarrow> int \<Rightarrow> http_request \<Rightarrow> 's \<Rightarrow> int \<times> 's"
where
  "HandleInteractions pr h now1 now2 r s =
    (case ih_Approver h of
       None \<Rightarrow> (501, s)
     | Some approver \<Rightarrow>
         (case hq_Body r of
            Inl _ \<Rightarrow> (400, s)
          | Inr body \<Rightarrow>
              (case (if ih_SigningSecret h \<noteq> []
                     then VerifySignature pr (ih_SigningSecret h) (hq_Header r ''X-Slack-Signature'')
                            (hq_Header r ''X-Slack-Request-Timestamp'') body now1
                     else Inr ()) of
                 Inl _ \<Rightarrow> (401, s)
               | Inr _ \<Rightarrow> applyInteraction approver body now2 s)))"

section \<open>Facts\<close>

lemma VerifySignature_Inr:
  assumes "VerifySignature pr secret sig timestamp body now = Inr u"
  shows "\<exists>ts. parse_int64 timestamp = Some ts \<and> \<bar>now - time_Unix ts\<bar> \<le> 300000000000 \<and>
    sig = slackSignature pr secret timestamp body"
proof -
  have five: "sint (5 * minute :: duration) = 300000000000" by (simp add: minute_def second_def)
  from assms show ?thesis
    by (auto simp: VerifySignature_def Let_def sint_time_Sub five split: if_splits option.splits)
qed

lemma parse_int64_range: "parse_int64 s = Some v \<Longrightarrow> - (2 ^ 63) \<le> v \<and> v < 2 ^ 63"
  by (auto simp: parse_int64_def Let_def split: if_splits)

text \<open>With a clock between the years 1 and 9999 an accepted timestamp has not wrapped around.\<close>

lemma time_Unix_near:
  assumes "- (2 ^ 63) \<le> ts" and "ts < 2 ^ 63" and "\<bar>now - time_Unix ts\<bar> \<le> 300000000000"
    and "- 62135596800000000000 \<le> now" and "now < 253402300800000000000"
  shows "time_Unix ts = 1000000000 * ts"
proof (cases "ts + epoch_seconds < 2 ^ 63")
  case True
  with assms(1) show ?thesis by (intro time_Unix_exact) (simp_all add: epoch_seconds_def)
next
  case False
  then have "sint (word_of_int (ts + epoch_seconds) :: 64 word) = ts + epoch_seconds - 2 ^ 64"
    using assms(2) by (intro sint_word64) (simp_all add: epoch_seconds_def)
  with assms False show ?thesis by (simp add: time_Unix_def epoch_seconds_def)
qed

text \<open>What Slack sends when a button is pressed.\<close>

definition interaction_body :: "string \<Rightarrow> string \<Rightarrow> string" where
  "interaction_body action_id value = ''payload='' @ query_escape (json_print
     (JObj [(''actions'', JArr [JObj [(''action_id'', JStr action_id), (''value'', JStr value)]])]))"

lemma action_names:
  "distinct (map fold_name [''action_id'', ''value''])" "fold_name ''actions'' = ''ACTIONS''"
  "ascii ''action_id''" "ascii ''value''" "ascii ''actions''"
  by code_simp+

lemma parsePayload_interaction:
  "parsePayload (interaction_body action_id value) =
    Inr [\<lparr>sa_ActionID = sanitize action_id, sa_Value = sanitize value\<rparr>]"
proof -
  let ?j = "JObj [(''actions'', JArr [JObj [(''action_id'', JStr action_id), (''value'', JStr value)]])]"
  let ?a = "[(''action_id'', JStr (sanitize action_id)), (''value'', JStr (sanitize value))]"
  have "ParseQuery (interaction_body action_id value) = Inr [(''payload'', json_print ?j)]"
    using ParseQuery_one [of "''payload''" "json_print ?j"] by (simp add: interaction_body_def unreserved_def)
  moreover have "json_parse (json_print ?j) = Some (json_sanitize ?j)" by (rule json_parse_print) simp
  moreover have "json_sanitize ?j = JObj [(''actions'', JArr [JObj ?a])]"
    using action_names by simp
  moreover have "decodeAction ?a zero_action = Some \<lparr>sa_ActionID = sanitize action_id, sa_Value = sanitize value\<rparr>"
    by (simp add: decodeAction_def string_field_member [OF action_names(1)])
  moreover have "json_print ?j \<noteq> []" by simp
  ultimately show ?thesis
    by (simp add: parsePayload_def values_get_def unmarshal_struct_def decodePayload_def slice_field_def
        field_values_def del: json_text.simps json_sanitize.simps)
qed

lemma applyInteraction_pressed:
  assumes "sanitize action_id = action_id" and "action_id \<noteq> []"
  shows "applyInteraction approver (interaction_body action_id value) now s =
    (case approver (sanitize value) (actionStatus action_id) (rfc3339 now) s of
       (Inl _, s') \<Rightarrow> (500, s') | (Inr _, s') \<Rightarrow> (200, s'))"
  using assms by (simp add: applyInteraction_def parsePayload_interaction parseAction_def)

lemma HandleInteractions_cases:
  assumes "HandleInteractions pr h now1 now2 r s = (status, s')" and "ih_SigningSecret h \<noteq> []"
  shows "(s' = s \<and> status \<in> {400, 401, 501}) \<or>
    (\<exists>approver body ts. ih_Approver h = Some approver \<and> hq_Body r = Inr body \<and>
       parse_int64 (hq_Header r ''X-Slack-Request-Timestamp'') = Some ts \<and>
       \<bar>now1 - time_Unix ts\<bar> \<le> 300000000000 \<and>
       hq_Header r ''X-Slack-Signature'' =
         slackSignature pr (ih_SigningSecret h) (hq_Header r ''X-Slack-Request-Timestamp'') body \<and>
       applyInteraction approver body now2 s = (status, s'))"
  using assms
  by (auto simp: HandleInteractions_def split: option.splits sum.splits dest!: VerifySignature_Inr)

end
