(* ===== verification/Ledger_Store.thy ===== *)
theory Ledger_Store
  imports Go_Prelude
begin

text \<open>
  \<open>internal/ledger/store.go\<close>: the ledger records, the \<open>Store\<close>/\<open>Tx\<close> interface as a record of
  operations on a store state, \<open>WithTx\<close>, and the contract the service relies on.  The contract
  is stated against an abstract view (one finite map per table); \<open>Memory_Store\<close> and
  \<open>Sql_Store\<close> interpret it.
\<close>

section \<open>Records\<close>

record policy_version_rec =
  pv_PolicyHash :: string
  pv_PolicyID :: string
  pv_PolicyVersion :: string
  pv_PolicyYAML :: string
  pv_CreatedAt :: string

record key_rec =
  kr_KeyID :: string
  kr_PublicKey :: string
  kr_CreatedAt :: string
  kr_RotatedAt :: "string option"

record slack_outbox_rec =
  so_NotificationID :: string
  so_ApprovalID :: string
  so_Channel :: string
  so_MessageJSON :: string
  so_Status :: string
  so_AttemptCount :: int
  so_NextAttemptAt :: string
  so_LastError :: "string option"
  so_SentAt :: "string option"
  so_CreatedAt :: string
  so_UpdatedAt :: string

record context_rec =
  lc_ContextID :: string
  lc_BodyJSON :: string
  lc_CreatedAt :: string

record decision_rec =
  ld_DecisionID :: string
  ld_ContextID :: string
  ld_PolicyHash :: string
  ld_Verdict :: string
  ld_BodyJSON :: string
  ld_CreatedAt :: string

record receipt_rec =
  lr_ReceiptID :: string
  lr_IdemKey :: string
  lr_CreatedAt :: string
  lr_SupersedesReceiptID :: "string option"
  lr_ContextID :: string
  lr_DecisionID :: string
  lr_PolicyHash :: string
  lr_ApprovalID :: "string option"
  lr_OutcomeStatus :: string
  lr_Final :: bool
  lr_ExpiresAt :: "string option"
  lr_BodyJSON :: string
  lr_BodyDigest :: string
  lr_KeyID :: string
  lr_Sig :: string

record approval_rec =
  la_ApprovalID :: string
  la_IdemKey :: string
  la_Status :: string
  la_SlackChannel :: "string option"
  la_SlackMsgTS :: "string option"
  la_ApprovedBy :: "string option"
  la_ApprovedAt :: "string option"
  la_CreatedAt :: string
  la_UpdatedAt :: string

record idem_rec =
  ik_IdemKey :: string
  ik_Status :: string
  ik_ApprovalID :: "string option"
  ik_LatestReceiptID :: "string option"
  ik_FinalReceiptID :: "string option"
  ik_CreatedAt :: string
  ik_UpdatedAt :: string
  ik_TTLExpiresAt :: "string option"

section \<open>The interface\<close>

text \<open>
  A getter returns \<open>None\<close> where the Go method returns \<open>false\<close>.  \<open>Rollback s s'\<close> is the state
  that remains when a transaction that began in \<open>s\<close> has failed in \<open>s'\<close>.
\<close>

record 's ledger =
  PutKey :: "key_rec \<Rightarrow> 's \<Rightarrow> 's res"
  GetKey :: "string \<Rightarrow> 's \<Rightarrow> key_rec option"
  PutSlackOutbox :: "slack_outbox_rec \<Rightarrow> 's \<Rightarrow> 's res"
  GetSlackOutbox :: "string \<Rightarrow> 's \<Rightarrow> slack_outbox_rec option"
  ListSlackOutboxDue :: "string \<Rightarrow> int \<Rightarrow> 's \<Rightarrow> slack_outbox_rec list res"
  PutPolicyVersion :: "policy_version_rec \<Rightarrow> 's \<Rightarrow> 's res"
  GetPolicyVersion :: "string \<Rightarrow> 's \<Rightarrow> policy_version_rec option"
  PutContext :: "context_rec \<Rightarrow> 's \<Rightarrow> 's res"
  GetContext :: "string \<Rightarrow> 's \<Rightarrow> context_rec option"
  PutDecision :: "decision_rec \<Rightarrow> 's \<Rightarrow> 's res"
  GetDecision :: "string \<Rightarrow> 's \<Rightarrow> decision_rec option"
  PutReceipt :: "receipt_rec \<Rightarrow> 's \<Rightarrow> 's res"
  GetReceipt :: "string \<Rightarrow> 's \<Rightarrow> receipt_rec option"
  PutApproval :: "approval_rec \<Rightarrow> 's \<Rightarrow> 's res"
  GetApproval :: "string \<Rightarrow> 's \<Rightarrow> approval_rec option"
  GetApprovalByIdemKey :: "string \<Rightarrow> 's \<Rightarrow> approval_rec option"
  PutIdempotencyKey :: "idem_rec \<Rightarrow> 's \<Rightarrow> 's res"
  GetIdempotencyKey :: "string \<Rightarrow> 's \<Rightarrow> idem_rec option"
  Rollback :: "'s \<Rightarrow> 's \<Rightarrow> 's"

definition WithTx :: "'s ledger \<Rightarrow> ('s, 'a) tx \<Rightarrow> ('s, 'a) tx" where
  "WithTx L fn s = (case fn s of (Inl e, s') \<Rightarrow> (Inl e, Rollback L s s') | (Inr a, s') \<Rightarrow> (Inr a, s'))"

lemma WithTx_Inr_iff: "WithTx L fn s = (Inr a, s') \<longleftrightarrow> fn s = (Inr a, s')"
  by (auto simp: WithTx_def split: prod.splits sum.splits)

lemma WithTx_Inl_iff:
  "WithTx L fn s = (Inl e, s') \<longleftrightarrow> (\<exists>t. fn s = (Inl e, t) \<and> s' = Rollback L s t)"
  by (auto simp: WithTx_def split: prod.splits sum.splits)

section \<open>The abstract view\<close>

record ledger_view =
  lv_keys :: "string \<rightharpoonup> key_rec"
  lv_outbox :: "string \<rightharpoonup> slack_outbox_rec"
  lv_policies :: "string \<rightharpoonup> policy_version_rec"
  lv_contexts :: "string \<rightharpoonup> context_rec"
  lv_decisions :: "string \<rightharpoonup> decision_rec"
  lv_receipts :: "string \<rightharpoonup> receipt_rec"
  lv_approvals :: "string \<rightharpoonup> approval_rec"
  lv_idem :: "string \<rightharpoonup> idem_rec"

definition empty_view :: ledger_view where
  "empty_view =
     \<lparr>lv_keys = (\<lambda>_. None), lv_outbox = (\<lambda>_. None), lv_policies = (\<lambda>_. None), lv_contexts = (\<lambda>_. None),
      lv_decisions = (\<lambda>_. None), lv_receipts = (\<lambda>_. None), lv_approvals = (\<lambda>_. None), lv_idem = (\<lambda>_. None)\<rparr>"

text \<open>The rows carry the key they are stored under.\<close>

definition well_keyed :: "ledger_view \<Rightarrow> bool" where
  "well_keyed v \<longleftrightarrow>
     (\<forall>k a. lv_approvals v k = Some a \<longrightarrow> la_ApprovalID a = k) \<and>
     (\<forall>k i. lv_idem v k = Some i \<longrightarrow> ik_IdemKey i = k) \<and>
     (\<forall>k r. lv_receipts v k = Some r \<longrightarrow> lr_ReceiptID r = k)"

lemma well_keyed_empty [simp]: "well_keyed empty_view"
  by (simp add: well_keyed_def empty_view_def)

text \<open>
  What a put may leave in the table: a write-once table keeps the old row or takes the new one
  (the stores differ), an approval row takes the new status and keeps or takes the idempotency
  key, an idempotency row takes everything except perhaps its times.  A store may render times and
  JSON documents in its own way, so that the new row is only like the row that was put.
\<close>

named_theorems like_defs "when a stored row is as good as the row that was put"

definition key_like :: "key_rec \<Rightarrow> key_rec \<Rightarrow> bool" where [like_defs]:
  "key_like a r \<longleftrightarrow> kr_KeyID r = kr_KeyID a \<and> kr_PublicKey r = kr_PublicKey a"

definition policy_like :: "policy_version_rec \<Rightarrow> policy_version_rec \<Rightarrow> bool" where [like_defs]:
  "policy_like a r \<longleftrightarrow> r = a\<lparr>pv_CreatedAt := pv_CreatedAt r\<rparr>"

definition context_like :: "context_rec \<Rightarrow> context_rec \<Rightarrow> bool" where [like_defs]:
  "context_like a r \<longleftrightarrow> lc_ContextID r = lc_ContextID a"

definition decision_like :: "decision_rec \<Rightarrow> decision_rec \<Rightarrow> bool" where [like_defs]:
  "decision_like a r \<longleftrightarrow> r = a\<lparr>ld_BodyJSON := ld_BodyJSON r, ld_CreatedAt := ld_CreatedAt r\<rparr>"

definition receipt_like :: "receipt_rec \<Rightarrow> receipt_rec \<Rightarrow> bool" where [like_defs]:
  "receipt_like a r \<longleftrightarrow>
     r = a\<lparr>lr_BodyJSON := lr_BodyJSON r, lr_CreatedAt := lr_CreatedAt r, lr_ExpiresAt := lr_ExpiresAt r\<rparr>"

lemma like_refl [simp]:
  "key_like a a" "policy_like b b" "context_like c c" "decision_like d d" "receipt_like x x"
  by (simp_all add: like_defs)

lemma map_upd_eq_iff [simp]: "f(k \<mapsto> a) = f(k \<mapsto> b) \<longleftrightarrow> a = b"
  by (metis map_upd_Some_unfold)

lemma receipt_like_fields:
  assumes "receipt_like a r"
  shows "lr_ReceiptID r = lr_ReceiptID a" "lr_IdemKey r = lr_IdemKey a" "lr_ContextID r = lr_ContextID a"
    "lr_DecisionID r = lr_DecisionID a" "lr_PolicyHash r = lr_PolicyHash a" "lr_KeyID r = lr_KeyID a"
    "lr_OutcomeStatus r = lr_OutcomeStatus a"
  by (subst assms [unfolded receipt_like_def], simp)+

lemma policy_like_fields:
  assumes "policy_like a r"
  shows "pv_PolicyHash r = pv_PolicyHash a" "pv_PolicyYAML r = pv_PolicyYAML a"
  by (subst assms [unfolded policy_like_def], simp)+

definition kept_or_new :: "('r \<Rightarrow> 'r \<Rightarrow> bool) \<Rightarrow> 'r option \<Rightarrow> 'r \<Rightarrow> 'r \<Rightarrow> bool" where
  "kept_or_new like old new r \<longleftrightarrow> like new r \<or> old = Some r"

definition approval_merge :: "approval_rec option \<Rightarrow> approval_rec \<Rightarrow> approval_rec \<Rightarrow> bool" where
  "approval_merge old new r \<longleftrightarrow>
     la_ApprovalID r = la_ApprovalID new \<and> la_Status r = la_Status new \<and>
     (case old of None \<Rightarrow> la_IdemKey r = la_IdemKey new
      | Some q \<Rightarrow> la_IdemKey r = la_IdemKey new \<or> la_IdemKey r = la_IdemKey q)"

definition idem_merge :: "idem_rec option \<Rightarrow> idem_rec \<Rightarrow> idem_rec \<Rightarrow> bool" where
  "idem_merge old new r \<longleftrightarrow>
     r = new\<lparr>ik_CreatedAt := ik_CreatedAt r, ik_UpdatedAt := ik_UpdatedAt r, ik_TTLExpiresAt := ik_TTLExpiresAt r\<rparr>"

definition outbox_merge :: "slack_outbox_rec option \<Rightarrow> slack_outbox_rec \<Rightarrow> slack_outbox_rec \<Rightarrow> bool" where
  "outbox_merge old new r \<longleftrightarrow>
     so_Status r = so_Status new \<and> so_AttemptCount r = so_AttemptCount new \<and>
     so_NotificationID r = so_NotificationID new \<and>
     (old = None \<longrightarrow> so_ApprovalID r = so_ApprovalID new \<and> so_Channel r = so_Channel new)"

lemma idem_merge_fields:
  "idem_merge old new r \<Longrightarrow> ik_IdemKey r = ik_IdemKey new \<and> ik_Status r = ik_Status new \<and>
     ik_ApprovalID r = ik_ApprovalID new \<and> ik_LatestReceiptID r = ik_LatestReceiptID new \<and>
     ik_FinalReceiptID r = ik_FinalReceiptID new"
  unfolding idem_merge_def by (elim ssubst) simp

section \<open>The contract\<close>

locale ledger_contract =
  fixes L :: "'s ledger" and view :: "'s \<Rightarrow> ledger_view"
  assumes put_key: "PutKey L r s = Inr s' \<Longrightarrow>
      \<exists>r'. kept_or_new key_like (lv_keys (view s) (kr_KeyID r)) r r' \<and>
           view s' = (view s)\<lparr>lv_keys := (lv_keys (view s))(kr_KeyID r \<mapsto> r')\<rparr>"
    and put_outbox: "PutSlackOutbox L o' s = Inr s' \<Longrightarrow>
      \<exists>r'. outbox_merge (lv_outbox (view s) (so_NotificationID o')) o' r' \<and>
           view s' = (view s)\<lparr>lv_outbox := (lv_outbox (view s))(so_NotificationID o' \<mapsto> r')\<rparr>"
    and put_policy: "PutPolicyVersion L p s = Inr s' \<Longrightarrow>
      \<exists>r'. kept_or_new policy_like (lv_policies (view s) (pv_PolicyHash p)) p r' \<and>
           view s' = (view s)\<lparr>lv_policies := (lv_policies (view s))(pv_PolicyHash p \<mapsto> r')\<rparr>"
    and put_context: "PutContext L c s = Inr s' \<Longrightarrow>
      \<exists>r'. kept_or_new context_like (lv_contexts (view s) (lc_ContextID c)) c r' \<and>
           view s' = (view s)\<lparr>lv_contexts := (lv_contexts (view s))(lc_ContextID c \<mapsto> r')\<rparr>"
    and put_decision: "PutDecision L d s = Inr s' \<Longrightarrow>
      \<exists>r'. kept_or_new decision_like (lv_decisions (view s) (ld_DecisionID d)) d r' \<and>
           view s' = (view s)\<lparr>lv_decisions := (lv_decisions (view s))(ld_DecisionID d \<mapsto> r')\<rparr>"
    and put_receipt: "PutReceipt L x s = Inr s' \<Longrightarrow>
      \<exists>r'. kept_or_new receipt_like (lv_receipts (view s) (lr_ReceiptID x)) x r' \<and>
           view s' = (view s)\<lparr>lv_receipts := (lv_receipts (view s))(lr_ReceiptID x \<mapsto> r')\<rparr>"
    and put_approval: "PutApproval L a s = Inr s' \<Longrightarrow>
      \<exists>r'. approval_merge (lv_approvals (view s) (la_ApprovalID a)) a r' \<and>
           view s' = (view s)\<lparr>lv_approvals := (lv_approvals (view s))(la_ApprovalID a \<mapsto> r')\<rparr>"
    and put_idem: "PutIdempotencyKey L i s = Inr s' \<Longrightarrow>
      \<exists>r'. idem_merge (lv_idem (view s) (ik_IdemKey i)) i r' \<and>
           view s' = (view s)\<lparr>lv_idem := (lv_idem (view s))(ik_IdemKey i \<mapsto> r')\<rparr>"
    and get_key: "GetKey L k s = lv_keys (view s) k"
    and get_outbox: "GetSlackOutbox L k s = lv_outbox (view s) k"
    and get_policy: "GetPolicyVersion L k s = lv_policies (view s) k"
    and get_context: "GetContext L k s = lv_contexts (view s) k"
    and get_decision: "GetDecision L k s = lv_decisions (view s) k"
    and get_receipt: "GetReceipt L k s = lv_receipts (view s) k"
    and get_approval: "GetApproval L k s = lv_approvals (view s) k"
    and get_idem: "GetIdempotencyKey L k s = lv_idem (view s) k"
    and get_by_idem: "GetApprovalByIdemKey L k s = Some a \<Longrightarrow>
      la_IdemKey a = k \<and> a \<in> ran (lv_approvals (view s))"
    and get_by_idem_none: "GetApprovalByIdemKey L k s = None \<Longrightarrow>
      \<forall>a \<in> ran (lv_approvals (view s)). la_IdemKey a \<noteq> k"
    and list_due: "ListSlackOutboxDue L now n s = Inr due \<Longrightarrow> o' \<in> set due \<Longrightarrow>
      o' \<in> ran (lv_outbox (view s)) \<and> so_Status o' = ''pending''"
    and rollback: "Rollback L s s' = s \<or> Rollback L s s' = s'"

text \<open>A store that gives receipts back as they were put, and compares times as texts.\<close>

locale exact_ledger = ledger_contract +
  assumes exact_receipt: "PutReceipt L x s = Inr s' \<Longrightarrow>
      lv_receipts (view s') (lr_ReceiptID x) \<in> {Some x, lv_receipts (view s) (lr_ReceiptID x)}"
    and exact_due: "ListSlackOutboxDue L now n s = Inr due \<Longrightarrow> o' \<in> set due \<Longrightarrow> so_NextAttemptAt o' \<le> now"

text \<open>A store whose failed transactions leave no trace.\<close>

locale atomic_ledger = ledger_contract +
  assumes atomic: "Rollback L s s' = s"
begin

lemma failed_tx: "WithTx L fn s = (Inl e, s') \<Longrightarrow> s' = s"
  by (auto simp: WithTx_Inl_iff atomic)

end

end
