(* ===== verification/Slack_Outbox.thy ===== *)
theory Slack_Outbox
  imports Go_Time Go_Struct Ledger_Store
begin

unbundle bit_operations_syntax

text \<open>
  \<open>internal/slack/outbox.go\<close>: the worker that sends due notifications, marks the approval and the
  outbox row, and backs off exponentially when posting fails; with the message type of
  \<open>internal/slack/message.go\<close> that a row carries as JSON.
\<close>

section \<open>internal/slack/message.go: the message\<close>

record approval_message =
  am_ApprovalID :: string
  am_ReceiptID :: string
  am_PolicyHash :: string
  am_ContextID :: string
  am_DecisionID :: string
  am_Action :: string
  am_Resource :: string
  am_Env :: string
  am_Risk :: string
  am_DiffURL :: string
  am_RunURL :: string

definition zero_message :: approval_message where
  "zero_message =
     \<lparr>am_ApprovalID = [], am_ReceiptID = [], am_PolicyHash = [], am_ContextID = [], am_DecisionID = [],
      am_Action = [], am_Resource = [], am_Env = [], am_Risk = [], am_DiffURL = [], am_RunURL = []\<rparr>"

text \<open>\<open>json.Marshal\<close> and \<open>json.Unmarshal\<close> of a message: the Go field names are the keys.\<close>

definition marshalMessage :: "approval_message \<Rightarrow> string" where
  "marshalMessage m = json_print (JObj
     [(''ApprovalID'', JStr (am_ApprovalID m)), (''ReceiptID'', JStr (am_ReceiptID m)),
      (''PolicyHash'', JStr (am_PolicyHash m)), (''ContextID'', JStr (am_ContextID m)),
      (''DecisionID'', JStr (am_DecisionID m)), (''Action'', JStr (am_Action m)),
      (''Resource'', JStr (am_Resource m)), (''Env'', JStr (am_Env m)), (''Risk'', JStr (am_Risk m)),
      (''DiffURL'', JStr (am_DiffURL m)), (''RunURL'', JStr (am_RunURL m))])"

definition decodeMessage :: "(string \<times> jval) list \<Rightarrow> approval_message \<Rightarrow> approval_message option" where
  "decodeMessage ms m =
    Option.bind (string_field ''ApprovalID'' ms (am_ApprovalID m)) (\<lambda>f1.
    Option.bind (string_field ''ReceiptID'' ms (am_ReceiptID m)) (\<lambda>f2.
    Option.bind (string_field ''PolicyHash'' ms (am_PolicyHash m)) (\<lambda>f3.
    Option.bind (string_field ''ContextID'' ms (am_ContextID m)) (\<lambda>f4.
    Option.bind (string_field ''DecisionID'' ms (am_DecisionID m)) (\<lambda>f5.
    Option.bind (string_field ''Action'' ms (am_Action m)) (\<lambda>f6.
    Option.bind (string_field ''Resource'' ms (am_Resource m)) (\<lambda>f7.
    Option.bind (string_field ''Env'' ms (am_Env m)) (\<lambda>f8.
    Option.bind (string_field ''Risk'' ms (am_Risk m)) (\<lambda>f9.
    Option.bind (string_field ''DiffURL'' ms (am_DiffURL m)) (\<lambda>f10.
    Option.bind (string_field ''RunURL'' ms (am_RunURL m)) (\<lambda>f11.
      Some \<lparr>am_ApprovalID = f1, am_ReceiptID = f2, am_PolicyHash = f3, am_ContextID = f4,
            am_DecisionID = f5, am_Action = f6, am_Resource = f7, am_Env = f8, am_Risk = f9,
            am_DiffURL = f10, am_RunURL = f11\<rparr>)))))))))))"

definition unmarshalMessage :: "string \<Rightarrow> approval_message option" where
  "unmarshalMessage body = unmarshal_struct decodeMessage zero_message body"

text \<open>What a message is after the trip through JSON: invalid UTF-8 is replaced.\<close>

definition sanitizeMessage :: "approval_message \<Rightarrow> approval_message" where
  "sanitizeMessage m =
     \<lparr>am_ApprovalID = sanitize (am_ApprovalID m), am_ReceiptID = sanitize (am_ReceiptID m),
      am_PolicyHash = sanitize (am_PolicyHash m), am_ContextID = sanitize (am_ContextID m),
      am_DecisionID = sanitize (am_DecisionID m), am_Action = sanitize (am_Action m),
      am_Resource = sanitize (am_Resource m), am_Env = sanitize (am_Env m),
      am_Risk = sanitize (am_Risk m), am_DiffURL = sanitize (am_DiffURL m),
      am_RunURL = sanitize (am_RunURL m)\<rparr>"

lemma message_names:
  "distinct (map fold_name [''ApprovalID'', ''ReceiptID'', ''PolicyHash'', ''ContextID'', ''DecisionID'',
     ''Action'', ''Resource'', ''Env'', ''Risk'', ''DiffURL'', ''RunURL''])"
  by code_simp

lemma message_roundtrip: "unmarshalMessage (marshalMessage m) = Some (sanitizeMessage m)"
  unfolding unmarshalMessage_def marshalMessage_def unmarshal_struct_def
  by (subst json_parse_print)
    (simp_all add: decodeMessage_def sanitizeMessage_def string_field_member [OF message_names])
section \<open>internal/slack/outbox.go\<close>

text \<open>Shifting an \<open>int64\<close> left drops the high bits; the comparison is signed.\<close>

definition nextAttempt :: "int \<Rightarrow> duration" where
  "nextAttempt attemptCount =
    (let base = 5 * second
     in if attemptCount \<le> 0 then base
        else let d = push_bit (nat attemptCount) base; max = 5 * minute
             in if sint d > sint max then max else d)"

text \<open>
  \<open>post n channel message\<close> is what the poster answers to the call for the \<open>n\<close>-th row, \<open>cancelled n\<close>
  says that the context is done when the loop reaches row \<open>n\<close>, and \<open>errText\<close> is the text of the
  error \<open>json.Unmarshal\<close> gives for a body.
\<close>

record outbox_env =
  ob_post :: "nat \<Rightarrow> string \<Rightarrow> approval_message \<Rightarrow> string res"
  ob_cancelled :: "nat \<Rightarrow> bool"
  ob_errText :: "string \<Rightarrow> string"

definition markSent :: "int \<Rightarrow> slack_outbox_rec \<Rightarrow> slack_outbox_rec" where
  "markSent now rec =
    rec\<lparr>so_Status := ''sent'', so_SentAt := Some (rfc3339 now), so_UpdatedAt := rfc3339 now\<rparr>"

definition failedAttempt :: "int \<Rightarrow> string \<Rightarrow> slack_outbox_rec \<Rightarrow> slack_outbox_rec" where
  "failedAttempt now msg rec =
    rec\<lparr>so_AttemptCount := so_AttemptCount rec + 1,
        so_NextAttemptAt := rfc3339 (time_Add now (nextAttempt (so_AttemptCount rec))),
        so_LastError := Some msg, so_UpdatedAt := rfc3339 now\<rparr>"

definition postedApproval :: "int \<Rightarrow> string \<Rightarrow> string \<Rightarrow> approval_rec \<Rightarrow> approval_rec" where
  "postedApproval now channel msgTS approval =
    approval\<lparr>la_SlackChannel := Some channel, la_SlackMsgTS := Some msgTS, la_UpdatedAt := rfc3339 now\<rparr>"

text \<open>A failed \<open>PutApproval\<close> is ignored.\<close>

definition put_best_effort :: "('s \<Rightarrow> 's res) \<Rightarrow> 's \<Rightarrow> 's" where
  "put_best_effort p s = (case p s of Inl _ \<Rightarrow> s | Inr s' \<Rightarrow> s')"

definition alreadyPosted :: "approval_rec option \<Rightarrow> bool" where
  "alreadyPosted approval =
    (case approval of None \<Rightarrow> False
     | Some a \<Rightarrow> (case la_SlackMsgTS a of None \<Rightarrow> False | Some ts \<Rightarrow> ts \<noteq> []))"

text \<open>
  The loop body for row number \<open>n\<close>.  The approval is read first; the writes follow when the poster
  has answered, so \<open>writeRow\<close> is given the approval as it was read.
\<close>

definition writeRow ::
  "'s ledger \<Rightarrow> outbox_env \<Rightarrow> int \<Rightarrow> nat \<Rightarrow> slack_outbox_rec \<Rightarrow> approval_rec option \<Rightarrow> ('s, unit) tx"
where
  "writeRow L env now n rec approval =
    (if alreadyPosted approval then tx_put (PutSlackOutbox L (markSent now rec))
     else case unmarshalMessage (so_MessageJSON rec) of
       None \<Rightarrow>
         tx_put (PutSlackOutbox L
           (markSent now (rec\<lparr>so_LastError :=
              Some (''invalid message_json: '' @ ob_errText env (so_MessageJSON rec))\<rparr>)))
     | Some input \<Rightarrow>
         (case ob_post env n (so_Channel rec) input of
            Inl e \<Rightarrow> tx_put (PutSlackOutbox L (failedAttempt now (err_msg e) rec))
          | Inr msgTS \<Rightarrow>
              (\<lambda>s. tx_put (PutSlackOutbox L (markSent now rec))
                 (case approval of None \<Rightarrow> s
                  | Some a \<Rightarrow>
                      put_best_effort (PutApproval L (postedApproval now (so_Channel rec) msgTS a)) s))))"

definition processRow ::
  "'s ledger \<Rightarrow> outbox_env \<Rightarrow> int \<Rightarrow> nat \<Rightarrow> slack_outbox_rec \<Rightarrow> ('s, unit) tx"
where
  "processRow L env now n rec =
    tx_bind (tx_get (GetApproval L (so_ApprovalID rec))) (writeRow L env now n rec)"

text \<open>The result is the number of rows processed and the error if any.\<close>

fun processRows ::
  "'s ledger \<Rightarrow> outbox_env \<Rightarrow> int \<Rightarrow> nat \<Rightarrow> int \<Rightarrow> slack_outbox_rec list \<Rightarrow> 's \<Rightarrow>
   (int \<times> goerr option) \<times> 's"
where
  "processRows L env now n processed [] s = ((processed, None), s)"
| "processRows L env now n processed (rec # due) s =
    (if ob_cancelled env n then ((processed, Some (Errorf ''context canceled'')), s)
     else if so_Status rec \<noteq> ''pending'' then processRows L env now (n + 1) processed due s
     else case processRow L env now n rec s of
       (Inl e, s') \<Rightarrow> ((processed, Some e), s')
     | (Inr _, s') \<Rightarrow> processRows L env now (n + 1) (processed + 1) due s')"

definition ProcessOutboxDue ::
  "'s ledger \<Rightarrow> outbox_env option \<Rightarrow> int \<Rightarrow> int \<Rightarrow> 's \<Rightarrow> (int \<times> goerr option) \<times> 's"
where
  "ProcessOutboxDue L poster now limit s =
    (case poster of
       None \<Rightarrow> ((0, None), s)
     | Some env \<Rightarrow>
         let limit' = (if limit \<le> 0 then 50 else limit)
         in case ListSlackOutboxDue L (rfc3339 now) limit' s of
              Inl e \<Rightarrow> ((0, Some e), s)
            | Inr due \<Rightarrow> processRows L env now 0 0 due s)"

text \<open>\<open>RunOutboxWorker\<close>: one pass of at most 25 rows for each tick, until the context is done; a tick
  comes with its instant and with what the poster answers during the pass.\<close>

fun RunOutboxWorker :: "'s ledger \<Rightarrow> (int \<times> outbox_env option) list \<Rightarrow> 's \<Rightarrow> 's" where
  "RunOutboxWorker L [] s = s"
| "RunOutboxWorker L ((now, poster) # ticks) s =
    RunOutboxWorker L ticks (snd (ProcessOutboxDue L poster now 25 s))"

section \<open>Backoff\<close>

lemma shift_exact: "\<forall>n \<in> set [0..<31]. sint (push_bit n (5 * second)) = 5000000000 * 2 ^ n"
  by (simp add: upt_rec second_def)

lemma sint_max_backoff: "sint (5 * minute) = 300000000000"
  by (simp add: minute_def second_def)

lemma nextAttempt_capped:
  assumes "0 \<le> n" and "n < 31"
  shows "sint (nextAttempt n) = min (5000000000 * 2 ^ nat n) 300000000000"
proof (cases "n = 0")
  case True
  then show ?thesis by (simp add: nextAttempt_def second_def)
next
  case False
  have "nat n \<in> set [0..<31]" using assms by simp
  with shift_exact have e: "sint (push_bit (nat n) (5 * second)) = 5000000000 * 2 ^ nat n" by blast
  with False assms show ?thesis
    by (simp add: nextAttempt_def Let_def sint_max_backoff)
qed

lemma shift_lost: "sint (push_bit (n + 55) (5 * second)) = 0"
proof -
  have "push_bit 55 (5 * second) = (0 :: 64 word)" by (simp add: second_def)
  then have "push_bit n (push_bit 55 (5 * second)) = (0 :: 64 word)" by simp
  then show ?thesis by (simp add: push_bit_push_bit)
qed

text \<open>From the 31st failure on the shift overflows, and from the 55th nothing is left of it.\<close>

lemma nextAttempt_overflow:
  "sint (nextAttempt 31) < 0" "n \<ge> 55 \<Longrightarrow> nextAttempt n = 0"
proof -
  show "sint (nextAttempt 31) < 0" by (simp add: nextAttempt_def second_def minute_def)
  assume "n \<ge> 55"
  then have "nat n = (nat n - 55) + 55" by simp
  then obtain k where "nat n = k + 55" by blast
  moreover have "push_bit (k + 55) (5 * second) = (0 :: 64 word)"
    using shift_lost [of k] by (simp add: signed_eq_0_iff)
  ultimately show "nextAttempt n = 0"
    using \<open>n \<ge> 55\<close> sint_max_backoff by (simp add: nextAttempt_def Let_def)
qed

section \<open>What a pass leaves\<close>

text \<open>Two views whose approvals have the same identifiers, statuses and idempotency keys.\<close>

definition approval_core :: "ledger_view \<Rightarrow> string \<Rightarrow> (string \<times> string) option" where
  "approval_core v k = map_option (\<lambda>a. (la_Status a, la_IdemKey a)) (lv_approvals v k)"

definition same_decisions :: "ledger_view \<Rightarrow> ledger_view \<Rightarrow> bool" where
  "same_decisions v w \<longleftrightarrow>
     lv_idem v = lv_idem w \<and> lv_receipts v = lv_receipts w \<and> lv_decisions v = lv_decisions w \<and>
     lv_contexts v = lv_contexts w \<and> lv_policies v = lv_policies w \<and> lv_keys v = lv_keys w \<and>
     approval_core v = approval_core w"

lemma same_decisions_refl [simp]: "same_decisions v v"
  by (simp add: same_decisions_def)

lemma same_decisions_trans: "same_decisions u v \<Longrightarrow> same_decisions v w \<Longrightarrow> same_decisions u w"
  by (simp add: same_decisions_def)

context ledger_contract
begin

lemma put_outbox_same:
  "PutSlackOutbox L r s = Inr s' \<Longrightarrow> same_decisions (view s) (view s') \<and> (well_keyed (view s) \<longrightarrow> well_keyed (view s'))"
  by (drule put_outbox) (auto simp: same_decisions_def approval_core_def fun_eq_iff well_keyed_def)

lemma tx_put_outbox_same:
  "tx_put (PutSlackOutbox L r) s = (x, s') \<Longrightarrow>
   same_decisions (view s) (view s') \<and> (well_keyed (view s) \<longrightarrow> well_keyed (view s'))"
  using put_outbox_same [of r s] by (auto simp: tx_put_def split: sum.splits)

lemma posted_same:
  assumes "well_keyed (view s)" and "GetApproval L k s = Some a"
  shows "same_decisions (view s) (view (put_best_effort (PutApproval L (postedApproval now c ts a)) s)) \<and>
    well_keyed (view (put_best_effort (PutApproval L (postedApproval now c ts a)) s))"
proof (cases "PutApproval L (postedApproval now c ts a) s")
  case (Inl e)
  with assms(1) show ?thesis by (simp add: put_best_effort_def)
next
  case (Inr s')
  from assms have a: "lv_approvals (view s) k = Some a" "la_ApprovalID a = k"
    by (auto simp: get_approval well_keyed_def)
  from put_approval [OF Inr] a obtain r'
    where r': "la_ApprovalID r' = k" "la_Status r' = la_Status a" "la_IdemKey r' = la_IdemKey a"
      "view s' = (view s)\<lparr>lv_approvals := (lv_approvals (view s))(k \<mapsto> r')\<rparr>"
    by (auto simp: approval_merge_def postedApproval_def)
  with Inr a assms(1) show ?thesis
    by (auto simp: put_best_effort_def same_decisions_def approval_core_def fun_eq_iff well_keyed_def)
qed

lemma processRow_same:
  assumes "well_keyed (view s)" and "processRow L env now n rec s = (x, s')"
  shows "same_decisions (view s) (view s') \<and> well_keyed (view s')"
proof -
  from assms(2) have w: "writeRow L env now n rec (GetApproval L (so_ApprovalID rec) s) s = (x, s')"
    by (simp add: processRow_def tx_bind_get)
  show ?thesis
  proof (cases "GetApproval L (so_ApprovalID rec) s")
    case None
    with w assms(1) show ?thesis
      by (auto simp: writeRow_def dest!: tx_put_outbox_same split: if_splits option.splits sum.splits)
  next
    case (Some a)
    have posted: "same_decisions (view s) (view t) \<and> well_keyed (view t)"
      if "tx_put (PutSlackOutbox L r) (put_best_effort (PutApproval L (postedApproval now c ts a)) s) = (x, t)"
      for r c ts t
      using posted_same [OF assms(1) Some, of now c ts] tx_put_outbox_same [OF that] same_decisions_trans by blast
    from w Some assms(1) show ?thesis
      by (auto simp: writeRow_def dest: tx_put_outbox_same posted split: if_splits option.splits sum.splits)
  qed
qed

lemma processRows_same:
  "well_keyed (view s) \<Longrightarrow> processRows L env now n p due s = (x, s') \<Longrightarrow>
   same_decisions (view s) (view s') \<and> well_keyed (view s')"
proof (induction due arbitrary: n p s)
  case Nil
  then show ?case by simp
next
  case (Cons rec due)
  show ?case
  proof (cases "processRow L env now n rec s")
    case (Pair r t)
    with processRow_same [OF Cons.prems(1)]
    have st: "same_decisions (view s) (view t)" "well_keyed (view t)" by blast+
    with Pair Cons show ?thesis
      by (auto split: if_splits sum.splits intro: same_decisions_trans [OF st(1)])
  qed
qed

theorem ProcessOutboxDue_same:
  "well_keyed (view s) \<Longrightarrow> ProcessOutboxDue L poster now limit s = (x, s') \<Longrightarrow>
   same_decisions (view s) (view s') \<and> well_keyed (view s')"
  by (auto simp: ProcessOutboxDue_def Let_def split: option.splits sum.splits dest: processRows_same)

lemma RunOutboxWorker_same:
  "well_keyed (view s) \<Longrightarrow>
   same_decisions (view s) (view (RunOutboxWorker L ticks s)) \<and> well_keyed (view (RunOutboxWorker L ticks s))"
proof (induction ticks arbitrary: s)
  case (Cons tick ticks)
  obtain now poster where tick: "tick = (now, poster)" by (cases tick)
  obtain x t where t: "ProcessOutboxDue L poster now 25 s = (x, t)" by fastforce
  from ProcessOutboxDue_same [OF Cons.prems t]
  have st: "same_decisions (view s) (view t)" "well_keyed (view t)" by blast+
  from Cons.IH [OF st(2)] same_decisions_trans [OF st(1)] tick t show ?case by auto
qed simp

end

end
