(* ===== verification/Record_Json.thy ===== *)
theory Record_Json
  imports Go_Types Canonical
begin

text \<open>
  \<open>json.Marshal\<close> of the context and decision records (\<open>pkg/types/context.go\<close> and
  \<open>decision.go\<close>): the members come in field order under the names of the struct tags, and a field
  tagged \<open>omitempty\<close> is left out when it is empty.  Dynamic values are encoded by kind, maps with
  sorted keys.
\<close>

function (sequential) goval_json :: "goval \<Rightarrow> jval res" where
  "goval_json (VPtr v) = goval_json v"
| "goval_json (VStr s) = Inr (JStr s)"
| "goval_json (VBool b) = Inr (JBool b)"
| "goval_json (VInt i) = Inr (JNum (show_int i))"
| "goval_json (VUint n) = Inr (JNum (show_int (int n)))"
| "goval_json (VFloat lit) = Inr (JNum lit)"
| "goval_json (VNumber n) =
    (if n = [] then Inr (JNum ''0'')
     else case parse_number n of
       Some (lit, []) \<Rightarrow> Inr (JNum lit)
     | _ \<Rightarrow> Inl (Errorf ''json: invalid number literal''))"
| "goval_json (VMap kvs) =
    res_bind
      (res_mapM (\<lambda>kv. res_bind (goval_json (snd kv)) (\<lambda>j. Inr (fst kv, j))) (sort_key fst kvs))
      (\<lambda>ms. Inr (JObj ms))"
| "goval_json (VSlice vs) = res_bind (res_mapM goval_json vs) (\<lambda>js. Inr (JArr js))"
| "goval_json VIntMap = Inl (Errorf ''json: unsupported type'')"
| "goval_json VOther = Inl (Errorf ''json: unsupported type'')"
| "goval_json _ = Inr JNull"
  by pat_completeness auto
termination
proof (relation "measure size", goal_cases)
  case (3 kvs kv)
  then have "snd kv \<in> snd ` set kvs" by force
  from size_map_entry [OF this] show ?case by simp
next
  case (4 vs v)
  then have "size v \<le> size_list size vs" by (intro size_list_estimation') auto
  then show ?case by simp
qed simp_all

text \<open>A member tagged \<open>omitempty\<close>.\<close>

definition omit_empty :: "string \<Rightarrow> string \<Rightarrow> (string \<times> jval) list" where
  "omit_empty name s = (if s = [] then [] else [(name, JStr s)])"

definition sourceJson :: "context_source \<Rightarrow> jval" where
  "sourceJson s = JObj
    [(''kind'', JStr (cs_Kind s)), (''repo'', JStr (cs_Repo s)), (''workflow'', JStr (cs_Workflow s)),
     (''run_id'', JStr (cs_RunID s)), (''actor'', JStr (cs_Actor s)), (''ref'', JStr (cs_Ref s)),
     (''sha'', JStr (cs_SHA s))]"

definition inputsJson :: "context_inputs \<Rightarrow> jval res" where
  "inputsJson i =
    (let base = [(''action'', JStr (ci_Action i)), (''resource'', JStr (ci_Resource i)),
                 (''env'', JStr (ci_Env i))]
     in if ci_Intent i = VNilMap \<or> ci_Intent i = VMap [] then Inr (JObj base)
        else res_bind (goval_json (ci_Intent i)) (\<lambda>j. Inr (JObj (base @ [(''intent'', j)]))))"

definition evidenceJson :: "context_evidence \<Rightarrow> jval" where
  "evidenceJson e =
    JObj (omit_empty ''plan_digest'' (ce_PlanDigest e) @ omit_empty ''diff_url'' (ce_DiffURL e))"

definition contextJson :: "context_record \<Rightarrow> jval res" where
  "contextJson r =
    res_bind (inputsJson (cx_Inputs r)) (\<lambda>inputs. Inr (JObj
      [(''schema'', JStr (cx_Schema r)), (''context_id'', JStr (cx_ContextID r)),
       (''created_at'', JStr (cx_CreatedAt r)), (''source'', sourceJson (cx_Source r)),
       (''inputs'', inputs), (''evidence'', evidenceJson (cx_Evidence r))]))"

definition marshalContext :: "context_record \<Rightarrow> string res" where
  "marshalContext r = res_bind (contextJson r) (\<lambda>j. Inr (json_print j))"

definition decisionPolicyJson :: "decision_policy \<Rightarrow> jval" where
  "decisionPolicyJson p = JObj
    [(''policy_id'', JStr (dp_PolicyID p)), (''policy_version'', JStr (dp_PolicyVersion p)),
     (''policy_hash'', JStr (dp_PolicyHash p))]"

definition decisionJson :: "decision_record \<Rightarrow> jval" where
  "decisionJson r = JObj
    ([(''schema'', JStr (dc_Schema r)), (''decision_id'', JStr (dc_DecisionID r)),
      (''created_at'', JStr (dc_CreatedAt r)), (''context_id'', JStr (dc_ContextID r)),
      (''policy'', decisionPolicyJson (dc_Policy r)), (''verdict'', JStr (dc_Verdict r))] @
     (if dc_ReasonCodes r = [] then [] else [(''reason_codes'', JArr (map JStr (dc_ReasonCodes r)))]) @
     [(''requires_approval'', JBool (dc_RequiresApproval r))] @
     omit_empty ''risk'' (dc_Risk r))"

definition marshalDecision :: "decision_record \<Rightarrow> string res" where
  "marshalDecision r = Inr (json_print (decisionJson r))"

end
