(* ===== verification/Slack_Client.thy ===== *)
theory Slack_Client
  imports Slack_Handler Slack_Outbox Record_Json
begin

text \<open>
  \<open>internal/slack/message.go\<close> and \<open>internal/slack/client.go\<close>: the Block Kit message that asks for an
  approval, and the client that posts it.  The HTTP exchange is a parameter.
\<close>

section \<open>internal/slack/message.go\<close>

definition plainText :: "string \<Rightarrow> string \<Rightarrow> goval" where
  "plainText kind text = VMap [(''type'', VStr kind), (''text'', VStr text)]"

definition headerBlock :: goval where
  "headerBlock = VMap
     [(''type'', VStr ''section''), (''text'', plainText ''mrkdwn'' ''*Relia approval required*'')]"

definition fieldsBlock :: "approval_message \<Rightarrow> goval" where
  "fieldsBlock m = VMap
     [(''type'', VStr ''section''),
      (''fields'', VSlice
         [plainText ''mrkdwn'' (''*Action*'' @ [CHR 0x0A] @ am_Action m),
          plainText ''mrkdwn'' (''*Env*'' @ [CHR 0x0A] @ am_Env m),
          plainText ''mrkdwn'' (''*Resource*'' @ [CHR 0x0A] @ am_Resource m),
          plainText ''mrkdwn'' (''*Risk*'' @ [CHR 0x0A] @ am_Risk m)])]"

definition linksText :: "approval_message \<Rightarrow> string" where
  "linksText m =
    (if am_DiffURL m \<noteq> [] then ''<'' @ am_DiffURL m @ ''|Diff> '' else []) @
    (if am_RunURL m \<noteq> [] then ''<'' @ am_RunURL m @ ''|Run>'' else [])"

definition linksBlock :: "approval_message \<Rightarrow> goval list" where
  "linksBlock m =
    (if am_DiffURL m \<noteq> [] \<or> am_RunURL m \<noteq> []
     then [VMap [(''type'', VStr ''section''), (''text'', plainText ''mrkdwn'' (linksText m))]] else [])"

definition button :: "string \<Rightarrow> string \<Rightarrow> string \<Rightarrow> string \<Rightarrow> goval" where
  "button label style action value = VMap
     [(''type'', VStr ''button''), (''text'', plainText ''plain_text'' label), (''style'', VStr style),
      (''action_id'', VStr action), (''value'', VStr value)]"

definition actionsBlock :: "approval_message \<Rightarrow> goval" where
  "actionsBlock m = VMap
     [(''type'', VStr ''actions''),
      (''elements'', VSlice [button ''Approve'' ''primary'' ''approve'' (am_ApprovalID m),
                            button ''Deny'' ''danger'' ''deny'' (am_ApprovalID m)])]"

definition approvalPayload :: "approval_message \<Rightarrow> goval" where
  "approvalPayload m =
    VMap [(''blocks'', VSlice ([headerBlock, fieldsBlock m] @ linksBlock m @ [actionsBlock m]))]"

definition BuildApprovalMessage :: "approval_message \<Rightarrow> string res" where
  "BuildApprovalMessage m = res_bind (goval_json (approvalPayload m)) (\<lambda>j. Inr (json_print j))"

section \<open>internal/slack/client.go\<close>

text \<open>
  \<open>sl_Do\<close> posts a body to a URL with the given headers and gives the body of the answer;
  \<open>sl_Float64\<close> is the conversion of \<open>Go_Decode\<close>.
\<close>

record slack_client =
  sl_Token :: string
  sl_BaseURL :: string
  sl_Do :: "string \<Rightarrow> (string \<times> string) list \<Rightarrow> string \<Rightarrow> string res"
  sl_Float64 :: "string \<Rightarrow> string option"

record slack_answer =
  an_OK :: bool
  an_Error :: string
  an_TS :: string

definition zero_answer :: slack_answer where
  "zero_answer = \<lparr>an_OK = False, an_Error = [], an_TS = []\<rparr>"

definition decodeAnswer :: "(string \<times> jval) list \<Rightarrow> slack_answer \<Rightarrow> slack_answer option" where
  "decodeAnswer ms a =
    Option.bind (bool_field ''ok'' ms (an_OK a)) (\<lambda>ok.
    Option.bind (string_field ''error'' ms (an_Error a)) (\<lambda>e.
    Option.bind (string_field ''ts'' ms (an_TS a)) (\<lambda>ts.
      Some \<lparr>an_OK = ok, an_Error = e, an_TS = ts\<rparr>)))"

text \<open>The message with the channel added, read back into a map and encoded again.\<close>

definition postBody :: "(string \<Rightarrow> string option) \<Rightarrow> string \<Rightarrow> string \<Rightarrow> string res" where
  "postBody float64 channel msgBytes =
    (case Option.bind (json_parse msgBytes) (decode_any_map float64 VNilMap) of
       None \<Rightarrow> Inl (Errorf ''invalid message'')
     | Some payload \<Rightarrow>
         res_bind (goval_json (VMap (AList.update ''channel'' (VStr channel) (entries payload))))
           (\<lambda>j. Inr (json_print j)))"

definition answerTS :: "slack_answer \<Rightarrow> string res" where
  "answerTS a =
    (if \<not> an_OK a then Inl (Errorf (if an_Error a = [] then ''slack api error'' else an_Error a))
     else if an_TS a = [] then Inl (Errorf ''missing slack message ts'') else Inr (an_TS a))"

definition PostApproval :: "slack_client \<Rightarrow> string \<Rightarrow> approval_message \<Rightarrow> string res" where
  "PostApproval c channel message =
    (let baseURL = (if sl_BaseURL c = [] then ''https://slack.com/api'' else sl_BaseURL c)
     in if sl_Token c = [] then Inl (Errorf ''missing slack token'')
        else if channel = [] then Inl (Errorf ''missing slack channel'')
        else res_bind (BuildApprovalMessage message) (\<lambda>msgBytes.
             res_bind (postBody (sl_Float64 c) channel msgBytes) (\<lambda>body.
             res_bind (sl_Do c (baseURL @ ''/chat.postMessage'')
                        [(''Authorization'', ''Bearer '' @ sl_Token c), (''Content-Type'', ''application/json'')]
                        body) (\<lambda>res.
               case decode_first decodeAnswer zero_answer res of
                 None \<Rightarrow> Inl (Errorf ''invalid answer'')
               | Some resp \<Rightarrow> answerTS resp))))"

section \<open>What is posted\<close>

fun jmember :: "string \<Rightarrow> jval \<Rightarrow> jval option" where
  "jmember k (JObj ms) = map_of ms k"
| "jmember k _ = None"

fun jelems :: "jval option \<Rightarrow> jval list" where
  "jelems (Some (JArr vs)) = vs"
| "jelems _ = []"

text \<open>The action and the value of every button of a message.\<close>

definition jbuttons :: "jval \<Rightarrow> (jval option \<times> jval option) list" where
  "jbuttons j =
    map (\<lambda>b. (jmember ''action_id'' b, jmember ''value'' b))
      (concat (map (\<lambda>block. jelems (jmember ''elements'' block)) (jelems (jmember ''blocks'' j))))"

text \<open>The message as a tree.\<close>

definition plainTree :: "string \<Rightarrow> string \<Rightarrow> jval" where
  "plainTree kind text = JObj [(''text'', JStr text), (''type'', JStr kind)]"

lemma plainText_json: "goval_json (plainText kind text) = Inr (plainTree kind text)"
  by (simp add: plainText_def plainTree_def)

definition buttonTree :: "string \<Rightarrow> string \<Rightarrow> string \<Rightarrow> string \<Rightarrow> jval" where
  "buttonTree label style action value = JObj
     [(''action_id'', JStr action), (''style'', JStr style), (''text'', plainTree ''plain_text'' label),
      (''type'', JStr ''button''), (''value'', JStr value)]"

lemma button_json: "goval_json (button l st a v) = Inr (buttonTree l st a v)"
  by (simp add: button_def buttonTree_def plainText_json)

definition blockTrees :: "approval_message \<Rightarrow> jval list" where
  "blockTrees m =
    [JObj [(''text'', plainTree ''mrkdwn'' ''*Relia approval required*''), (''type'', JStr ''section'')],
     JObj [(''fields'', JArr
        [plainTree ''mrkdwn'' (''*Action*'' @ [CHR 0x0A] @ am_Action m),
         plainTree ''mrkdwn'' (''*Env*'' @ [CHR 0x0A] @ am_Env m),
         plainTree ''mrkdwn'' (''*Resource*'' @ [CHR 0x0A] @ am_Resource m),
         plainTree ''mrkdwn'' (''*Risk*'' @ [CHR 0x0A] @ am_Risk m)]), (''type'', JStr ''section'')]] @
    (if am_DiffURL m \<noteq> [] \<or> am_RunURL m \<noteq> []
     then [JObj [(''text'', plainTree ''mrkdwn'' (linksText m)), (''type'', JStr ''section'')]] else []) @
    [JObj [(''elements'', JArr [buttonTree ''Approve'' ''primary'' ''approve'' (am_ApprovalID m),
                                buttonTree ''Deny'' ''danger'' ''deny'' (am_ApprovalID m)]),
           (''type'', JStr ''actions'')]]"

lemma payload_json: "goval_json (approvalPayload m) = Inr (JObj [(''blocks'', JArr (blockTrees m))])"
  by (simp add: approvalPayload_def headerBlock_def fieldsBlock_def linksBlock_def actionsBlock_def
      plainText_json button_json blockTrees_def)

lemma BuildApprovalMessage_eq:
  "BuildApprovalMessage m = Inr (json_print (JObj [(''blocks'', JArr (blockTrees m))]))"
  by (simp add: BuildApprovalMessage_def payload_json)

text \<open>Trees that a map holds and gives back unchanged: no numbers, sorted distinct keys.\<close>

fun canonical_tree :: "jval \<Rightarrow> bool" where
  "canonical_tree (JNum n) \<longleftrightarrow> False"
| "canonical_tree (JArr vs) \<longleftrightarrow> (\<forall>v \<in> set vs. canonical_tree v)"
| "canonical_tree (JObj kvs) \<longleftrightarrow>
     sorted (map fst kvs) \<and> distinct (map fst kvs) \<and> (\<forall>kv \<in> set kvs. canonical_tree (snd kv))"
| "canonical_tree _ \<longleftrightarrow> True"

lemma canonical_json_numbers: "canonical_tree j \<Longrightarrow> json_numbers j"
  by (induction j rule: canonical_tree.induct) auto

lemma clearjunk_distinct: "distinct (map fst kvs) \<Longrightarrow> AList.clearjunk kvs = kvs"
  by (induction kvs) (auto simp: delete_idem)

lemma those_Some: "(\<And>x. x \<in> set xs \<Longrightarrow> f x = Some (g x)) \<Longrightarrow> those (map f xs) = Some (map g xs)"
  by (induction xs) simp_all

lemma res_mapM_Inr: "(\<And>x. x \<in> set xs \<Longrightarrow> f x = Inr (g x)) \<Longrightarrow> res_mapM f xs = Inr (map g xs)"
  by (induction xs) simp_all

lemma filter_one_key:
  "distinct (map fst kvs) \<Longrightarrow> kv \<in> set kvs \<Longrightarrow> filter (\<lambda>x. fst kv = fst x) kvs = [kv]"
  by (induction kvs) (force simp: filter_empty_conv)+

lemma sort_rev:
  assumes "sorted (map fst kvs)" and "distinct (map fst kvs)"
  shows "sort_key fst (rev kvs) = (kvs :: (string \<times> 'v) list)"
  using assms by (intro properties_for_sort_key) (simp_all add: filter_one_key rev_filter [symmetric])

lemma any_json_back: "canonical_tree j \<Longrightarrow> \<exists>g. any_of_json fl j = Some g \<and> goval_json g = Inr j"
proof (induction j rule: canonical_tree.induct)
  case (2 vs)
  then obtain f where f: "\<forall>v \<in> set vs. any_of_json fl v = Some (f v) \<and> goval_json (f v) = Inr v"
    by (metis canonical_tree.simps(2))
  then have "those (map (any_of_json fl) vs) = Some (map f vs)" by (intro those_Some) auto
  moreover from f have "res_mapM (\<lambda>v. goval_json (f v)) vs = Inr (map (\<lambda>v. v) vs)"
    by (intro res_mapM_Inr) auto
  ultimately show ?case by (simp add: res_mapM_map)
next
  case (3 kvs)
  then obtain f where f: "\<forall>kv \<in> set kvs. any_of_json fl (snd kv) = Some (f kv) \<and> goval_json (f kv) = Inr (snd kv)"
    by (metis canonical_tree.simps(3))
  let ?ms = "map (\<lambda>kv. (fst kv, f kv)) kvs"
  have "those (map (\<lambda>(k, v). map_option (Pair k) (any_of_json fl v)) kvs) = Some ?ms"
    using f by (intro those_Some) auto
  moreover have "last_wins ?ms = rev ?ms"
  proof -
    have "distinct (map fst (rev ?ms))" using 3(2) by (simp add: rev_map [symmetric] comp_def)
    then show ?thesis unfolding last_wins_def by (rule clearjunk_distinct)
  qed
  moreover have "sort_key fst (rev ?ms) = ?ms" using 3(2) by (intro sort_rev) (simp_all add: comp_def)
  moreover have "res_mapM (\<lambda>kv. res_bind (goval_json (snd kv)) (\<lambda>j. Inr (fst kv, j))) ?ms = Inr (map (\<lambda>kv. kv) kvs)"
    unfolding res_mapM_map using f by (intro res_mapM_Inr) auto
  ultimately show ?case by simp
qed auto


lemma canonical_plainTree: "canonical_tree (json_sanitize (plainTree k t))"
  by (simp add: plainTree_def)

lemma canonical_blocks: "canonical_tree (json_sanitize (JArr (blockTrees m)))"
  by (auto simp: blockTrees_def plainTree_def buttonTree_def)

lemma ints_blocks: "json_numbers (JObj [(''blocks'', JArr (blockTrees m))])"
  by (auto simp: blockTrees_def plainTree_def buttonTree_def)

lemma postBody_eq:
  assumes "BuildApprovalMessage m = Inr b"
  shows "postBody fl channel b = Inr (json_print (JObj
    [(''blocks'', json_sanitize (JArr (blockTrees m))), (''channel'', JStr channel)]))"
proof -
  obtain g where g: "any_of_json fl (json_sanitize (JArr (blockTrees m))) = Some g"
    "goval_json g = Inr (json_sanitize (JArr (blockTrees m)))"
    using any_json_back [OF canonical_blocks] by blast
  have "json_parse b = Some (JObj [(''blocks'', json_sanitize (JArr (blockTrees m)))])"
    using json_parse_print [OF ints_blocks [of m], of True] assms by (simp add: BuildApprovalMessage_eq)
  then show ?thesis
    using g by (simp add: postBody_def entries_def last_wins_def del: json_sanitize.simps any_of_json.simps(5))
qed

lemma posted_buttons:
  assumes "BuildApprovalMessage m = Inr b" and "postBody fl channel b = Inr body"
  shows "\<exists>j. json_parse body = Some j \<and> jmember ''channel'' j = Some (JStr (sanitize channel)) \<and>
    jbuttons j = [(Some (JStr ''approve''), Some (JStr (sanitize (am_ApprovalID m)))),
                  (Some (JStr ''deny''), Some (JStr (sanitize (am_ApprovalID m))))]"
proof -
  let ?j = "JObj [(''blocks'', json_sanitize (JArr (blockTrees m))), (''channel'', JStr channel)]"
  have "json_numbers ?j" using canonical_json_numbers [OF canonical_blocks, of m] by simp
  then have "json_parse body = Some (json_sanitize ?j)"
    using assms(2) json_parse_print [of ?j True] by (simp add: postBody_eq [OF assms(1)])
  then show ?thesis
    by (simp add: jbuttons_def blockTrees_def buttonTree_def plainTree_def)
qed

end
