(* ===== verification/Auth.thy ===== *)
theory Auth
  imports Go_Http Go_Base64 Go_Decode "HOL-Library.Word"
begin

unbundle bit_operations_syntax

text \<open>
  \<open>internal/auth/auth.go\<close> and \<open>internal/auth/oidc.go\<close>: who a bearer token belongs to.  The JWT library
  and the key endpoint of the issuer are parameters; the cache of the issuer's keys is the state.
\<close>

section \<open>internal/auth/auth.go: claims and bearer tokens\<close>

record claims =
  cm_Subject :: string
  cm_Issuer :: string
  cm_Repo :: string
  cm_Workflow :: string
  cm_RunID :: string
  cm_SHA :: string
  cm_Token :: string

definition extractBearer :: "http_request \<Rightarrow> string res" where
  "extractBearer r =
    (let auth = hq_Header r ''Authorization''
     in if auth = [] then Inl ErrMissingBearer
        else if \<not> has_prefix auth ''Bearer '' then Inl ErrInvalidToken
        else let token = trim_space (trim_prefix auth ''Bearer '')
             in if token = [] then Inl ErrInvalidToken else Inr token)"

section \<open>internal/auth/oidc.go: the issuer's keys\<close>

text \<open>The exponent is a Go \<open>int\<close>.\<close>

record rsa_key =
  rk_N :: nat
  rk_E :: "64 word"

definition big_endian :: "string \<Rightarrow> nat" where
  "big_endian bs = foldl (\<lambda>n b. 256 * n + of_char b) 0 bs"

definition exponent :: "string \<Rightarrow> 64 word" where
  "exponent bs = foldl (\<lambda>e b. push_bit 8 e + of_nat (of_char b)) 0 bs"

definition jwkToPublicKey :: "string \<Rightarrow> string \<Rightarrow> rsa_key res" where
  "jwkToPublicKey nB64 eB64 =
    res_bind (base64_rawurl_decode nB64) (\<lambda>nb.
    res_bind (base64_rawurl_decode eB64) (\<lambda>eb.
      let e = exponent eb
      in if e = 0 then Inl (Errorf ''invalid exponent'')
         else Inr \<lparr>rk_N = big_endian nb, rk_E = e\<rparr>))"

record jwk =
  jk_Kid :: string
  jk_Kty :: string
  jk_Alg :: string
  jk_Use :: string
  jk_N :: string
  jk_E :: string

definition zero_jwk :: jwk where
  "zero_jwk = \<lparr>jk_Kid = [], jk_Kty = [], jk_Alg = [], jk_Use = [], jk_N = [], jk_E = []\<rparr>"

definition decodeJwk :: "(string \<times> jval) list \<Rightarrow> jwk \<Rightarrow> jwk option" where
  "decodeJwk ms k =
    Option.bind (string_field ''kid'' ms (jk_Kid k)) (\<lambda>f1.
    Option.bind (string_field ''kty'' ms (jk_Kty k)) (\<lambda>f2.
    Option.bind (string_field ''alg'' ms (jk_Alg k)) (\<lambda>f3.
    Option.bind (string_field ''use'' ms (jk_Use k)) (\<lambda>f4.
    Option.bind (string_field ''n'' ms (jk_N k)) (\<lambda>f5.
    Option.bind (string_field ''e'' ms (jk_E k)) (\<lambda>f6.
      Some \<lparr>jk_Kid = f1, jk_Kty = f2, jk_Alg = f3, jk_Use = f4, jk_N = f5, jk_E = f6\<rparr>))))))"

type_synonym key_cache = "(string \<times> rsa_key) list"

text \<open>The loop over the keys of the document; \<open>out\<close> is the map built so far.\<close>

fun collectKeys :: "key_cache \<Rightarrow> jwk list \<Rightarrow> key_cache" where
  "collectKeys out [] = out"
| "collectKeys out (k # ks) =
    (if jk_Kty k \<noteq> ''RSA'' \<or> jk_Alg k \<noteq> ''RS256'' then collectKeys out ks
     else case jwkToPublicKey (jk_N k) (jk_E k) of
       Inl _ \<Rightarrow> collectKeys out ks
     | Inr pub \<Rightarrow> collectKeys (if jk_Kid k \<noteq> [] then AList.update (jk_Kid k) pub out else out) ks)"

text \<open>\<open>get\<close> is the body of the answer of the key endpoint, or the error of the request.\<close>

definition fetchKeys :: "string res \<Rightarrow> key_cache res" where
  "fetchKeys get =
    res_bind get (\<lambda>body.
      case decode_first (\<lambda>ms old. slice_field ''keys'' decodeJwk zero_jwk ms) [] body of
        None \<Rightarrow> Inl (Errorf ''invalid jwks'')
      | Some keys \<Rightarrow>
          let out = collectKeys [] keys
          in if out = [] then Inl (Errorf ''no jwk keys'') else Inr out)"

definition keyForKID :: "string res \<Rightarrow> string \<Rightarrow> key_cache \<Rightarrow> rsa_key res \<times> key_cache" where
  "keyForKID get kid cache =
    (case map_of cache kid of
       Some key \<Rightarrow> (Inr key, cache)
     | None \<Rightarrow>
         (case fetchKeys get of
            Inl e \<Rightarrow> (Inl e, cache)
          | Inr keys \<Rightarrow>
              let cache' = AList.merge cache keys
              in (case map_of cache' kid of
                    Some key \<Rightarrow> (Inr key, cache')
                  | None \<Rightarrow> (Inl (Errorf ''kid not found''), cache'))))"

section \<open>internal/auth/oidc.go: tokens\<close>

record github_claims =
  gc_Subject :: string
  gc_Issuer :: string
  gc_Repository :: string
  gc_RepositoryOwner :: string
  gc_RepositoryName :: string
  gc_Workflow :: string
  gc_WorkflowRef :: string
  gc_JobWorkflowRef :: string
  gc_RunID :: string
  gc_SHA :: string

text \<open>
  The JWT library for the configured method, audience and issuer: \<open>jw_Kid\<close> parses a token and gives
  the key identifier of its header (empty when it has none), \<open>jw_Check\<close> verifies the signature and the
  registered claims under a key and gives the claims.  \<open>oi_Get\<close> is the answer of the key endpoint.
\<close>

record oidc =
  oi_Audience :: string
  oi_Issuer :: string
  oi_Get :: "string res"
  jw_Kid :: "string \<Rightarrow> string res"
  jw_Check :: "string \<Rightarrow> string \<Rightarrow> rsa_key \<Rightarrow> string \<Rightarrow> github_claims res"

fun firstNonBlank :: "string list \<Rightarrow> string" where
  "firstNonBlank [] = []"
| "firstNonBlank (v # vs) = (if trim_space v \<noteq> [] then v else firstNonBlank vs)"

definition claimedRepo :: "github_claims \<Rightarrow> string" where
  "claimedRepo c =
    (let repo = (if gc_Repository c = [] then gc_RepositoryOwner c @ ''/'' @ gc_RepositoryName c
                 else gc_Repository c)
     in if repo = ''/'' then [] else repo)"

definition claimedWorkflow :: "github_claims \<Rightarrow> string" where
  "claimedWorkflow c =
    (let workflow = firstNonBlank [gc_WorkflowRef c, gc_JobWorkflowRef c]
     in if workflow = [] then gc_Workflow c else workflow)"

definition githubIdentity :: "github_claims \<Rightarrow> claims res" where
  "githubIdentity c =
    (if gc_Subject c = [] \<or> claimedRepo c = [] \<or> claimedWorkflow c = [] \<or> gc_RunID c = [] \<or> gc_SHA c = []
     then Inl ErrInvalidToken
     else Inr \<lparr>cm_Subject = gc_Subject c, cm_Issuer = gc_Issuer c, cm_Repo = claimedRepo c,
               cm_Workflow = claimedWorkflow c, cm_RunID = gc_RunID c, cm_SHA = gc_SHA c, cm_Token = []\<rparr>)"

text \<open>\<open>ParseWithClaims\<close> with the key function of the code.\<close>

definition parseWithClaims :: "oidc \<Rightarrow> string \<Rightarrow> key_cache \<Rightarrow> github_claims res \<times> key_cache" where
  "parseWithClaims o' token cache =
    (case jw_Kid o' token of
       Inl e \<Rightarrow> (Inl e, cache)
     | Inr kid \<Rightarrow>
         if kid = [] then (Inl (Errorf ''missing kid''), cache)
         else (case keyForKID (oi_Get o') kid cache of
                 (Inl e, cache') \<Rightarrow> (Inl e, cache')
               | (Inr key, cache') \<Rightarrow> (jw_Check o' (oi_Audience o') (oi_Issuer o') key token, cache')))"

definition AuthenticateBearer :: "oidc \<Rightarrow> string \<Rightarrow> key_cache \<Rightarrow> claims res \<times> key_cache" where
  "AuthenticateBearer o' token cache =
    (if token = [] then (Inl ErrInvalidToken, cache)
     else case parseWithClaims o' token cache of
       (Inl _, cache') \<Rightarrow> (Inl ErrInvalidToken, cache')
     | (Inr c, cache') \<Rightarrow> (githubIdentity c, cache'))"

section \<open>internal/auth/auth.go: authentication\<close>

record multi_auth =
  mu_DevToken :: string
  mu_OIDC :: "oidc option"

definition devClaims :: "string \<Rightarrow> claims" where
  "devClaims bearer =
    \<lparr>cm_Subject = ''dev'', cm_Issuer = ''relia-dev'', cm_Repo = ''dev/repo'', cm_Workflow = ''dev'',
     cm_RunID = ''dev'', cm_SHA = ''dev'', cm_Token = bearer\<rparr>"

definition Authenticate :: "multi_auth \<Rightarrow> http_request \<Rightarrow> key_cache \<Rightarrow> claims res \<times> key_cache" where
  "Authenticate a r cache =
    (case extractBearer r of
       Inl e \<Rightarrow> (Inl e, cache)
     | Inr bearer \<Rightarrow>
         if mu_DevToken a \<noteq> [] \<and> bearer = mu_DevToken a then (Inr (devClaims bearer), cache)
         else (case mu_OIDC a of
                 None \<Rightarrow> (Inl ErrInvalidToken, cache)
               | Some o' \<Rightarrow>
                   (case AuthenticateBearer o' bearer cache of
                      (Inl _, cache') \<Rightarrow> (Inl ErrInvalidToken, cache')
                    | (Inr c, cache') \<Rightarrow> (Inr (c\<lparr>cm_Token := bearer\<rparr>), cache'))))"

text \<open>\<open>NewAuthenticatorFromEnv\<close>: \<open>o'\<close> has what the library and the endpoint answer.\<close>

definition githubIssuer :: string where
  "githubIssuer = ''https://token.actions.githubusercontent.com''"

definition NewAuthenticatorFromEnv :: "(string \<Rightarrow> string) \<Rightarrow> oidc \<Rightarrow> multi_auth" where
  "NewAuthenticatorFromEnv getenv o' =
    (let audience = getenv ''RELIA_GITHUB_OIDC_AUDIENCE'';
         audience' = (if audience = [] then ''relia'' else audience)
     in \<lparr>mu_DevToken = getenv ''RELIA_DEV_TOKEN'',
         mu_OIDC = Some (o'\<lparr>oi_Audience := audience', oi_Issuer := githubIssuer\<rparr>)\<rparr>)"

section \<open>Facts\<close>

text \<open>
  An accepted request carries the configured development token, or a token that verifies under a key
  for its key identifier, and then the identity has no empty field.
\<close>

definition complete :: "claims \<Rightarrow> bool" where
  "complete c \<longleftrightarrow> cm_Subject c \<noteq> [] \<and> cm_Repo c \<noteq> [] \<and> cm_Workflow c \<noteq> [] \<and> cm_RunID c \<noteq> [] \<and> cm_SHA c \<noteq> []"

lemma Authenticate_Inr:
  assumes "Authenticate a r cache = (Inr c, cache')"
  obtains bearer where "extractBearer r = Inr bearer" and "cm_Token c = bearer" and "complete c"
    and "mu_DevToken a \<noteq> [] \<and> bearer = mu_DevToken a \<and> c = devClaims bearer \<and> cache' = cache \<or>
      (\<exists>o' kid key g. mu_OIDC a = Some o' \<and> jw_Kid o' bearer = Inr kid \<and> kid \<noteq> [] \<and>
         keyForKID (oi_Get o') kid cache = (Inr key, cache') \<and>
         jw_Check o' (oi_Audience o') (oi_Issuer o') key bearer = Inr g \<and>
         githubIdentity g = Inr (c\<lparr>cm_Token := []\<rparr>))"
proof -
  obtain bearer where b: "extractBearer r = Inr bearer"
    using assms by (auto simp: Authenticate_def split: sum.splits)
  show thesis
  proof (cases "mu_DevToken a \<noteq> [] \<and> bearer = mu_DevToken a")
    case True
    with assms b have "c = devClaims bearer" "cache' = cache" by (auto simp: Authenticate_def)
    with b True that show thesis by (auto simp: devClaims_def complete_def)
  next
    case False
    then obtain o' c0 where o: "mu_OIDC a = Some o'" "AuthenticateBearer o' bearer cache = (Inr c0, cache')"
      "c = c0\<lparr>cm_Token := bearer\<rparr>"
      using assms b by (auto simp: Authenticate_def split: option.splits prod.splits sum.splits if_splits)
    then obtain g where g: "parseWithClaims o' bearer cache = (Inr g, cache')" "githubIdentity g = Inr c0"
      by (auto simp: AuthenticateBearer_def split: prod.splits sum.splits if_splits)
    then have "c0\<lparr>cm_Token := []\<rparr> = c0" "complete c0"
      by (auto simp: githubIdentity_def complete_def split: if_splits)
    with that [OF b] o g show thesis
      by (fastforce simp: parseWithClaims_def complete_def split: prod.splits sum.splits if_splits)
  qed
qed

text \<open>Looking up a key never forgets or changes one that the cache has.\<close>

lemma keyForKID_cached:
  assumes "map_of cache kid = Some key"
  shows "keyForKID get kid cache = (Inr key, cache)"
  using assms by (simp add: keyForKID_def)

lemma keyForKID_Inr:
  "keyForKID get kid cache = (Inr key, cache') \<Longrightarrow> map_of cache' kid = Some key"
  by (auto simp: keyForKID_def Let_def split: option.splits sum.splits)

text \<open>An exponent of at most 8 bytes is read exactly.\<close>

lemma exponent_eq: "exponent bs = of_nat (big_endian bs)"
proof (induction bs rule: rev_induct)
  case (snoc b bs)
  then show ?case
    by (simp add: exponent_def big_endian_def push_bit_eq_mult mult.commute)
qed (simp add: exponent_def big_endian_def)

lemma big_endian_less: "big_endian bs < 256 ^ length bs"
proof (induction bs rule: rev_induct)
  case (snoc b bs)
  have b: "(of_char b :: nat) < 256" by simp
  have "big_endian (bs @ [b]) = 256 * big_endian bs + of_char b" by (simp add: big_endian_def)
  moreover have "256 * big_endian bs + 256 \<le> 256 * 256 ^ length bs" using snoc by simp
  ultimately show ?case using b by (simp del: of_char_less_256)
qed (simp add: big_endian_def)

lemma exponent_exact: "length bs \<le> 8 \<Longrightarrow> unat (exponent bs) = big_endian bs"
proof -
  assume "length bs \<le> 8"
  then have "(256 :: nat) ^ length bs \<le> 256 ^ 8" by (intro power_increasing) auto
  with big_endian_less [of bs] show ?thesis by (simp add: exponent_eq unat_of_nat)
qed

end
