(* ===== verification/Signing_View.thy ===== *)
theory Signing_View
  imports Canonical "HOL-Library.Sublist"
begin

text \<open>
  What the canonical bytes of a signing view determine.  Context, decision, receipt and
  idempotency digests are all taken over the canonical form of a map with fixed ASCII keys; the
  lemmas here recover each entry from the bytes, so that two views with the same bytes agree
  entry by entry.
\<close>

section \<open>Optional fields\<close>

definition emptyToNil :: "string \<Rightarrow> goval" where
  "emptyToNil s = (if s = [] then VNil else VStr s)"

lemma emptyToNil_nil [simp]: "isNilValue (emptyToNil s) \<longleftrightarrow> s = []"
  by (simp add: emptyToNil_def)

section \<open>The content of an entry\<close>

definition plain_keys :: "(string \<times> 'a) list \<Rightarrow> bool" where
  "plain_keys kvs \<longleftrightarrow> distinct (map fst kvs) \<and> list_all (\<lambda>kv. ascii (fst kv)) kvs"

fun jfield :: "string \<Rightarrow> jval \<Rightarrow> jval option" where
  "jfield k (JObj ms) = map_of ms k"
| "jfield k _ = None"

text \<open>Nothing for a stripped entry, otherwise the JSON tree a reader of the bytes gets.\<close>

definition field_repr :: "(string \<Rightarrow> string) \<Rightarrow> goval \<Rightarrow> jval option res" where
  "field_repr nfc v =
    (if isNilValue v then Inr None
     else res_bind (canon_tree nfc v) (\<lambda>t. Inr (Some (json_sanitize t))))"

lemma field_repr_simps [simp]:
  "field_repr nfc VNil = Inr None"
  "field_repr nfc VNilMap = Inr None"
  "field_repr nfc VNilSlice = Inr None"
  "field_repr nfc (VStr s) = Inr (Some (JStr (sanitize (nfc s))))"
  "field_repr nfc (VBool b) = Inr (Some (JBool b))"
  "field_repr nfc (VInt i) = Inr (Some (JNum (show_int i)))"
  by (simp_all add: field_repr_def)

lemma field_repr_emptyToNil [simp]:
  "field_repr nfc (emptyToNil s) = Inr (if s = [] then None else Some (JStr (sanitize (nfc s))))"
  by (simp add: emptyToNil_def)

lemma field_repr_strings [simp]:
  "field_repr nfc (VSlice (map VStr ss)) = Inr (Some (JArr (map (\<lambda>s. JStr (sanitize (nfc s))) ss)))"
proof -
  have "res_mapM (canon_tree nfc) (map VStr ss) = Inr (map (\<lambda>s. JStr (nfc s)) ss)"
    by (induction ss) simp_all
  then show ?thesis by (simp add: field_repr_def comp_def)
qed

section \<open>Entries are recovered from the bytes\<close>

lemma plain_keys_subseq:
  assumes "subseq (map fst kvs) ks" and "distinct ks" and "list_all ascii ks"
  shows "plain_keys kvs"
proof -
  from assms(1) obtain N where n: "map fst kvs = nths ks N" by (auto simp: subseq_conv_nths)
  have "distinct (map fst kvs)" unfolding n using assms(2) by (rule distinct_nthsI)
  moreover have "set (map fst kvs) \<subseteq> set ks" unfolding n by (rule set_nths_subset)
  then have "list_all (\<lambda>kv. ascii (fst kv)) kvs" using assms(3) by (auto simp: list_all_iff)
  ultimately show ?thesis by (simp add: plain_keys_def)
qed

lemma plain_keys_nfc:
  "nfc_laws nfc \<Longrightarrow> plain_keys kvs \<Longrightarrow> map (nfc \<circ> fst) kvs = map fst kvs"
  by (induction kvs) (auto simp: plain_keys_def nfc_ascii)

lemma plain_keys_kept:
  "nfc_laws nfc \<Longrightarrow> plain_keys kvs \<Longrightarrow>
   keptEntries nfc True kvs = filter (\<lambda>kv. \<not> isNilValue (snd kv)) kvs"
  by (induction kvs) (auto simp: plain_keys_def nfc_ascii keptEntries_def)

lemma map_of_sort_key:
  assumes "distinct (map fst kvs)"
  shows "map_of (sort_key fst kvs) = map_of kvs"
proof -
  have "distinct (map fst (sort_key fst kvs))"
    using distinct_perm [of "sort_key fst kvs" kvs fst] assms by simp
  with assms show ?thesis by (simp add: map_of_inject_set)
qed

lemma map_of_res_mapM:
  assumes "res_mapM (\<lambda>kv. res_bind (f (snd kv)) (\<lambda>t. Inr (g (fst kv), t))) es = Inr ms"
    and "\<forall>kv \<in> set es. g (fst kv) = fst kv"
  shows "map_of ms k = (case map_of es k of None \<Rightarrow> None | Some v \<Rightarrow> Some (projr (f v)))"
    and "map_of es k = Some v \<Longrightarrow> \<exists>t. f v = Inr t"
  using assms by (induction es arbitrary: ms) (auto simp: res_bind_Inr_iff split: if_splits)

lemma mapM_keys_ascii:
  assumes "res_mapM (\<lambda>kv. res_bind (f (snd kv)) (\<lambda>t. Inr (g (fst kv), t))) es = Inr ms"
    and "\<forall>kv \<in> set es. g (fst kv) = fst kv" and "\<forall>kv \<in> set es. ascii (fst kv)"
  shows "list_all (\<lambda>m. ascii (fst m)) ms"
  using assms by (induction es arbitrary: ms) (auto simp: res_bind_Inr_iff)

lemma map_of_filter_value:
  "distinct (map fst kvs) \<Longrightarrow>
   map_of (filter (\<lambda>kv. P (snd kv)) kvs) k =
     (case map_of kvs k of None \<Rightarrow> None | Some v \<Rightarrow> if P v then Some v else None)"
  by (induction kvs) (auto simp: map_of_eq_None_iff split: option.splits)

lemma jfield_sanitize:
  "list_all (\<lambda>m. ascii (fst m)) ms \<Longrightarrow>
   jfield k (json_sanitize (JObj ms)) = map_option json_sanitize (map_of ms k)"
  by (induction ms) auto

theorem canon_map_field:
  assumes "nfc_laws nfc" and "plain_keys kvs" and "canon_tree nfc (VMap kvs) = Inr t"
    and "map_of kvs k = Some v"
  shows "field_repr nfc v = Inr (jfield k (json_sanitize t))"
proof -
  let ?es = "sort_key fst (filter (\<lambda>kv. \<not> isNilValue (snd kv)) kvs)"
  from assms obtain ms where t: "t = JObj ms"
    and ms: "res_mapM (\<lambda>kv. res_bind (canon_tree nfc (snd kv)) (\<lambda>t. Inr (nfc (fst kv), t))) ?es = Inr ms"
    by (auto simp: plain_keys_kept res_bind_Inr_iff split: if_splits)
  have d: "distinct (map fst kvs)" using assms(2) by (simp add: plain_keys_def)
  then have df: "distinct (map fst (filter (\<lambda>kv. \<not> isNilValue (snd kv)) kvs))"
    by (rule distinct_map_filter)
  have es: "map_of ?es k = (if isNilValue v then None else Some v)"
    unfolding map_of_sort_key [OF df] map_of_filter_value [OF d, of "\<lambda>v. \<not> isNilValue v"] assms(4)
    by simp
  have a: "\<forall>kv \<in> set ?es. ascii (fst kv)"
    using assms(2) by (auto simp: plain_keys_def list_all_iff)
  then have nf: "\<forall>kv \<in> set ?es. nfc (fst kv) = fst kv"
    using assms(1) by (auto intro: nfc_ascii)
  have "list_all (\<lambda>m. ascii (fst m)) ms"
    by (rule mapM_keys_ascii [OF ms nf a])
  with map_of_res_mapM [OF ms nf, of k] es show ?thesis
    by (auto simp: t jfield_sanitize field_repr_def simp del: json_sanitize.simps)
qed

theorem canon_map_no_field:
  assumes "nfc_laws nfc" and "plain_keys kvs" and "canon_tree nfc (VMap kvs) = Inr t"
    and "map_of kvs k = None"
  shows "jfield k (json_sanitize t) = None"
proof -
  let ?es = "sort_key fst (filter (\<lambda>kv. \<not> isNilValue (snd kv)) kvs)"
  from assms obtain ms where t: "t = JObj ms"
    and ms: "res_mapM (\<lambda>kv. res_bind (canon_tree nfc (snd kv)) (\<lambda>t. Inr (nfc (fst kv), t))) ?es = Inr ms"
    by (auto simp: plain_keys_kept res_bind_Inr_iff split: if_splits)
  have "k \<notin> fst ` set ?es" using assms(4) by (auto simp: map_of_eq_None_iff)
  then have es: "map_of ?es k = None" by (rule map_of_eq_None_iff [THEN iffD2])
  have a: "\<forall>kv \<in> set ?es. ascii (fst kv)"
    using assms(2) by (auto simp: plain_keys_def list_all_iff)
  then have nf: "\<forall>kv \<in> set ?es. nfc (fst kv) = fst kv"
    using assms(1) by (auto intro: nfc_ascii)
  have "list_all (\<lambda>m. ascii (fst m)) ms"
    by (rule mapM_keys_ascii [OF ms nf a])
  with map_of_res_mapM(1) [OF ms nf, of k] es show ?thesis
    by (simp add: t jfield_sanitize del: json_sanitize.simps)
qed

lemma list_all2_fst: "list_all2 (\<lambda>x y. fst y = fst x \<and> Q x y) xs ys \<Longrightarrow> map fst ys = map fst xs"
  by (induction rule: list_all2_induct) auto

lemma sanitize_members_fst:
  "list_all (\<lambda>m. ascii (fst m)) ms \<Longrightarrow>
   map fst (map (\<lambda>(k, v). (sanitize k, json_sanitize v)) ms) = map fst ms"
  by (induction ms) auto

lemma res_mapM_keys:
  "res_mapM (\<lambda>kv. res_bind (f (snd kv)) (\<lambda>t. Inr (g (fst kv), t))) es = Inr ms \<Longrightarrow>
   \<forall>kv \<in> set es. g (fst kv) = fst kv \<Longrightarrow> map fst ms = map fst es"
  by (induction es arbitrary: ms) (auto simp: res_bind_Inr_iff)

text \<open>The tree of a map is an object whose keys are distinct keys of the map.\<close>

theorem canon_map_object:
  assumes "nfc_laws nfc" and "plain_keys kvs" and "canon_tree nfc (VMap kvs) = Inr t"
  shows "\<exists>ms. json_sanitize t = JObj ms \<and> distinct (map fst ms) \<and> fst ` set ms \<subseteq> fst ` set kvs"
proof -
  let ?es = "sort_key fst (filter (\<lambda>kv. \<not> isNilValue (snd kv)) kvs)"
  from assms obtain ms where t: "t = JObj ms"
    and ms: "res_mapM (\<lambda>kv. res_bind (canon_tree nfc (snd kv)) (\<lambda>t. Inr (nfc (fst kv), t))) ?es = Inr ms"
    by (auto simp: plain_keys_kept res_bind_Inr_iff split: if_splits)
  have a: "\<forall>kv \<in> set ?es. ascii (fst kv)"
    using assms(2) by (auto simp: plain_keys_def list_all_iff)
  then have nf: "\<forall>kv \<in> set ?es. nfc (fst kv) = fst kv"
    using assms(1) by (auto intro: nfc_ascii)
  let ?ss = "map (\<lambda>(k, v). (sanitize k, json_sanitize v)) ms"
  have keys: "map fst ?ss = map fst ?es"
    using sanitize_members_fst [OF mapM_keys_ascii [OF ms nf a]] res_mapM_keys [OF ms nf] by simp
  have "distinct (map fst (filter (\<lambda>kv. \<not> isNilValue (snd kv)) kvs))"
    using assms(2) by (intro distinct_map_filter) (simp add: plain_keys_def)
  then have "distinct (map fst ?es)"
    using distinct_perm [of ?es "filter (\<lambda>kv. \<not> isNilValue (snd kv)) kvs" fst] by simp
  with keys have "distinct (map fst ?ss)" by (simp only:)
  moreover have "fst ` set ?ss = fst ` set ?es" using keys by (metis list.set_map)
  ultimately show ?thesis by (auto simp: t)
qed

text \<open>Two nested maps with the same content agree on every entry.\<close>

lemma field_repr_VMap:
  assumes "nfc_laws nfc" and "plain_keys kvs" and "field_repr nfc (VMap kvs) = Inr x"
    and "map_of kvs k = Some v"
  shows "\<exists>j. x = Some j \<and> field_repr nfc v = Inr (jfield k j)"
  using assms canon_map_field [OF assms(1,2) _ assms(4)]
  by (auto simp: field_repr_def res_bind_Inr_iff)

lemma Canonicalize_repr:
  assumes "nfc_laws nfc" and "Canonicalize nfc (VMap kvs) = Inr b"
  shows "\<exists>j. field_repr nfc (VMap kvs) = Inr (Some j) \<and> json_parse b = Some j"
  using Canonicalize_parse [OF assms] by (auto simp: field_repr_def simp del: canon_tree.simps)

text \<open>The fields of a map as the reader of its canonical bytes finds them.\<close>

theorem Canonicalize_field:
  assumes "nfc_laws nfc" and "plain_keys kvs" and "Canonicalize nfc (VMap kvs) = Inr b"
    and "map_of kvs k = Some v"
  shows "\<exists>j. json_parse b = Some j \<and> field_repr nfc v = Inr (jfield k j)"
  using Canonicalize_parse [OF assms(1,3)] canon_map_field [OF assms(1,2) _ assms(4)] by auto

section \<open>Two maps with the same bytes\<close>

definition same_repr :: "(string \<Rightarrow> string) \<Rightarrow> goval \<Rightarrow> goval \<Rightarrow> bool" where
  "same_repr nfc v w \<longleftrightarrow> (\<exists>x. field_repr nfc v = Inr x \<and> field_repr nfc w = Inr x)"

text \<open>Strings that the canonical form does not tell apart.\<close>

definition same_text :: "(string \<Rightarrow> string) \<Rightarrow> string \<Rightarrow> string \<Rightarrow> bool" where
  "same_text nfc a b \<longleftrightarrow> sanitize (nfc a) = sanitize (nfc b)"

lemma same_text_ascii:
  "nfc_laws nfc \<Longrightarrow> ascii a \<Longrightarrow> ascii b \<Longrightarrow> same_text nfc a b \<longleftrightarrow> a = b"
  by (simp add: same_text_def nfc_ascii)

lemma show_int_inj [simp]: "show_int i = show_int j \<longleftrightarrow> i = j"
proof
  assume "show_int i = show_int j"
  then have "json_print (JNum (show_int i)) = json_print (JNum (show_int j))" by simp
  show "i = j"
  proof (cases "i < 0"; cases "j < 0")
    assume "i < 0" "j < 0"
    with \<open>show_int i = show_int j\<close> have "show_nat (nat (- i)) = show_nat (nat (- j))"
      by (simp add: show_int_def)
    then have "nat (- i) = nat (- j)" by (metis dec_val_show_nat)
    with \<open>i < 0\<close> \<open>j < 0\<close> show ?thesis by simp
  next
    assume "\<not> i < 0" "\<not> j < 0"
    with \<open>show_int i = show_int j\<close> have "show_nat (nat i) = show_nat (nat j)"
      by (simp add: show_int_def)
    then have "nat i = nat j" by (metis dec_val_show_nat)
    with \<open>\<not> i < 0\<close> \<open>\<not> j < 0\<close> show ?thesis by simp
  next
    assume "i < 0" "\<not> j < 0"
    with \<open>show_int i = show_int j\<close> show ?thesis
      by (metis is_digit_not_sign show_int_def show_nat_Cons_digit)
  next
    assume "\<not> i < 0" "j < 0"
    with \<open>show_int i = show_int j\<close> show ?thesis
      by (metis is_digit_not_sign show_int_def show_nat_Cons_digit)
  qed
qed simp

lemma same_repr_simps [simp]:
  "same_repr nfc (VStr a) (VStr b) \<longleftrightarrow> same_text nfc a b"
  "same_repr nfc (VBool p) (VBool q) \<longleftrightarrow> p = q"
  "same_repr nfc (VInt i) (VInt j) \<longleftrightarrow> i = j"
  "same_repr nfc VNilSlice VNilSlice"
  by (auto simp: same_repr_def same_text_def)

lemma same_text_map:
  "map (\<lambda>s. JStr (sanitize (nfc s))) ss = map (\<lambda>s. JStr (sanitize (nfc s))) ts \<longleftrightarrow>
   list_all2 (same_text nfc) ss ts"
  by (auto simp: list_eq_iff_nth_eq list_all2_conv_all_nth same_text_def)

lemma same_repr_strings [simp]:
  "same_repr nfc (VSlice (map VStr ss)) (VSlice (map VStr ts)) \<longleftrightarrow> list_all2 (same_text nfc) ss ts"
  "\<not> same_repr nfc VNilSlice (VSlice (map VStr ts))"
  "\<not> same_repr nfc (VSlice (map VStr ss)) VNilSlice"
  by (auto simp: same_repr_def same_text_map list_all2_conv_all_nth same_text_def)

lemma same_repr_emptyToNil [simp]:
  "same_repr nfc (emptyToNil a) (emptyToNil b) \<longleftrightarrow> a = [] \<and> b = [] \<or> a \<noteq> [] \<and> b \<noteq> [] \<and> same_text nfc a b"
  by (auto simp: same_repr_def same_text_def)

lemma same_repr_field:
  assumes "nfc_laws nfc" and "same_repr nfc (VMap kvs) (VMap kvs')"
    and "plain_keys kvs" and "plain_keys kvs'"
    and "map_of kvs k = Some v" and "map_of kvs' k = Some v'"
  shows "same_repr nfc v v'"
  using assms field_repr_VMap [OF assms(1) assms(3) _ assms(5)]
    field_repr_VMap [OF assms(1) assms(4) _ assms(6)]
  unfolding same_repr_def by fastforce

lemma same_repr_at:
  assumes "nfc_laws nfc" and "same_repr nfc (VMap kvs) (VMap kvs')"
    and "plain_keys kvs" and "plain_keys kvs'"
    and "map_of kvs k \<noteq> None" and "map_of kvs' k \<noteq> None"
  shows "same_repr nfc (the (map_of kvs k)) (the (map_of kvs' k))"
  using assms same_repr_field [OF assms(1-4)] by fastforce

text \<open>An absent entry reads like a nil one.\<close>

definition entry :: "(string \<times> goval) list \<Rightarrow> string \<Rightarrow> goval" where
  "entry kvs k = (case map_of kvs k of None \<Rightarrow> VNil | Some v \<Rightarrow> v)"

lemma canon_map_entry:
  assumes "nfc_laws nfc" and "plain_keys kvs" and "canon_tree nfc (VMap kvs) = Inr t"
  shows "field_repr nfc (entry kvs k) = Inr (jfield k (json_sanitize t))"
  using canon_map_field [OF assms, of k] canon_map_no_field [OF assms, of k]
  by (simp add: entry_def split: option.splits)

lemma same_repr_entry:
  assumes "nfc_laws nfc" and "same_repr nfc (VMap kvs) (VMap kvs')"
    and "plain_keys kvs" and "plain_keys kvs'"
  shows "same_repr nfc (entry kvs k) (entry kvs' k)"
proof -
  from assms(2) obtain t t' where "canon_tree nfc (VMap kvs) = Inr t" "canon_tree nfc (VMap kvs') = Inr t'"
    "json_sanitize t = json_sanitize t'"
    by (auto simp: same_repr_def field_repr_def res_bind_Inr_iff simp del: canon_tree.simps)
  then show ?thesis
    using canon_map_entry [OF assms(1,3), of t k] canon_map_entry [OF assms(1,4), of t' k]
    by (simp add: same_repr_def)
qed

lemma same_bytes_same_repr:
  assumes "nfc_laws nfc" and "Canonicalize nfc (VMap kvs) = Inr b"
    and "Canonicalize nfc (VMap kvs') = Inr b"
  shows "same_repr nfc (VMap kvs) (VMap kvs')"
  using Canonicalize_repr [OF assms(1,2)] Canonicalize_repr [OF assms(1,3)]
  by (auto simp: same_repr_def)

end
