(* ===== verification/Builders.thy ===== *)
theory Builders
  imports Crypto Signing_View Go_Types
begin

text \<open>
  \<open>internal/context/builder.go\<close> and \<open>internal/decision/builder.go\<close>: a record, its signing view,
  and the identifier that is the digest of the view's canonical bytes.
\<close>

text \<open>A nil \<open>[]string\<close> is the empty list; \<open>append\<close> never makes an empty non-nil one here.\<close>

definition reasonCodesView :: "string list \<Rightarrow> goval" where
  "reasonCodesView rs = (if rs = [] then VNilSlice else VSlice (map VStr rs))"

section \<open>internal/context/builder.go\<close>

definition ContextSchema :: string where
  "ContextSchema = ''relia.context.v0.1''"

definition sourceView :: "context_source \<Rightarrow> (string \<times> goval) list" where
  "sourceView s =
    [(''kind'', VStr (cs_Kind s)), (''repo'', VStr (cs_Repo s)), (''workflow'', VStr (cs_Workflow s)),
     (''run_id'', VStr (cs_RunID s)), (''actor'', VStr (cs_Actor s)), (''ref'', VStr (cs_Ref s)),
     (''sha'', VStr (cs_SHA s))]"

definition inputsView :: "context_inputs \<Rightarrow> (string \<times> goval) list" where
  "inputsView i =
    [(''action'', VStr (ci_Action i)), (''resource'', VStr (ci_Resource i)), (''env'', VStr (ci_Env i)),
     (''intent'', ci_Intent i)]"

definition evidenceView :: "context_evidence \<Rightarrow> (string \<times> goval) list" where
  "evidenceView e = [(''plan_digest'', VStr (ce_PlanDigest e)), (''diff_url'', VStr (ce_DiffURL e))]"

definition contextView :: "context_record \<Rightarrow> (string \<times> goval) list" where
  "contextView r =
    [(''schema'', VStr (cx_Schema r)), (''created_at'', VStr (cx_CreatedAt r)),
     (''source'', VMap (sourceView (cx_Source r))), (''inputs'', VMap (inputsView (cx_Inputs r))),
     (''evidence'', VMap (evidenceView (cx_Evidence r)))]"

definition BuildContext ::
  "prims \<Rightarrow> (string \<Rightarrow> string) \<Rightarrow> context_source \<Rightarrow> context_inputs \<Rightarrow> context_evidence \<Rightarrow> string \<Rightarrow>
   context_record res"
where
  "BuildContext pr nfc source inputs evidence createdAt =
    (let record0 = \<lparr>cx_Schema = ContextSchema, cx_ContextID = [], cx_CreatedAt = createdAt,
                    cx_Source = source, cx_Inputs = inputs, cx_Evidence = evidence\<rparr>
     in res_bind (Canonicalize nfc (VMap (contextView record0))) (\<lambda>canonical.
          Inr (record0\<lparr>cx_ContextID := DigestWithPrefix pr canonical\<rparr>)))"

section \<open>internal/decision/builder.go\<close>

definition DecisionSchema :: string where
  "DecisionSchema = ''relia.decision.v0.1''"

definition decisionPolicyView :: "decision_policy \<Rightarrow> (string \<times> goval) list" where
  "decisionPolicyView p =
    [(''policy_id'', VStr (dp_PolicyID p)), (''policy_version'', VStr (dp_PolicyVersion p)),
     (''policy_hash'', VStr (dp_PolicyHash p))]"

definition decisionView :: "decision_record \<Rightarrow> (string \<times> goval) list" where
  "decisionView r =
    [(''schema'', VStr (dc_Schema r)), (''created_at'', VStr (dc_CreatedAt r)),
     (''context_id'', VStr (dc_ContextID r)), (''policy'', VMap (decisionPolicyView (dc_Policy r))),
     (''verdict'', VStr (dc_Verdict r)), (''reason_codes'', reasonCodesView (dc_ReasonCodes r)),
     (''requires_approval'', VBool (dc_RequiresApproval r)), (''risk'', VStr (dc_Risk r))]"

definition BuildDecision ::
  "prims \<Rightarrow> (string \<Rightarrow> string) \<Rightarrow> string \<Rightarrow> decision_policy \<Rightarrow> string \<Rightarrow> string list \<Rightarrow> bool \<Rightarrow> string \<Rightarrow>
   string \<Rightarrow> decision_record res"
where
  "BuildDecision pr nfc contextID policy verdict reasonCodes requiresApproval risk createdAt =
    (let record0 = \<lparr>dc_Schema = DecisionSchema, dc_DecisionID = [], dc_CreatedAt = createdAt,
                    dc_ContextID = contextID, dc_Policy = policy, dc_Verdict = verdict,
                    dc_ReasonCodes = reasonCodes, dc_RequiresApproval = requiresApproval,
                    dc_Risk = risk\<rparr>
     in res_bind (Canonicalize nfc (VMap (decisionView record0))) (\<lambda>canonical.
          Inr (record0\<lparr>dc_DecisionID := DigestWithPrefix pr canonical\<rparr>)))"

section \<open>The identifier binds the content\<close>

definition collides :: "prims \<Rightarrow> string \<Rightarrow> string \<Rightarrow> bool" where
  "collides pr a b \<longleftrightarrow> a \<noteq> b \<and> pr_sha256 pr a = pr_sha256 pr b"

lemma same_digest_same_repr:
  assumes "nfc_laws nfc"
    and "Canonicalize nfc (VMap kvs) = Inr b" and "Canonicalize nfc (VMap kvs') = Inr b'"
    and "DigestWithPrefix pr b = DigestWithPrefix pr b'" and "\<not> collides pr b b'"
  shows "same_repr nfc (VMap kvs) (VMap kvs')"
  using assms same_bytes_same_repr
  by (metis DigestWithPrefix_inj collides_def)

lemma plain_keys_views [simp]:
  "plain_keys (sourceView s)" "plain_keys (inputsView i)" "plain_keys (evidenceView e)"
  "plain_keys (contextView r)" "plain_keys (decisionPolicyView p)" "plain_keys (decisionView d)"
  by (simp_all add: plain_keys_def sourceView_def inputsView_def evidenceView_def contextView_def
      decisionPolicyView_def decisionView_def)

lemma same_reasonCodes:
  "same_repr nfc (reasonCodesView rs) (reasonCodesView ss) \<Longrightarrow> list_all2 (same_text nfc) rs ss"
  by (auto simp: reasonCodesView_def split: if_splits)

lemma BuildContext_Inr:
  "BuildContext pr nfc s i e c = Inr r \<longleftrightarrow>
   (\<exists>b. let r0 = \<lparr>cx_Schema = ContextSchema, cx_ContextID = [], cx_CreatedAt = c, cx_Source = s,
                  cx_Inputs = i, cx_Evidence = e\<rparr>
        in Canonicalize nfc (VMap (contextView r0)) = Inr b \<and>
           r = r0\<lparr>cx_ContextID := DigestWithPrefix pr b\<rparr>)"
  by (auto simp: BuildContext_def res_bind_Inr_iff Let_def)

lemma BuildDecision_Inr:
  "BuildDecision pr nfc x p v rs q k c = Inr r \<longleftrightarrow>
   (\<exists>b. let r0 = \<lparr>dc_Schema = DecisionSchema, dc_DecisionID = [], dc_CreatedAt = c,
                  dc_ContextID = x, dc_Policy = p, dc_Verdict = v, dc_ReasonCodes = rs,
                  dc_RequiresApproval = q, dc_Risk = k\<rparr>
        in Canonicalize nfc (VMap (decisionView r0)) = Inr b \<and>
           r = r0\<lparr>dc_DecisionID := DigestWithPrefix pr b\<rparr>)"
  by (auto simp: BuildDecision_def res_bind_Inr_iff Let_def)

lemma contextView_inj:
  assumes laws: "nfc_laws nfc" and same: "same_repr nfc (VMap (contextView r)) (VMap (contextView r'))"
  shows "same_text nfc (cx_CreatedAt r) (cx_CreatedAt r')"
    and "same_repr nfc (VMap (sourceView (cx_Source r))) (VMap (sourceView (cx_Source r')))"
    and "same_repr nfc (VMap (inputsView (cx_Inputs r))) (VMap (inputsView (cx_Inputs r')))"
    and "same_repr nfc (VMap (evidenceView (cx_Evidence r))) (VMap (evidenceView (cx_Evidence r')))"
  using same_repr_at [OF laws same, of "''created_at''"] same_repr_at [OF laws same, of "''source''"]
    same_repr_at [OF laws same, of "''inputs''"] same_repr_at [OF laws same, of "''evidence''"]
  by (simp_all add: plain_keys_def contextView_def)

lemma inputsView_inj:
  assumes laws: "nfc_laws nfc" and same: "same_repr nfc (VMap (inputsView i)) (VMap (inputsView i'))"
  shows "same_text nfc (ci_Action i) (ci_Action i')" "same_text nfc (ci_Resource i) (ci_Resource i')"
    and "same_text nfc (ci_Env i) (ci_Env i')" "same_repr nfc (ci_Intent i) (ci_Intent i')"
  using same_repr_at [OF laws same, of "''action''"] same_repr_at [OF laws same, of "''resource''"]
    same_repr_at [OF laws same, of "''env''"] same_repr_at [OF laws same, of "''intent''"]
  by (simp_all add: plain_keys_def inputsView_def)

lemma sourceView_inj:
  assumes laws: "nfc_laws nfc" and same: "same_repr nfc (VMap (sourceView s)) (VMap (sourceView s'))"
  shows "same_text nfc (cs_Repo s) (cs_Repo s')" "same_text nfc (cs_Workflow s) (cs_Workflow s')"
    and "same_text nfc (cs_RunID s) (cs_RunID s')" "same_text nfc (cs_Actor s) (cs_Actor s')"
    and "same_text nfc (cs_SHA s) (cs_SHA s')"
  using same_repr_at [OF laws same, of "''repo''"] same_repr_at [OF laws same, of "''workflow''"]
    same_repr_at [OF laws same, of "''run_id''"] same_repr_at [OF laws same, of "''actor''"]
    same_repr_at [OF laws same, of "''sha''"]
  by (simp_all add: plain_keys_def sourceView_def)

lemma evidenceView_inj:
  assumes laws: "nfc_laws nfc" and same: "same_repr nfc (VMap (evidenceView e)) (VMap (evidenceView e'))"
  shows "same_text nfc (ce_PlanDigest e) (ce_PlanDigest e')"
    and "same_text nfc (ce_DiffURL e) (ce_DiffURL e')"
  using same_repr_at [OF laws same, of "''plan_digest''"] same_repr_at [OF laws same, of "''diff_url''"]
  by (simp_all add: plain_keys_def evidenceView_def)

lemma decisionView_inj:
  assumes laws: "nfc_laws nfc"
    and same: "same_repr nfc (VMap (decisionView r)) (VMap (decisionView r'))"
  shows "same_text nfc (dc_ContextID r) (dc_ContextID r')"
    and "same_text nfc (dc_Verdict r) (dc_Verdict r')"
    and "dc_RequiresApproval r = dc_RequiresApproval r'"
    and "list_all2 (same_text nfc) (dc_ReasonCodes r) (dc_ReasonCodes r')"
    and "same_repr nfc (VMap (decisionPolicyView (dc_Policy r))) (VMap (decisionPolicyView (dc_Policy r')))"
  using same_repr_at [OF laws same, of "''context_id''"] same_repr_at [OF laws same, of "''verdict''"]
    same_repr_at [OF laws same, of "''requires_approval''"]
    same_repr_at [OF laws same, of "''reason_codes''"] same_repr_at [OF laws same, of "''policy''"]
  by (simp_all add: plain_keys_def decisionView_def same_reasonCodes)

lemma decisionPolicyView_inj:
  assumes laws: "nfc_laws nfc"
    and same: "same_repr nfc (VMap (decisionPolicyView p)) (VMap (decisionPolicyView p'))"
  shows "same_text nfc (dp_PolicyHash p) (dp_PolicyHash p')"
  using same_repr_at [OF laws same, of "''policy_hash''"]
  by (simp add: plain_keys_def decisionPolicyView_def)

end
