(* ===== verification/Receipt.thy ===== *)
theory Receipt
  imports Builders Go_Struct
begin

text \<open>
  \<open>internal/ledger/receipt.go\<close> and \<open>verify.go\<close>: the receipt body, its digest and signature, and
  verification; and the two functions of \<open>internal/api/authorize\_service.go\<close> that read the
  pass-through references back out of a stored body.
\<close>

section \<open>internal/ledger/receipt.go\<close>

definition ReceiptSchema :: string where
  "ReceiptSchema = ''relia.receipt.v0.1''"

text \<open>The \<open>Signer\<close> interface.\<close>

record signer =
  sg_KeyID :: string
  sg_SignEd25519 :: "string \<Rightarrow> string res"

record make_receipt_input =
  mi_Schema :: string
  mi_CreatedAt :: string
  mi_IdemKey :: string
  mi_SupersedesReceiptID :: "string option"
  mi_ContextID :: string
  mi_DecisionID :: string
  mi_Actor :: receipt_actor
  mi_Request :: receipt_request
  mi_Policy :: receipt_policy
  mi_InteractionRef :: "interaction_ref option"
  mi_Refs :: "receipt_refs option"
  mi_Approval :: "receipt_approval option"
  mi_CredentialGrant :: "credential_grant option"
  mi_Outcome :: receipt_outcome

record stored_receipt =
  sr_ReceiptID :: string
  sr_BodyDigest :: string
  sr_BodyJSON :: string
  sr_KeyID :: string
  sr_Sig :: string
  sr_IdemKey :: string
  sr_CreatedAt :: string
  sr_SupersedesReceiptID :: "string option"
  sr_ContextID :: string
  sr_DecisionID :: string
  sr_OutcomeStatus :: string
  sr_ApprovalID :: "string option"
  sr_PolicyHash :: string
  sr_Final :: bool
  sr_ExpiresAt :: "string option"

definition validOutcome :: "string \<Rightarrow> bool" where
  "validOutcome status =
    (case outcome_parse status of None \<Rightarrow> False | Some _ \<Rightarrow> True)"

definition isFinalOutcome :: "string \<Rightarrow> bool" where
  "isFinalOutcome status =
    (case outcome_parse status of
       Some OutcomeIssuedCredentials \<Rightarrow> True
     | Some OutcomeDenied \<Rightarrow> True
     | Some OutcomeIssueFailed \<Rightarrow> True
     | _ \<Rightarrow> False)"

definition approverView :: "approver \<Rightarrow> (string \<times> goval) list" where
  "approverView a =
    [(''kind'', VStr (ap_Kind a)), (''id'', VStr (ap_ID a)), (''display'', VStr (ap_Display a))]"

definition approvalView :: "receipt_approval \<Rightarrow> (string \<times> goval) list" where
  "approvalView a =
    [(''required'', VBool (rap_Required a)), (''approval_id'', emptyToNil (rap_ApprovalID a)),
     (''status'', emptyToNil (rap_Status a)), (''approved_at'', emptyToNil (rap_ApprovedAt a)),
     (''approver'', case rap_Approver a of None \<Rightarrow> VNilMap | Some p \<Rightarrow> VMap (approverView p))]"

definition approvalMap :: "receipt_approval option \<Rightarrow> goval" where
  "approvalMap approval = (case approval of None \<Rightarrow> VNilMap | Some a \<Rightarrow> VMap (approvalView a))"

definition contextRefView :: "context_ref \<Rightarrow> (string \<times> goval) list" where
  "contextRefView c =
    [(''context_id'', emptyToNil (cr_ContextID c)), (''record_hash'', emptyToNil (cr_RecordHash c)),
     (''content_hash'', emptyToNil (cr_ContentHash c))]"

definition decisionRefView :: "decision_ref \<Rightarrow> (string \<times> goval) list" where
  "decisionRefView d =
    [(''decision_id'', emptyToNil (dr_DecisionID d)), (''inputs_digest'', emptyToNil (dr_InputsDigest d)),
     (''record_hash'', emptyToNil (dr_RecordHash d)), (''content_digest'', emptyToNil (dr_ContentDigest d))]"

definition refsView :: "receipt_refs \<Rightarrow> (string \<times> goval) list" where
  "refsView r =
    [(''context'', case rf_Context r of None \<Rightarrow> VNilMap | Some c \<Rightarrow> VMap (contextRefView c)),
     (''decision'', case rf_Decision r of None \<Rightarrow> VNilMap | Some d \<Rightarrow> VMap (decisionRefView d))]"

definition refsMap :: "receipt_refs option \<Rightarrow> goval" where
  "refsMap refs =
    (case refs of None \<Rightarrow> VNilMap
     | Some r \<Rightarrow> if rf_Context r = None \<and> rf_Decision r = None then VNilMap else VMap (refsView r))"

definition interactionRefView :: "interaction_ref \<Rightarrow> (string \<times> goval) list" where
  "interactionRefView r =
    [(''mode'', emptyToNil (ir_Mode r)), (''session_id'', emptyToNil (ir_SessionID r)),
     (''call_id'', emptyToNil (ir_CallID r)), (''turn_id'', emptyToNil (ir_TurnID r)),
     (''turn_started_at'', emptyToNil (ir_TurnStartedAt r)), (''turn_ended_at'', emptyToNil (ir_TurnEndedAt r)),
     (''jurisdiction'', emptyToNil (ir_Jurisdiction r)), (''consent_state'', emptyToNil (ir_ConsentState r)),
     (''redaction_mode'', emptyToNil (ir_RedactionMode r))] @
    (if ir_TurnIndex r \<noteq> 0 then [(''turn_index'', VInt (ir_TurnIndex r))] else [])"

definition interactionRefMap :: "interaction_ref option \<Rightarrow> goval" where
  "interactionRefMap ref =
    (case ref of None \<Rightarrow> VNilMap
     | Some r \<Rightarrow> if list_all (\<lambda>kv. snd kv = VNil) (interactionRefView r) then VNilMap
                else VMap (interactionRefView r))"

definition credentialView :: "credential_grant \<Rightarrow> (string \<times> goval) list" where
  "credentialView c =
    [(''provider'', emptyToNil (cg_Provider c)), (''method'', emptyToNil (cg_Method c)),
     (''role_arn'', emptyToNil (cg_RoleARN c)), (''region'', emptyToNil (cg_Region c)),
     (''ttl_seconds'', VInt (cg_TTLSeconds c)), (''scope_digest'', emptyToNil (cg_ScopeDigest c))]"

definition credentialMap :: "credential_grant option \<Rightarrow> goval" where
  "credentialMap credential =
    (case credential of None \<Rightarrow> VNilMap | Some c \<Rightarrow> VMap (credentialView c))"

definition outcomeErrorMap :: "outcome_error option \<Rightarrow> goval" where
  "outcomeErrorMap errInfo =
    (case errInfo of None \<Rightarrow> VNilMap
     | Some e \<Rightarrow> VMap [(''code'', emptyToNil (oe_Code e)), (''msg'', emptyToNil (oe_Msg e))])"

definition actorView :: "receipt_actor \<Rightarrow> (string \<times> goval) list" where
  "actorView a =
    [(''kind'', VStr (ra_Kind a)), (''subject'', VStr (ra_Subject a)), (''issuer'', VStr (ra_Issuer a)),
     (''repo'', VStr (ra_Repo a)), (''workflow'', VStr (ra_Workflow a)), (''run_id'', VStr (ra_RunID a)),
     (''sha'', VStr (ra_SHA a))]"

definition requestView :: "receipt_request \<Rightarrow> (string \<times> goval) list" where
  "requestView q =
    [(''request_id'', VStr (rq_RequestID q)), (''action'', VStr (rq_Action q)),
     (''resource'', VStr (rq_Resource q)), (''env'', VStr (rq_Env q)), (''intent'', rq_Intent q)]"

definition receiptPolicyView :: "receipt_policy \<Rightarrow> (string \<times> goval) list" where
  "receiptPolicyView p =
    [(''policy_id'', VStr (rp_PolicyID p)), (''policy_version'', VStr (rp_PolicyVersion p)),
     (''policy_hash'', VStr (rp_PolicyHash p))]"

definition outcomeView :: "receipt_outcome \<Rightarrow> (string \<times> goval) list" where
  "outcomeView o' =
    [(''status'', VStr (ro_Status o')), (''issued_at'', VStr (ro_IssuedAt o')),
     (''expires_at'', VStr (ro_ExpiresAt o')), (''error'', outcomeErrorMap (ro_Error o'))]"

definition receiptBody :: "make_receipt_input \<Rightarrow> (string \<times> goval) list" where
  "receiptBody i =
    [(''schema'', VStr (mi_Schema i)), (''created_at'', VStr (mi_CreatedAt i)),
     (''context_id'', VStr (mi_ContextID i)), (''decision_id'', VStr (mi_DecisionID i)),
     (''actor'', VMap (actorView (mi_Actor i))), (''request'', VMap (requestView (mi_Request i))),
     (''policy'', VMap (receiptPolicyView (mi_Policy i))), (''approval'', approvalMap (mi_Approval i)),
     (''credential_grant'', credentialMap (mi_CredentialGrant i)),
     (''outcome'', VMap (outcomeView (mi_Outcome i)))] @
    (let ir = interactionRefMap (mi_InteractionRef i)
     in if ir \<noteq> VNilMap then [(''interaction_ref'', ir)] else []) @
    (let refs = refsMap (mi_Refs i) in if refs \<noteq> VNilMap then [(''refs'', refs)] else [])"

definition MakeReceipt ::
  "prims \<Rightarrow> (string \<Rightarrow> string) \<Rightarrow> make_receipt_input \<Rightarrow> signer \<Rightarrow> stored_receipt res"
where
  "MakeReceipt pr nfc in0 sg =
    (let i = (if mi_Schema in0 = [] then in0\<lparr>mi_Schema := ReceiptSchema\<rparr> else in0)
     in if mi_Schema i \<noteq> ReceiptSchema then Inl (Errorf (''invalid schema: '' @ mi_Schema i))
        else if mi_IdemKey i = [] \<or> mi_ContextID i = [] \<or> mi_DecisionID i = [] \<or>
                rp_PolicyHash (mi_Policy i) = []
        then Inl (Errorf ''missing required receipt fields'')
        else if \<not> validOutcome (ro_Status (mi_Outcome i))
        then Inl (Errorf (''invalid outcome status: '' @ ro_Status (mi_Outcome i)))
        else res_bind (Canonicalize nfc (VMap (receiptBody i))) (\<lambda>canonical.
          let digestBytes = DigestBytes pr canonical;
              bodyDigest = DigestWithPrefix pr canonical
          in res_bind (sg_SignEd25519 sg digestBytes) (\<lambda>sig.
               Inr \<lparr>sr_ReceiptID = bodyDigest, sr_BodyDigest = bodyDigest, sr_BodyJSON = canonical,
                    sr_KeyID = sg_KeyID sg, sr_Sig = sig, sr_IdemKey = mi_IdemKey i,
                    sr_CreatedAt = mi_CreatedAt i,
                    sr_SupersedesReceiptID = mi_SupersedesReceiptID i,
                    sr_ContextID = mi_ContextID i, sr_DecisionID = mi_DecisionID i,
                    sr_OutcomeStatus = ro_Status (mi_Outcome i),
                    sr_ApprovalID = (case mi_Approval i of None \<Rightarrow> None
                       | Some a \<Rightarrow> if rap_ApprovalID a \<noteq> [] then Some (rap_ApprovalID a) else None),
                    sr_PolicyHash = rp_PolicyHash (mi_Policy i),
                    sr_Final = isFinalOutcome (ro_Status (mi_Outcome i)),
                    sr_ExpiresAt = (if ro_ExpiresAt (mi_Outcome i) \<noteq> []
                                    then Some (ro_ExpiresAt (mi_Outcome i)) else None)\<rparr>)))"

section \<open>internal/ledger/verify.go\<close>

definition VerifyReceipt :: "prims \<Rightarrow> stored_receipt \<Rightarrow> string \<Rightarrow> unit res" where
  "VerifyReceipt pr receipt publicKey =
    (let digestBytes = DigestBytes pr (sr_BodyJSON receipt);
         digest = DigestWithPrefix pr (sr_BodyJSON receipt)
     in if sr_BodyDigest receipt \<noteq> digest \<or> sr_ReceiptID receipt \<noteq> digest
        then Inl ErrReceiptDigestMismatch
        else res_bind (VerifyEd25519 pr publicKey digestBytes (sr_Sig receipt)) (\<lambda>ok.
          if \<not> ok then Inl ErrReceiptSignature else Inr ()))"

section \<open>Reading references back (internal/api/authorize\_service.go)\<close>

definition decodeContextRef :: "(string \<times> jval) list \<Rightarrow> context_ref \<Rightarrow> context_ref option" where
  "decodeContextRef ms c =
    Option.bind (string_field ''context_id'' ms (cr_ContextID c)) (\<lambda>a.
    Option.bind (string_field ''record_hash'' ms (cr_RecordHash c)) (\<lambda>b.
    Option.bind (string_field ''content_hash'' ms (cr_ContentHash c)) (\<lambda>d.
      Some \<lparr>cr_ContextID = a, cr_RecordHash = b, cr_ContentHash = d\<rparr>)))"

definition decodeDecisionRef :: "(string \<times> jval) list \<Rightarrow> decision_ref \<Rightarrow> decision_ref option" where
  "decodeDecisionRef ms r =
    Option.bind (string_field ''decision_id'' ms (dr_DecisionID r)) (\<lambda>a.
    Option.bind (string_field ''inputs_digest'' ms (dr_InputsDigest r)) (\<lambda>b.
    Option.bind (string_field ''record_hash'' ms (dr_RecordHash r)) (\<lambda>c.
    Option.bind (string_field ''content_digest'' ms (dr_ContentDigest r)) (\<lambda>d.
      Some \<lparr>dr_DecisionID = a, dr_InputsDigest = b, dr_RecordHash = c, dr_ContentDigest = d\<rparr>))))"

definition zero_context_ref :: context_ref where
  "zero_context_ref = \<lparr>cr_ContextID = [], cr_RecordHash = [], cr_ContentHash = []\<rparr>"

definition zero_decision_ref :: decision_ref where
  "zero_decision_ref =
     \<lparr>dr_DecisionID = [], dr_InputsDigest = [], dr_RecordHash = [], dr_ContentDigest = []\<rparr>"

definition decodeReceiptRefs :: "(string \<times> jval) list \<Rightarrow> receipt_refs \<Rightarrow> receipt_refs option" where
  "decodeReceiptRefs ms r =
    Option.bind (ptr_field ''context'' decodeContextRef zero_context_ref ms (rf_Context r)) (\<lambda>c.
    Option.bind (ptr_field ''decision'' decodeDecisionRef zero_decision_ref ms (rf_Decision r)) (\<lambda>d.
      Some \<lparr>rf_Context = c, rf_Decision = d\<rparr>))"

definition zero_refs :: receipt_refs where
  "zero_refs = \<lparr>rf_Context = None, rf_Decision = None\<rparr>"

definition receiptRefsFromBody :: "string \<Rightarrow> receipt_refs option" where
  "receiptRefsFromBody body =
    (if body = [] then None
     else case unmarshal_struct (ptr_field ''refs'' decodeReceiptRefs zero_refs) None body of
       None \<Rightarrow> None
     | Some None \<Rightarrow> None
     | Some (Some r) \<Rightarrow> if rf_Context r = None \<and> rf_Decision r = None then None else Some r)"

definition decodeInteractionRef ::
  "(string \<times> jval) list \<Rightarrow> interaction_ref \<Rightarrow> interaction_ref option"
where
  "decodeInteractionRef ms r =
    Option.bind (string_field ''mode'' ms (ir_Mode r)) (\<lambda>f1.
    Option.bind (string_field ''session_id'' ms (ir_SessionID r)) (\<lambda>f2.
    Option.bind (string_field ''call_id'' ms (ir_CallID r)) (\<lambda>f3.
    Option.bind (string_field ''turn_id'' ms (ir_TurnID r)) (\<lambda>f4.
    Option.bind (int_field ''turn_index'' ms (ir_TurnIndex r)) (\<lambda>f5.
    Option.bind (string_field ''turn_started_at'' ms (ir_TurnStartedAt r)) (\<lambda>f6.
    Option.bind (string_field ''turn_ended_at'' ms (ir_TurnEndedAt r)) (\<lambda>f7.
    Option.bind (string_field ''jurisdiction'' ms (ir_Jurisdiction r)) (\<lambda>f8.
    Option.bind (string_field ''consent_state'' ms (ir_ConsentState r)) (\<lambda>f9.
    Option.bind (string_field ''redaction_mode'' ms (ir_RedactionMode r)) (\<lambda>f10.
      Some \<lparr>ir_Mode = f1, ir_SessionID = f2, ir_CallID = f3, ir_TurnID = f4, ir_TurnIndex = f5,
            ir_TurnStartedAt = f6, ir_TurnEndedAt = f7, ir_Jurisdiction = f8, ir_ConsentState = f9,
            ir_RedactionMode = f10\<rparr>))))))))))"

definition zero_interaction_ref :: interaction_ref where
  "zero_interaction_ref =
     \<lparr>ir_Mode = [], ir_SessionID = [], ir_CallID = [], ir_TurnID = [], ir_TurnIndex = 0,
      ir_TurnStartedAt = [], ir_TurnEndedAt = [], ir_Jurisdiction = [], ir_ConsentState = [],
      ir_RedactionMode = []\<rparr>"

definition interactionRefFromBody :: "string \<Rightarrow> interaction_ref option" where
  "interactionRefFromBody body =
    (if body = [] then None
     else case unmarshal_struct (ptr_field ''interaction_ref'' decodeInteractionRef zero_interaction_ref) None body of
       None \<Rightarrow> None
     | Some ir \<Rightarrow> ir)"

end
