(* ===== verification/Record_Decode.thy ===== *)
theory Record_Decode
  imports Go_Decode Receipt
begin

text \<open>
  \<open>json.Unmarshal\<close> into the context and decision records of \<open>pkg/types\<close>, and into the parts of a
  receipt body that the pages and packs show.
\<close>

section \<open>Context records\<close>

definition zero_source :: context_source where
  "zero_source = \<lparr>cs_Kind = [], cs_Repo = [], cs_Workflow = [], cs_RunID = [], cs_Actor = [], cs_Ref = [], cs_SHA = []\<rparr>"

definition zero_context :: context_record where
  "zero_context = \<lparr>cx_Schema = [], cx_ContextID = [], cx_CreatedAt = [], cx_Source = zero_source,
     cx_Inputs = \<lparr>ci_Action = [], ci_Resource = [], ci_Env = [], ci_Intent = VNilMap\<rparr>,
     cx_Evidence = \<lparr>ce_PlanDigest = [], ce_DiffURL = []\<rparr>\<rparr>"

definition decodeSource :: "(string \<times> jval) list \<Rightarrow> context_source \<Rightarrow> context_source option" where
  "decodeSource ms s =
    Option.bind (string_field ''kind'' ms (cs_Kind s)) (\<lambda>f1.
    Option.bind (string_field ''repo'' ms (cs_Repo s)) (\<lambda>f2.
    Option.bind (string_field ''workflow'' ms (cs_Workflow s)) (\<lambda>f3.
    Option.bind (string_field ''run_id'' ms (cs_RunID s)) (\<lambda>f4.
    Option.bind (string_field ''actor'' ms (cs_Actor s)) (\<lambda>f5.
    Option.bind (string_field ''ref'' ms (cs_Ref s)) (\<lambda>f6.
    Option.bind (string_field ''sha'' ms (cs_SHA s)) (\<lambda>f7.
      Some \<lparr>cs_Kind = f1, cs_Repo = f2, cs_Workflow = f3, cs_RunID = f4, cs_Actor = f5, cs_Ref = f6,
            cs_SHA = f7\<rparr>)))))))"

definition decodeInputs ::
  "(string \<Rightarrow> string option) \<Rightarrow> (string \<times> jval) list \<Rightarrow> context_inputs \<Rightarrow> context_inputs option"
where
  "decodeInputs float64 ms i =
    Option.bind (string_field ''action'' ms (ci_Action i)) (\<lambda>f1.
    Option.bind (string_field ''resource'' ms (ci_Resource i)) (\<lambda>f2.
    Option.bind (string_field ''env'' ms (ci_Env i)) (\<lambda>f3.
    Option.bind (any_map_field float64 ''intent'' ms (ci_Intent i)) (\<lambda>f4.
      Some \<lparr>ci_Action = f1, ci_Resource = f2, ci_Env = f3, ci_Intent = f4\<rparr>))))"

definition decodeEvidence :: "(string \<times> jval) list \<Rightarrow> context_evidence \<Rightarrow> context_evidence option" where
  "decodeEvidence ms e =
    Option.bind (string_field ''plan_digest'' ms (ce_PlanDigest e)) (\<lambda>f1.
    Option.bind (string_field ''diff_url'' ms (ce_DiffURL e)) (\<lambda>f2.
      Some \<lparr>ce_PlanDigest = f1, ce_DiffURL = f2\<rparr>))"

definition decodeContext ::
  "(string \<Rightarrow> string option) \<Rightarrow> (string \<times> jval) list \<Rightarrow> context_record \<Rightarrow> context_record option"
where
  "decodeContext float64 ms r =
    Option.bind (string_field ''schema'' ms (cx_Schema r)) (\<lambda>f1.
    Option.bind (string_field ''context_id'' ms (cx_ContextID r)) (\<lambda>f2.
    Option.bind (string_field ''created_at'' ms (cx_CreatedAt r)) (\<lambda>f3.
    Option.bind (struct_field ''source'' decodeSource ms (cx_Source r)) (\<lambda>f4.
    Option.bind (struct_field ''inputs'' (decodeInputs float64) ms (cx_Inputs r)) (\<lambda>f5.
    Option.bind (struct_field ''evidence'' decodeEvidence ms (cx_Evidence r)) (\<lambda>f6.
      Some \<lparr>cx_Schema = f1, cx_ContextID = f2, cx_CreatedAt = f3, cx_Source = f4, cx_Inputs = f5,
            cx_Evidence = f6\<rparr>))))))"

definition unmarshalContext :: "(string \<Rightarrow> string option) \<Rightarrow> string \<Rightarrow> context_record option" where
  "unmarshalContext float64 body = unmarshal_struct (decodeContext float64) zero_context body"

section \<open>Decision records\<close>

definition zero_decision :: decision_record where
  "zero_decision = \<lparr>dc_Schema = [], dc_DecisionID = [], dc_CreatedAt = [], dc_ContextID = [],
     dc_Policy = \<lparr>dp_PolicyID = [], dp_PolicyVersion = [], dp_PolicyHash = []\<rparr>, dc_Verdict = [],
     dc_ReasonCodes = [], dc_RequiresApproval = False, dc_Risk = []\<rparr>"

definition decodeDecisionPolicy :: "(string \<times> jval) list \<Rightarrow> decision_policy \<Rightarrow> decision_policy option" where
  "decodeDecisionPolicy ms p =
    Option.bind (string_field ''policy_id'' ms (dp_PolicyID p)) (\<lambda>f1.
    Option.bind (string_field ''policy_version'' ms (dp_PolicyVersion p)) (\<lambda>f2.
    Option.bind (string_field ''policy_hash'' ms (dp_PolicyHash p)) (\<lambda>f3.
      Some \<lparr>dp_PolicyID = f1, dp_PolicyVersion = f2, dp_PolicyHash = f3\<rparr>)))"

definition decodeDecision :: "(string \<times> jval) list \<Rightarrow> decision_record \<Rightarrow> decision_record option" where
  "decodeDecision ms r =
    Option.bind (string_field ''schema'' ms (dc_Schema r)) (\<lambda>f1.
    Option.bind (string_field ''decision_id'' ms (dc_DecisionID r)) (\<lambda>f2.
    Option.bind (string_field ''created_at'' ms (dc_CreatedAt r)) (\<lambda>f3.
    Option.bind (string_field ''context_id'' ms (dc_ContextID r)) (\<lambda>f4.
    Option.bind (struct_field ''policy'' decodeDecisionPolicy ms (dc_Policy r)) (\<lambda>f5.
    Option.bind (string_field ''verdict'' ms (dc_Verdict r)) (\<lambda>f6.
    Option.bind (strings_field ''reason_codes'' ms) (\<lambda>f7.
    Option.bind (bool_field ''requires_approval'' ms (dc_RequiresApproval r)) (\<lambda>f8.
    Option.bind (string_field ''risk'' ms (dc_Risk r)) (\<lambda>f9.
      Some \<lparr>dc_Schema = f1, dc_DecisionID = f2, dc_CreatedAt = f3, dc_ContextID = f4, dc_Policy = f5,
            dc_Verdict = f6, dc_ReasonCodes = f7, dc_RequiresApproval = f8, dc_Risk = f9\<rparr>)))))))))"

definition unmarshalDecision :: "string \<Rightarrow> decision_record option" where
  "unmarshalDecision body = unmarshal_struct decodeDecision zero_decision body"

section \<open>References, with the error ignored\<close>

definition lenientContextRef :: "(string \<times> jval) list \<Rightarrow> context_ref \<Rightarrow> context_ref" where
  "lenientContextRef ms c =
    \<lparr>cr_ContextID = lenient_string ''context_id'' ms (cr_ContextID c),
     cr_RecordHash = lenient_string ''record_hash'' ms (cr_RecordHash c),
     cr_ContentHash = lenient_string ''content_hash'' ms (cr_ContentHash c)\<rparr>"

definition lenientDecisionRef :: "(string \<times> jval) list \<Rightarrow> decision_ref \<Rightarrow> decision_ref" where
  "lenientDecisionRef ms d =
    \<lparr>dr_DecisionID = lenient_string ''decision_id'' ms (dr_DecisionID d),
     dr_InputsDigest = lenient_string ''inputs_digest'' ms (dr_InputsDigest d),
     dr_RecordHash = lenient_string ''record_hash'' ms (dr_RecordHash d),
     dr_ContentDigest = lenient_string ''content_digest'' ms (dr_ContentDigest d)\<rparr>"

definition lenientRefs :: "(string \<times> jval) list \<Rightarrow> receipt_refs \<Rightarrow> receipt_refs" where
  "lenientRefs ms r =
    \<lparr>rf_Context = lenient_ptr ''context'' lenientContextRef zero_context_ref ms (rf_Context r),
     rf_Decision = lenient_ptr ''decision'' lenientDecisionRef zero_decision_ref ms (rf_Decision r)\<rparr>"

definition lenientInteraction :: "(string \<times> jval) list \<Rightarrow> interaction_ref \<Rightarrow> interaction_ref" where
  "lenientInteraction ms r =
    \<lparr>ir_Mode = lenient_string ''mode'' ms (ir_Mode r),
     ir_SessionID = lenient_string ''session_id'' ms (ir_SessionID r),
     ir_CallID = lenient_string ''call_id'' ms (ir_CallID r),
     ir_TurnID = lenient_string ''turn_id'' ms (ir_TurnID r),
     ir_TurnIndex = lenient_int ''turn_index'' ms (ir_TurnIndex r),
     ir_TurnStartedAt = lenient_string ''turn_started_at'' ms (ir_TurnStartedAt r),
     ir_TurnEndedAt = lenient_string ''turn_ended_at'' ms (ir_TurnEndedAt r),
     ir_Jurisdiction = lenient_string ''jurisdiction'' ms (ir_Jurisdiction r),
     ir_ConsentState = lenient_string ''consent_state'' ms (ir_ConsentState r),
     ir_RedactionMode = lenient_string ''redaction_mode'' ms (ir_RedactionMode r)\<rparr>"

end
