(* ===== verification/Grade.thy ===== *)
theory Grade
  imports Go_Decode Receipt
begin

text \<open>
  \<open>internal/grade/grade.go\<close>: the quality grade of a receipt.  The body is decoded with its error
  ignored; the reasons come in the iteration order of a Go map, a parameter.
\<close>

section \<open>Decoding the receipt body\<close>

definition zero_policy :: receipt_policy where
  "zero_policy = \<lparr>rp_PolicyID = [], rp_PolicyVersion = [], rp_PolicyHash = []\<rparr>"

definition lenientPolicy :: "(string \<times> jval) list \<Rightarrow> receipt_policy \<Rightarrow> receipt_policy" where
  "lenientPolicy ms p =
    \<lparr>rp_PolicyID = lenient_string ''policy_id'' ms (rp_PolicyID p),
     rp_PolicyVersion = lenient_string ''policy_version'' ms (rp_PolicyVersion p),
     rp_PolicyHash = lenient_string ''policy_hash'' ms (rp_PolicyHash p)\<rparr>"

definition zero_approver :: approver where
  "zero_approver = \<lparr>ap_Kind = [], ap_ID = [], ap_Display = []\<rparr>"

definition lenientApprover :: "(string \<times> jval) list \<Rightarrow> approver \<Rightarrow> approver" where
  "lenientApprover ms a =
    \<lparr>ap_Kind = lenient_string ''kind'' ms (ap_Kind a), ap_ID = lenient_string ''id'' ms (ap_ID a),
     ap_Display = lenient_string ''display'' ms (ap_Display a)\<rparr>"

definition zero_approval :: receipt_approval where
  "zero_approval = \<lparr>rap_Required = False, rap_ApprovalID = [], rap_Status = [], rap_ApprovedAt = [], rap_Approver = None\<rparr>"

definition lenientApproval :: "(string \<times> jval) list \<Rightarrow> receipt_approval \<Rightarrow> receipt_approval" where
  "lenientApproval ms a =
    \<lparr>rap_Required = lenient_bool ''required'' ms (rap_Required a),
     rap_ApprovalID = lenient_string ''approval_id'' ms (rap_ApprovalID a),
     rap_Status = lenient_string ''status'' ms (rap_Status a),
     rap_ApprovedAt = lenient_string ''approved_at'' ms (rap_ApprovedAt a),
     rap_Approver = lenient_ptr ''approver'' lenientApprover zero_approver ms (rap_Approver a)\<rparr>"

definition zero_grant :: credential_grant where
  "zero_grant = \<lparr>cg_Provider = [], cg_Method = [], cg_RoleARN = [], cg_Region = [], cg_TTLSeconds = 0, cg_ScopeDigest = []\<rparr>"

definition lenientGrant :: "(string \<times> jval) list \<Rightarrow> credential_grant \<Rightarrow> credential_grant" where
  "lenientGrant ms c =
    \<lparr>cg_Provider = lenient_string ''provider'' ms (cg_Provider c),
     cg_Method = lenient_string ''method'' ms (cg_Method c),
     cg_RoleARN = lenient_string ''role_arn'' ms (cg_RoleARN c),
     cg_Region = lenient_string ''region'' ms (cg_Region c),
     cg_TTLSeconds = lenient_int ''ttl_seconds'' ms (cg_TTLSeconds c),
     cg_ScopeDigest = lenient_string ''scope_digest'' ms (cg_ScopeDigest c)\<rparr>"

text \<open>The fields of \<open>receiptBody\<close> that are read; its outcome is not.\<close>

record graded_body =
  gb_Policy :: receipt_policy
  gb_Approval :: "receipt_approval option"
  gb_CredentialGrant :: "credential_grant option"

definition zero_graded :: graded_body where
  "zero_graded = \<lparr>gb_Policy = zero_policy, gb_Approval = None, gb_CredentialGrant = None\<rparr>"

definition lenientGraded :: "(string \<times> jval) list \<Rightarrow> graded_body \<Rightarrow> graded_body" where
  "lenientGraded ms b =
    \<lparr>gb_Policy = lenient_struct ''policy'' lenientPolicy ms (gb_Policy b),
     gb_Approval = lenient_ptr ''approval'' lenientApproval zero_approval ms (gb_Approval b),
     gb_CredentialGrant = lenient_ptr ''credential_grant'' lenientGrant zero_grant ms (gb_CredentialGrant b)\<rparr>"

section \<open>Evaluate\<close>

record grade_result =
  gr_Grade :: string
  gr_Reasons :: "string list"

record grade_input =
  gi_Valid :: bool
  gi_Receipt :: stored_receipt
  gi_Context :: "context_record option"
  gi_Decision :: "decision_record option"

definition blank :: "string \<Rightarrow> bool" where
  "blank s \<longleftrightarrow> trim_space s = []"

text \<open>
  \<open>strings.EqualFold\<close> against a text of ASCII letters: the folding of \<open>fold_name\<close>, in which two runes
  outside ASCII fold to a letter.
\<close>

definition equal_fold :: "string \<Rightarrow> string \<Rightarrow> bool" where
  "equal_fold s t \<longleftrightarrow> fold_name s = fold_name t"

definition grantLacks :: "(credential_grant \<Rightarrow> bool) \<Rightarrow> graded_body \<Rightarrow> bool" where
  "grantLacks bad body = (case gb_CredentialGrant body of None \<Rightarrow> True | Some c \<Rightarrow> bad c)"

definition approvalRequired :: "grade_input \<Rightarrow> graded_body \<Rightarrow> bool" where
  "approvalRequired i body \<longleftrightarrow>
     (case gi_Decision i of None \<Rightarrow> False | Some d \<Rightarrow> dc_RequiresApproval d) \<or>
     (case gb_Approval body of None \<Rightarrow> False | Some a \<Rightarrow> rap_Required a)"

definition approvalApproved :: "graded_body \<Rightarrow> bool" where
  "approvalApproved body \<longleftrightarrow>
     (case gb_Approval body of None \<Rightarrow> False | Some a \<Rightarrow> equal_fold (rap_Status a) ''approved'')"

text \<open>The entries of the map \<open>missing\<close> that are set.\<close>

definition missingOf :: "grade_input \<Rightarrow> graded_body \<Rightarrow> string list" where
  "missingOf i body =
    (if rp_PolicyHash (gb_Policy body) = [] \<and> sr_PolicyHash (gi_Receipt i) = [] then [''policy_hash''] else []) @
    (case gi_Decision i of None \<Rightarrow> []
     | Some d \<Rightarrow> if dp_PolicyHash (dc_Policy d) = [] then [''decision_policy_hash''] else []) @
    (case gi_Context i of None \<Rightarrow> []
     | Some c \<Rightarrow>
         (if blank (ce_PlanDigest (cx_Evidence c)) then [''plan_digest''] else []) @
         (if blank (ce_DiffURL (cx_Evidence c)) then [''diff_url''] else [])) @
    (if grantLacks (\<lambda>c. blank (cg_RoleARN c)) body then [''role_arn''] else []) @
    (if grantLacks (\<lambda>c. cg_TTLSeconds c \<le> 0) body then [''ttl''] else []) @
    (if approvalRequired i body \<and> \<not> approvalApproved body then [''approval''] else [])"

definition gradeOf :: "string list \<Rightarrow> string" where
  "gradeOf missing =
    (if ''policy_hash'' \<in> set missing \<or> ''decision_policy_hash'' \<in> set missing then ''F''
     else if ''approval'' \<in> set missing then ''D''
     else if ''plan_digest'' \<in> set missing \<and> ''diff_url'' \<in> set missing then ''C''
     else if ''plan_digest'' \<in> set missing \<or> ''diff_url'' \<in> set missing \<or>
             ''role_arn'' \<in> set missing \<or> ''ttl'' \<in> set missing then ''B''
     else ''A'')"

text \<open>\<open>order\<close> is the iteration order of the map.\<close>

definition GradeEvaluate :: "(string list \<Rightarrow> string list) \<Rightarrow> grade_input \<Rightarrow> grade_result" where
  "GradeEvaluate order i =
    (if \<not> gi_Valid i then \<lparr>gr_Grade = ''F'', gr_Reasons = [''invalid_signature'']\<rparr>
     else let body = unmarshal_lenient lenientGraded zero_graded (sr_BodyJSON (gi_Receipt i));
              missing = missingOf i body
          in \<lparr>gr_Grade = gradeOf missing, gr_Reasons = map (\<lambda>k. ''missing_'' @ k) (order missing)\<rparr>)"

section \<open>Facts\<close>

lemma missingOf_mem:
  "''policy_hash'' \<in> set (missingOf i body) \<longleftrightarrow>
     rp_PolicyHash (gb_Policy body) = [] \<and> sr_PolicyHash (gi_Receipt i) = []"
  "''decision_policy_hash'' \<in> set (missingOf i body) \<longleftrightarrow>
     (\<exists>d. gi_Decision i = Some d \<and> dp_PolicyHash (dc_Policy d) = [])"
  "''plan_digest'' \<in> set (missingOf i body) \<longleftrightarrow>
     (\<exists>c. gi_Context i = Some c \<and> blank (ce_PlanDigest (cx_Evidence c)))"
  "''diff_url'' \<in> set (missingOf i body) \<longleftrightarrow>
     (\<exists>c. gi_Context i = Some c \<and> blank (ce_DiffURL (cx_Evidence c)))"
  "''role_arn'' \<in> set (missingOf i body) \<longleftrightarrow> grantLacks (\<lambda>c. blank (cg_RoleARN c)) body"
  "''ttl'' \<in> set (missingOf i body) \<longleftrightarrow> grantLacks (\<lambda>c. cg_TTLSeconds c \<le> 0) body"
  "''approval'' \<in> set (missingOf i body) \<longleftrightarrow> approvalRequired i body \<and> \<not> approvalApproved body"
  by (cases "gi_Decision i"; cases "gi_Context i"; simp add: missingOf_def)+

lemma missingOf_Nil:
  "missingOf i body = [] \<longleftrightarrow>
     (\<forall>k \<in> {''policy_hash'', ''decision_policy_hash'', ''plan_digest'', ''diff_url'', ''role_arn'', ''ttl'', ''approval''}.
        k \<notin> set (missingOf i body))"
  unfolding ball_simps missingOf_mem
  by (cases "gi_Decision i"; cases "gi_Context i"; simp add: missingOf_def)

text \<open>Nothing is missing exactly for the best grade.\<close>

lemma gradeOf_A: "gradeOf (missingOf i body) = ''A'' \<longleftrightarrow> missingOf i body = []"
  unfolding missingOf_Nil by (simp add: gradeOf_def)

end
