(* ===== verification/Pack.thy ===== *)
theory Pack
  imports Record_Decode Record_Json Grade Go_Base64
begin

text \<open>
  \<open>internal/pack\<close> and \<open>pkg/types/manifest.go\<close>: the audit pack of a receipt, its summary, its manifest
  and its checksum file.  The zip archive and the HTML template of the summary are parameters; a map
  of files is an association list.
\<close>

section \<open>Indented JSON\<close>

text \<open>\<open>json.MarshalIndent(v, "", "  ")\<close>\<close>

definition newline :: "nat \<Rightarrow> string" where
  "newline n = CHR 0x0A # replicate (2 * n) (CHR '' '')"

fun json_indent :: "nat \<Rightarrow> jval \<Rightarrow> string" where
  "json_indent n (JArr vs) =
    (if vs = [] then ''[]''
     else CHR ''['' # str_join '','' (map (\<lambda>v. newline (n + 1) @ json_indent (n + 1) v) vs) @ newline n @ '']'')"
| "json_indent n (JObj kvs) =
    (if kvs = [] then ''{}''
     else CHR ''{'' #
       str_join '','' (map (\<lambda>(k, v). newline (n + 1) @ json_quote k @ '': '' @ json_indent (n + 1) v) kvs) @
       newline n @ ''}'')"
| "json_indent n v = json_print v"

definition marshalIndent :: "jval \<Rightarrow> string" where
  "marshalIndent j = json_indent 0 j"

text \<open>\<open>append(b, '\n')\<close>\<close>

definition line :: "string \<Rightarrow> string" where
  "line s = s @ [CHR 0x0A]"

section \<open>Types\<close>

record pack_approval =
  pk_ApprovalID :: string
  pk_Status :: string
  pk_ReceiptID :: string

record pack_input =
  pi_Receipt :: stored_receipt
  pi_Context :: context_record
  pi_Decision :: decision_record
  pi_Policy :: string
  pi_Approvals :: "pack_approval list"
  pi_CreatedAt :: string

record pack_file =
  pf_Name :: string
  pf_SHA256 :: string
  pf_SizeBytes :: nat

record pack_schemas =
  ps_Context :: string
  ps_Decision :: string
  ps_Receipt :: string

record pack_manifest =
  mf_Schema :: string
  mf_CreatedAt :: string
  mf_ReceiptID :: string
  mf_ContextID :: string
  mf_DecisionID :: string
  mf_PolicyHash :: string
  mf_ApprovalID :: string
  mf_Refs :: "receipt_refs option"
  mf_InteractionRef :: "interaction_ref option"
  mf_Schemas :: pack_schemas
  mf_Files :: "pack_file list"

definition approvalJson :: "pack_approval \<Rightarrow> jval" where
  "approvalJson a = JObj
    [(''approval_id'', JStr (pk_ApprovalID a)), (''status'', JStr (pk_Status a)),
     (''receipt_id'', JStr (pk_ReceiptID a))]"

definition contextRefJson :: "context_ref \<Rightarrow> jval" where
  "contextRefJson c = JObj
    (omit_empty ''context_id'' (cr_ContextID c) @ omit_empty ''record_hash'' (cr_RecordHash c) @
     omit_empty ''content_hash'' (cr_ContentHash c))"

definition decisionRefJson :: "decision_ref \<Rightarrow> jval" where
  "decisionRefJson d = JObj
    (omit_empty ''decision_id'' (dr_DecisionID d) @ omit_empty ''inputs_digest'' (dr_InputsDigest d) @
     omit_empty ''record_hash'' (dr_RecordHash d) @ omit_empty ''content_digest'' (dr_ContentDigest d))"

text \<open>A pointer tagged \<open>omitempty\<close>.\<close>

definition omit_nil :: "string \<Rightarrow> ('a \<Rightarrow> jval) \<Rightarrow> 'a option \<Rightarrow> (string \<times> jval) list" where
  "omit_nil name f p = (case p of None \<Rightarrow> [] | Some x \<Rightarrow> [(name, f x)])"

definition refsJson :: "receipt_refs \<Rightarrow> jval" where
  "refsJson r = JObj
    (omit_nil ''context'' contextRefJson (rf_Context r) @ omit_nil ''decision'' decisionRefJson (rf_Decision r))"

definition omit_zero :: "string \<Rightarrow> int \<Rightarrow> (string \<times> jval) list" where
  "omit_zero name i = (if i = 0 then [] else [(name, JNum (show_int i))])"

definition interactionJson :: "interaction_ref \<Rightarrow> jval" where
  "interactionJson r = JObj
    (omit_empty ''mode'' (ir_Mode r) @ omit_empty ''session_id'' (ir_SessionID r) @
     omit_empty ''call_id'' (ir_CallID r) @ omit_empty ''turn_id'' (ir_TurnID r) @
     omit_zero ''turn_index'' (ir_TurnIndex r) @ omit_empty ''turn_started_at'' (ir_TurnStartedAt r) @
     omit_empty ''turn_ended_at'' (ir_TurnEndedAt r) @ omit_empty ''jurisdiction'' (ir_Jurisdiction r) @
     omit_empty ''consent_state'' (ir_ConsentState r) @ omit_empty ''redaction_mode'' (ir_RedactionMode r))"

definition packFileJson :: "pack_file \<Rightarrow> jval" where
  "packFileJson f = JObj
    [(''name'', JStr (pf_Name f)), (''sha256'', JStr (pf_SHA256 f)),
     (''size_bytes'', JNum (show_int (int (pf_SizeBytes f))))]"

definition schemasJson :: "pack_schemas \<Rightarrow> jval" where
  "schemasJson s = JObj
    [(''context'', JStr (ps_Context s)), (''decision'', JStr (ps_Decision s)), (''receipt'', JStr (ps_Receipt s))]"

definition manifestJson :: "pack_manifest \<Rightarrow> jval" where
  "manifestJson m = JObj
    ([(''schema'', JStr (mf_Schema m)), (''created_at'', JStr (mf_CreatedAt m)),
      (''receipt_id'', JStr (mf_ReceiptID m)), (''context_id'', JStr (mf_ContextID m)),
      (''decision_id'', JStr (mf_DecisionID m)), (''policy_hash'', JStr (mf_PolicyHash m))] @
     omit_empty ''approval_id'' (mf_ApprovalID m) @ omit_nil ''refs'' refsJson (mf_Refs m) @
     omit_nil ''interaction_ref'' interactionJson (mf_InteractionRef m) @
     [(''schemas'', schemasJson (mf_Schemas m)), (''files'', JArr (map packFileJson (mf_Files m)))])"

section \<open>internal/pack/pack.go\<close>

text \<open>
  The receipt with its integrity block and links.  Assigning to the nil map that the body \<open>null\<close>
  decodes to panics.
\<close>

definition integrityOf :: "stored_receipt \<Rightarrow> goval" where
  "integrityOf r = VMap
    [(''body_digest'', VStr (sr_BodyDigest r)),
     (''signatures'', VSlice [VMap
        [(''alg'', VStr ''Ed25519''), (''key_id'', VStr (sr_KeyID r)),
         (''sig'', VStr (''base64:'' @ base64_encode (sr_Sig r)))]])]"

definition linksOf :: "string \<Rightarrow> stored_receipt \<Rightarrow> goval" where
  "linksOf baseURL r = VMap
    [(''verify'', VStr (trim_right_byte baseURL (CHR ''/'') @ ''/v1/verify/'' @ sr_ReceiptID r)),
     (''pack'', VStr (trim_right_byte baseURL (CHR ''/'') @ ''/v1/pack/'' @ sr_ReceiptID r))]"

definition receiptMap :: "string \<Rightarrow> stored_receipt \<Rightarrow> (string \<times> goval) list \<Rightarrow> (string \<times> goval) list" where
  "receiptMap baseURL r body =
    (let body1 = AList.update ''integrity'' (integrityOf r) body
     in if baseURL \<noteq> [] then AList.update ''links'' (linksOf baseURL r) body1 else body1)"

definition buildReceiptJSON ::
  "(string \<Rightarrow> string option) \<Rightarrow> stored_receipt \<Rightarrow> string \<Rightarrow> string res"
where
  "buildReceiptJSON float64 receipt baseURL =
    (case Option.bind (json_parse (sr_BodyJSON receipt)) (decode_any_map float64 VNilMap) of
       None \<Rightarrow> Inl (Errorf ''invalid receipt body'')
     | Some body \<Rightarrow>
         if body = VNilMap then Inl (GoPanic ''assignment to entry in nil map'')
         else res_bind (goval_json (VMap (receiptMap baseURL receipt (entries body))))
                (\<lambda>j. Inr (marshalIndent j)))"

text \<open>The names of a map of files, sorted.\<close>

definition fileNames :: "(string \<times> string) list \<Rightarrow> string list" where
  "fileNames files = sort (map fst files)"

definition fileBytes :: "(string \<times> string) list \<Rightarrow> string \<Rightarrow> string" where
  "fileBytes files name = (case map_of files name of None \<Rightarrow> [] | Some b \<Rightarrow> b)"

definition buildFileEntries :: "prims \<Rightarrow> (string \<times> string) list \<Rightarrow> pack_file list" where
  "buildFileEntries pr files =
    map (\<lambda>name. \<lparr>pf_Name = name, pf_SHA256 = ''sha256:'' @ hex_encode (pr_sha256 pr (fileBytes files name)),
                 pf_SizeBytes = length (fileBytes files name)\<rparr>) (fileNames files)"

definition checksumLine :: "prims \<Rightarrow> (string \<times> string) list \<Rightarrow> string \<Rightarrow> string" where
  "checksumLine pr files name =
    ''sha256:'' @ hex_encode (pr_sha256 pr (fileBytes files name)) @ ''  '' @ name @ [CHR 0x0A]"

definition buildChecksums :: "prims \<Rightarrow> (string \<times> string) list \<Rightarrow> string" where
  "buildChecksums pr files =
    concat (map (checksumLine pr files) (sort (filter (\<lambda>name. name \<noteq> ''sha256sums.txt'') (map fst files))))"

section \<open>internal/pack/summary.go\<close>

record summary =
  sm_Schema :: string
  sm_ReceiptID :: string
  sm_DecisionID :: string
  sm_ContextID :: string
  sm_Verdict :: string
  sm_Grade :: string
  sm_Refs :: "receipt_refs option"
  sm_InteractionRef :: "interaction_ref option"
  sm_ApprovalID :: string
  sm_ApprovalState :: string
  sm_PolicyID :: string
  sm_PolicyVersion :: string
  sm_PolicyHash :: string
  sm_RoleARN :: string
  sm_TTLSeconds :: int
  sm_PlanDigest :: string
  sm_DiffURL :: string
  sm_VerifyURL :: string
  sm_PackURL :: string

record shown_body =
  sb_Policy :: receipt_policy
  sb_Approval :: "receipt_approval option"
  sb_Refs :: "receipt_refs option"
  sb_InteractionRef :: "interaction_ref option"
  sb_CredentialGrant :: "credential_grant option"

definition zero_shown :: shown_body where
  "zero_shown = \<lparr>sb_Policy = zero_policy, sb_Approval = None, sb_Refs = None, sb_InteractionRef = None,
     sb_CredentialGrant = None\<rparr>"

definition lenientShown :: "(string \<times> jval) list \<Rightarrow> shown_body \<Rightarrow> shown_body" where
  "lenientShown ms b =
    \<lparr>sb_Policy = lenient_struct ''policy'' lenientPolicy ms (sb_Policy b),
     sb_Approval = lenient_ptr ''approval'' lenientApproval zero_approval ms (sb_Approval b),
     sb_Refs = lenient_ptr ''refs'' lenientRefs zero_refs ms (sb_Refs b),
     sb_InteractionRef = lenient_ptr ''interaction_ref'' lenientInteraction zero_interaction_ref ms (sb_InteractionRef b),
     sb_CredentialGrant = lenient_ptr ''credential_grant'' lenientGrant zero_grant ms (sb_CredentialGrant b)\<rparr>"

definition summaryOf :: "(string list \<Rightarrow> string list) \<Rightarrow> pack_input \<Rightarrow> string \<Rightarrow> summary" where
  "summaryOf order i baseURL =
    (let quality = GradeEvaluate order \<lparr>gi_Valid = True, gi_Receipt = pi_Receipt i,
           gi_Context = Some (pi_Context i), gi_Decision = Some (pi_Decision i)\<rparr>;
         rb = unmarshal_lenient lenientShown zero_shown (sr_BodyJSON (pi_Receipt i));
         required = (case sb_Approval rb of None \<Rightarrow> None | Some a \<Rightarrow> if rap_Required a then Some a else None);
         base = trim_right_byte baseURL (CHR ''/'')
     in \<lparr>sm_Schema = ''relia.pack_summary.v0.1'', sm_ReceiptID = sr_ReceiptID (pi_Receipt i),
         sm_DecisionID = dc_DecisionID (pi_Decision i), sm_ContextID = cx_ContextID (pi_Context i),
         sm_Verdict = dc_Verdict (pi_Decision i), sm_Grade = gr_Grade quality, sm_Refs = sb_Refs rb,
         sm_InteractionRef = sb_InteractionRef rb,
         sm_ApprovalID = (case required of None \<Rightarrow> [] | Some a \<Rightarrow> rap_ApprovalID a),
         sm_ApprovalState = (case required of None \<Rightarrow> [] | Some a \<Rightarrow> rap_Status a),
         sm_PolicyID = dp_PolicyID (dc_Policy (pi_Decision i)),
         sm_PolicyVersion = dp_PolicyVersion (dc_Policy (pi_Decision i)),
         sm_PolicyHash = dp_PolicyHash (dc_Policy (pi_Decision i)),
         sm_RoleARN = (case sb_CredentialGrant rb of None \<Rightarrow> [] | Some c \<Rightarrow> cg_RoleARN c),
         sm_TTLSeconds = (case sb_CredentialGrant rb of None \<Rightarrow> 0 | Some c \<Rightarrow> cg_TTLSeconds c),
         sm_PlanDigest = ce_PlanDigest (cx_Evidence (pi_Context i)),
         sm_DiffURL = ce_DiffURL (cx_Evidence (pi_Context i)),
         sm_VerifyURL = (if baseURL = [] then [] else base @ ''/verify/'' @ sr_ReceiptID (pi_Receipt i)),
         sm_PackURL = (if baseURL = [] then [] else base @ ''/pack/'' @ sr_ReceiptID (pi_Receipt i))\<rparr>)"

text \<open>\<open>render\<close> executes the template.\<close>

definition BuildSummary ::
  "(string list \<Rightarrow> string list) \<Rightarrow> (summary \<Rightarrow> string res) \<Rightarrow> pack_input \<Rightarrow> string \<Rightarrow> (summary \<times> string) res"
where
  "BuildSummary order render i baseURL =
    (let s = summaryOf order i baseURL in res_bind (render s) (\<lambda>html. Inr (s, html)))"

definition summaryJson :: "summary \<Rightarrow> jval" where
  "summaryJson s = JObj
    ([(''schema'', JStr (sm_Schema s)), (''receipt_id'', JStr (sm_ReceiptID s)),
      (''decision_id'', JStr (sm_DecisionID s)), (''context_id'', JStr (sm_ContextID s)),
      (''verdict'', JStr (sm_Verdict s)), (''grade'', JStr (sm_Grade s))] @
     omit_nil ''refs'' refsJson (sm_Refs s) @ omit_nil ''interaction_ref'' interactionJson (sm_InteractionRef s) @
     omit_empty ''approval_id'' (sm_ApprovalID s) @ omit_empty ''approval_status'' (sm_ApprovalState s) @
     omit_empty ''policy_id'' (sm_PolicyID s) @ omit_empty ''policy_version'' (sm_PolicyVersion s) @
     [(''policy_hash'', JStr (sm_PolicyHash s))] @ omit_empty ''role_arn'' (sm_RoleARN s) @
     omit_zero ''ttl_seconds'' (sm_TTLSeconds s) @ omit_empty ''plan_digest'' (sm_PlanDigest s) @
     omit_empty ''diff_url'' (sm_DiffURL s) @ omit_empty ''verify_url'' (sm_VerifyURL s) @
     omit_empty ''pack_url'' (sm_PackURL s))"

section \<open>BuildFiles\<close>

text \<open>What packing takes from outside, \<open>pe_Now\<close> being \<open>time.Now().UTC()\<close> in RFC 3339.\<close>

record pack_env =
  pe_Prims :: prims
  pe_Float64 :: "string \<Rightarrow> string option"
  pe_Order :: "string list \<Rightarrow> string list"
  pe_Render :: "summary \<Rightarrow> string res"
  pe_Zip :: "(string \<times> string) list \<Rightarrow> string res"
  pe_Now :: string

definition policyFile :: "string \<Rightarrow> string" where
  "policyFile policy = line (trim_right_byte policy (CHR 0x0A))"

definition documentFiles :: "pack_input \<Rightarrow> string \<Rightarrow> jval \<Rightarrow> (string \<times> string) list" where
  "documentFiles i receiptJSON ctx =
    [(''receipt.json'', line receiptJSON), (''context.json'', line (marshalIndent ctx)),
     (''decision.json'', line (marshalIndent (decisionJson (pi_Decision i)))),
     (''policy.yaml'', policyFile (pi_Policy i))] @
    (if pi_Approvals i \<noteq> []
     then [(''approvals.json'', line (marshalIndent (JArr (map approvalJson (pi_Approvals i)))))] else [])"

definition summaryFiles :: "summary \<Rightarrow> string \<Rightarrow> (string \<times> string) list" where
  "summaryFiles s html =
    [(''summary.json'', line (marshalIndent (summaryJson s))), (''summary.html'', line html)]"

text \<open>The package repeats the two readers of the service.\<close>

definition extractReceiptRefs :: "string \<Rightarrow> receipt_refs option" where
  "extractReceiptRefs body = receiptRefsFromBody body"

definition extractReceiptInteractionRef :: "string \<Rightarrow> interaction_ref option" where
  "extractReceiptInteractionRef body = interactionRefFromBody body"

definition manifestOf :: "pack_env \<Rightarrow> pack_input \<Rightarrow> (string \<times> string) list \<Rightarrow> pack_manifest" where
  "manifestOf e i files =
    \<lparr>mf_Schema = ''relia.pack.v0.1'',
     mf_CreatedAt = (if pi_CreatedAt i = [] then pe_Now e else pi_CreatedAt i),
     mf_ReceiptID = sr_ReceiptID (pi_Receipt i), mf_ContextID = cx_ContextID (pi_Context i),
     mf_DecisionID = dc_DecisionID (pi_Decision i), mf_PolicyHash = sr_PolicyHash (pi_Receipt i),
     mf_ApprovalID = (case sr_ApprovalID (pi_Receipt i) of None \<Rightarrow> [] | Some a \<Rightarrow> a),
     mf_Refs = extractReceiptRefs (sr_BodyJSON (pi_Receipt i)),
     mf_InteractionRef = extractReceiptInteractionRef (sr_BodyJSON (pi_Receipt i)),
     mf_Schemas = \<lparr>ps_Context = cx_Schema (pi_Context i), ps_Decision = dc_Schema (pi_Decision i),
                   ps_Receipt = ReceiptSchema\<rparr>,
     mf_Files = buildFileEntries (pe_Prims e) files\<rparr>"

definition BuildFiles :: "pack_env \<Rightarrow> pack_input \<Rightarrow> string \<Rightarrow> (string \<times> string) list res" where
  "BuildFiles e i baseURL =
    (if pi_Policy i = [] then Inl (Errorf ''policy bytes missing'')
     else res_bind (buildReceiptJSON (pe_Float64 e) (pi_Receipt i) baseURL) (\<lambda>receiptJSON.
          res_bind (contextJson (pi_Context i)) (\<lambda>ctx.
          res_bind (BuildSummary (pe_Order e) (pe_Render e) i baseURL) (\<lambda>(s, html).
            let files = documentFiles i receiptJSON ctx @ summaryFiles s html;
                manifest = manifestOf e i files;
                files1 = files @ [(''manifest.json'', line (marshalIndent (manifestJson manifest)))]
            in Inr (files1 @ [(''sha256sums.txt'', buildChecksums (pe_Prims e) files1)])))))"

text \<open>The archive holds the files in the order of their names.\<close>

definition WriteZip :: "pack_env \<Rightarrow> (string \<times> string) list \<Rightarrow> string res" where
  "WriteZip e files = pe_Zip e (map (\<lambda>name. (name, fileBytes files name)) (fileNames files))"

definition BuildZip :: "pack_env \<Rightarrow> pack_input \<Rightarrow> string \<Rightarrow> string res" where
  "BuildZip e i baseURL = res_bind (BuildFiles e i baseURL) (WriteZip e)"

section \<open>Facts\<close>

lemma BuildFiles_Inr:
  assumes "BuildFiles e i baseURL = Inr files"
  obtains receiptJSON ctx s html where
    "buildReceiptJSON (pe_Float64 e) (pi_Receipt i) baseURL = Inr receiptJSON"
    and "contextJson (pi_Context i) = Inr ctx"
    and "BuildSummary (pe_Order e) (pe_Render e) i baseURL = Inr (s, html)"
    and "files = (let docs = documentFiles i receiptJSON ctx @ summaryFiles s html;
        files1 = docs @ [(''manifest.json'', line (marshalIndent (manifestJson (manifestOf e i docs))))]
      in files1 @ [(''sha256sums.txt'', buildChecksums (pe_Prims e) files1)])"
  using assms by (auto simp: BuildFiles_def res_bind_Inr_iff Let_def split: if_splits)

lemma pack_names:
  "map fst (documentFiles i receiptJSON ctx @ summaryFiles s html) =
    [''receipt.json'', ''context.json'', ''decision.json'', ''policy.yaml''] @
    (if pi_Approvals i \<noteq> [] then [''approvals.json''] else []) @ [''summary.json'', ''summary.html'']"
  by (simp add: documentFiles_def summaryFiles_def)

lemma BuildFiles_distinct:
  assumes "BuildFiles e i baseURL = Inr files"
  shows "distinct (map fst files)"
  using assms by (elim BuildFiles_Inr) (simp add: Let_def documentFiles_def summaryFiles_def)

text \<open>The files in front of another one keep their bytes.\<close>

lemma fileBytes_append:
  "name \<in> fst ` set files \<Longrightarrow> fileBytes (files @ rest) name = fileBytes files name"
proof -
  assume "name \<in> fst ` set files"
  then obtain b where "map_of files name = Some b" by (metis map_of_eq_None_iff not_None_eq)
  then show ?thesis by (simp add: fileBytes_def)
qed

lemma fileBytes_last: "name \<notin> fst ` set files \<Longrightarrow> fileBytes (files @ [(name, b)]) name = b"
  by (simp add: fileBytes_def map_add_def map_of_eq_None_iff [THEN iffD2] split: option.splits)

lemma filter_names: "(\<And>n. n \<in> fst ` set files \<Longrightarrow> P n) \<Longrightarrow> filter P (map fst files) = map fst files"
  by (rule filter_True) simp

lemma checksums_cover:
  assumes "BuildFiles e i baseURL = Inr files"
  shows "fileBytes files ''sha256sums.txt'' =
    concat (map (checksumLine (pe_Prims e) files) (sort (filter (\<lambda>n. n \<noteq> ''sha256sums.txt'') (map fst files))))"
proof -
  obtain files1 where f: "files = files1 @ [(''sha256sums.txt'', buildChecksums (pe_Prims e) files1)]"
    using assms by (elim BuildFiles_Inr) (auto simp: Let_def)
  have new: "''sha256sums.txt'' \<notin> fst ` set files1" using BuildFiles_distinct [OF assms] f by simp
  have "checksumLine (pe_Prims e) files n = checksumLine (pe_Prims e) files1 n" if "n \<in> fst ` set files1" for n
    using fileBytes_append [OF that] by (simp add: checksumLine_def f)
  then have lines: "map (checksumLine (pe_Prims e) files) (sort (map fst files1)) =
      map (checksumLine (pe_Prims e) files1) (sort (map fst files1))" by simp
  have "filter (\<lambda>n. n \<noteq> ''sha256sums.txt'') (map fst files1) = map fst files1"
    by (rule filter_names) (use new in blast)
  then have names: "filter (\<lambda>n. n \<noteq> ''sha256sums.txt'') (map fst files) = map fst files1" by (simp add: f)
  have "fileBytes files ''sha256sums.txt'' = buildChecksums (pe_Prims e) files1"
    unfolding f by (rule fileBytes_last [OF new])
  then show ?thesis unfolding names lines buildChecksums_def
    using \<open>filter _ (map fst files1) = map fst files1\<close> by simp
qed

lemma manifest_lists_files:
  assumes "BuildFiles e i baseURL = Inr files"
  shows "\<exists>m. fileBytes files ''manifest.json'' = line (marshalIndent (manifestJson m)) \<and>
    mf_Files m = map (\<lambda>n. \<lparr>pf_Name = n, pf_SHA256 = DigestWithPrefix (pe_Prims e) (fileBytes files n),
                           pf_SizeBytes = length (fileBytes files n)\<rparr>)
      (sort (filter (\<lambda>n. n \<noteq> ''manifest.json'' \<and> n \<noteq> ''sha256sums.txt'') (map fst files)))"
proof -
  obtain docs b where f: "files = (docs @ [(''manifest.json'', line (marshalIndent (manifestJson (manifestOf e i docs))))]) @
      [(''sha256sums.txt'', b)]"
    using assms by (elim BuildFiles_Inr) (auto simp: Let_def)
  have new: "''manifest.json'' \<notin> fst ` set docs" "''sha256sums.txt'' \<notin> fst ` set docs"
    using BuildFiles_distinct [OF assms] f by auto
  have "fileBytes files ''manifest.json'' = line (marshalIndent (manifestJson (manifestOf e i docs)))"
    unfolding f by (subst fileBytes_append) (simp_all add: fileBytes_last [OF new(1)])
  moreover have "filter (\<lambda>n. n \<noteq> ''manifest.json'' \<and> n \<noteq> ''sha256sums.txt'') (map fst files) = map fst docs"
  proof -
    have "filter (\<lambda>n. n \<noteq> ''manifest.json'' \<and> n \<noteq> ''sha256sums.txt'') (map fst docs) = map fst docs"
      by (rule filter_names) (use new in blast)
    then show ?thesis by (simp add: f)
  qed
  moreover have "fileBytes files n = fileBytes docs n" if "n \<in> fst ` set docs" for n
    unfolding f append_assoc by (rule fileBytes_append [OF that])
  ultimately show ?thesis
    by (intro exI [of _ "manifestOf e i docs"])
      (auto simp: manifestOf_def buildFileEntries_def fileNames_def DigestWithPrefix_def DigestHex_def)
qed

text \<open>The policy file has the bytes of the policy exactly when these end in one newline.\<close>

lemma trim_right_byte_snoc: "trim_right_byte (s @ [c]) d = (if c = d then trim_right_byte s d else s @ [c])"
  by (simp add: trim_right_byte_def)

lemma trim_right_byte_id: "trim_right_byte s d = s \<longleftrightarrow> s = [] \<or> last s \<noteq> d"
proof (cases s rule: rev_cases)
  case (snoc t c)
  have "length (trim_right_byte t d) \<le> length t"
    by (simp add: trim_right_byte_def) (metis length_dropWhile_le length_rev)
  with snoc show ?thesis by (auto simp: trim_right_byte_snoc)
qed (simp add: trim_right_byte_def)

lemma policyFile_same:
  "policyFile policy = policy \<longleftrightarrow>
    (\<exists>p. policy = p @ [CHR 0x0A] \<and> (p = [] \<or> last p \<noteq> CHR 0x0A))"
proof
  assume "policyFile policy = policy"
  then obtain p where p: "policy = p @ [CHR 0x0A]" "trim_right_byte policy (CHR 0x0A) = p"
    by (metis policyFile_def line_def)
  then have "trim_right_byte p (CHR 0x0A) = p" by (simp add: trim_right_byte_snoc)
  with p show "\<exists>p. policy = p @ [CHR 0x0A] \<and> (p = [] \<or> last p \<noteq> CHR 0x0A)"
    unfolding trim_right_byte_id by blast
next
  assume "\<exists>p. policy = p @ [CHR 0x0A] \<and> (p = [] \<or> last p \<noteq> CHR 0x0A)"
  then show "policyFile policy = policy"
    using trim_right_byte_id [of "[]"] by (auto simp: policyFile_def line_def trim_right_byte_snoc
        trim_right_byte_def [of "[_]"] trim_right_byte_id [THEN iffD2])
qed

lemma pack_policy:
  assumes "BuildFiles e i baseURL = Inr files"
  shows "fileBytes files ''policy.yaml'' = policyFile (pi_Policy i)"
  using assms by (elim BuildFiles_Inr) (simp add: Let_def documentFiles_def fileBytes_def)

end
