(* ===== verification/Policy.thy ===== *)
theory Policy
  imports Crypto
begin

text \<open>
  \<open>internal/policy\<close>: the policy types, the loader (YAML parsing is a parameter, the hash is of the
  raw bytes) and the engine, which applies the first rule that matches.  The specification
  \<open>verdict_spec\<close> states what the engine decides without following its control flow.
\<close>

section \<open>internal/policy/types.go\<close>

record policy_defaults =
  pd_TTLSeconds :: int
  pd_RequireApproval :: bool
  pd_Deny :: bool

record policy_match =
  pm_Action :: string
  pm_Resource :: string
  pm_Env :: string

record policy_effect =
  pe_RequireApproval :: "bool option"
  pe_Deny :: "bool option"
  pe_TTLSeconds :: "int option"
  pe_AWSRoleARN :: string
  pe_Risk :: string
  pe_Reason :: string

record policy_rule =
  pr_ID :: string
  pr_Match :: policy_match
  pr_Effect :: policy_effect

record policy =
  p_PolicyID :: string
  p_PolicyVersion :: string
  p_Defaults :: policy_defaults
  p_Rules :: "policy_rule list"

section \<open>internal/policy/engine.go\<close>

record policy_input =
  in_Action :: string
  in_Resource :: string
  in_Env :: string

record pdecision =
  d_Verdict :: string
  d_RequireApproval :: bool
  d_TTLSeconds :: int
  d_AWSRoleARN :: string
  d_Risk :: string
  d_Reason :: string
  d_MatchedRuleID :: string
  d_ReasonCodes :: "string list"
  d_PolicyID :: string
  d_PolicyVersion :: string
  d_PolicyHash :: string

definition matchRule :: "policy_match \<Rightarrow> policy_input \<Rightarrow> bool" where
  "matchRule m i =
    (if pm_Action m \<noteq> [] \<and> pm_Action m \<noteq> in_Action i then False
     else if pm_Resource m \<noteq> [] \<and> pm_Resource m \<noteq> in_Resource i then False
     else if pm_Env m \<noteq> [] \<and> pm_Env m \<noteq> in_Env i then False
     else True)"

text \<open>The two copies of the closing block: a decision that is not a denial becomes an approval
  request or an allow.\<close>

definition settleVerdict :: "pdecision \<Rightarrow> pdecision" where
  "settleVerdict d =
    (if d_Verdict d \<noteq> ''deny'' then
       if d_RequireApproval d then d\<lparr>d_Verdict := ''require_approval''\<rparr>
       else d\<lparr>d_Verdict := ''allow''\<rparr>
     else d)"

text \<open>The body of the loop for the rule that matched.\<close>

definition applyRule :: "pdecision \<Rightarrow> policy_rule \<Rightarrow> pdecision" where
  "applyRule d0 rule =
    (let e = pr_Effect rule;
         d1 = d0\<lparr>d_MatchedRuleID := pr_ID rule,
                 d_ReasonCodes := d_ReasonCodes d0 @ [''POLICY_MATCH:'' @ pr_ID rule]\<rparr>;
         d2 = (case pe_RequireApproval e of None \<Rightarrow> d1 | Some b \<Rightarrow> d1\<lparr>d_RequireApproval := b\<rparr>);
         d3 = (case pe_Deny e of None \<Rightarrow> d2
               | Some b \<Rightarrow> if b then d2\<lparr>d_Verdict := ''deny''\<rparr>
                           else if d_Verdict d2 = ''deny'' then d2\<lparr>d_Verdict := ''allow''\<rparr> else d2);
         d4 = (case pe_TTLSeconds e of None \<Rightarrow> d3 | Some t \<Rightarrow> d3\<lparr>d_TTLSeconds := t\<rparr>);
         d5 = (if pe_AWSRoleARN e \<noteq> [] then d4\<lparr>d_AWSRoleARN := pe_AWSRoleARN e\<rparr> else d4);
         d6 = (if pe_Risk e \<noteq> [] then d5\<lparr>d_Risk := pe_Risk e\<rparr> else d5);
         d7 = (if pe_Reason e \<noteq> [] then d6\<lparr>d_Reason := pe_Reason e\<rparr> else d6)
     in settleVerdict d7)"

fun evalRules :: "pdecision \<Rightarrow> policy_rule list \<Rightarrow> policy_input \<Rightarrow> pdecision" where
  "evalRules d [] i = settleVerdict d"
| "evalRules d (rule # rules) i =
    (if \<not> matchRule (pr_Match rule) i then evalRules d rules i else applyRule d rule)"

definition initialDecision :: "policy \<Rightarrow> string \<Rightarrow> pdecision" where
  "initialDecision p policyHash =
    \<lparr>d_Verdict = (if pd_Deny (p_Defaults p) then ''deny'' else ''allow''),
     d_RequireApproval = pd_RequireApproval (p_Defaults p),
     d_TTLSeconds = pd_TTLSeconds (p_Defaults p),
     d_AWSRoleARN = [], d_Risk = [], d_Reason = [], d_MatchedRuleID = [], d_ReasonCodes = [],
     d_PolicyID = p_PolicyID p, d_PolicyVersion = p_PolicyVersion p, d_PolicyHash = policyHash\<rparr>"

definition Evaluate :: "policy \<Rightarrow> string \<Rightarrow> policy_input \<Rightarrow> pdecision" where
  "Evaluate p policyHash i = evalRules (initialDecision p policyHash) (p_Rules p) i"

section \<open>internal/policy/loader.go\<close>

record loaded_policy =
  lp_Policy :: policy
  lp_Hash :: string
  lp_Bytes :: string

definition LoadPolicyFromBytes :: "prims \<Rightarrow> (string \<Rightarrow> policy res) \<Rightarrow> string \<Rightarrow> loaded_policy res" where
  "LoadPolicyFromBytes pr yaml dat =
    res_bind (yaml dat) (\<lambda>p. Inr \<lparr>lp_Policy = p, lp_Hash = DigestWithPrefix pr dat, lp_Bytes = dat\<rparr>)"

text \<open>\<open>readFile\<close> is \<open>os.ReadFile\<close>.\<close>

definition LoadPolicy ::
  "prims \<Rightarrow> (string \<Rightarrow> policy res) \<Rightarrow> (string \<Rightarrow> string res) \<Rightarrow> string \<Rightarrow> loaded_policy res"
where
  "LoadPolicy pr yaml readFile path =
    res_bind (readFile path) (\<lambda>dat. LoadPolicyFromBytes pr yaml dat)"

section \<open>What the engine decides\<close>

definition firstMatch :: "policy \<Rightarrow> policy_input \<Rightarrow> policy_rule option" where
  "firstMatch p i = List.find (\<lambda>r. matchRule (pr_Match r) i) (p_Rules p)"

definition overriding :: "'a \<Rightarrow> 'a option \<Rightarrow> 'a" where
  "overriding d o' = (case o' of None \<Rightarrow> d | Some b \<Rightarrow> b)"

definition denied_spec :: "policy \<Rightarrow> policy_input \<Rightarrow> bool" where
  "denied_spec p i =
    overriding (pd_Deny (p_Defaults p)) (Option.bind (firstMatch p i) (\<lambda>r. pe_Deny (pr_Effect r)))"

definition approval_spec :: "policy \<Rightarrow> policy_input \<Rightarrow> bool" where
  "approval_spec p i =
    overriding (pd_RequireApproval (p_Defaults p))
      (Option.bind (firstMatch p i) (\<lambda>r. pe_RequireApproval (pr_Effect r)))"

definition verdict_spec :: "policy \<Rightarrow> policy_input \<Rightarrow> string" where
  "verdict_spec p i =
    (if denied_spec p i then ''deny'' else if approval_spec p i then ''require_approval'' else ''allow'')"

lemma evalRules_find:
  "evalRules d rules i =
    (case List.find (\<lambda>r. matchRule (pr_Match r) i) rules of
       None \<Rightarrow> settleVerdict d | Some r \<Rightarrow> applyRule d r)"
  by (induction rules) auto

lemma Evaluate_first_match:
  "Evaluate p h i =
    (case firstMatch p i of None \<Rightarrow> settleVerdict (initialDecision p h)
     | Some r \<Rightarrow> applyRule (initialDecision p h) r)"
  by (simp add: Evaluate_def evalRules_find firstMatch_def)

lemmas engine_defs = applyRule_def settleVerdict_def initialDecision_def Let_def

lemma settleVerdict_role [simp]:
  "d_AWSRoleARN (settleVerdict d) = d_AWSRoleARN d" "d_TTLSeconds (settleVerdict d) = d_TTLSeconds d"
  "d_RequireApproval (settleVerdict d) = d_RequireApproval d" "d_Risk (settleVerdict d) = d_Risk d"
  "d_ReasonCodes (settleVerdict d) = d_ReasonCodes d" "d_PolicyHash (settleVerdict d) = d_PolicyHash d"
  "d_MatchedRuleID (settleVerdict d) = d_MatchedRuleID d"
  by (simp_all add: settleVerdict_def)

text \<open>Each optional field of the effect is one record update.\<close>

lemma guarded_updates:
  "(if c then d\<lparr>d_AWSRoleARN := x\<rparr> else d) = d\<lparr>d_AWSRoleARN := if c then x else d_AWSRoleARN d\<rparr>"
  "(if c then d\<lparr>d_Risk := x\<rparr> else d) = d\<lparr>d_Risk := if c then x else d_Risk d\<rparr>"
  "(if c then d\<lparr>d_Reason := x\<rparr> else d) = d\<lparr>d_Reason := if c then x else d_Reason d\<rparr>"
  "(case t of None \<Rightarrow> d | Some n \<Rightarrow> d\<lparr>d_TTLSeconds := n\<rparr>) =
    d\<lparr>d_TTLSeconds := overriding (d_TTLSeconds d) t\<rparr>"
  "(case a of None \<Rightarrow> d | Some b \<Rightarrow> d\<lparr>d_RequireApproval := b\<rparr>) =
    d\<lparr>d_RequireApproval := overriding (d_RequireApproval d) a\<rparr>"
  "(case a of None \<Rightarrow> d
    | Some b \<Rightarrow> if b then d\<lparr>d_Verdict := ''deny''\<rparr>
                else if d_Verdict d = ''deny'' then d\<lparr>d_Verdict := ''allow''\<rparr> else d) =
    d\<lparr>d_Verdict := if a = Some True then ''deny''
                   else if a = Some False \<and> d_Verdict d = ''deny'' then ''allow'' else d_Verdict d\<rparr>"
  by (auto simp: overriding_def split: option.splits)

lemma settleVerdict_verdict:
  "d_Verdict (settleVerdict d) =
    (if d_Verdict d = ''deny'' then ''deny''
     else if d_RequireApproval d then ''require_approval'' else ''allow'')"
  by (simp add: settleVerdict_def)

lemma applyRule_fields:
  "d_Verdict (applyRule d r) =
    (if overriding (d_Verdict d = ''deny'') (pe_Deny (pr_Effect r)) then ''deny''
     else if overriding (d_RequireApproval d) (pe_RequireApproval (pr_Effect r))
       then ''require_approval'' else ''allow'')"
  "d_RequireApproval (applyRule d r) =
     overriding (d_RequireApproval d) (pe_RequireApproval (pr_Effect r))"
  "d_TTLSeconds (applyRule d r) = overriding (d_TTLSeconds d) (pe_TTLSeconds (pr_Effect r))"
  "d_AWSRoleARN (applyRule d r) =
     (if pe_AWSRoleARN (pr_Effect r) \<noteq> [] then pe_AWSRoleARN (pr_Effect r) else d_AWSRoleARN d)"
  "d_ReasonCodes (applyRule d r) = d_ReasonCodes d @ [''POLICY_MATCH:'' @ pr_ID r]"
  "d_PolicyHash (applyRule d r) = d_PolicyHash d"
  "d_MatchedRuleID (applyRule d r) = pr_ID r"
  by (simp_all add: applyRule_def Let_def settleVerdict_verdict guarded_updates)
    (cases "pe_Deny (pr_Effect r)"; simp add: overriding_def)

lemma initialDecision_fields [simp]:
  "d_Verdict (initialDecision p h) = (if pd_Deny (p_Defaults p) then ''deny'' else ''allow'')"
  "d_RequireApproval (initialDecision p h) = pd_RequireApproval (p_Defaults p)"
  "d_TTLSeconds (initialDecision p h) = pd_TTLSeconds (p_Defaults p)"
  "d_AWSRoleARN (initialDecision p h) = []" "d_ReasonCodes (initialDecision p h) = []"
  "d_PolicyHash (initialDecision p h) = h" "d_MatchedRuleID (initialDecision p h) = []"
  by (simp_all add: initialDecision_def)

lemmas evaluate_simps =
  Evaluate_first_match applyRule_fields settleVerdict_verdict overriding_def

lemma Evaluate_verdict: "d_Verdict (Evaluate p h i) = verdict_spec p i"
  by (cases "firstMatch p i")
    (simp_all add: evaluate_simps verdict_spec_def denied_spec_def approval_spec_def
      split: option.splits)

lemma Evaluate_RequireApproval: "d_RequireApproval (Evaluate p h i) = approval_spec p i"
  by (cases "firstMatch p i") (simp_all add: evaluate_simps approval_spec_def)

lemma Evaluate_TTL:
  "d_TTLSeconds (Evaluate p h i) =
     overriding (pd_TTLSeconds (p_Defaults p))
       (Option.bind (firstMatch p i) (\<lambda>r. pe_TTLSeconds (pr_Effect r)))"
  by (cases "firstMatch p i") (simp_all add: evaluate_simps)

lemma Evaluate_role:
  "d_AWSRoleARN (Evaluate p h i) =
     (case firstMatch p i of None \<Rightarrow> [] | Some r \<Rightarrow> pe_AWSRoleARN (pr_Effect r))"
  by (cases "firstMatch p i") (simp_all add: evaluate_simps)

lemma Evaluate_reasons:
  "d_ReasonCodes (Evaluate p h i) =
     (case firstMatch p i of None \<Rightarrow> [] | Some r \<Rightarrow> [''POLICY_MATCH:'' @ pr_ID r])"
  by (cases "firstMatch p i") (simp_all add: evaluate_simps)

lemma Evaluate_hash [simp]: "d_PolicyHash (Evaluate p h i) = h"
  by (cases "firstMatch p i") (simp_all add: evaluate_simps)

lemma verdict_spec_cases:
  "verdict_spec p i = ''deny'' \<or> verdict_spec p i = ''require_approval'' \<or> verdict_spec p i = ''allow''"
  by (simp add: verdict_spec_def)

end
