(* ===== verification/Api_State.thy ===== *)
theory Api_State
  imports Policy
begin

text \<open>
  \<open>internal/api/state.go\<close>, \<open>decision\_flow.go\<close> and \<open>authorize\_flow.go\<close>: the enumerations of the
  authorization state machine and its transition tables.  A status is a string in the ledger;
  \<open>idem_parse\<close> and its companions read it back, \<open>None\<close> being the \<open>default\<close> case of a switch.
\<close>

section \<open>internal/api/state.go\<close>

datatype idem_status =
    IdemPendingApproval | IdemApprovedReady | IdemIssuing | IdemAllowed | IdemDenied | IdemErrored

datatype approval_status = ApprovalPending | ApprovalApproved | ApprovalDenied

datatype next_action =
    ActionReturnFinal | ActionReturnPending | ActionIssueCredentials | ActionEvaluatePolicy
  | ActionReturnDenied | ActionReturnErrored

fun idem_str :: "idem_status \<Rightarrow> string" where
  "idem_str IdemPendingApproval = ''pending_approval''"
| "idem_str IdemApprovedReady = ''approved_ready''"
| "idem_str IdemIssuing = ''issuing''"
| "idem_str IdemAllowed = ''allowed''"
| "idem_str IdemDenied = ''denied''"
| "idem_str IdemErrored = ''errored''"

fun approval_str :: "approval_status \<Rightarrow> string" where
  "approval_str ApprovalPending = ''pending''"
| "approval_str ApprovalApproved = ''approved''"
| "approval_str ApprovalDenied = ''denied''"

fun action_str :: "next_action \<Rightarrow> string" where
  "action_str ActionReturnFinal = ''return_final''"
| "action_str ActionReturnPending = ''return_pending_approval''"
| "action_str ActionIssueCredentials = ''issue_credentials''"
| "action_str ActionEvaluatePolicy = ''evaluate_policy''"
| "action_str ActionReturnDenied = ''return_denied''"
| "action_str ActionReturnErrored = ''return_errored''"

definition idem_parse :: "string \<Rightarrow> idem_status option" where
  "idem_parse s = List.find (\<lambda>x. idem_str x = s)
     [IdemPendingApproval, IdemApprovedReady, IdemIssuing, IdemAllowed, IdemDenied, IdemErrored]"

definition approval_parse :: "string \<Rightarrow> approval_status option" where
  "approval_parse s = List.find (\<lambda>x. approval_str x = s)
     [ApprovalPending, ApprovalApproved, ApprovalDenied]"

lemma idem_parse_str [simp]: "idem_parse (idem_str x) = Some x"
  by (cases x) (simp_all add: idem_parse_def)

lemma approval_parse_str [simp]: "approval_parse (approval_str x) = Some x"
  by (cases x) (simp_all add: approval_parse_def)

lemma idem_parse_literals [simp]:
  "idem_parse ''pending_approval'' = Some IdemPendingApproval"
  "idem_parse ''approved_ready'' = Some IdemApprovedReady"
  "idem_parse ''issuing'' = Some IdemIssuing" "idem_parse ''allowed'' = Some IdemAllowed"
  "idem_parse ''denied'' = Some IdemDenied" "idem_parse ''errored'' = Some IdemErrored"
  by (simp_all add: idem_parse_def)

lemma approval_parse_literals [simp]:
  "approval_parse ''pending'' = Some ApprovalPending"
  "approval_parse ''approved'' = Some ApprovalApproved"
  "approval_parse ''denied'' = Some ApprovalDenied"
  by (simp_all add: approval_parse_def)

lemma idem_str_inj [simp]: "idem_str a = idem_str b \<longleftrightarrow> a = b"
  by (metis idem_parse_str option.inject)

lemma idem_parse_Some: "idem_parse s = Some x \<longleftrightarrow> s = idem_str x"
proof
  show "idem_parse s = Some x \<Longrightarrow> s = idem_str x"
    by (auto simp: idem_parse_def split: if_splits)
qed simp

lemma approval_str_inj [simp]: "approval_str a = approval_str b \<longleftrightarrow> a = b"
  by (metis approval_parse_str option.inject)

lemma approval_parse_Some: "approval_parse s = Some x \<longleftrightarrow> s = approval_str x"
proof
  show "approval_parse s = Some x \<Longrightarrow> s = approval_str x"
    by (auto simp: approval_parse_def split: if_splits)
qed simp

record idem_state =
  is_Status :: string
  is_ApprovalID :: string

record approval_state =
  as_Status :: string

definition DetermineNextAction :: "idem_state \<Rightarrow> approval_state option \<Rightarrow> next_action" where
  "DetermineNextAction idem approval =
    (case idem_parse (is_Status idem) of
       Some IdemAllowed \<Rightarrow> ActionReturnFinal
     | Some IdemDenied \<Rightarrow> ActionReturnDenied
     | Some IdemErrored \<Rightarrow> ActionReturnErrored
     | Some IdemApprovedReady \<Rightarrow> ActionIssueCredentials
     | Some IdemPendingApproval \<Rightarrow>
         (case approval of
            None \<Rightarrow> ActionEvaluatePolicy
          | Some a \<Rightarrow>
              (case approval_parse (as_Status a) of
                 Some ApprovalPending \<Rightarrow> ActionReturnPending
               | Some ApprovalDenied \<Rightarrow> ActionReturnDenied
               | Some ApprovalApproved \<Rightarrow> ActionIssueCredentials
               | None \<Rightarrow> ActionEvaluatePolicy))
     | _ \<Rightarrow> ActionEvaluatePolicy)"

section \<open>internal/api/decision\_flow.go\<close>

definition TransitionFromDecision :: "string \<Rightarrow> idem_status \<times> next_action" where
  "TransitionFromDecision verdict =
    (if verdict = ''deny'' then (IdemDenied, ActionReturnDenied)
     else if verdict = ''require_approval'' then (IdemPendingApproval, ActionReturnPending)
     else if verdict = ''allow'' then (IdemIssuing, ActionIssueCredentials)
     else (IdemErrored, ActionReturnErrored))"

section \<open>internal/api/authorize\_flow.go\<close>

record authorize_outcome =
  ao_NextAction :: next_action
  ao_IdemStatus :: idem_status

definition PlanAuthorizeAction ::
  "idem_state \<Rightarrow> approval_state option \<Rightarrow> string option \<Rightarrow> authorize_outcome res"
where
  "PlanAuthorizeAction idem approval verdict =
    (case DetermineNextAction idem approval of
       ActionEvaluatePolicy \<Rightarrow>
         (case verdict of
            None \<Rightarrow> Inl (Errorf ''missing decision verdict'')
          | Some v \<Rightarrow> (case TransitionFromDecision v of (status, next) \<Rightarrow>
              Inr \<lparr>ao_NextAction = next, ao_IdemStatus = status\<rparr>))
     | ActionReturnFinal \<Rightarrow> Inr \<lparr>ao_NextAction = ActionReturnFinal, ao_IdemStatus = IdemAllowed\<rparr>
     | ActionReturnDenied \<Rightarrow> Inr \<lparr>ao_NextAction = ActionReturnDenied, ao_IdemStatus = IdemDenied\<rparr>
     | ActionReturnErrored \<Rightarrow> Inr \<lparr>ao_NextAction = ActionReturnErrored, ao_IdemStatus = IdemErrored\<rparr>
     | ActionIssueCredentials \<Rightarrow>
         Inr \<lparr>ao_NextAction = ActionIssueCredentials, ao_IdemStatus = IdemIssuing\<rparr>
     | ActionReturnPending \<Rightarrow>
         Inr \<lparr>ao_NextAction = ActionReturnPending, ao_IdemStatus = IdemPendingApproval\<rparr>)"

section \<open>Facts\<close>

text \<open>How far a request has come: an approval, then the issuance, then one of the final states.\<close>

fun idem_rank :: "idem_status \<Rightarrow> nat" where
  "idem_rank IdemPendingApproval = 0"
| "idem_rank IdemApprovedReady = 1"
| "idem_rank IdemIssuing = 2"
| "idem_rank IdemAllowed = 3"
| "idem_rank IdemDenied = 4"
| "idem_rank IdemErrored = 5"

lemma idem_rank_inj: "idem_rank a = idem_rank b \<longleftrightarrow> a = b"
  by (cases a; cases b) simp_all

instantiation idem_status :: linorder
begin

definition less_eq_idem_status :: "idem_status \<Rightarrow> idem_status \<Rightarrow> bool" where
  "less_eq_idem_status a b \<longleftrightarrow> idem_rank a \<le> idem_rank b"

definition less_idem_status :: "idem_status \<Rightarrow> idem_status \<Rightarrow> bool" where
  "less_idem_status a b \<longleftrightarrow> idem_rank a < idem_rank b"

instance
  by standard (auto simp: less_eq_idem_status_def less_idem_status_def idem_rank_inj)

end

lemma TransitionFromDecision_verdict:
  "snd (TransitionFromDecision (verdict_spec p i)) = ActionIssueCredentials \<longleftrightarrow> verdict_spec p i = ''allow''"
  "snd (TransitionFromDecision (verdict_spec p i)) = ActionReturnPending \<longleftrightarrow>
     verdict_spec p i = ''require_approval''"
  "snd (TransitionFromDecision (verdict_spec p i)) = ActionReturnDenied \<longleftrightarrow> verdict_spec p i = ''deny''"
  "snd (TransitionFromDecision (verdict_spec p i)) \<noteq> ActionReturnErrored"
  by (auto simp: TransitionFromDecision_def verdict_spec_def)

lemma TransitionFromDecision_action:
  "snd (TransitionFromDecision v) = ActionIssueCredentials \<longleftrightarrow> v = ''allow''"
  "snd (TransitionFromDecision v) = ActionReturnPending \<longleftrightarrow> v = ''require_approval''"
  "snd (TransitionFromDecision v) = ActionReturnDenied \<longleftrightarrow> v = ''deny''"
  "snd (TransitionFromDecision v) \<noteq> ActionReturnFinal"
  "snd (TransitionFromDecision v) \<noteq> ActionEvaluatePolicy"
  by (auto simp: TransitionFromDecision_def)

text \<open>
  The plan issues credentials exactly when an approval was given, or when the policy is still to be
  evaluated and allows.
\<close>

lemma PlanAuthorizeAction_issue:
  "(\<exists>o'. PlanAuthorizeAction idem approval verdict = Inr o' \<and> ao_NextAction o' = ActionIssueCredentials) \<longleftrightarrow>
   DetermineNextAction idem approval = ActionIssueCredentials \<or>
   DetermineNextAction idem approval = ActionEvaluatePolicy \<and> verdict = Some ''allow''"
  by (cases "DetermineNextAction idem approval"; cases verdict)
    (auto simp: PlanAuthorizeAction_def TransitionFromDecision_def)

lemma DetermineNextAction_issue:
  "DetermineNextAction idem approval = ActionIssueCredentials \<longleftrightarrow>
   is_Status idem = ''approved_ready'' \<or>
   is_Status idem = ''pending_approval'' \<and> (\<exists>a. approval = Some a \<and> as_Status a = ''approved'')"
proof (cases "idem_parse (is_Status idem)")
  case None
  then have "is_Status idem \<noteq> idem_str IdemApprovedReady" "is_Status idem \<noteq> idem_str IdemPendingApproval"
    by (metis idem_parse_str option.distinct(1))+
  with None show ?thesis by (simp add: DetermineNextAction_def)
next
  case (Some x)
  then have x: "is_Status idem = idem_str x" by (simp add: idem_parse_Some)
  show ?thesis
  proof (cases approval)
    case None
    then show ?thesis using x by (cases x) (simp_all add: DetermineNextAction_def)
  next
    case a: (Some a)
    show ?thesis
    proof (cases "approval_parse (as_Status a)")
      case None
      then have "as_Status a \<noteq> approval_str ApprovalApproved" by (metis approval_parse_str option.distinct(1))
      with a None x Some show ?thesis by (cases x) (simp_all add: DetermineNextAction_def)
    next
      case (Some y)
      then have "as_Status a = approval_str y" by (simp add: approval_parse_Some)
      with a x Some \<open>idem_parse (is_Status idem) = Some x\<close> show ?thesis
        by (cases x; cases y) (simp_all add: DetermineNextAction_def)
    qed
  qed
qed

end
