(* ===== verification/Idem_Key.thy ===== *)
theory Idem_Key
  imports Builders
begin

text \<open>
  \<open>internal/api/authorize.go\<close>: the request and actor types and \<open>ComputeIdemKey\<close>, the digest under
  which the ledger remembers a request.
\<close>

record authorize_request =
  aq_RequestID :: string
  aq_Action :: string
  aq_Resource :: string
  aq_Env :: string
  aq_Intent :: goval
  aq_PlanDigest :: string
  aq_DiffURL :: string
  aq_AWSRegion :: "string option"
  aq_InteractionRef :: "interaction_ref option"
  aq_ContextRef :: "context_ref option"
  aq_DecisionRef :: "decision_ref option"

record actor_context =
  ac_Subject :: string
  ac_Issuer :: string
  ac_Repo :: string
  ac_Workflow :: string
  ac_RunID :: string
  ac_SHA :: string
  ac_Token :: string

definition idemContextRef :: "context_ref \<Rightarrow> (string \<times> goval) list" where
  "idemContextRef c =
    [(''context_id'', VStr (cr_ContextID c)), (''record_hash'', VStr (cr_RecordHash c)),
     (''content_hash'', VStr (cr_ContentHash c))]"

definition idemDecisionRef :: "decision_ref \<Rightarrow> (string \<times> goval) list" where
  "idemDecisionRef d =
    [(''decision_id'', VStr (dr_DecisionID d)), (''inputs_digest'', VStr (dr_InputsDigest d)),
     (''record_hash'', VStr (dr_RecordHash d)), (''content_digest'', VStr (dr_ContentDigest d))]"

definition idemInteractionRef :: "interaction_ref \<Rightarrow> (string \<times> goval) list" where
  "idemInteractionRef r =
    [(''mode'', VStr (ir_Mode r)), (''session_id'', VStr (ir_SessionID r)),
     (''call_id'', VStr (ir_CallID r)), (''turn_id'', VStr (ir_TurnID r)),
     (''turn_index'', VInt (ir_TurnIndex r)),
     (''turn_started_at'', VStr (ir_TurnStartedAt r)), (''turn_ended_at'', VStr (ir_TurnEndedAt r)),
     (''jurisdiction'', VStr (ir_Jurisdiction r)), (''consent_state'', VStr (ir_ConsentState r)),
     (''redaction_mode'', VStr (ir_RedactionMode r))]"

definition idemPayload :: "actor_context \<Rightarrow> authorize_request \<Rightarrow> (string \<times> goval) list" where
  "idemPayload actor req =
    [(''schema'', VStr ''relia.idem.v1''),
     (''iss'', VStr (ac_Issuer actor)), (''sub'', VStr (ac_Subject actor)),
     (''repo'', VStr (ac_Repo actor)), (''workflow'', VStr (ac_Workflow actor)),
     (''run_id'', VStr (ac_RunID actor)), (''sha'', VStr (ac_SHA actor)),
     (''action'', VStr (aq_Action req)), (''resource'', VStr (aq_Resource req)),
     (''env'', VStr (aq_Env req)),
     (''intent'', if aq_Intent req = VNilMap then VMap [] else aq_Intent req),
     (''plan_digest'', VStr (aq_PlanDigest req))] @
    (case aq_ContextRef req of None \<Rightarrow> [] | Some c \<Rightarrow> [(''context_ref'', VMap (idemContextRef c))]) @
    (case aq_DecisionRef req of None \<Rightarrow> [] | Some d \<Rightarrow> [(''decision_ref'', VMap (idemDecisionRef d))]) @
    (case aq_InteractionRef req of None \<Rightarrow> []
     | Some r \<Rightarrow> [(''interaction_ref'', VMap (idemInteractionRef r))]) @
    (if aq_RequestID req \<noteq> [] then [(''request_id'', VStr (aq_RequestID req))] else [])"

definition ComputeIdemKey ::
  "prims \<Rightarrow> (string \<Rightarrow> string) \<Rightarrow> actor_context \<Rightarrow> authorize_request \<Rightarrow> string res"
where
  "ComputeIdemKey pr nfc actor req =
    (if aq_Action req = [] \<or> aq_Resource req = [] \<or> aq_Env req = []
     then Inl (Errorf ''missing required action/resource/env'')
     else if ac_Subject actor = [] \<or> ac_Issuer actor = [] \<or> ac_Repo actor = [] \<or> ac_RunID actor = []
     then Inl (Errorf ''missing required actor identity'')
     else res_bind (Canonicalize nfc (VMap (idemPayload actor req))) (\<lambda>canonical.
            Inr (''idem:v1:sha256:'' @ DigestHex pr canonical)))"

section \<open>Facts\<close>

lemma idemPayload_keys:
  "subseq (map fst (idemPayload actor req))
    ([''schema'', ''iss'', ''sub'', ''repo'', ''workflow'', ''run_id'', ''sha'', ''action'', ''resource'', ''env'',
      ''intent'', ''plan_digest''] @ [''context_ref''] @ [''decision_ref''] @ [''interaction_ref''] @ [''request_id''])"
  unfolding idemPayload_def map_append
  by (intro list_emb_append_mono) (simp_all split: option.split)

lemma plain_keys_idem [simp]:
  "plain_keys (idemContextRef c)" "plain_keys (idemDecisionRef d)" "plain_keys (idemInteractionRef r)"
  "plain_keys (idemPayload actor req)"
proof -
  show "plain_keys (idemPayload actor req)" by (rule plain_keys_subseq [OF idemPayload_keys]) simp_all
qed (simp_all add: plain_keys_def idemContextRef_def idemDecisionRef_def idemInteractionRef_def)

lemma ComputeIdemKey_Inr:
  "ComputeIdemKey pr nfc actor req = Inr k \<longleftrightarrow>
   aq_Action req \<noteq> [] \<and> aq_Resource req \<noteq> [] \<and> aq_Env req \<noteq> [] \<and>
   ac_Subject actor \<noteq> [] \<and> ac_Issuer actor \<noteq> [] \<and> ac_Repo actor \<noteq> [] \<and> ac_RunID actor \<noteq> [] \<and>
   (\<exists>b. Canonicalize nfc (VMap (idemPayload actor req)) = Inr b \<and> k = ''idem:v1:sha256:'' @ DigestHex pr b)"
  by (auto simp: ComputeIdemKey_def res_bind_Inr_iff)

lemma ComputeIdemKey_nonempty: "ComputeIdemKey pr nfc actor req = Inr k \<Longrightarrow> k \<noteq> []"
  by (auto simp: ComputeIdemKey_Inr)

lemma same_key_same_repr:
  assumes "nfc_laws nfc"
    and "ComputeIdemKey pr nfc actor req = Inr k" and "ComputeIdemKey pr nfc actor' req' = Inr k"
  obtains b b' where "Canonicalize nfc (VMap (idemPayload actor req)) = Inr b"
    and "Canonicalize nfc (VMap (idemPayload actor' req')) = Inr b'"
    and "collides pr b b' \<or>
      same_repr nfc (VMap (idemPayload actor req)) (VMap (idemPayload actor' req'))"
proof -
  from assms(2) obtain b where b: "Canonicalize nfc (VMap (idemPayload actor req)) = Inr b"
    "k = ''idem:v1:sha256:'' @ DigestHex pr b" by (auto simp: ComputeIdemKey_Inr)
  from assms(3) obtain b' where b': "Canonicalize nfc (VMap (idemPayload actor' req')) = Inr b'"
    "k = ''idem:v1:sha256:'' @ DigestHex pr b'" by (auto simp: ComputeIdemKey_Inr)
  have "DigestWithPrefix pr b = DigestWithPrefix pr b'"
    using b(2) b'(2) by (simp add: DigestWithPrefix_def)
  with same_digest_same_repr [OF assms(1) b(1) b'(1)] that [OF b(1) b'(1)] show ?thesis by blast
qed

lemma entry_idemPayload [simp]:
  "entry (idemPayload a q) ''iss'' = VStr (ac_Issuer a)"
  "entry (idemPayload a q) ''sub'' = VStr (ac_Subject a)"
  "entry (idemPayload a q) ''repo'' = VStr (ac_Repo a)"
  "entry (idemPayload a q) ''workflow'' = VStr (ac_Workflow a)"
  "entry (idemPayload a q) ''run_id'' = VStr (ac_RunID a)"
  "entry (idemPayload a q) ''sha'' = VStr (ac_SHA a)"
  "entry (idemPayload a q) ''action'' = VStr (aq_Action q)"
  "entry (idemPayload a q) ''resource'' = VStr (aq_Resource q)"
  "entry (idemPayload a q) ''env'' = VStr (aq_Env q)"
  "entry (idemPayload a q) ''intent'' = (if aq_Intent q = VNilMap then VMap [] else aq_Intent q)"
  "entry (idemPayload a q) ''plan_digest'' = VStr (aq_PlanDigest q)"
  by (simp_all add: entry_def idemPayload_def)

lemma entry_request_id [simp]:
  "entry (idemPayload a q) ''request_id'' = emptyToNil (aq_RequestID q)"
  by (simp add: entry_def idemPayload_def emptyToNil_def split: option.splits)

text \<open>The actor and request fields that the key determines.\<close>

definition same_actor :: "(string \<Rightarrow> string) \<Rightarrow> actor_context \<Rightarrow> actor_context \<Rightarrow> bool" where
  "same_actor nfc a b \<longleftrightarrow>
     same_text nfc (ac_Issuer a) (ac_Issuer b) \<and> same_text nfc (ac_Subject a) (ac_Subject b) \<and>
     same_text nfc (ac_Repo a) (ac_Repo b) \<and> same_text nfc (ac_Workflow a) (ac_Workflow b) \<and>
     same_text nfc (ac_RunID a) (ac_RunID b) \<and> same_text nfc (ac_SHA a) (ac_SHA b)"

definition idemIntent :: "authorize_request \<Rightarrow> goval" where
  "idemIntent q = (if aq_Intent q = VNilMap then VMap [] else aq_Intent q)"

definition same_request :: "(string \<Rightarrow> string) \<Rightarrow> authorize_request \<Rightarrow> authorize_request \<Rightarrow> bool" where
  "same_request nfc q r \<longleftrightarrow>
     same_text nfc (aq_Action q) (aq_Action r) \<and> same_text nfc (aq_Resource q) (aq_Resource r) \<and>
     same_text nfc (aq_Env q) (aq_Env r) \<and> same_text nfc (aq_PlanDigest q) (aq_PlanDigest r) \<and>
     same_repr nfc (idemIntent q) (idemIntent r) \<and>
     (aq_RequestID q = [] \<longleftrightarrow> aq_RequestID r = []) \<and>
     same_text nfc (aq_RequestID q) (aq_RequestID r)"

lemma idemPayload_inj:
  assumes "nfc_laws nfc" and "same_repr nfc (VMap (idemPayload a q)) (VMap (idemPayload b r))"
  shows "same_actor nfc a b" and "same_request nfc q r"
proof -
  note e = same_repr_entry [OF assms plain_keys_idem(4) plain_keys_idem(4)]
  show "same_actor nfc a b"
    using e [of "''iss''"] e [of "''sub''"] e [of "''repo''"] e [of "''workflow''"] e [of "''run_id''"]
      e [of "''sha''"] by (simp add: same_actor_def)
  show "same_request nfc q r"
    using e [of "''action''"] e [of "''resource''"] e [of "''env''"] e [of "''plan_digest''"]
      e [of "''intent''"] e [of "''request_id''"]
    by (auto simp: same_request_def idemIntent_def same_text_def)
qed

end
