(* ===== verification/Authorize_Service.thy ===== *)
theory Authorize_Service
  imports Api_State Idem_Key Receipt Record_Json Slack_Outbox
begin

text \<open>
  \<open>internal/api/authorize\_service.go\<close>: the service that decides a request, records the decision and
  its receipts in the ledger, mints credentials through the broker, and applies approvals.  What a
  call takes from outside (the clock, the random approval identifier, the answers of the broker and
  of Slack) is a field of \<open>call\<close>; what the service is configured with is a field of \<open>service\<close>.
\<close>

section \<open>Types\<close>

text \<open>\<open>internal/aws/sts.go\<close>: the broker's input and answer (instants in nanoseconds).\<close>

record assume_role_input =
  ri_RoleARN :: string
  ri_Region :: string
  ri_TTLSeconds :: int
  ri_Subject :: string
  ri_WebIdentityToken :: string

record credentials =
  cd_AccessKeyID :: string
  cd_SecretAccessKey :: string
  cd_SessionToken :: string
  cd_ExpiresAt :: int

record service =
  sv_Prims :: prims
  sv_NFC :: "string \<Rightarrow> string"
  sv_Yaml :: "string \<Rightarrow> policy res"
  sv_ReadFile :: "string \<Rightarrow> string res"
  sv_PolicyPath :: string
  sv_Signer :: signer
  sv_PublicKey :: "string option"
  sv_SlackChan :: string

record call =
  cl_Claims :: actor_context
  cl_Req :: authorize_request
  cl_CreatedAt :: string
  cl_ApprovalID :: string
  cl_Broker :: "assume_role_input \<Rightarrow> credentials res"
  cl_Slack :: "outbox_env option"
  cl_Now :: int

record response_credentials =
  rc_AccessKeyID :: string
  rc_SecretAccessKey :: string
  rc_SessionToken :: string
  rc_ExpiresAt :: string

record response_approval =
  rap_ID :: string
  rap_State :: string

record authorize_response =
  rs_Verdict :: string
  rs_ContextID :: string
  rs_DecisionID :: string
  rs_ReceiptID :: string
  rs_AWSCredentials :: "response_credentials option"
  rs_Approval :: "response_approval option"
  rs_Error :: string

definition empty_response :: authorize_response where
  "empty_response =
     \<lparr>rs_Verdict = [], rs_ContextID = [], rs_DecisionID = [], rs_ReceiptID = [],
      rs_AWSCredentials = None, rs_Approval = None, rs_Error = []\<rparr>"

definition error_response :: "string \<Rightarrow> authorize_response" where
  "error_response msg = empty_response\<lparr>rs_Verdict := ''deny'', rs_Error := msg\<rparr>"

section \<open>Helpers\<close>

text \<open>\<open>newApprovalID\<close>: 16 random bytes in hexadecimal, or the clock when the reader fails.\<close>

definition newApprovalID :: "string option \<Rightarrow> int \<Rightarrow> string" where
  "newApprovalID random nanos =
    (case random of None \<Rightarrow> ''approval-'' @ show_int nanos
     | Some buf \<Rightarrow> ''approval-'' @ hex_encode buf)"

definition receiptRecordFromStored :: "stored_receipt \<Rightarrow> receipt_rec" where
  "receiptRecordFromStored r =
    \<lparr>lr_ReceiptID = sr_ReceiptID r, lr_IdemKey = sr_IdemKey r, lr_CreatedAt = sr_CreatedAt r,
     lr_SupersedesReceiptID = sr_SupersedesReceiptID r, lr_ContextID = sr_ContextID r,
     lr_DecisionID = sr_DecisionID r, lr_PolicyHash = sr_PolicyHash r, lr_ApprovalID = sr_ApprovalID r,
     lr_OutcomeStatus = sr_OutcomeStatus r, lr_Final = sr_Final r, lr_ExpiresAt = sr_ExpiresAt r,
     lr_BodyJSON = sr_BodyJSON r, lr_BodyDigest = sr_BodyDigest r, lr_KeyID = sr_KeyID r,
     lr_Sig = sr_Sig r\<rparr>"

definition ptrOrNil :: "string \<Rightarrow> string option" where
  "ptrOrNil s = (if s = [] then None else Some s)"

definition plain_outcome :: "outcome_status \<Rightarrow> receipt_outcome" where
  "plain_outcome st = \<lparr>ro_Status = outcome_str st, ro_IssuedAt = [], ro_ExpiresAt = [], ro_Error = None\<rparr>"

fun outcomeForAction :: "next_action \<Rightarrow> receipt_outcome" where
  "outcomeForAction ActionReturnDenied = plain_outcome OutcomeDenied"
| "outcomeForAction ActionReturnPending = plain_outcome OutcomeApprovalPending"
| "outcomeForAction ActionIssueCredentials = plain_outcome OutcomeIssuingCredentials"
| "outcomeForAction _ = plain_outcome OutcomeIssueFailed"

definition putSigningKey :: "service \<Rightarrow> 's ledger \<Rightarrow> string \<Rightarrow> ('s, unit) tx" where
  "putSigningKey sv L createdAt =
    (case sv_PublicKey sv of
       None \<Rightarrow> tx_return ()
     | Some pub \<Rightarrow>
         tx_put (PutKey L \<lparr>kr_KeyID = sg_KeyID (sv_Signer sv), kr_PublicKey = pub,
                          kr_CreatedAt = createdAt, kr_RotatedAt = None\<rparr>))"

definition workloadActor :: "actor_context \<Rightarrow> receipt_actor" where
  "workloadActor c =
    \<lparr>ra_Kind = ''workload'', ra_Subject = ac_Subject c, ra_Issuer = ac_Issuer c, ra_Repo = ac_Repo c,
     ra_Workflow = ac_Workflow c, ra_RunID = ac_RunID c, ra_SHA = ac_SHA c\<rparr>"

definition workloadRequest :: "authorize_request \<Rightarrow> receipt_request" where
  "workloadRequest q =
    \<lparr>rq_RequestID = aq_RequestID q, rq_Action = aq_Action q, rq_Resource = aq_Resource q,
     rq_Env = aq_Env q, rq_Intent = aq_Intent q\<rparr>"

definition policyInput :: "authorize_request \<Rightarrow> policy_input" where
  "policyInput q = \<lparr>in_Action = aq_Action q, in_Resource = aq_Resource q, in_Env = aq_Env q\<rparr>"

definition hashOnlyPolicy :: "string \<Rightarrow> receipt_policy" where
  "hashOnlyPolicy h = \<lparr>rp_PolicyID = [], rp_PolicyVersion = [], rp_PolicyHash = h\<rparr>"

section \<open>handleExisting\<close>

definition finalReceiptOf :: "idem_rec \<Rightarrow> string" where
  "finalReceiptOf idem =
    (let final = (case ik_FinalReceiptID idem of None \<Rightarrow> [] | Some x \<Rightarrow> x)
     in if final = [] then (case ik_LatestReceiptID idem of None \<Rightarrow> final | Some x \<Rightarrow> x) else final)"

definition receiptResponse :: "string \<Rightarrow> receipt_rec \<Rightarrow> authorize_response" where
  "receiptResponse verdict r =
    empty_response\<lparr>rs_Verdict := verdict, rs_ContextID := lr_ContextID r,
                   rs_DecisionID := lr_DecisionID r, rs_ReceiptID := lr_ReceiptID r\<rparr>"

definition existingFinal :: "'s ledger \<Rightarrow> string \<Rightarrow> idem_rec \<Rightarrow> 's \<Rightarrow> authorize_response res" where
  "existingFinal L verdict idem s =
    (case GetReceipt L (finalReceiptOf idem) s of
       None \<Rightarrow> Inl (Errorf ''final receipt not found'')
     | Some receipt \<Rightarrow> Inr (receiptResponse verdict receipt))"

definition handleExisting :: "'s ledger \<Rightarrow> idem_rec \<Rightarrow> 's \<Rightarrow> authorize_response res" where
  "handleExisting L idem s =
    (case idem_parse (ik_Status idem) of
       Some IdemAllowed \<Rightarrow> existingFinal L ''allow'' idem s
     | Some IdemDenied \<Rightarrow> existingFinal L ''deny'' idem s
     | Some IdemPendingApproval \<Rightarrow>
         (case GetReceipt L (case ik_LatestReceiptID idem of None \<Rightarrow> [] | Some x \<Rightarrow> x) s of
            None \<Rightarrow> Inl (Errorf ''latest receipt not found'')
          | Some receipt \<Rightarrow>
              Inr ((receiptResponse ''require_approval'' receipt)\<lparr>
                rs_Approval := Some \<lparr>rap_ID = (case ik_ApprovalID idem of None \<Rightarrow> [] | Some x \<Rightarrow> x),
                                     rap_State = ''pending''\<rparr>\<rparr>))
     | _ \<Rightarrow> Inr (error_response ''unsupported state''))"

section \<open>finalizeIssuance\<close>

definition requestRegion :: "authorize_request \<Rightarrow> string" where
  "requestRegion q = (case aq_AWSRegion q of None \<Rightarrow> [] | Some r \<Rightarrow> r)"

definition brokerInput :: "call \<Rightarrow> string \<Rightarrow> int \<Rightarrow> assume_role_input" where
  "brokerInput c roleARN ttl =
    \<lparr>ri_RoleARN = roleARN, ri_Region = requestRegion (cl_Req c), ri_TTLSeconds = ttl,
     ri_Subject = ac_Subject (cl_Claims c), ri_WebIdentityToken = ac_Token (cl_Claims c)\<rparr>"

definition finalReceiptInput ::
  "call \<Rightarrow> string \<Rightarrow> stored_receipt \<Rightarrow> string \<Rightarrow> int \<Rightarrow> credentials \<Rightarrow> make_receipt_input"
where
  "finalReceiptInput c idemKey issuing roleARN ttl creds =
    \<lparr>mi_Schema = [], mi_CreatedAt = cl_CreatedAt c, mi_IdemKey = idemKey,
     mi_SupersedesReceiptID = Some (sr_ReceiptID issuing), mi_ContextID = sr_ContextID issuing,
     mi_DecisionID = sr_DecisionID issuing, mi_Actor = workloadActor (cl_Claims c),
     mi_Request = workloadRequest (cl_Req c), mi_Policy = hashOnlyPolicy (sr_PolicyHash issuing),
     mi_InteractionRef = interactionRefFromBody (sr_BodyJSON issuing),
     mi_Refs = receiptRefsFromBody (sr_BodyJSON issuing), mi_Approval = None,
     mi_CredentialGrant =
       Some \<lparr>cg_Provider = ''aws_sts'', cg_Method = ''AssumeRoleWithWebIdentity'', cg_RoleARN = roleARN,
             cg_Region = requestRegion (cl_Req c), cg_TTLSeconds = ttl, cg_ScopeDigest = []\<rparr>,
     mi_Outcome = (plain_outcome OutcomeIssuedCredentials)\<lparr>ro_ExpiresAt := rfc3339 (cd_ExpiresAt creds)\<rparr>\<rparr>"

definition finalTx :: "service \<Rightarrow> 's ledger \<Rightarrow> string \<Rightarrow> string \<Rightarrow> stored_receipt \<Rightarrow> ('s, unit) tx" where
  "finalTx sv L createdAt idemKey finalReceipt =
    tx_bind (putSigningKey sv L createdAt) (\<lambda>_.
    tx_bind (tx_put (PutReceipt L (receiptRecordFromStored finalReceipt))) (\<lambda>_.
    tx_bind (tx_get (GetIdempotencyKey L idemKey)) (\<lambda>found.
      case found of
        None \<Rightarrow> tx_fail (Errorf ''idempotency key missing'')
      | Some idem \<Rightarrow>
          tx_put (PutIdempotencyKey L
            (idem\<lparr>ik_Status := idem_str IdemAllowed, ik_LatestReceiptID := Some (sr_ReceiptID finalReceipt),
                  ik_FinalReceiptID := Some (sr_ReceiptID finalReceipt), ik_UpdatedAt := createdAt\<rparr>)))))"

definition issuedResponse :: "stored_receipt \<Rightarrow> stored_receipt \<Rightarrow> credentials \<Rightarrow> authorize_response" where
  "issuedResponse issuing finalReceipt creds =
    empty_response\<lparr>rs_Verdict := ''allow'', rs_ContextID := sr_ContextID issuing,
      rs_DecisionID := sr_DecisionID issuing, rs_ReceiptID := sr_ReceiptID finalReceipt,
      rs_AWSCredentials :=
        Some \<lparr>rc_AccessKeyID = cd_AccessKeyID creds, rc_SecretAccessKey = cd_SecretAccessKey creds,
              rc_SessionToken = cd_SessionToken creds, rc_ExpiresAt = rfc3339 (cd_ExpiresAt creds)\<rparr>\<rparr>"

text \<open>The broker call, then the final receipt and its transaction.\<close>

definition mintCredentials ::
  "service \<Rightarrow> call \<Rightarrow> string \<Rightarrow> stored_receipt \<Rightarrow> string \<Rightarrow> int \<Rightarrow> (stored_receipt \<times> credentials) res"
where
  "mintCredentials sv c idemKey issuing roleARN ttl =
    res_bind (cl_Broker c (brokerInput c roleARN ttl)) (\<lambda>creds.
    res_bind (MakeReceipt (sv_Prims sv) (sv_NFC sv) (finalReceiptInput c idemKey issuing roleARN ttl creds)
               (sv_Signer sv)) (\<lambda>finalReceipt. Inr (finalReceipt, creds)))"

definition persistIssuance ::
  "service \<Rightarrow> 's ledger \<Rightarrow> call \<Rightarrow> string \<Rightarrow> stored_receipt \<Rightarrow> stored_receipt \<Rightarrow> credentials \<Rightarrow>
   ('s, authorize_response) tx"
where
  "persistIssuance sv L c idemKey issuing finalReceipt creds s =
    (case WithTx L (finalTx sv L (cl_CreatedAt c) idemKey finalReceipt) s of
       (Inl e, s') \<Rightarrow> (Inl e, s')
     | (Inr _, s') \<Rightarrow> (Inr (issuedResponse issuing finalReceipt creds), s'))"

definition finalizeIssuance ::
  "service \<Rightarrow> 's ledger \<Rightarrow> call \<Rightarrow> string \<Rightarrow> stored_receipt \<Rightarrow> string \<Rightarrow> int \<Rightarrow> ('s, authorize_response) tx"
where
  "finalizeIssuance sv L c idemKey issuing roleARN ttl s =
    (case mintCredentials sv c idemKey issuing roleARN ttl of
       Inl e \<Rightarrow> (Inl e, s)
     | Inr (finalReceipt, creds) \<Rightarrow> persistIssuance sv L c idemKey issuing finalReceipt creds s)"

section \<open>retryIssuing\<close>

definition storedFromRecord :: "receipt_rec \<Rightarrow> stored_receipt" where
  "storedFromRecord r =
    \<lparr>sr_ReceiptID = lr_ReceiptID r, sr_BodyDigest = lr_BodyDigest r, sr_BodyJSON = lr_BodyJSON r,
     sr_KeyID = lr_KeyID r, sr_Sig = lr_Sig r, sr_IdemKey = lr_IdemKey r,
     sr_CreatedAt = lr_CreatedAt r, sr_SupersedesReceiptID = None, sr_ContextID = lr_ContextID r,
     sr_DecisionID = lr_DecisionID r, sr_OutcomeStatus = lr_OutcomeStatus r,
     sr_ApprovalID = lr_ApprovalID r, sr_PolicyHash = lr_PolicyHash r, sr_Final = lr_Final r,
     sr_ExpiresAt = lr_ExpiresAt r\<rparr>"

text \<open>
  The plan of an issuance: the issuing receipt, the role and the lifetime.  \<open>retryPlan\<close> gives either
  an answer or a plan.
\<close>

type_synonym issue_plan = "stored_receipt \<times> string \<times> int"

definition reloadPolicy :: "service \<Rightarrow> 's ledger \<Rightarrow> string \<Rightarrow> 's \<Rightarrow> loaded_policy res" where
  "reloadPolicy sv L policyHash s =
    (case GetPolicyVersion L policyHash s of
       None \<Rightarrow> Inl (Errorf ''policy version not found'')
     | Some version \<Rightarrow> LoadPolicyFromBytes (sv_Prims sv) (sv_Yaml sv) (pv_PolicyYAML version))"

definition retryPlan ::
  "service \<Rightarrow> 's ledger \<Rightarrow> call \<Rightarrow> idem_rec \<Rightarrow> 's \<Rightarrow> (authorize_response + issue_plan) res"
where
  "retryPlan sv L c idem s =
    (case ik_LatestReceiptID idem of
       None \<Rightarrow> Inr (Inl (error_response ''issuing in progress''))
     | Some latest \<Rightarrow>
         if latest = [] then Inr (Inl (error_response ''issuing in progress''))
         else case GetReceipt L latest s of
           None \<Rightarrow> Inl (Errorf ''issuing receipt not found'')
         | Some rec \<Rightarrow>
             res_bind (reloadPolicy sv L (lr_PolicyHash rec) s) (\<lambda>loaded.
               let decision = Evaluate (lp_Policy loaded) (lp_Hash loaded) (policyInput (cl_Req c))
               in if d_AWSRoleARN decision = [] then Inl (Errorf ''missing aws_role_arn in policy'')
                  else Inr (Inr (storedFromRecord rec, d_AWSRoleARN decision, d_TTLSeconds decision))))"

definition retryIssuing ::
  "service \<Rightarrow> 's ledger \<Rightarrow> call \<Rightarrow> string \<Rightarrow> idem_rec \<Rightarrow> ('s, authorize_response) tx"
where
  "retryIssuing sv L c idemKey idem s =
    (case retryPlan sv L c idem s of
       Inl e \<Rightarrow> (Inl e, s)
     | Inr (Inl resp) \<Rightarrow> (Inr resp, s)
     | Inr (Inr (issuing, role, ttl)) \<Rightarrow> finalizeIssuance sv L c idemKey issuing role ttl s)"

section \<open>issueApprovedReady\<close>

definition issuingReceiptInput ::
  "call \<Rightarrow> string \<Rightarrow> string option \<Rightarrow> receipt_rec \<Rightarrow> make_receipt_input"
where
  "issuingReceiptInput c idemKey supersedes latest =
    \<lparr>mi_Schema = [], mi_CreatedAt = cl_CreatedAt c, mi_IdemKey = idemKey,
     mi_SupersedesReceiptID = supersedes, mi_ContextID = lr_ContextID latest,
     mi_DecisionID = lr_DecisionID latest, mi_Actor = workloadActor (cl_Claims c),
     mi_Request = workloadRequest (cl_Req c), mi_Policy = hashOnlyPolicy (lr_PolicyHash latest),
     mi_InteractionRef = interactionRefFromBody (lr_BodyJSON latest),
     mi_Refs = receiptRefsFromBody (lr_BodyJSON latest), mi_Approval = None,
     mi_CredentialGrant = None, mi_Outcome = plain_outcome OutcomeIssuingCredentials\<rparr>"

definition readyPlan ::
  "service \<Rightarrow> 's ledger \<Rightarrow> call \<Rightarrow> string \<Rightarrow> idem_rec \<Rightarrow> 's \<Rightarrow> issue_plan res"
where
  "readyPlan sv L c idemKey idem s =
    (case ik_LatestReceiptID idem of
       None \<Rightarrow> Inl (Errorf ''missing latest receipt id'')
     | Some latestID \<Rightarrow>
         (case GetReceipt L latestID s of
            None \<Rightarrow> Inl (Errorf ''latest receipt not found'')
          | Some latest \<Rightarrow>
              res_bind (reloadPolicy sv L (lr_PolicyHash latest) s) (\<lambda>loaded.
                let decision = Evaluate (lp_Policy loaded) (lp_Hash loaded) (policyInput (cl_Req c))
                in if d_Verdict decision \<noteq> ''allow'' \<and> d_Verdict decision \<noteq> ''require_approval''
                   then Inl (Errorf (''unexpected verdict for approved_ready: '' @ d_Verdict decision))
                   else if d_AWSRoleARN decision = [] then Inl (Errorf ''missing aws_role_arn in policy'')
                   else res_bind
                     (MakeReceipt (sv_Prims sv) (sv_NFC sv)
                       (issuingReceiptInput c idemKey (ik_LatestReceiptID idem) latest) (sv_Signer sv))
                     (\<lambda>issuing. Inr (issuing, d_AWSRoleARN decision, d_TTLSeconds decision)))))"

definition readyTx :: "service \<Rightarrow> 's ledger \<Rightarrow> string \<Rightarrow> string \<Rightarrow> stored_receipt \<Rightarrow> ('s, unit) tx" where
  "readyTx sv L createdAt idemKey issuing =
    tx_bind (putSigningKey sv L createdAt) (\<lambda>_.
    tx_bind (tx_put (PutReceipt L (receiptRecordFromStored issuing))) (\<lambda>_.
    tx_bind (tx_get (GetIdempotencyKey L idemKey)) (\<lambda>found.
      case found of
        None \<Rightarrow> tx_fail (Errorf ''idempotency key missing'')
      | Some current \<Rightarrow>
          if idem_parse (ik_Status current) \<noteq> Some IdemApprovedReady
          then tx_fail (Errorf (''unexpected state: '' @ ik_Status current))
          else tx_put (PutIdempotencyKey L
            (current\<lparr>ik_Status := idem_str IdemIssuing, ik_LatestReceiptID := Some (sr_ReceiptID issuing),
                     ik_UpdatedAt := createdAt\<rparr>)))))"

definition issueApprovedReady ::
  "service \<Rightarrow> 's ledger \<Rightarrow> call \<Rightarrow> string \<Rightarrow> idem_rec \<Rightarrow> ('s, authorize_response) tx"
where
  "issueApprovedReady sv L c idemKey idem s =
    (case readyPlan sv L c idemKey idem s of
       Inl e \<Rightarrow> (Inl e, s)
     | Inr (issuing, role, ttl) \<Rightarrow>
         (case WithTx L (readyTx sv L (cl_CreatedAt c) idemKey issuing) s of
            (Inl e, s') \<Rightarrow> (Inl e, s')
          | (Inr _, s') \<Rightarrow> finalizeIssuance sv L c idemKey issuing role ttl s'))"

section \<open>Authorize: a first request\<close>

text \<open>Everything the first request computes before its transaction.\<close>

record prepared =
  pp_IdemKey :: string
  pp_Loaded :: loaded_policy
  pp_Decision :: pdecision
  pp_Context :: context_record
  pp_DecRecord :: decision_record
  pp_Base :: stored_receipt
  pp_CtxJSON :: string
  pp_DecJSON :: string

definition pp_Action :: "prepared \<Rightarrow> next_action" where
  "pp_Action p = snd (TransitionFromDecision (d_Verdict (pp_Decision p)))"

definition receiptRefsOf :: "authorize_request \<Rightarrow> receipt_refs option" where
  "receiptRefsOf q =
    (if aq_ContextRef q \<noteq> None \<or> aq_DecisionRef q \<noteq> None
     then Some \<lparr>rf_Context = aq_ContextRef q, rf_Decision = aq_DecisionRef q\<rparr> else None)"

definition contextSource :: "actor_context \<Rightarrow> context_source" where
  "contextSource c =
    \<lparr>cs_Kind = ''github_actions'', cs_Repo = ac_Repo c, cs_Workflow = ac_Workflow c, cs_RunID = ac_RunID c,
     cs_Actor = ac_Subject c, cs_Ref = [], cs_SHA = ac_SHA c\<rparr>"

definition contextInputs :: "authorize_request \<Rightarrow> context_inputs" where
  "contextInputs q =
    \<lparr>ci_Action = aq_Action q, ci_Resource = aq_Resource q, ci_Env = aq_Env q, ci_Intent = aq_Intent q\<rparr>"

definition baseReceiptInput ::
  "call \<Rightarrow> string \<Rightarrow> context_record \<Rightarrow> decision_record \<Rightarrow> decision_policy \<Rightarrow> next_action \<Rightarrow> make_receipt_input"
where
  "baseReceiptInput c idemKey ctx dec meta action =
    \<lparr>mi_Schema = [], mi_CreatedAt = cl_CreatedAt c, mi_IdemKey = idemKey, mi_SupersedesReceiptID = None,
     mi_ContextID = cx_ContextID ctx, mi_DecisionID = dc_DecisionID dec,
     mi_Actor = workloadActor (cl_Claims c), mi_Request = workloadRequest (cl_Req c),
     mi_Policy = \<lparr>rp_PolicyID = dp_PolicyID meta, rp_PolicyVersion = dp_PolicyVersion meta,
                  rp_PolicyHash = dp_PolicyHash meta\<rparr>,
     mi_InteractionRef = aq_InteractionRef (cl_Req c), mi_Refs = receiptRefsOf (cl_Req c),
     mi_Approval = (if action = ActionReturnPending
       then Some \<lparr>rap_Required = True, rap_ApprovalID = cl_ApprovalID c, rap_Status = ''pending'',
                  rap_ApprovedAt = [], rap_Approver = None\<rparr> else None),
     mi_CredentialGrant = None, mi_Outcome = outcomeForAction action\<rparr>"

definition prepare :: "service \<Rightarrow> call \<Rightarrow> string \<Rightarrow> prepared res" where
  "prepare sv c idemKey =
    res_bind (LoadPolicy (sv_Prims sv) (sv_Yaml sv) (sv_ReadFile sv) (sv_PolicyPath sv)) (\<lambda>loaded.
    let decision = Evaluate (lp_Policy loaded) (lp_Hash loaded) (policyInput (cl_Req c));
        evidence = \<lparr>ce_PlanDigest = aq_PlanDigest (cl_Req c), ce_DiffURL = aq_DiffURL (cl_Req c)\<rparr>
    in res_bind (BuildContext (sv_Prims sv) (sv_NFC sv) (contextSource (cl_Claims c))
                  (contextInputs (cl_Req c)) evidence (cl_CreatedAt c)) (\<lambda>ctx.
    let meta = \<lparr>dp_PolicyID = p_PolicyID (lp_Policy loaded),
                dp_PolicyVersion = p_PolicyVersion (lp_Policy loaded), dp_PolicyHash = lp_Hash loaded\<rparr>
    in res_bind (BuildDecision (sv_Prims sv) (sv_NFC sv) (cx_ContextID ctx) meta (d_Verdict decision)
                  (d_ReasonCodes decision) (d_RequireApproval decision) (d_Risk decision)
                  (cl_CreatedAt c)) (\<lambda>dec.
    let action = snd (TransitionFromDecision (d_Verdict decision))
    in res_bind (MakeReceipt (sv_Prims sv) (sv_NFC sv) (baseReceiptInput c idemKey ctx dec meta action)
                  (sv_Signer sv)) (\<lambda>base.
       res_bind (marshalContext ctx) (\<lambda>ctxJSON.
       res_bind (marshalDecision dec) (\<lambda>decJSON.
         Inr \<lparr>pp_IdemKey = idemKey, pp_Loaded = loaded, pp_Decision = decision, pp_Context = ctx,
              pp_DecRecord = dec, pp_Base = base, pp_CtxJSON = ctxJSON, pp_DecJSON = decJSON\<rparr>))))))"

definition postSlack :: "service \<Rightarrow> call \<Rightarrow> bool" where
  "postSlack sv c \<longleftrightarrow> cl_Slack c \<noteq> None \<and> sv_SlackChan sv \<noteq> []"

definition approvalRecOf :: "call \<Rightarrow> prepared \<Rightarrow> approval_rec" where
  "approvalRecOf c p =
    \<lparr>la_ApprovalID = cl_ApprovalID c, la_IdemKey = pp_IdemKey p, la_Status = approval_str ApprovalPending,
     la_SlackChannel = None, la_SlackMsgTS = None, la_ApprovedBy = None, la_ApprovedAt = None,
     la_CreatedAt = cl_CreatedAt c, la_UpdatedAt = cl_CreatedAt c\<rparr>"

definition outboxRecOf :: "service \<Rightarrow> call \<Rightarrow> prepared \<Rightarrow> slack_outbox_rec" where
  "outboxRecOf sv c p =
    \<lparr>so_NotificationID = ''slack:'' @ cl_ApprovalID c, so_ApprovalID = cl_ApprovalID c,
     so_Channel = sv_SlackChan sv,
     so_MessageJSON = marshalMessage
       \<lparr>am_ApprovalID = cl_ApprovalID c, am_ReceiptID = sr_ReceiptID (pp_Base p),
        am_PolicyHash = lp_Hash (pp_Loaded p), am_ContextID = cx_ContextID (pp_Context p),
        am_DecisionID = dc_DecisionID (pp_DecRecord p), am_Action = aq_Action (cl_Req c),
        am_Resource = aq_Resource (cl_Req c), am_Env = aq_Env (cl_Req c),
        am_Risk = d_Risk (pp_Decision p), am_DiffURL = aq_DiffURL (cl_Req c), am_RunURL = []\<rparr>,
     so_Status = ''pending'', so_AttemptCount = 0, so_NextAttemptAt = cl_CreatedAt c,
     so_LastError = None, so_SentAt = None, so_CreatedAt = cl_CreatedAt c, so_UpdatedAt = cl_CreatedAt c\<rparr>"

fun initialStatus :: "next_action \<Rightarrow> idem_status" where
  "initialStatus ActionReturnDenied = IdemDenied"
| "initialStatus ActionReturnPending = IdemPendingApproval"
| "initialStatus ActionIssueCredentials = IdemIssuing"
| "initialStatus _ = IdemErrored"

definition initialFinal :: "next_action \<Rightarrow> string \<Rightarrow> string option" where
  "initialFinal action receiptID =
    (if action = ActionReturnPending \<or> action = ActionIssueCredentials then None else Some receiptID)"

definition initialIdem :: "call \<Rightarrow> prepared \<Rightarrow> idem_rec" where
  "initialIdem c p =
    \<lparr>ik_IdemKey = pp_IdemKey p, ik_Status = idem_str (initialStatus (pp_Action p)), ik_ApprovalID = None,
     ik_LatestReceiptID = None, ik_FinalReceiptID = None, ik_CreatedAt = cl_CreatedAt c,
     ik_UpdatedAt = cl_CreatedAt c, ik_TTLExpiresAt = None\<rparr>"

definition policyRecOf :: "call \<Rightarrow> prepared \<Rightarrow> policy_version_rec" where
  "policyRecOf c p =
    \<lparr>pv_PolicyHash = lp_Hash (pp_Loaded p), pv_PolicyID = p_PolicyID (lp_Policy (pp_Loaded p)),
     pv_PolicyVersion = p_PolicyVersion (lp_Policy (pp_Loaded p)), pv_PolicyYAML = lp_Bytes (pp_Loaded p),
     pv_CreatedAt = cl_CreatedAt c\<rparr>"

definition pendingTx :: "service \<Rightarrow> 's ledger \<Rightarrow> call \<Rightarrow> prepared \<Rightarrow> ('s, idem_rec) tx" where
  "pendingTx sv L c p =
    tx_bind (tx_put (PutApproval L (approvalRecOf c p))) (\<lambda>_.
    tx_bind (if postSlack sv c then tx_put (PutSlackOutbox L (outboxRecOf sv c p)) else tx_return ()) (\<lambda>_.
    let idem = (initialIdem c p)\<lparr>ik_ApprovalID := ptrOrNil (cl_ApprovalID c)\<rparr>
    in tx_bind (tx_put (PutIdempotencyKey L idem)) (\<lambda>_. tx_return idem)))"

definition firstTx :: "service \<Rightarrow> 's ledger \<Rightarrow> call \<Rightarrow> prepared \<Rightarrow> ('s, unit) tx" where
  "firstTx sv L c p =
    tx_bind (putSigningKey sv L (cl_CreatedAt c)) (\<lambda>_.
    tx_bind (tx_put (PutPolicyVersion L (policyRecOf c p))) (\<lambda>_.
    tx_bind (tx_put (PutContext L \<lparr>lc_ContextID = cx_ContextID (pp_Context p), lc_BodyJSON = pp_CtxJSON p,
                                  lc_CreatedAt = cl_CreatedAt c\<rparr>)) (\<lambda>_.
    tx_bind (tx_put (PutDecision L \<lparr>ld_DecisionID = dc_DecisionID (pp_DecRecord p),
                                   ld_ContextID = dc_ContextID (pp_DecRecord p),
                                   ld_PolicyHash = lp_Hash (pp_Loaded p),
                                   ld_Verdict = d_Verdict (pp_Decision p), ld_BodyJSON = pp_DecJSON p,
                                   ld_CreatedAt = cl_CreatedAt c\<rparr>)) (\<lambda>_.
    tx_bind (tx_put (PutIdempotencyKey L (initialIdem c p))) (\<lambda>_.
    tx_bind (if pp_Action p = ActionReturnPending then pendingTx sv L c p
             else tx_return (initialIdem c p)) (\<lambda>idem.
    tx_bind (tx_put (PutReceipt L (receiptRecordFromStored (pp_Base p)))) (\<lambda>_.
      let latest = sr_ReceiptID (pp_Base p);
          idem1 = idem\<lparr>ik_LatestReceiptID := Some latest\<rparr>;
          idem2 = (case initialFinal (pp_Action p) latest of None \<Rightarrow> idem1
                   | Some f \<Rightarrow> idem1\<lparr>ik_FinalReceiptID := Some f\<rparr>)
      in tx_put (PutIdempotencyKey L idem2))))))))"

definition firstResponse :: "call \<Rightarrow> prepared \<Rightarrow> authorize_response" where
  "firstResponse c p =
    (let resp = empty_response\<lparr>rs_Verdict := d_Verdict (pp_Decision p),
                  rs_ContextID := cx_ContextID (pp_Context p),
                  rs_DecisionID := dc_DecisionID (pp_DecRecord p), rs_ReceiptID := sr_ReceiptID (pp_Base p)\<rparr>;
         resp1 = (if pp_Action p = ActionReturnPending
                  then resp\<lparr>rs_Verdict := ''require_approval'',
                            rs_Approval := Some \<lparr>rap_ID = cl_ApprovalID c, rap_State = ''pending''\<rparr>\<rparr>
                  else resp)
     in if pp_Action p = ActionReturnDenied then resp1\<lparr>rs_Verdict := ''deny''\<rparr> else resp1)"

definition firstPlan :: "prepared \<Rightarrow> issue_plan" where
  "firstPlan p = (pp_Base p, d_AWSRoleARN (pp_Decision p), d_TTLSeconds (pp_Decision p))"

definition kickOutbox :: "service \<Rightarrow> 's ledger \<Rightarrow> call \<Rightarrow> prepared \<Rightarrow> 's \<Rightarrow> 's" where
  "kickOutbox sv L c p s =
    (if pp_Action p = ActionReturnPending \<and> postSlack sv c
     then snd (ProcessOutboxDue L (cl_Slack c) (cl_Now c) 1 s) else s)"

definition authorizeFirst ::
  "service \<Rightarrow> 's ledger \<Rightarrow> call \<Rightarrow> string \<Rightarrow> ('s, authorize_response) tx"
where
  "authorizeFirst sv L c idemKey s =
    (case prepare sv c idemKey of
       Inl e \<Rightarrow> (Inl e, s)
     | Inr p \<Rightarrow>
         (case WithTx L (firstTx sv L c p) s of
            (Inl e, s') \<Rightarrow>
              (case GetIdempotencyKey L idemKey s' of
                 Some existing \<Rightarrow> (handleExisting L existing s', s')
               | None \<Rightarrow> (Inl e, s'))
          | (Inr _, s') \<Rightarrow>
              let s'' = kickOutbox sv L c p s'
              in if pp_Action p = ActionIssueCredentials
                 then (case firstPlan p of (issuing, role, ttl) \<Rightarrow>
                         finalizeIssuance sv L c idemKey issuing role ttl s'')
                 else (Inr (firstResponse c p), s'')))"

definition Authorize :: "service \<Rightarrow> 's ledger \<Rightarrow> call \<Rightarrow> ('s, authorize_response) tx" where
  "Authorize sv L c s =
    (case ComputeIdemKey (sv_Prims sv) (sv_NFC sv) (cl_Claims c) (cl_Req c) of
       Inl e \<Rightarrow> (Inl e, s)
     | Inr idemKey \<Rightarrow>
         (case GetIdempotencyKey L idemKey s of
            None \<Rightarrow> authorizeFirst sv L c idemKey s
          | Some existing \<Rightarrow>
              (case idem_parse (ik_Status existing) of
                 Some IdemAllowed \<Rightarrow> (handleExisting L existing s, s)
               | Some IdemDenied \<Rightarrow> (handleExisting L existing s, s)
               | Some IdemPendingApproval \<Rightarrow> (handleExisting L existing s, s)
               | Some IdemApprovedReady \<Rightarrow> issueApprovedReady sv L c idemKey existing s
               | Some IdemIssuing \<Rightarrow> retryIssuing sv L c idemKey existing s
               | Some IdemErrored \<Rightarrow> (Inr (error_response ''previous error''), s)
               | None \<Rightarrow> (Inr (error_response ''unsupported state''), s))))"

section \<open>Approve\<close>

definition approvalReceiptInput ::
  "string \<Rightarrow> string \<Rightarrow> approval_status \<Rightarrow> approval_rec \<Rightarrow> idem_rec \<Rightarrow> receipt_rec \<Rightarrow> make_receipt_input"
where
  "approvalReceiptInput createdAt approvalID status approval idem latest =
    \<lparr>mi_Schema = [], mi_CreatedAt = createdAt, mi_IdemKey = la_IdemKey approval,
     mi_SupersedesReceiptID = ik_LatestReceiptID idem, mi_ContextID = lr_ContextID latest,
     mi_DecisionID = lr_DecisionID latest,
     mi_Actor = \<lparr>ra_Kind = ''approval'', ra_Subject = ''slack'', ra_Issuer = [], ra_Repo = [], ra_Workflow = [],
                 ra_RunID = [], ra_SHA = []\<rparr>,
     mi_Request = \<lparr>rq_RequestID = ''approval'', rq_Action = ''approve'', rq_Resource = la_IdemKey approval,
                   rq_Env = [], rq_Intent = VNilMap\<rparr>,
     mi_Policy = hashOnlyPolicy (lr_PolicyHash latest),
     mi_InteractionRef = interactionRefFromBody (lr_BodyJSON latest),
     mi_Refs = receiptRefsFromBody (lr_BodyJSON latest),
     mi_Approval = Some \<lparr>rap_Required = True, rap_ApprovalID = approvalID, rap_Status = approval_str status,
                        rap_ApprovedAt = [], rap_Approver = None\<rparr>,
     mi_CredentialGrant = None,
     mi_Outcome = plain_outcome (if status = ApprovalApproved then OutcomeApprovalApproved
                                 else OutcomeApprovalDenied)\<rparr>"

definition decidedIdem :: "string \<Rightarrow> approval_status \<Rightarrow> string \<Rightarrow> idem_rec \<Rightarrow> idem_rec" where
  "decidedIdem createdAt status receiptID idem =
    (let ready = idem\<lparr>ik_Status := idem_str IdemApprovedReady, ik_LatestReceiptID := Some receiptID,
                      ik_FinalReceiptID := None\<rparr>;
         decided = (if status = ApprovalDenied
                    then ready\<lparr>ik_Status := idem_str IdemDenied, ik_FinalReceiptID := Some receiptID\<rparr>
                    else ready)
     in decided\<lparr>ik_UpdatedAt := createdAt\<rparr>)"

text \<open>The part of the closure for an approval that is still open.\<close>

definition applyApproval ::
  "service \<Rightarrow> 's ledger \<Rightarrow> string \<Rightarrow> approval_status \<Rightarrow> string \<Rightarrow> approval_rec \<Rightarrow> ('s, string) tx"
where
  "applyApproval sv L approvalID status createdAt approval =
    tx_bind (tx_get (GetIdempotencyKey L (la_IdemKey approval))) (\<lambda>found.
      case found of
        None \<Rightarrow> tx_fail (Errorf ''idempotency not found for approval'')
      | Some idem \<Rightarrow>
          (case ik_LatestReceiptID idem of
             None \<Rightarrow> tx_fail (Errorf ''idempotency not found for approval'')
           | Some latestID \<Rightarrow>
               tx_bind (tx_get (GetReceipt L latestID)) (\<lambda>latest0.
                 case latest0 of
                   None \<Rightarrow> tx_fail (Errorf ''latest receipt not found'')
                 | Some latest \<Rightarrow>
                     (case MakeReceipt (sv_Prims sv) (sv_NFC sv)
                             (approvalReceiptInput createdAt approvalID status approval idem latest)
                             (sv_Signer sv) of
                        Inl e \<Rightarrow> tx_fail e
                      | Inr receipt \<Rightarrow>
                          tx_bind (tx_put (PutReceipt L (receiptRecordFromStored receipt))) (\<lambda>_.
                          tx_bind (tx_put (PutApproval L
                            (approval\<lparr>la_Status := approval_str status, la_UpdatedAt := createdAt\<rparr>))) (\<lambda>_.
                          tx_bind (tx_put (PutIdempotencyKey L
                            (decidedIdem createdAt status (sr_ReceiptID receipt) idem))) (\<lambda>_.
                          tx_return (sr_ReceiptID receipt))))))))"

definition approveTx ::
  "service \<Rightarrow> 's ledger \<Rightarrow> string \<Rightarrow> approval_status \<Rightarrow> string \<Rightarrow> ('s, string) tx"
where
  "approveTx sv L approvalID status createdAt =
    tx_bind (putSigningKey sv L createdAt) (\<lambda>_.
    tx_bind (tx_get (GetApproval L approvalID)) (\<lambda>found.
      case found of
        None \<Rightarrow> tx_fail (Errorf ''approval not found'')
      | Some approval \<Rightarrow>
          if la_Status approval = approval_str ApprovalApproved \<or>
             la_Status approval = approval_str ApprovalDenied
          then tx_bind (tx_get (GetIdempotencyKey L (la_IdemKey approval))) (\<lambda>idem.
            tx_return (case Option.bind idem ik_LatestReceiptID of None \<Rightarrow> [] | Some r \<Rightarrow> r))
          else applyApproval sv L approvalID status createdAt approval))"

definition Approve :: "service \<Rightarrow> 's ledger \<Rightarrow> string \<Rightarrow> string \<Rightarrow> string \<Rightarrow> ('s, string) tx" where
  "Approve sv L approvalID status createdAt s =
    (case approval_parse status of
       Some ApprovalApproved \<Rightarrow> WithTx L (approveTx sv L approvalID ApprovalApproved createdAt) s
     | Some ApprovalDenied \<Rightarrow> WithTx L (approveTx sv L approvalID ApprovalDenied createdAt) s
     | _ \<Rightarrow> (Inl (Errorf ''invalid approval status''), s))"

section \<open>NewAuthorizeService\<close>

text \<open>\<open>devSigner\<close>: it signs with \<open>ed25519.Sign\<close> directly, without the digest length check.\<close>

definition devSigner :: "prims \<Rightarrow> string \<Rightarrow> string \<Rightarrow> signer" where
  "devSigner pr keyID priv = \<lparr>sg_KeyID = keyID, sg_SignEd25519 = (\<lambda>m. Inr (pr_edsign pr priv m))\<rparr>"

text \<open>
  \<open>in_Signer\<close> and \<open>in_PublicKey\<close> are the optional inputs, \<open>random\<close> the seed \<open>rand.Read\<close> fills or its
  error.  The store and broker defaults are chosen by the caller of the model.
\<close>

definition NewAuthorizeService ::
  "service \<Rightarrow> signer option \<Rightarrow> string option \<Rightarrow> string res \<Rightarrow> service res"
where
  "NewAuthorizeService base in_Signer in_PublicKey random =
    (if sv_PolicyPath base = [] then Inl (Errorf ''missing policy path'')
     else case (in_Signer, in_PublicKey) of
       (Some sg, Some pub) \<Rightarrow> Inr (base\<lparr>sv_Signer := sg, sv_PublicKey := Some pub\<rparr>)
     | _ \<Rightarrow> res_bind random (\<lambda>seed.
         let priv = NewKeyFromSeed (sv_Prims base) seed
         in Inr (base\<lparr>sv_Signer := devSigner (sv_Prims base) ''dev'' priv,
                      sv_PublicKey := Some (PublicOf priv)\<rparr>)))"

end
