(* ===== verification/Http_Handlers.thy ===== *)
theory Http_Handlers
  imports Slack_Client Auth Pack Authorize_Service
begin

text \<open>
  \<open>internal/api/handlers.go\<close>, \<open>verify_page.go\<close> and \<open>router.go\<close>: the HTTP interface over the service
  and its ledger.  A handler gives the response and the ledger it leaves.
\<close>

section \<open>The handler and its surroundings\<close>

text \<open>
  \<open>hd_Auth n\<close> is what the \<open>Authenticator\<close> answers when a request asks for the \<open>n\<close>-th time;
  \<open>hd_Service\<close> is nil, or the service with its ledger.
\<close>

record 's handler =
  hd_Auth :: "nat \<Rightarrow> http_request \<Rightarrow> claims res"
  hd_Service :: "(service \<times> 's ledger) option"
  hd_Slack :: "'s interaction_handler option"
  hd_PublicVerify :: bool

text \<open>
  What a request takes from outside beside the ledger: the clock, the random approval identifier, the
  broker, Slack, and what packing needs.
\<close>

record http_env =
  he_Now :: int
  he_Clock :: "int \<times> int"
  he_ApprovalID :: string
  he_Broker :: "assume_role_input \<Rightarrow> credentials res"
  he_Slack :: "outbox_env option"
  he_Pack :: pack_env

record page_view =
  vw_Valid :: bool
  vw_Error :: string
  vw_ReceiptID :: string
  vw_Grade :: string
  vw_Verdict :: string
  vw_Approval :: string
  vw_Policy :: string
  vw_RoleTTL :: string
  vw_Interaction :: string
  vw_Refs :: string
  vw_RunURL :: string
  vw_PlanDigest :: string
  vw_DiffURL :: string
  vw_PackURL :: string
  vw_JSONURL :: string

text \<open>
  What is written after the header: a dynamic value or an answer of the service as JSON, an archive,
  the page of a view, a text, nothing, a redirection (whose target is left out); \<open>PAborted\<close> is a
  connection cut by a panic.
\<close>

datatype payload =
    PAny goval | PAnswer authorize_response | PZip string | PPage page_view | PText string
  | PEmpty | PRedirect | PAborted string

type_synonym response = "payload http_response"

definition writeJSON :: "int \<Rightarrow> payload \<Rightarrow> response" where
  "writeJSON status p =
    \<lparr>hs_Status = status, hs_Header = [(''Content-Type'', ''application/json'')], hs_Payload = p\<rparr>"

definition writeError :: "int \<Rightarrow> string \<Rightarrow> response" where
  "writeError status msg = writeJSON status (PAny (VMap [(''error'', VStr msg)]))"

definition plainResponse :: "int \<Rightarrow> payload \<Rightarrow> response" where
  "plainResponse status p = \<lparr>hs_Status = status, hs_Header = [], hs_Payload = p\<rparr>"

definition notFound :: response where
  "notFound = plainResponse 404 (PText ''404 page not found'')"

definition aborted :: "string \<Rightarrow> response" where
  "aborted msg = plainResponse 0 (PAborted msg)"

definition Healthz :: response where
  "Healthz = writeJSON 200 (PAny (VMap [(''status'', VStr ''ok'')]))"

text \<open>\<open>ensureAuth\<close>: the response of a refusal, or nothing.\<close>

definition ensureAuth :: "'s handler \<Rightarrow> http_request \<Rightarrow> response option" where
  "ensureAuth h r =
    (case hd_Auth h 0 r of Inl e \<Rightarrow> Some (writeError 401 (err_msg e)) | Inr _ \<Rightarrow> None)"

section \<open>POST /v1/authorize\<close>

definition zero_request :: authorize_request where
  "zero_request = \<lparr>aq_RequestID = [], aq_Action = [], aq_Resource = [], aq_Env = [], aq_Intent = VNilMap,
     aq_PlanDigest = [], aq_DiffURL = [], aq_AWSRegion = None, aq_InteractionRef = None, aq_ContextRef = None,
     aq_DecisionRef = None\<rparr>"

text \<open>The struct \<open>AuthorizeAWS\<close> is its region.\<close>

definition decodeAWS :: "(string \<times> jval) list \<Rightarrow> string \<Rightarrow> string option" where
  "decodeAWS ms region = string_field ''region'' ms region"

definition decodeRequest ::
  "(string \<Rightarrow> string option) \<Rightarrow> (string \<times> jval) list \<Rightarrow> authorize_request \<Rightarrow> authorize_request option"
where
  "decodeRequest float64 ms q =
    Option.bind (string_field ''request_id'' ms (aq_RequestID q)) (\<lambda>f1.
    Option.bind (string_field ''action'' ms (aq_Action q)) (\<lambda>f2.
    Option.bind (string_field ''resource'' ms (aq_Resource q)) (\<lambda>f3.
    Option.bind (string_field ''env'' ms (aq_Env q)) (\<lambda>f4.
    Option.bind (any_map_field float64 ''intent'' ms (aq_Intent q)) (\<lambda>f5.
    Option.bind (struct_field ''evidence'' decodeEvidence ms
        \<lparr>ce_PlanDigest = aq_PlanDigest q, ce_DiffURL = aq_DiffURL q\<rparr>) (\<lambda>f6.
    Option.bind (ptr_field ''aws'' decodeAWS [] ms (aq_AWSRegion q)) (\<lambda>f7.
    Option.bind (ptr_field ''interaction_ref'' decodeInteractionRef zero_interaction_ref ms
        (aq_InteractionRef q)) (\<lambda>f8.
    Option.bind (ptr_field ''context_ref'' decodeContextRef zero_context_ref ms (aq_ContextRef q)) (\<lambda>f9.
    Option.bind (ptr_field ''decision_ref'' decodeDecisionRef zero_decision_ref ms (aq_DecisionRef q)) (\<lambda>f10.
      Some \<lparr>aq_RequestID = f1, aq_Action = f2, aq_Resource = f3, aq_Env = f4, aq_Intent = f5,
            aq_PlanDigest = ce_PlanDigest f6, aq_DiffURL = ce_DiffURL f6, aq_AWSRegion = f7,
            aq_InteractionRef = f8, aq_ContextRef = f9, aq_DecisionRef = f10\<rparr>))))))))))"

definition readRequest :: "(string \<Rightarrow> string option) \<Rightarrow> http_request \<Rightarrow> authorize_request option" where
  "readRequest float64 r =
    (case hq_Body r of Inl _ \<Rightarrow> None | Inr body \<Rightarrow> decode_first (decodeRequest float64) zero_request body)"

definition actorOf :: "claims \<Rightarrow> actor_context" where
  "actorOf c =
    \<lparr>ac_Subject = cm_Subject c, ac_Issuer = cm_Issuer c, ac_Repo = cm_Repo c, ac_Workflow = cm_Workflow c,
     ac_RunID = cm_RunID c, ac_SHA = cm_SHA c, ac_Token = cm_Token c\<rparr>"

definition callOf :: "http_env \<Rightarrow> claims \<Rightarrow> authorize_request \<Rightarrow> call" where
  "callOf e c q =
    \<lparr>cl_Claims = actorOf c, cl_Req = q, cl_CreatedAt = rfc3339 (he_Now e), cl_ApprovalID = he_ApprovalID e,
     cl_Broker = he_Broker e, cl_Slack = he_Slack e, cl_Now = he_Now e\<rparr>"

definition answerOf :: "authorize_response res \<times> 's \<Rightarrow> response \<times> 's" where
  "answerOf out =
    (case out of (Inl e, s') \<Rightarrow> (writeError 400 (err_msg e), s') | (Inr resp, s') \<Rightarrow> (writeJSON 200 (PAnswer resp), s'))"

definition HandleAuthorize :: "http_env \<Rightarrow> 's handler \<Rightarrow> http_request \<Rightarrow> 's \<Rightarrow> response \<times> 's" where
  "HandleAuthorize e h r s =
    (case ensureAuth h r of
       Some refusal \<Rightarrow> (refusal, s)
     | None \<Rightarrow>
         (case hd_Service h of
            None \<Rightarrow> (writeError 501 ''authorize service not configured'', s)
          | Some (sv, L) \<Rightarrow>
              (case readRequest (pe_Float64 (he_Pack e)) r of
                 None \<Rightarrow> (writeError 400 ''invalid json'', s)
               | Some q \<Rightarrow>
                   (case hd_Auth h 1 r of
                      Inl err \<Rightarrow> (writeError 401 (err_msg err), s)
                    | Inr c \<Rightarrow> answerOf (Authorize sv L (callOf e c q) s)))))"

section \<open>GET /v1/approvals/\<close>

definition HandleApprovals :: "'s handler \<Rightarrow> http_request \<Rightarrow> 's \<Rightarrow> response" where
  "HandleApprovals h r s =
    (case ensureAuth h r of
       Some refusal \<Rightarrow> refusal
     | None \<Rightarrow>
         (case hd_Service h of
            None \<Rightarrow> writeError 501 ''authorize service not configured''
          | Some (sv, L) \<Rightarrow>
              let approvalID = trim_prefix (hq_Path r) ''/v1/approvals/''
              in if approvalID = [] then writeError 400 ''missing approval_id''
                 else case GetApproval L approvalID s of
                   None \<Rightarrow> writeError 404 ''approval not found''
                 | Some a \<Rightarrow> writeJSON 200 (PAny (VMap
                     [(''approval_id'', VStr (la_ApprovalID a)), (''status'', VStr (la_Status a))]))))"

section \<open>GET /v1/verify/\<close>

text \<open>The fields that the verification of a stored row uses; the others are zero.\<close>

definition verifiedPart :: "receipt_rec \<Rightarrow> stored_receipt" where
  "verifiedPart r =
    \<lparr>sr_ReceiptID = lr_ReceiptID r, sr_BodyDigest = lr_BodyDigest r, sr_BodyJSON = lr_BodyJSON r,
     sr_KeyID = lr_KeyID r, sr_Sig = lr_Sig r, sr_IdemKey = [], sr_CreatedAt = [], sr_SupersedesReceiptID = None,
     sr_ContextID = [], sr_DecisionID = [], sr_OutcomeStatus = [], sr_ApprovalID = None, sr_PolicyHash = [],
     sr_Final = False, sr_ExpiresAt = None\<rparr>"

definition verifyKeyOf :: "service \<Rightarrow> 's ledger \<Rightarrow> receipt_rec \<Rightarrow> 's \<Rightarrow> string option" where
  "verifyKeyOf sv L r s =
    (case GetKey L (lr_KeyID r) s of Some k \<Rightarrow> Some (kr_PublicKey k) | None \<Rightarrow> sv_PublicKey sv)"

definition storedContext :: "(string \<Rightarrow> string option) \<Rightarrow> 's ledger \<Rightarrow> receipt_rec \<Rightarrow> 's \<Rightarrow> context_record option" where
  "storedContext float64 L r s =
    (case GetContext L (lr_ContextID r) s of None \<Rightarrow> None | Some rec \<Rightarrow> unmarshalContext float64 (lc_BodyJSON rec))"

definition storedDecision :: "'s ledger \<Rightarrow> receipt_rec \<Rightarrow> 's \<Rightarrow> decision_record option" where
  "storedDecision L r s =
    (case GetDecision L (lr_DecisionID r) s of None \<Rightarrow> None | Some rec \<Rightarrow> unmarshalDecision (ld_BodyJSON rec))"

definition gradeInfo :: "grade_result \<Rightarrow> goval" where
  "gradeInfo q = VMap [(''reasons'', VSlice (map VStr (gr_Reasons q)))]"

definition invalidAnswer :: "(string list \<Rightarrow> string list) \<Rightarrow> string \<Rightarrow> receipt_rec \<Rightarrow> goerr \<Rightarrow> response" where
  "invalidAnswer order receiptID r err =
    (let quality = GradeEvaluate order \<lparr>gi_Valid = False, gi_Receipt = verifiedPart r, gi_Context = None,
                                        gi_Decision = None\<rparr>
     in writeJSON 200 (PAny (VMap
          [(''receipt_id'', VStr receiptID), (''valid'', VBool False), (''grade'', VStr (gr_Grade quality)),
           (''grade_info'', gradeInfo quality), (''error'', VStr (err_msg err))])))"

text \<open>
  The body as a map, with the integrity block when it decodes; the body \<open>null\<close> gives a nil map, and
  assigning to it panics.
\<close>

definition shownReceipt :: "(string \<Rightarrow> string option) \<Rightarrow> receipt_rec \<Rightarrow> goval res" where
  "shownReceipt float64 r =
    (case Option.bind (json_parse (lr_BodyJSON r)) (decode_any_map float64 VNilMap) of
       None \<Rightarrow> Inr VNilMap
     | Some body \<Rightarrow>
         if body = VNilMap then Inl (GoPanic ''assignment to entry in nil map'')
         else Inr (VMap (AList.update ''integrity'' (integrityOf (verifiedPart r)) (entries body))))"

definition validAnswer :: "http_env \<Rightarrow> 's ledger \<Rightarrow> string \<Rightarrow> receipt_rec \<Rightarrow> 's \<Rightarrow> response" where
  "validAnswer e L receiptID r s =
    (let quality = GradeEvaluate (pe_Order (he_Pack e))
           \<lparr>gi_Valid = True, gi_Receipt = verifiedPart r, gi_Context = storedContext (pe_Float64 (he_Pack e)) L r s,
            gi_Decision = storedDecision L r s\<rparr>
     in case shownReceipt (pe_Float64 (he_Pack e)) r of
          Inl err \<Rightarrow> aborted (err_msg err)
        | Inr body \<Rightarrow> writeJSON 200 (PAny (VMap
            [(''receipt_id'', VStr receiptID), (''valid'', VBool True), (''grade'', VStr (gr_Grade quality)),
             (''grade_info'', gradeInfo quality), (''receipt'', body)])))"

definition verifyAnswer :: "http_env \<Rightarrow> service \<Rightarrow> 's ledger \<Rightarrow> string \<Rightarrow> receipt_rec \<Rightarrow> 's \<Rightarrow> response" where
  "verifyAnswer e sv L receiptID r s =
    (case verifyKeyOf sv L r s of
       None \<Rightarrow> writeError 500 ''public key not configured''
     | Some key \<Rightarrow>
         (case VerifyReceipt (sv_Prims sv) (verifiedPart r) key of
            Inl (GoPanic m) \<Rightarrow> aborted m
          | Inl err \<Rightarrow> invalidAnswer (pe_Order (he_Pack e)) receiptID r err
          | Inr _ \<Rightarrow> validAnswer e L receiptID r s))"

definition HandleVerify :: "http_env \<Rightarrow> 's handler \<Rightarrow> http_request \<Rightarrow> 's \<Rightarrow> response" where
  "HandleVerify e h r s =
    (case ensureAuth h r of
       Some refusal \<Rightarrow> refusal
     | None \<Rightarrow>
         (case hd_Service h of
            None \<Rightarrow> writeError 501 ''verify not implemented''
          | Some (sv, L) \<Rightarrow>
              let receiptID = trim_prefix (hq_Path r) ''/v1/verify/''
              in if receiptID = [] then writeError 400 ''missing receipt_id''
                 else case GetReceipt L receiptID s of
                   None \<Rightarrow> writeError 404 ''receipt not found''
                 | Some rec \<Rightarrow> verifyAnswer e sv L receiptID rec s))"

end
