(* ===== verification/Http_Pages.thy ===== *)
theory Http_Pages
  imports Http_Handlers
begin

text \<open>
  The rest of the HTTP interface: the pack endpoints of \<open>internal/api/handlers.go\<close> and
  \<open>verify_page.go\<close>, the public verification page, the router of \<open>router.go\<close>, and the request loop
  over it.
\<close>

section \<open>What packs and pages share\<close>

definition packedReceipt :: "receipt_rec \<Rightarrow> stored_receipt" where
  "packedReceipt r =
    \<lparr>sr_ReceiptID = lr_ReceiptID r, sr_BodyDigest = lr_BodyDigest r, sr_BodyJSON = lr_BodyJSON r,
     sr_KeyID = lr_KeyID r, sr_Sig = lr_Sig r, sr_IdemKey = lr_IdemKey r, sr_CreatedAt = lr_CreatedAt r,
     sr_SupersedesReceiptID = lr_SupersedesReceiptID r, sr_ContextID = lr_ContextID r,
     sr_DecisionID = lr_DecisionID r, sr_OutcomeStatus = lr_OutcomeStatus r, sr_ApprovalID = lr_ApprovalID r,
     sr_PolicyHash = lr_PolicyHash r, sr_Final = lr_Final r, sr_ExpiresAt = lr_ExpiresAt r\<rparr>"

text \<open>The public pack leaves out the fields that the audit pack does not print.\<close>

definition publicReceipt :: "receipt_rec \<Rightarrow> stored_receipt" where
  "publicReceipt r = (verifiedPart r)\<lparr>sr_PolicyHash := lr_PolicyHash r, sr_ApprovalID := lr_ApprovalID r,
     sr_ExpiresAt := lr_ExpiresAt r\<rparr>"

definition packApprovals :: "'s ledger \<Rightarrow> receipt_rec \<Rightarrow> 's \<Rightarrow> pack_approval list" where
  "packApprovals L r s =
    (case lr_ApprovalID r of
       None \<Rightarrow> []
     | Some approvalID \<Rightarrow>
         (case GetApproval L approvalID s of
            None \<Rightarrow> []
          | Some a \<Rightarrow> [\<lparr>pk_ApprovalID = la_ApprovalID a, pk_Status = la_Status a, pk_ReceiptID = lr_ReceiptID r\<rparr>]))"

definition baseURLOf :: "http_request \<Rightarrow> string" where
  "baseURLOf r =
    (if hq_Host r = [] then [] else (if hq_TLS r then ''https'' else ''http'') @ ''://'' @ hq_Host r)"

definition zipResponse :: "string \<Rightarrow> string \<Rightarrow> response" where
  "zipResponse filename zipped =
    \<lparr>hs_Status = 200,
     hs_Header = [(''Content-Type'', ''application/zip''),
                  (''Content-Disposition'', ''attachment; filename='' @ filename)],
     hs_Payload = PZip zipped\<rparr>"

section \<open>GET /v1/pack/\<close>

definition packInput ::
  "stored_receipt \<Rightarrow> context_record \<Rightarrow> decision_record \<Rightarrow> policy_version_rec \<Rightarrow> pack_approval list \<Rightarrow> string
    \<Rightarrow> pack_input"
where
  "packInput receipt ctx dec policy approvals createdAt =
    \<lparr>pi_Receipt = receipt, pi_Context = ctx, pi_Decision = dec, pi_Policy = pv_PolicyYAML policy,
     pi_Approvals = approvals, pi_CreatedAt = createdAt\<rparr>"

definition packAnswer :: "http_env \<Rightarrow> 's ledger \<Rightarrow> http_request \<Rightarrow> receipt_rec \<Rightarrow> 's \<Rightarrow> response" where
  "packAnswer e L r rec s =
    (case GetContext L (lr_ContextID rec) s of
       None \<Rightarrow> writeError 404 ''context not found''
     | Some ctxRec \<Rightarrow>
         (case GetDecision L (lr_DecisionID rec) s of
            None \<Rightarrow> writeError 404 ''decision not found''
          | Some decisionRec \<Rightarrow>
              (case GetPolicyVersion L (lr_PolicyHash rec) s of
                 None \<Rightarrow> writeError 404 ''policy not found''
               | Some policy \<Rightarrow>
                   (case unmarshalContext (pe_Float64 (he_Pack e)) (lc_BodyJSON ctxRec) of
                      None \<Rightarrow> writeError 500 ''invalid stored context''
                    | Some ctx \<Rightarrow>
                        (case unmarshalDecision (ld_BodyJSON decisionRec) of
                           None \<Rightarrow> writeError 500 ''invalid stored decision''
                         | Some dec \<Rightarrow>
                             (case BuildZip (he_Pack e)
                                     (packInput (packedReceipt rec) ctx dec policy (packApprovals L rec s) [])
                                     (baseURLOf r) of
                                Inl (GoPanic m) \<Rightarrow> aborted m
                              | Inl err \<Rightarrow> writeError 500 (err_msg err)
                              | Inr zipped \<Rightarrow> zipResponse ''relia-pack.zip'' zipped))))))"

definition HandlePack :: "http_env \<Rightarrow> 's handler \<Rightarrow> http_request \<Rightarrow> 's \<Rightarrow> response" where
  "HandlePack e h r s =
    (case ensureAuth h r of
       Some refusal \<Rightarrow> refusal
     | None \<Rightarrow>
         (case hd_Service h of
            None \<Rightarrow> writeError 501 ''pack not implemented''
          | Some (sv, L) \<Rightarrow>
              let receiptID = trim_prefix (hq_Path r) ''/v1/pack/''
              in if receiptID = [] then writeError 400 ''missing receipt_id''
                 else case GetReceipt L receiptID s of
                   None \<Rightarrow> writeError 404 ''receipt not found''
                 | Some rec \<Rightarrow> packAnswer e L r rec s))"

section \<open>GET /pack/\<close>

text \<open>\<open>http.Error\<close>\<close>

definition textError :: "int \<Rightarrow> string \<Rightarrow> response" where
  "textError status msg =
    \<lparr>hs_Status = status,
     hs_Header = [(''Content-Type'', ''text/plain; charset=utf-8''), (''X-Content-Type-Options'', ''nosniff'')],
     hs_Payload = PText msg\<rparr>"

definition packPublicAnswer ::
  "http_env \<Rightarrow> 's ledger \<Rightarrow> http_request \<Rightarrow> string \<Rightarrow> receipt_rec \<Rightarrow> 's \<Rightarrow> response"
where
  "packPublicAnswer e L r receiptID rec s =
    (case GetContext L (lr_ContextID rec) s of
       None \<Rightarrow> notFound
     | Some ctxRec \<Rightarrow>
         (case GetDecision L (lr_DecisionID rec) s of
            None \<Rightarrow> notFound
          | Some decisionRec \<Rightarrow>
              (case GetPolicyVersion L (lr_PolicyHash rec) s of
                 None \<Rightarrow> notFound
               | Some policy \<Rightarrow>
                   (case unmarshalContext (pe_Float64 (he_Pack e)) (lc_BodyJSON ctxRec) of
                      None \<Rightarrow> textError 500 ''invalid stored context''
                    | Some ctx \<Rightarrow>
                        (case unmarshalDecision (ld_BodyJSON decisionRec) of
                           None \<Rightarrow> textError 500 ''invalid stored decision''
                         | Some dec \<Rightarrow>
                             (case BuildZip (he_Pack e)
                                     (packInput (publicReceipt rec) ctx dec policy (packApprovals L rec s)
                                        (lr_CreatedAt rec))
                                     (baseURLOf r) of
                                Inl (GoPanic m) \<Rightarrow> aborted m
                              | Inl err \<Rightarrow> textError 500 (err_msg err)
                              | Inr zipped \<Rightarrow> zipResponse (''relia-pack-'' @ receiptID @ ''.zip'') zipped))))))"

definition HandlePackPublic :: "http_env \<Rightarrow> 's handler \<Rightarrow> http_request \<Rightarrow> 's \<Rightarrow> response" where
  "HandlePackPublic e h r s =
    (if \<not> hd_PublicVerify h then notFound
     else let receiptID = trim_prefix (hq_Path r) ''/pack/''
          in if receiptID = [] then notFound
             else case hd_Service h of
               None \<Rightarrow> notFound
             | Some (sv, L) \<Rightarrow>
                 (case GetReceipt L receiptID s of
                    None \<Rightarrow> notFound
                  | Some rec \<Rightarrow> packPublicAnswer e L r receiptID rec s))"

section \<open>POST /v1/slack/interactions\<close>

definition SlackInteractions :: "http_env \<Rightarrow> 's handler \<Rightarrow> http_request \<Rightarrow> 's \<Rightarrow> response \<times> 's" where
  "SlackInteractions e h r s =
    (case hd_Slack h of
       None \<Rightarrow> (writeError 501 ''slack handler not configured'', s)
     | Some ih \<Rightarrow>
         (case HandleInteractions (pe_Prims (he_Pack e)) ih (fst (he_Clock e)) (snd (he_Clock e)) r s of
            (status, s') \<Rightarrow> (plainResponse status PEmpty, s')))"


section \<open>GET /verify/\<close>

text \<open>\<open>strings.Contains\<close>\<close>

fun str_contains :: "string \<Rightarrow> string \<Rightarrow> bool" where
  "str_contains [] sub \<longleftrightarrow> sub = []"
| "str_contains (c # s) sub \<longleftrightarrow> has_prefix (c # s) sub \<or> str_contains s sub"

definition shownPolicy :: "decision_record option \<Rightarrow> shown_body \<Rightarrow> string" where
  "shownPolicy dec rb =
    (case dec of
       None \<Rightarrow> rp_PolicyHash (sb_Policy rb)
     | Some d \<Rightarrow>
         let p = dc_Policy d
         in if dp_PolicyID p \<noteq> [] \<or> dp_PolicyVersion p \<noteq> []
            then dp_PolicyID p @ ''@'' @ dp_PolicyVersion p @ '' ('' @ dp_PolicyHash p @ '')''
            else dp_PolicyHash p)"

definition shownApproval :: "shown_body \<Rightarrow> string" where
  "shownApproval rb =
    (case sb_Approval rb of
       None \<Rightarrow> ''not required''
     | Some a \<Rightarrow>
         if \<not> rap_Required a then ''not required''
         else rap_Status a @
           (case rap_Approver a of
              None \<Rightarrow> []
            | Some p \<Rightarrow> if ap_Display p \<noteq> [] then '' by '' @ ap_Display p else []) @
           (if rap_ApprovedAt a \<noteq> [] then '' at '' @ rap_ApprovedAt a else []))"

definition shownRoleTTL :: "shown_body \<Rightarrow> string option \<Rightarrow> string" where
  "shownRoleTTL rb expiresAt =
    (case sb_CredentialGrant rb of
       None \<Rightarrow> ''n/a''
     | Some c \<Rightarrow>
         if cg_RoleARN c \<noteq> [] \<or> cg_TTLSeconds c \<noteq> 0
         then cg_RoleARN c @
           (if cg_TTLSeconds c \<noteq> 0 then '' (ttl '' @ show_int (cg_TTLSeconds c) @ ''s)'' else [])
         else ''n/a'') @
    (case expiresAt of None \<Rightarrow> [] | Some t \<Rightarrow> if t \<noteq> [] then '' expires '' @ t else [])"

text \<open>A part that is left out when the value is empty.\<close>

definition part :: "string \<Rightarrow> string \<Rightarrow> string list" where
  "part name v = (if v \<noteq> [] then [name @ ''='' @ v] else [])"

definition shownInteraction :: "shown_body \<Rightarrow> string" where
  "shownInteraction rb =
    (case sb_InteractionRef rb of
       None \<Rightarrow> []
     | Some i \<Rightarrow> str_join '' ''
         (part ''mode'' (ir_Mode i) @ part ''call_id'' (ir_CallID i) @ part ''turn_id'' (ir_TurnID i) @
          (if ir_TurnIndex i \<noteq> 0 then [''turn_index='' @ show_int (ir_TurnIndex i)] else []) @
          part ''consent'' (ir_ConsentState i)))"

definition spaced :: "string list \<Rightarrow> string" where
  "spaced parts = concat (map (\<lambda>p. p @ '' '') parts)"

definition shownRefs :: "shown_body \<Rightarrow> string" where
  "shownRefs rb =
    (case sb_Refs rb of
       None \<Rightarrow> []
     | Some r \<Rightarrow> trim_space (
         (case rf_Context r of
            None \<Rightarrow> []
          | Some c \<Rightarrow> spaced (part ''context_id'' (cr_ContextID c) @ part ''record_hash'' (cr_RecordHash c) @
                              part ''content_hash'' (cr_ContentHash c))) @
         (case rf_Decision r of
            None \<Rightarrow> []
          | Some d \<Rightarrow> spaced (part ''decision_id'' (dr_DecisionID d) @
                              part ''inputs_digest'' (dr_InputsDigest d)))))"

definition viewOf ::
  "string \<Rightarrow> goerr option \<Rightarrow> string \<Rightarrow> context_record option \<Rightarrow> decision_record option \<Rightarrow> shown_body
    \<Rightarrow> string option \<Rightarrow> page_view"
where
  "viewOf receiptID err grade ctx dec rb expiresAt =
    \<lparr>vw_Valid = (err = None), vw_Error = (case err of None \<Rightarrow> [] | Some e \<Rightarrow> err_msg e),
     vw_ReceiptID = receiptID, vw_Grade = grade,
     vw_Verdict = (case dec of None \<Rightarrow> [] | Some d \<Rightarrow> dc_Verdict d),
     vw_Approval = shownApproval rb, vw_Policy = shownPolicy dec rb, vw_RoleTTL = shownRoleTTL rb expiresAt,
     vw_Interaction = shownInteraction rb, vw_Refs = shownRefs rb,
     vw_RunURL = (case ctx of
        None \<Rightarrow> []
      | Some c \<Rightarrow> if str_contains (ce_DiffURL (cx_Evidence c)) ''github.com/'' then ce_DiffURL (cx_Evidence c) else []),
     vw_PlanDigest = (case ctx of None \<Rightarrow> [] | Some c \<Rightarrow> ce_PlanDigest (cx_Evidence c)),
     vw_DiffURL = (case ctx of None \<Rightarrow> [] | Some c \<Rightarrow> ce_DiffURL (cx_Evidence c)),
     vw_PackURL = ''/pack/'' @ receiptID, vw_JSONURL = ''/v1/verify/'' @ receiptID\<rparr>"

definition pageResponse :: "page_view \<Rightarrow> response" where
  "pageResponse v =
    \<lparr>hs_Status = 200,
     hs_Header = [(''Content-Type'', ''text/html; charset=utf-8''), (''Cache-Control'', ''no-store'')],
     hs_Payload = PPage v\<rparr>"

text \<open>The page of a receipt; \<open>own\<close> is the key of the service.\<close>

definition pageAnswer ::
  "http_env \<Rightarrow> service \<Rightarrow> 's ledger \<Rightarrow> string \<Rightarrow> string \<Rightarrow> receipt_rec \<Rightarrow> 's \<Rightarrow> response"
where
  "pageAnswer e sv L own receiptID rec s =
    (let key = (case GetKey L (lr_KeyID rec) s of Some k \<Rightarrow> kr_PublicKey k | None \<Rightarrow> own);
         ctx = storedContext (pe_Float64 (he_Pack e)) L rec s;
         dec = storedDecision L rec s;
         rb = unmarshal_lenient lenientShown zero_shown (lr_BodyJSON rec);
         gradeFor = (\<lambda>valid. gr_Grade (GradeEvaluate (pe_Order (he_Pack e))
           \<lparr>gi_Valid = valid, gi_Receipt = verifiedPart rec, gi_Context = ctx, gi_Decision = dec\<rparr>))
     in case VerifyReceipt (sv_Prims sv) (verifiedPart rec) key of
          Inl (GoPanic m) \<Rightarrow> aborted m
        | Inl err \<Rightarrow> pageResponse (viewOf receiptID (Some err) (gradeFor False) ctx dec rb (lr_ExpiresAt rec))
        | Inr _ \<Rightarrow> pageResponse (viewOf receiptID None (gradeFor True) ctx dec rb (lr_ExpiresAt rec)))"

definition HandleVerifyPage :: "http_env \<Rightarrow> 's handler \<Rightarrow> http_request \<Rightarrow> 's \<Rightarrow> response" where
  "HandleVerifyPage e h r s =
    (if \<not> hd_PublicVerify h then notFound
     else case hd_Service h of
       None \<Rightarrow> notFound
     | Some (sv, L) \<Rightarrow>
         (case sv_PublicKey sv of
            None \<Rightarrow> notFound
          | Some own \<Rightarrow>
              let receiptID = trim_prefix (hq_Path r) ''/verify/''
              in if receiptID = [] then notFound
                 else case GetReceipt L receiptID s of
                   None \<Rightarrow> notFound
                 | Some rec \<Rightarrow> pageAnswer e sv L own receiptID rec s))"

section \<open>internal/api/router.go\<close>

text \<open>
  \<open>http.ServeMux\<close>: the path that was sent is cleaned, and matched segment by segment after
  unescaping.  A pattern that ends in a slash stands for its subtree.
\<close>

datatype endpoint =
    Healthz_EP | VerifyPage_EP | PackPublic_EP | Authorize_EP | Approvals_EP | Verify_EP | Pack_EP | Slack_EP

record mux_pattern =
  mp_Segments :: "string list"
  mp_Subtree :: bool
  mp_Endpoint :: endpoint

definition NewRouter :: "mux_pattern list" where
  "NewRouter =
    [\<lparr>mp_Segments = [''healthz''], mp_Subtree = False, mp_Endpoint = Healthz_EP\<rparr>,
     \<lparr>mp_Segments = [''verify''], mp_Subtree = True, mp_Endpoint = VerifyPage_EP\<rparr>,
     \<lparr>mp_Segments = [''pack''], mp_Subtree = True, mp_Endpoint = PackPublic_EP\<rparr>,
     \<lparr>mp_Segments = [''v1'', ''authorize''], mp_Subtree = False, mp_Endpoint = Authorize_EP\<rparr>,
     \<lparr>mp_Segments = [''v1'', ''approvals''], mp_Subtree = True, mp_Endpoint = Approvals_EP\<rparr>,
     \<lparr>mp_Segments = [''v1'', ''verify''], mp_Subtree = True, mp_Endpoint = Verify_EP\<rparr>,
     \<lparr>mp_Segments = [''v1'', ''pack''], mp_Subtree = True, mp_Endpoint = Pack_EP\<rparr>,
     \<lparr>mp_Segments = [''v1'', ''slack'', ''interactions''], mp_Subtree = False, mp_Endpoint = Slack_EP\<rparr>]"

fun segments :: "string \<Rightarrow> string list" where
  "segments [] = [[]]"
| "segments (c # s) =
    (if c = CHR ''/'' then [] # segments s
     else case segments s of [] \<Rightarrow> [[c]] | seg # segs \<Rightarrow> (c # seg) # segs)"

text \<open>\<open>path.Clean\<close> on the segments of a rooted path.\<close>

fun clean_segments :: "string list \<Rightarrow> string list \<Rightarrow> string list" where
  "clean_segments done [] = rev done"
| "clean_segments done (seg # segs) =
    (if seg = [] \<or> seg = ''.'' then clean_segments done segs
     else if seg = ''..'' then clean_segments (tl done) segs
     else clean_segments (seg # done) segs)"

definition rooted :: "string list \<Rightarrow> string" where
  "rooted segs = concat (map (\<lambda>seg. CHR ''/'' # seg) segs)"

definition cleanPath :: "string \<Rightarrow> string" where
  "cleanPath p =
    (let segs = clean_segments [] (segments p)
     in if segs = [] then ''/''
        else rooted segs @ (if p \<noteq> [] \<and> last p = CHR ''/'' then ''/'' else []))"

text \<open>\<open>url.PathUnescape\<close>; a segment that does not decode is kept.\<close>

fun path_unescape :: "string \<Rightarrow> string option" where
  "path_unescape [] = Some []"
| "path_unescape (c # s) =
    (if c = CHR ''%'' then
       (case s of
          a # b # t \<Rightarrow>
            (case (hex_val a, hex_val b) of
               (Some x, Some y) \<Rightarrow> map_option ((#) (char_of (16 * x + y))) (path_unescape t)
             | _ \<Rightarrow> None)
        | _ \<Rightarrow> None)
     else map_option ((#) c) (path_unescape s))"

definition pathUnescape :: "string \<Rightarrow> string" where
  "pathUnescape s = (case path_unescape s of None \<Rightarrow> s | Some t \<Rightarrow> t)"

definition pathSegments :: "string \<Rightarrow> string list" where
  "pathSegments path = map pathUnescape (tl (segments path))"

definition matches :: "string list \<Rightarrow> mux_pattern \<Rightarrow> bool" where
  "matches segs p \<longleftrightarrow>
    (if mp_Subtree p
     then take (length (mp_Segments p)) segs = mp_Segments p \<and> length (mp_Segments p) < length segs
     else segs = mp_Segments p)"

datatype mux_result = ToEndpoint endpoint | ToRedirect | ToNotFound

definition findHandler :: "string \<Rightarrow> mux_result" where
  "findHandler escapedPath =
    (let path = cleanPath escapedPath; segs = pathSegments path;
         found = List.find (matches segs) NewRouter
     in if (found = None \<or> mp_Subtree (the found)) \<and> last path \<noteq> CHR ''/'' \<and>
           (\<exists>p \<in> set NewRouter. mp_Subtree p \<and> mp_Segments p = segs) then ToRedirect
        else if path \<noteq> escapedPath then ToRedirect
        else case found of None \<Rightarrow> ToNotFound | Some p \<Rightarrow> ToEndpoint (mp_Endpoint p))"

definition serve :: "http_env \<Rightarrow> 's handler \<Rightarrow> http_request \<Rightarrow> 's \<Rightarrow> response \<times> 's" where
  "serve e h r s =
    (case findHandler (hq_EscapedPath r) of
       ToNotFound \<Rightarrow> (notFound, s)
     | ToRedirect \<Rightarrow> (plainResponse 301 PRedirect, s)
     | ToEndpoint p \<Rightarrow>
         (case p of
            Healthz_EP \<Rightarrow> (Healthz, s)
          | VerifyPage_EP \<Rightarrow> (HandleVerifyPage e h r s, s)
          | PackPublic_EP \<Rightarrow> (HandlePackPublic e h r s, s)
          | Authorize_EP \<Rightarrow> HandleAuthorize e h r s
          | Approvals_EP \<Rightarrow> (HandleApprovals h r s, s)
          | Verify_EP \<Rightarrow> (HandleVerify e h r s, s)
          | Pack_EP \<Rightarrow> (HandlePack e h r s, s)
          | Slack_EP \<Rightarrow> SlackInteractions e h r s))"

lemma findHandler_routes:
  "findHandler ''/healthz'' = ToEndpoint Healthz_EP" "findHandler ''/v1/authorize'' = ToEndpoint Authorize_EP"
  "findHandler ''/v1/slack/interactions'' = ToEndpoint Slack_EP"
  "findHandler ''/verify'' = ToRedirect" "findHandler ''/v1/verify/'' = ToEndpoint Verify_EP"
  "findHandler ''/v1//authorize'' = ToRedirect" "findHandler ''/v1/authorize/'' = ToNotFound"
  by code_simp+

end
