(* ===== verification/Authorize_Steps.thy ===== *)
theory Authorize_Steps
  imports Authorize_Service
begin

text \<open>
  \<open>Authorize\<close> of \<open>internal/api/authorize\_service.go\<close> cut at the points where another request can run:
  each step reads the ledger, runs one transaction, or calls the broker.  A call run without
  interruption gives what \<open>Authorize\<close> gives.
\<close>

datatype pc =
    PLookup
  | PView idem_rec
  | PReady idem_rec
  | PReadyCommit stored_receipt string int
  | PRetry idem_rec
  | PCommit prepared
  | PLost goerr
  | PKick prepared
  | PFinalize stored_receipt string int
  | PPersist stored_receipt stored_receipt credentials
  | PDone "authorize_response res"

text \<open>What a step means to an auditor: a policy evaluation, credentials handed out by the broker.\<close>

datatype event =
    EvEvaluated string policy policy_input
  | EvApproved string string
  | EvMinted string

definition lookupStep ::
  "service \<Rightarrow> 's ledger \<Rightarrow> call \<Rightarrow> string \<Rightarrow> 's \<Rightarrow> pc \<times> event list"
where
  "lookupStep sv L c k s =
    (case GetIdempotencyKey L k s of
       None \<Rightarrow>
         (case prepare sv c k of
            Inl e \<Rightarrow> (PDone (Inl e), [])
          | Inr p \<Rightarrow> (PCommit p, [EvEvaluated k (lp_Policy (pp_Loaded p)) (policyInput (cl_Req c))]))
     | Some existing \<Rightarrow>
         (case idem_parse (ik_Status existing) of
            Some IdemAllowed \<Rightarrow> (PView existing, [])
          | Some IdemDenied \<Rightarrow> (PView existing, [])
          | Some IdemPendingApproval \<Rightarrow> (PView existing, [])
          | Some IdemApprovedReady \<Rightarrow> (PReady existing, [])
          | Some IdemIssuing \<Rightarrow> (PRetry existing, [])
          | Some IdemErrored \<Rightarrow> (PDone (Inr (error_response ''previous error'')), [])
          | None \<Rightarrow> (PDone (Inr (error_response ''unsupported state'')), [])))"

text \<open>The broker call; the event is logged as soon as the broker has answered.\<close>

definition mintStep :: "service \<Rightarrow> call \<Rightarrow> string \<Rightarrow> stored_receipt \<Rightarrow> string \<Rightarrow> int \<Rightarrow> pc \<times> event list" where
  "mintStep sv c k issuing role ttl =
    ((case mintCredentials sv c k issuing role ttl of
        Inl e \<Rightarrow> PDone (Inl e)
      | Inr (finalReceipt, creds) \<Rightarrow> PPersist issuing finalReceipt creds),
     (case cl_Broker c (brokerInput c role ttl) of Inl _ \<Rightarrow> [] | Inr _ \<Rightarrow> [EvMinted k]))"

fun auth_step ::
  "service \<Rightarrow> 's ledger \<Rightarrow> call \<Rightarrow> string \<Rightarrow> pc \<Rightarrow> 's \<Rightarrow> (pc \<times> event list) \<times> 's"
where
  "auth_step sv L c k PLookup s = (lookupStep sv L c k s, s)"
| "auth_step sv L c k (PView existing) s = ((PDone (handleExisting L existing s), []), s)"
| "auth_step sv L c k (PReady existing) s =
    ((case readyPlan sv L c k existing s of
        Inl e \<Rightarrow> PDone (Inl e)
      | Inr (issuing, role, ttl) \<Rightarrow> PReadyCommit issuing role ttl, []), s)"
| "auth_step sv L c k (PReadyCommit issuing role ttl) s =
    (case WithTx L (readyTx sv L (cl_CreatedAt c) k issuing) s of
       (Inl e, s') \<Rightarrow> ((PDone (Inl e), []), s')
     | (Inr _, s') \<Rightarrow> ((PFinalize issuing role ttl, []), s'))"
| "auth_step sv L c k (PRetry existing) s =
    ((case retryPlan sv L c existing s of
        Inl e \<Rightarrow> PDone (Inl e)
      | Inr (Inl resp) \<Rightarrow> PDone (Inr resp)
      | Inr (Inr (issuing, role, ttl)) \<Rightarrow> PFinalize issuing role ttl, []), s)"
| "auth_step sv L c k (PCommit p) s =
    (case WithTx L (firstTx sv L c p) s of
       (Inl e, s') \<Rightarrow> ((PLost e, []), s')
     | (Inr _, s') \<Rightarrow> ((PKick p, []), s'))"
| "auth_step sv L c k (PLost e) s =
    ((case GetIdempotencyKey L k s of None \<Rightarrow> PDone (Inl e) | Some existing \<Rightarrow> PView existing, []), s)"
| "auth_step sv L c k (PKick p) s =
    ((if pp_Action p = ActionIssueCredentials
      then (case firstPlan p of (issuing, role, ttl) \<Rightarrow> PFinalize issuing role ttl)
      else PDone (Inr (firstResponse c p)), []), kickOutbox sv L c p s)"
| "auth_step sv L c k (PFinalize issuing role ttl) s = (mintStep sv c k issuing role ttl, s)"
| "auth_step sv L c k (PPersist issuing finalReceipt creds) s =
    (case persistIssuance sv L c k issuing finalReceipt creds s of (r, s') \<Rightarrow> ((PDone r, []), s'))"
| "auth_step sv L c k (PDone r) s = ((PDone r, []), s)"

text \<open>A call alone: at most \<open>n\<close> steps.\<close>

fun run_alone :: "nat \<Rightarrow> service \<Rightarrow> 's ledger \<Rightarrow> call \<Rightarrow> string \<Rightarrow> pc \<Rightarrow> 's \<Rightarrow> pc \<times> 's" where
  "run_alone 0 sv L c k pc s = (pc, s)"
| "run_alone (Suc n) sv L c k pc s =
    (case auth_step sv L c k pc s of ((pc', evs), s') \<Rightarrow> run_alone n sv L c k pc' s')"

lemma run_alone_done [simp]: "run_alone n sv L c k (PDone r) s = (PDone r, s)"
  by (induction n) simp_all

lemma run_finalize:
  "run_alone (Suc (Suc n)) sv L c k (PFinalize issuing role ttl) s =
    (case finalizeIssuance sv L c k issuing role ttl s of (r, s') \<Rightarrow> (PDone r, s'))"
  by (auto simp: mintStep_def finalizeIssuance_def split: sum.splits prod.splits)

lemma run_ready:
  "run_alone (Suc (Suc (Suc (Suc n)))) sv L c k (PReady existing) s =
    (case issueApprovedReady sv L c k existing s of (r, s') \<Rightarrow> (PDone r, s'))"
proof (cases "readyPlan sv L c k existing s")
  case (Inl e)
  then show ?thesis by (simp add: issueApprovedReady_def)
next
  case (Inr plan)
  obtain issuing role ttl where plan: "plan = (issuing, role, ttl)" by (cases plan)
  show ?thesis
    using Inr plan
    by (cases "WithTx L (readyTx sv L (cl_CreatedAt c) k issuing) s")
      (auto simp: issueApprovedReady_def run_finalize [of n]
        run_alone.simps(2) [of "Suc (Suc (Suc n))"] run_alone.simps(2) [of "Suc (Suc n)"]
        simp del: run_alone.simps(2) split: sum.splits)
qed

lemma run_retry:
  "run_alone (Suc (Suc (Suc n))) sv L c k (PRetry existing) s =
    (case retryIssuing sv L c k existing s of (r, s') \<Rightarrow> (PDone r, s'))"
  by (auto simp: retryIssuing_def run_finalize [of n] run_alone.simps(2) [of "Suc (Suc n)"]
      simp del: run_alone.simps(2) split: sum.splits)

lemma run_commit:
  assumes "prepare sv c k = Inr p"
  shows "run_alone (Suc (Suc (Suc (Suc n)))) sv L c k (PCommit p) s =
    (case authorizeFirst sv L c k s of (r, s') \<Rightarrow> (PDone r, s'))"
proof (cases "WithTx L (firstTx sv L c p) s")
  case (Pair r s')
  show ?thesis
  proof (cases r)
    case (Inl e)
    with Pair assms show ?thesis
      by (cases "GetIdempotencyKey L k s'") (simp_all add: authorizeFirst_def)
  next
    case (Inr u)
    with Pair assms show ?thesis
      by (simp add: authorizeFirst_def Let_def firstPlan_def run_finalize [of n]
          run_alone.simps(2) [of "Suc (Suc (Suc n))"] run_alone.simps(2) [of "Suc (Suc n)"]
          del: run_alone.simps(2))
  qed
qed

theorem run_alone_Authorize:
  assumes "ComputeIdemKey (sv_Prims sv) (sv_NFC sv) (cl_Claims c) (cl_Req c) = Inr k"
  shows "run_alone 5 sv L c k PLookup s = (case Authorize sv L c s of (r, s') \<Rightarrow> (PDone r, s'))"
proof -
  have five: "(5::nat) = Suc (Suc (Suc (Suc (Suc 0))))" by simp
  show ?thesis
  proof (cases "GetIdempotencyKey L k s")
    case None
    then show ?thesis
    proof (cases "prepare sv c k")
      case (Inl e)
      with None assms show ?thesis by (simp add: five lookupStep_def Authorize_def authorizeFirst_def)
    next
      case (Inr p)
      with None assms run_commit [OF Inr, of 0 L s] show ?thesis
        unfolding five by (simp add: lookupStep_def Authorize_def del: run_alone.simps(2)
            add: run_alone.simps(2) [of "Suc (Suc (Suc (Suc 0)))"])
    qed
  next
    case (Some existing)
    note facts = Some assms run_ready [of 0 sv L c k existing s] run_retry [of "Suc 0" sv L c k existing s]
    show ?thesis
    proof (cases "idem_parse (ik_Status existing)")
      case None
      with facts show ?thesis
        unfolding five by (simp add: lookupStep_def Authorize_def)
    next
      case (Some st)
      with facts show ?thesis
        unfolding five by (cases st) (simp_all add: lookupStep_def Authorize_def del: run_alone.simps(2)
            add: run_alone.simps(2) [of "Suc (Suc (Suc (Suc 0)))"] run_alone.simps(2) [of "Suc (Suc (Suc 0))"])
    qed
  qed
qed

section \<open>A call among others\<close>

text \<open>The same call while others change the ledger between its steps, in any way.\<close>

fun run_among ::
  "(nat \<Rightarrow> 's \<Rightarrow> 's) \<Rightarrow> nat \<Rightarrow> service \<Rightarrow> 's ledger \<Rightarrow> call \<Rightarrow> string \<Rightarrow> pc \<Rightarrow> 's \<Rightarrow> pc \<times> 's"
where
  "run_among others 0 sv L c k pc s = (pc, s)"
| "run_among others (Suc n) sv L c k pc s =
    (case auth_step sv L c k pc (others n s) of ((pc', evs), s') \<Rightarrow> run_among others n sv L c k pc' s')"

text \<open>The number of steps a call may still take.\<close>

fun steps_left :: "pc \<Rightarrow> nat" where
  "steps_left PLookup = 5"
| "steps_left (PCommit p) = 4"
| "steps_left (PReady i) = 4"
| "steps_left (PReadyCommit x role ttl) = 3"
| "steps_left (PRetry i) = 3"
| "steps_left (PKick p) = 3"
| "steps_left (PLost e) = 2"
| "steps_left (PFinalize x role ttl) = 2"
| "steps_left (PView i) = 1"
| "steps_left (PPersist i x creds) = 1"
| "steps_left (PDone r) = 0"

lemma steps_left_0: "steps_left pc = 0 \<longleftrightarrow> (\<exists>r. pc = PDone r)"
  by (cases pc) simp_all

lemma step_counts_down:
  assumes "auth_step sv L c k pc s = ((pc', evs), t)"
  shows "steps_left pc' \<le> steps_left pc - 1"
  using assms
  by (cases pc) (auto simp: lookupStep_def mintStep_def firstPlan_def
      split: option.splits sum.splits idem_status.splits if_splits prod.splits)

lemma run_among_counts:
  "run_among others n sv L c k pc s = (pc', t) \<Longrightarrow> steps_left pc' \<le> steps_left pc - n"
proof (induction n arbitrary: pc s)
  case (Suc n)
  obtain pc1 evs s1 where one: "auth_step sv L c k pc (others n s) = ((pc1, evs), s1)"
    by (metis surj_pair)
  with Suc.prems have "run_among others n sv L c k pc1 s1 = (pc', t)" by simp
  from Suc.IH [OF this] step_counts_down [OF one] show ?case by simp
qed simp

lemma run_among_ends: "\<exists>r t. run_among others 5 sv L c k PLookup s = (PDone r, t)"
proof -
  obtain pc t where run: "run_among others 5 sv L c k PLookup s = (pc, t)" by fastforce
  from run_among_counts [OF this] have "steps_left pc = 0" by simp
  with run show ?thesis by (auto simp: steps_left_0)
qed

text \<open>Where nobody else runs this is the call alone.\<close>

lemma run_among_alone: "run_among (\<lambda>_ s. s) n sv L c k pc s = run_alone n sv L c k pc s"
  by (induction n arbitrary: pc s) (simp_all split: prod.splits)

end
