(* ===== verification/Ledger_Logic.thy ===== *)
theory Ledger_Logic
  imports Ledger_Store
begin

text \<open>
  Weakest preconditions of transaction bodies, and the rules the ledger contract gives for the
  operations a body is made of: a property of a body is the property of its straight-line code.
\<close>

section \<open>Weakest preconditions\<close>

definition wp :: "('s, 'a) tx \<Rightarrow> ('a res \<Rightarrow> 's \<Rightarrow> bool) \<Rightarrow> 's \<Rightarrow> bool" where
  "wp m Q s = (case m s of (r, s') \<Rightarrow> Q r s')"

named_theorems wp_rules "weakest preconditions of transaction bodies"

lemma wp_return [wp_rules]: "wp (tx_return a) Q s = Q (Inr a) s"
  by (simp add: wp_def tx_return_def)

lemma wp_fail [wp_rules]: "wp (tx_fail e) Q s = Q (Inl e) s"
  by (simp add: wp_def tx_fail_def)

lemma wp_get [wp_rules]: "wp (tx_get g) Q s = Q (Inr (g s)) s"
  by (simp add: wp_def tx_get_def)

lemma wp_bind [wp_rules]:
  "wp (tx_bind m f) Q s = wp m (\<lambda>r t. case r of Inl e \<Rightarrow> Q (Inl e) t | Inr a \<Rightarrow> wp (f a) Q t) s"
  by (simp add: wp_def tx_bind_def split: prod.splits sum.splits)

lemma wp_put: "wp (tx_put p) Q s = (case p s of Inl e \<Rightarrow> Q (Inl e) s | Inr s' \<Rightarrow> Q (Inr ()) s')"
  by (simp add: wp_def tx_put_def split: sum.splits)

lemma wp_WithTx:
  "wp (WithTx L fn) Q s =
    wp fn (\<lambda>r t. case r of Inl e \<Rightarrow> Q (Inl e) (Rollback L s t) | Inr a \<Rightarrow> Q (Inr a) t) s"
  by (simp add: wp_def WithTx_def split: prod.splits sum.splits)

lemma wp_mono: "wp m Q s \<Longrightarrow> (\<And>r t. Q r t \<Longrightarrow> R r t) \<Longrightarrow> wp m R s"
  by (simp add: wp_def split: prod.splits)

lemma wpD: "wp m Q s \<Longrightarrow> m s = (r, t) \<Longrightarrow> Q r t"
  by (simp add: wp_def)

lemma wpI: "(\<And>r t. m s = (r, t) \<Longrightarrow> Q r t) \<Longrightarrow> wp m Q s"
  by (simp add: wp_def split: prod.splits)

text \<open>A property that every body made of such operations keeps.\<close>

definition preserves :: "('s \<Rightarrow> bool) \<Rightarrow> ('s, 'a) tx \<Rightarrow> bool" where
  "preserves P m \<longleftrightarrow> (\<forall>s. P s \<longrightarrow> wp m (\<lambda>_. P) s)"

named_theorems preserves_intros "operations that keep a property of the store"

lemma preserves_return [preserves_intros]: "preserves P (tx_return a)"
  by (simp add: preserves_def wp_return)

lemma preserves_fail [preserves_intros]: "preserves P (tx_fail e)"
  by (simp add: preserves_def wp_fail)

lemma preserves_get [preserves_intros]: "preserves P (tx_get g)"
  by (simp add: preserves_def wp_get)

lemma preserves_bind [preserves_intros]:
  assumes "preserves P m" and "\<And>a. preserves P (f a)"
  shows "preserves P (tx_bind m f)"
  unfolding preserves_def
proof (intro allI impI)
  fix s
  assume "P s"
  then have "wp m (\<lambda>_. P) s" using assms(1) by (simp add: preserves_def)
  then show "wp (tx_bind m f) (\<lambda>_. P) s"
    unfolding wp_bind
    by (rule wp_mono) (use assms(2) in \<open>auto simp: preserves_def split: sum.splits\<close>)
qed

lemma preserves_put: "(\<And>s t. P s \<Longrightarrow> p s = Inr t \<Longrightarrow> P t) \<Longrightarrow> preserves P (tx_put p)"
  by (auto simp: preserves_def wp_put split: sum.splits)

lemma preservesD: "preserves P m \<Longrightarrow> m s = (r, t) \<Longrightarrow> P s \<Longrightarrow> P t"
  by (auto simp: preserves_def dest: wpD)

section \<open>Rules for the ledger operations\<close>

text \<open>
  Each rule asks for the postcondition where the operation fails (the state is unchanged) and for
  every row it may leave.
\<close>

context ledger_contract
begin

lemma wp_put_key:
  assumes "\<And>e. Q (Inl e) s"
    and "\<And>t r'. view t = (view s)\<lparr>lv_keys := (lv_keys (view s))(kr_KeyID r \<mapsto> r')\<rparr> \<Longrightarrow>
      kept_or_new key_like (lv_keys (view s) (kr_KeyID r)) r r' \<Longrightarrow> Q (Inr ()) t"
  shows "wp (tx_put (PutKey L r)) Q s"
  using assms put_key [of r s] by (fastforce simp: wp_put split: sum.splits)

lemma wp_put_outbox:
  assumes "\<And>e. Q (Inl e) s"
    and "\<And>t r'. view t = (view s)\<lparr>lv_outbox := (lv_outbox (view s))(so_NotificationID r \<mapsto> r')\<rparr> \<Longrightarrow>
      outbox_merge (lv_outbox (view s) (so_NotificationID r)) r r' \<Longrightarrow> Q (Inr ()) t"
  shows "wp (tx_put (PutSlackOutbox L r)) Q s"
  using assms put_outbox [of r s] by (fastforce simp: wp_put split: sum.splits)

lemma wp_put_policy:
  assumes "\<And>e. Q (Inl e) s"
    and "\<And>t r'. view t = (view s)\<lparr>lv_policies := (lv_policies (view s))(pv_PolicyHash r \<mapsto> r')\<rparr> \<Longrightarrow>
      kept_or_new policy_like (lv_policies (view s) (pv_PolicyHash r)) r r' \<Longrightarrow> Q (Inr ()) t"
  shows "wp (tx_put (PutPolicyVersion L r)) Q s"
  using assms put_policy [of r s] by (fastforce simp: wp_put split: sum.splits)

lemma wp_put_context:
  assumes "\<And>e. Q (Inl e) s"
    and "\<And>t r'. view t = (view s)\<lparr>lv_contexts := (lv_contexts (view s))(lc_ContextID r \<mapsto> r')\<rparr> \<Longrightarrow>
      kept_or_new context_like (lv_contexts (view s) (lc_ContextID r)) r r' \<Longrightarrow> Q (Inr ()) t"
  shows "wp (tx_put (PutContext L r)) Q s"
  using assms put_context [of r s] by (fastforce simp: wp_put split: sum.splits)

lemma wp_put_decision:
  assumes "\<And>e. Q (Inl e) s"
    and "\<And>t r'. view t = (view s)\<lparr>lv_decisions := (lv_decisions (view s))(ld_DecisionID r \<mapsto> r')\<rparr> \<Longrightarrow>
      kept_or_new decision_like (lv_decisions (view s) (ld_DecisionID r)) r r' \<Longrightarrow> Q (Inr ()) t"
  shows "wp (tx_put (PutDecision L r)) Q s"
  using assms put_decision [of r s] by (fastforce simp: wp_put split: sum.splits)

lemma wp_put_receipt:
  assumes "\<And>e. Q (Inl e) s"
    and "\<And>t r'. view t = (view s)\<lparr>lv_receipts := (lv_receipts (view s))(lr_ReceiptID r \<mapsto> r')\<rparr> \<Longrightarrow>
      kept_or_new receipt_like (lv_receipts (view s) (lr_ReceiptID r)) r r' \<Longrightarrow> Q (Inr ()) t"
  shows "wp (tx_put (PutReceipt L r)) Q s"
  using assms put_receipt [of r s] by (fastforce simp: wp_put split: sum.splits)

lemma wp_put_approval:
  assumes "\<And>e. Q (Inl e) s"
    and "\<And>t r'. view t = (view s)\<lparr>lv_approvals := (lv_approvals (view s))(la_ApprovalID r \<mapsto> r')\<rparr> \<Longrightarrow>
      approval_merge (lv_approvals (view s) (la_ApprovalID r)) r r' \<Longrightarrow> Q (Inr ()) t"
  shows "wp (tx_put (PutApproval L r)) Q s"
  using assms put_approval [of r s] by (fastforce simp: wp_put split: sum.splits)

lemma wp_put_idem:
  assumes "\<And>e. Q (Inl e) s"
    and "\<And>t r'. view t = (view s)\<lparr>lv_idem := (lv_idem (view s))(ik_IdemKey r \<mapsto> r')\<rparr> \<Longrightarrow>
      idem_merge (lv_idem (view s) (ik_IdemKey r)) r r' \<Longrightarrow> Q (Inr ()) t"
  shows "wp (tx_put (PutIdempotencyKey L r)) Q s"
  using assms put_idem [of r s] by (fastforce simp: wp_put split: sum.splits)

lemmas wp_puts = wp_put_key wp_put_outbox wp_put_policy wp_put_context wp_put_decision
  wp_put_receipt wp_put_approval wp_put_idem

text \<open>A failed transaction leaves the state it began in or the one it failed in.\<close>

lemma wp_tx:
  assumes "wp fn (\<lambda>r t. case r of Inl e \<Rightarrow> Q (Inl e) s \<and> Q (Inl e) t | Inr a \<Rightarrow> Q (Inr a) t) s"
  shows "wp (WithTx L fn) Q s"
  unfolding wp_WithTx using assms
proof (rule wp_mono)
  fix r t
  assume "case r of Inl e \<Rightarrow> Q (Inl e) s \<and> Q (Inl e) t | Inr a \<Rightarrow> Q (Inr a) t"
  then show "case r of Inl e \<Rightarrow> Q (Inl e) (Rollback L s t) | Inr a \<Rightarrow> Q (Inr a) t"
    using rollback [of s t] by (auto split: sum.splits)
qed

lemma preserves_tx [preserves_intros]: "preserves P fn \<Longrightarrow> preserves P (WithTx L fn)"
  unfolding preserves_def
proof (intro allI impI)
  fix s
  assume "\<forall>s. P s \<longrightarrow> wp fn (\<lambda>_. P) s" and "P s"
  then have "wp fn (\<lambda>_. P) s" by blast
  then show "wp (WithTx L fn) (\<lambda>_. P) s"
    by (rule wp_tx [OF wp_mono]) (use \<open>P s\<close> in \<open>auto split: sum.splits\<close>)
qed

lemma preserves_keyed [preserves_intros]:
  "preserves (\<lambda>s. well_keyed (view s)) (tx_put (PutKey L a))"
  "preserves (\<lambda>s. well_keyed (view s)) (tx_put (PutSlackOutbox L b))"
  "preserves (\<lambda>s. well_keyed (view s)) (tx_put (PutPolicyVersion L c))"
  "preserves (\<lambda>s. well_keyed (view s)) (tx_put (PutContext L d))"
  "preserves (\<lambda>s. well_keyed (view s)) (tx_put (PutDecision L e))"
  "preserves (\<lambda>s. well_keyed (view s)) (tx_put (PutReceipt L f))"
  "preserves (\<lambda>s. well_keyed (view s)) (tx_put (PutApproval L g))"
  "preserves (\<lambda>s. well_keyed (view s)) (tx_put (PutIdempotencyKey L h))"
proof -
  note defs = well_keyed_def kept_or_new_def approval_merge_def
  show "preserves (\<lambda>s. well_keyed (view s)) (tx_put (PutKey L a))"
    by (rule preserves_put, drule put_key) (auto simp: defs)
  show "preserves (\<lambda>s. well_keyed (view s)) (tx_put (PutSlackOutbox L b))"
    by (rule preserves_put, drule put_outbox) (auto simp: defs)
  show "preserves (\<lambda>s. well_keyed (view s)) (tx_put (PutPolicyVersion L c))"
    by (rule preserves_put, drule put_policy) (auto simp: defs)
  show "preserves (\<lambda>s. well_keyed (view s)) (tx_put (PutContext L d))"
    by (rule preserves_put, drule put_context) (auto simp: defs)
  show "preserves (\<lambda>s. well_keyed (view s)) (tx_put (PutDecision L e))"
    by (rule preserves_put, drule put_decision) (auto simp: defs)
  show "preserves (\<lambda>s. well_keyed (view s)) (tx_put (PutReceipt L f))"
    by (rule preserves_put, drule put_receipt) (auto simp: defs receipt_like_fields split: if_splits)
  show "preserves (\<lambda>s. well_keyed (view s)) (tx_put (PutApproval L g))"
    by (rule preserves_put, drule put_approval) (auto simp: defs split: if_splits)
  show "preserves (\<lambda>s. well_keyed (view s)) (tx_put (PutIdempotencyKey L h))"
    by (rule preserves_put, drule put_idem) (auto simp: defs split: if_splits dest: idem_merge_fields)
qed

lemmas gets = get_key get_outbox get_policy get_context get_decision get_receipt get_approval get_idem

end

end
