(* ===== verification/Concurrent_Gateway.thy ===== *)
theory Concurrent_Gateway
  imports Authorize_Steps Ledger_Logic
begin

text \<open>
  The gateway with many requests in flight: the steps of the calls, the approvals that arrive
  through Slack and the outbox worker are interleaved in any order on one ledger, and a request may
  die at any point.  The log records what happened; the invariant says that credentials are minted
  only for a request that the policy allowed or a person approved.
\<close>

section \<open>The transition system\<close>

record thread =
  th_Call :: call
  th_Key :: string
  th_Pc :: pc

text \<open>A row the outbox worker has read, with the approval as it was then, and is posting.\<close>

record outbox_job =
  oj_Env :: outbox_env
  oj_Now :: int
  oj_Row :: nat
  oj_Rec :: slack_outbox_rec
  oj_Approval :: "approval_rec option"

record 's gateway =
  gw_Store :: 's
  gw_Threads :: "nat \<Rightarrow> thread option"
  gw_Job :: "outbox_job option"
  gw_Log :: "event list"

text \<open>The event of an \<open>Approve\<close> call: an open approval that it approves.\<close>

definition decidedEvents ::
  "'s ledger \<Rightarrow> string \<Rightarrow> approval_status \<Rightarrow> string res \<Rightarrow> 's \<Rightarrow> event list"
where
  "decidedEvents L approvalID status r s =
    (case (r, GetApproval L approvalID s) of
       (Inr _, Some a) \<Rightarrow>
         if status = ApprovalApproved \<and> la_Status a \<noteq> ''approved'' \<and> la_Status a \<noteq> ''denied''
         then [EvApproved (la_IdemKey a) approvalID] else []
     | _ \<Rightarrow> [])"

definition approveEvents :: "'s ledger \<Rightarrow> string \<Rightarrow> string \<Rightarrow> string res \<Rightarrow> 's \<Rightarrow> event list" where
  "approveEvents L approvalID status r s =
    (case approval_parse status of None \<Rightarrow> [] | Some st \<Rightarrow> decidedEvents L approvalID st r s)"

lemma decidedEvents_Inl [simp]: "decidedEvents L approvalID st (Inl e) s = []"
  by (simp add: decidedEvents_def)

inductive gw_step :: "service \<Rightarrow> 's ledger \<Rightarrow> 's gateway \<Rightarrow> 's gateway \<Rightarrow> bool"
  for sv :: service and L :: "'s ledger"
where
  arrive: "ComputeIdemKey (sv_Prims sv) (sv_NFC sv) (cl_Claims c) (cl_Req c) = Inr k \<Longrightarrow>
    gw_Threads g t = None \<Longrightarrow>
    gw_step sv L g (g\<lparr>gw_Threads := (gw_Threads g)(t \<mapsto> \<lparr>th_Call = c, th_Key = k, th_Pc = PLookup\<rparr>)\<rparr>)"
| advance: "gw_Threads g t = Some th \<Longrightarrow>
    auth_step sv L (th_Call th) (th_Key th) (th_Pc th) (gw_Store g) = ((pc', evs), s') \<Longrightarrow>
    gw_step sv L g
      (g\<lparr>gw_Store := s', gw_Threads := (gw_Threads g)(t \<mapsto> th\<lparr>th_Pc := pc'\<rparr>), gw_Log := gw_Log g @ evs\<rparr>)"
| crash: "gw_step sv L g (g\<lparr>gw_Threads := (gw_Threads g)(t := None)\<rparr>)"
| approve: "Approve sv L approvalID status createdAt (gw_Store g) = (r, s') \<Longrightarrow>
    gw_step sv L g
      (g\<lparr>gw_Store := s', gw_Log := gw_Log g @ approveEvents L approvalID status r (gw_Store g)\<rparr>)"
| outbox_read: "ListSlackOutboxDue L (rfc3339 now) limit (gw_Store g) = Inr due \<Longrightarrow> rec \<in> set due \<Longrightarrow>
    gw_step sv L g
      (g\<lparr>gw_Job := Some \<lparr>oj_Env = env, oj_Now = now, oj_Row = n, oj_Rec = rec,
                         oj_Approval = GetApproval L (so_ApprovalID rec) (gw_Store g)\<rparr>\<rparr>)"
| outbox_write: "gw_Job g = Some j \<Longrightarrow>
    writeRow L (oj_Env j) (oj_Now j) (oj_Row j) (oj_Rec j) (oj_Approval j) (gw_Store g) = (r, s') \<Longrightarrow>
    gw_step sv L g (g\<lparr>gw_Store := s', gw_Job := None\<rparr>)"

inductive_cases gw_stepE: "gw_step sv L g g'"

inductive gw_reach :: "service \<Rightarrow> 's ledger \<Rightarrow> 's gateway \<Rightarrow> 's gateway \<Rightarrow> bool"
  for sv :: service and L :: "'s ledger" and g0 :: "'s gateway"
where
  reach_refl: "gw_reach sv L g0 g0"
| reach_step: "gw_reach sv L g0 g \<Longrightarrow> gw_step sv L g g' \<Longrightarrow> gw_reach sv L g0 g'"

definition gw_init :: "'s \<Rightarrow> 's gateway" where
  "gw_init s = \<lparr>gw_Store = s, gw_Threads = (\<lambda>_. None), gw_Job = None, gw_Log = []\<rparr>"

section \<open>The invariant\<close>

definition authorised :: "event list \<Rightarrow> string \<Rightarrow> bool" where
  "authorised log k \<longleftrightarrow>
     (\<exists>approvalID. EvApproved k approvalID \<in> set log) \<or>
     (\<exists>p i. EvEvaluated k p i \<in> set log \<and> verdict_spec p i = ''allow'')"

lemma authorised_append: "authorised log k \<Longrightarrow> authorised (log @ evs) k"
  by (auto simp: authorised_def)

lemma authorised_simps [simp]:
  "authorised (log @ [EvApproved k a]) k"
  "\<not> authorised [] k"
  by (auto simp: authorised_def)

text \<open>Every minting comes after an authorisation.\<close>

definition mints_ok :: "event list \<Rightarrow> bool" where
  "mints_ok log \<longleftrightarrow> (\<forall>pre k post. log = pre @ EvMinted k # post \<longrightarrow> authorised pre k)"

lemma mints_ok_Nil [simp]: "mints_ok []"
  by (simp add: mints_ok_def)

lemma mints_ok_snoc:
  "mints_ok (log @ [e]) \<longleftrightarrow> mints_ok log \<and> (\<forall>k. e = EvMinted k \<longrightarrow> authorised log k)"
proof
  assume m: "mints_ok (log @ [e])"
  show "mints_ok log \<and> (\<forall>k. e = EvMinted k \<longrightarrow> authorised log k)"
  proof
    show "mints_ok log"
      unfolding mints_ok_def
    proof (intro allI impI)
      fix pre k post
      assume "log = pre @ EvMinted k # post"
      then have "log @ [e] = pre @ EvMinted k # (post @ [e])" by simp
      with m show "authorised pre k" unfolding mints_ok_def by blast
    qed
    show "\<forall>k. e = EvMinted k \<longrightarrow> authorised log k" using m unfolding mints_ok_def by blast
  qed
next
  assume m: "mints_ok log \<and> (\<forall>k. e = EvMinted k \<longrightarrow> authorised log k)"
  show "mints_ok (log @ [e])"
    unfolding mints_ok_def
  proof (intro allI impI)
    fix pre k post
    assume eq: "log @ [e] = pre @ EvMinted k # post"
    show "authorised pre k"
    proof (cases post rule: rev_cases)
      case Nil
      with eq m show ?thesis by simp
    next
      case (snoc post' x)
      with eq have "log = pre @ EvMinted k # post'" by simp
      with m show ?thesis unfolding mints_ok_def by blast
    qed
  qed
qed

definition open_status :: "string \<Rightarrow> bool" where
  "open_status st \<longleftrightarrow> st = ''approved_ready'' \<or> st = ''issuing'' \<or> st = ''allowed''"

definition idem_ok :: "event list \<Rightarrow> ledger_view \<Rightarrow> bool" where
  "idem_ok log v \<longleftrightarrow>
     (\<forall>k i. lv_idem v k = Some i \<longrightarrow>
        ik_IdemKey i = k \<and> (open_status (ik_Status i) \<longrightarrow> authorised log k))"

fun pc_ok :: "event list \<Rightarrow> string \<Rightarrow> pc \<Rightarrow> bool" where
  "pc_ok log k (PReady i) = authorised log k"
| "pc_ok log k (PReadyCommit a b c) = authorised log k"
| "pc_ok log k (PRetry i) = authorised log k"
| "pc_ok log k (PCommit p) =
    (pp_IdemKey p = k \<and> (pp_Action p = ActionIssueCredentials \<longrightarrow> authorised log k))"
| "pc_ok log k (PKick p) =
    (pp_IdemKey p = k \<and> (pp_Action p = ActionIssueCredentials \<longrightarrow> authorised log k))"
| "pc_ok log k (PFinalize a b c) = authorised log k"
| "pc_ok log k (PPersist a b c) = (authorised log k \<and> EvMinted k \<in> set log)"
| "pc_ok log k (PDone r) =
    (\<forall>resp. r = Inr resp \<longrightarrow> rs_AWSCredentials resp \<noteq> None \<longrightarrow> EvMinted k \<in> set log)"
| "pc_ok log k _ = True"

lemma pc_ok_append: "pc_ok log k pc \<Longrightarrow> pc_ok (log @ evs) k pc"
  by (cases pc) (auto intro: authorised_append)

lemma idem_ok_append: "idem_ok log v \<Longrightarrow> idem_ok (log @ evs) v"
  by (auto simp: idem_ok_def intro: authorised_append)

definition gw_inv :: "('s \<Rightarrow> ledger_view) \<Rightarrow> 's gateway \<Rightarrow> bool" where
  "gw_inv view g \<longleftrightarrow>
     idem_ok (gw_Log g) (view (gw_Store g)) \<and>
     (\<forall>t th. gw_Threads g t = Some th \<longrightarrow> pc_ok (gw_Log g) (th_Key th) (th_Pc th)) \<and>
     mints_ok (gw_Log g)"

lemma empty_response_no_credentials [simp]: "rs_AWSCredentials empty_response = None"
  by (simp add: empty_response_def)

lemma handleExisting_no_credentials:
  "handleExisting L existing s = Inr resp \<Longrightarrow> rs_AWSCredentials resp = None"
  by (auto simp: handleExisting_def existingFinal_def receiptResponse_def error_response_def
      split: option.splits idem_status.splits)

lemma retryPlan_no_credentials:
  "retryPlan sv L c i s = Inr (Inl resp) \<Longrightarrow> rs_AWSCredentials resp = None"
  by (auto simp: retryPlan_def error_response_def res_bind_Inr_iff Let_def
      split: option.splits if_splits)

lemma firstResponse_no_credentials [simp]: "rs_AWSCredentials (firstResponse c p) = None"
  by (simp add: firstResponse_def Let_def)

lemma prepare_fields:
  assumes "prepare sv c k = Inr p"
  shows "pp_IdemKey p = k"
    and "d_Verdict (pp_Decision p) = verdict_spec (lp_Policy (pp_Loaded p)) (policyInput (cl_Req c))"
    and "pp_Decision p = Evaluate (lp_Policy (pp_Loaded p)) (lp_Hash (pp_Loaded p)) (policyInput (cl_Req c))"
  using assms by (auto simp: prepare_def res_bind_Inr_iff Let_def Evaluate_verdict)

lemma initialStatus_open:
  "open_status (idem_str (initialStatus a)) \<longleftrightarrow> a = ActionIssueCredentials"
  by (cases a) (simp_all add: open_status_def)

section \<open>Preservation\<close>

lemma open_status_literals [simp]:
  "\<not> open_status ''pending_approval''" "open_status ''approved_ready''" "open_status ''issuing''"
  "open_status ''allowed''" "\<not> open_status ''denied''" "\<not> open_status ''errored''"
  by (simp_all add: open_status_def)

lemma idem_ok_cong: "lv_idem v = lv_idem w \<Longrightarrow> idem_ok log v = idem_ok log w"
  by (simp add: idem_ok_def)

lemma idem_ok_upd:
  assumes "idem_ok log v" and "lv_idem w = (lv_idem v)(k \<mapsto> r)" and "ik_IdemKey r = k"
    and "open_status (ik_Status r) \<Longrightarrow> authorised log k"
  shows "idem_ok log w"
  using assms by (auto simp: idem_ok_def)

definition after_approval ::
  "event list \<Rightarrow> string \<Rightarrow> string \<Rightarrow> approval_status \<Rightarrow> string res \<Rightarrow> event list"
where
  "after_approval log k approvalID status r =
    (case r of Inl _ \<Rightarrow> log
     | Inr _ \<Rightarrow> if status = ApprovalDenied then log else log @ [EvApproved k approvalID])"

lemma after_approval_Inl [simp]: "after_approval log k a st (Inl e) = log"
  by (simp add: after_approval_def)

context ledger_contract
begin

text \<open>The invariant of the idempotency table, as a postcondition.\<close>

abbreviation keeps_idem :: "event list \<Rightarrow> 'r res \<Rightarrow> 's \<Rightarrow> bool" where
  "keeps_idem log \<equiv> (\<lambda>r t. idem_ok log (view t))"

lemma put_idem_ok:
  assumes "idem_ok log (view s)" and "open_status (ik_Status i) \<Longrightarrow> authorised log (ik_IdemKey i)"
    and "\<And>t. idem_ok log (view t) \<Longrightarrow> Q (Inr ()) t" and "\<And>e. Q (Inl e) s"
  shows "wp (tx_put (PutIdempotencyKey L i)) Q s"
proof (rule wp_put_idem)
  fix t r'
  assume v: "view t = (view s)\<lparr>lv_idem := (lv_idem (view s))(ik_IdemKey i \<mapsto> r')\<rparr>"
    and m: "idem_merge (lv_idem (view s) (ik_IdemKey i)) i r'"
  have "idem_ok log (view t)"
    using v assms(2) idem_merge_fields [OF m]
    by (intro idem_ok_upd [OF assms(1), of _ "ik_IdemKey i" r']) simp_all
  then show "Q (Inr ()) t" by (rule assms(3))
qed (rule assms(4))

lemma put_other_ok:
  assumes "idem_ok log (view s)"
    and "\<And>t. idem_ok log (view t) \<Longrightarrow> lv_idem (view t) = lv_idem (view s) \<Longrightarrow> Q (Inr ()) t" and "\<And>e. Q (Inl e) s"
  shows "wp (tx_put (PutKey L a)) Q s" "wp (tx_put (PutPolicyVersion L b)) Q s"
    "wp (tx_put (PutContext L c)) Q s" "wp (tx_put (PutDecision L d)) Q s"
    "wp (tx_put (PutReceipt L x)) Q s" "wp (tx_put (PutApproval L y)) Q s"
    "wp (tx_put (PutSlackOutbox L z)) Q s"
proof -
  have q: "Q (Inr ()) t" if "lv_idem (view t) = lv_idem (view s)" for t
    using that assms(1,2) idem_ok_cong [of "view t" "view s" log] by simp
  show "wp (tx_put (PutKey L a)) Q s" by (rule wp_put_key) (simp_all add: q assms(3))
  show "wp (tx_put (PutPolicyVersion L b)) Q s" by (rule wp_put_policy) (simp_all add: q assms(3))
  show "wp (tx_put (PutContext L c)) Q s" by (rule wp_put_context) (simp_all add: q assms(3))
  show "wp (tx_put (PutDecision L d)) Q s" by (rule wp_put_decision) (simp_all add: q assms(3))
  show "wp (tx_put (PutReceipt L x)) Q s" by (rule wp_put_receipt) (simp_all add: q assms(3))
  show "wp (tx_put (PutApproval L y)) Q s" by (rule wp_put_approval) (simp_all add: q assms(3))
  show "wp (tx_put (PutSlackOutbox L z)) Q s" by (rule wp_put_outbox) (simp_all add: q assms(3))
qed

lemma putSigningKey_ok:
  assumes "idem_ok log (view s)"
    and "\<And>t. idem_ok log (view t) \<Longrightarrow> lv_idem (view t) = lv_idem (view s) \<Longrightarrow>
      lv_approvals (view t) = lv_approvals (view s) \<Longrightarrow> Q (Inr ()) t"
    and "\<And>e. Q (Inl e) s"
  shows "wp (putSigningKey sv L c) Q s"
proof (cases "sv_PublicKey sv")
  case None
  with assms show ?thesis by (simp add: putSigningKey_def wp_return)
next
  case (Some pub)
  have q: "Q (Inr ()) t" if "lv_idem (view t) = lv_idem (view s)" "lv_approvals (view t) = lv_approvals (view s)" for t
    using that assms(1,2) idem_ok_cong [of "view t" "view s" log] by simp
  show ?thesis
    unfolding putSigningKey_def Some option.case by (rule wp_put_key) (simp_all add: q assms(3))
qed

lemma firstTx_ok:
  assumes "idem_ok log (view s)" and "pp_IdemKey p = k"
    and "pp_Action p = ActionIssueCredentials \<Longrightarrow> authorised log k"
  shows "wp (firstTx sv L c p) (\<lambda>r t. idem_ok log (view t)) s"
proof -
  have st: "open_status (ik_Status (initialIdem c p)) \<Longrightarrow> authorised log (ik_IdemKey (initialIdem c p))"
    using assms(2,3) by (simp add: initialIdem_def initialStatus_open)
  have st': "ik_Status (initialIdem c p) = idem_str (initialStatus (pp_Action p))" "ik_IdemKey (initialIdem c p) = k"
    using assms(2) by (simp_all add: initialIdem_def)
  note rules = putSigningKey_ok [where log = log] put_other_ok [where log = log] put_idem_ok [where log = log]
  show ?thesis
    unfolding firstTx_def pendingTx_def wp_bind
    using assms(1) st assms(3)
    by (auto intro!: rules simp: wp_rules Let_def st' initialStatus_open split: option.splits sum.splits if_splits)
qed

lemma found_ok:
  "idem_ok log (view s) \<Longrightarrow> GetIdempotencyKey L k s = Some i \<Longrightarrow>
   ik_IdemKey i = k \<and> (open_status (ik_Status i) \<longrightarrow> authorised log k)"
  by (simp add: get_idem idem_ok_def)

lemma found_key: "GetIdempotencyKey L k s = Some i \<Longrightarrow> idem_ok log (view s) \<Longrightarrow> ik_IdemKey i = k"
  using found_ok by blast

lemma put_found_ok:
  assumes "idem_ok log (view s)" and "GetIdempotencyKey L k s = Some i" and "authorised log k"
    and "ik_IdemKey i' = ik_IdemKey i"
    and "\<And>t. idem_ok log (view t) \<Longrightarrow> Q (Inr ()) t" and "\<And>e. Q (Inl e) s"
  shows "wp (tx_put (PutIdempotencyKey L i')) Q s"
  using assms found_key [OF assms(2,1)] by (intro put_idem_ok) simp_all

lemma readyTx_ok:
  assumes "idem_ok log (view s)" and "authorised log k"
  shows "wp (readyTx sv L createdAt k issuing) (\<lambda>r t. idem_ok log (view t)) s"
proof -
  note rules = putSigningKey_ok [where log = log] put_other_ok [where log = log]
  show ?thesis
    unfolding readyTx_def wp_bind using assms
    by (auto intro!: rules simp: wp_rules split: option.splits)
      (rule put_found_ok [OF _ _ assms(2)], assumption+, simp_all)
qed

lemma finalTx_ok:
  assumes "idem_ok log (view s)" and "authorised log k"
  shows "wp (finalTx sv L createdAt k x) (\<lambda>r t. idem_ok log (view t)) s"
proof -
  note rules = putSigningKey_ok [where log = log] put_other_ok [where log = log]
  show ?thesis
    unfolding finalTx_def wp_bind using assms
    by (auto intro!: rules simp: wp_rules split: option.splits)
      (rule put_found_ok [OF _ _ assms(2)], assumption+, simp_all)
qed

lemma decidedIdem_fields [simp]:
  "ik_IdemKey (decidedIdem c st r i) = ik_IdemKey i"
  "ik_Status (decidedIdem c st r i) = (if st = ApprovalDenied then ''denied'' else ''approved_ready'')"
  by (simp_all add: decidedIdem_def Let_def)

text \<open>An approval that succeeds on an open approval authorises its key.\<close>

lemma put_decided_ok:
  assumes "idem_ok log (view s)" and "ik_IdemKey i = k"
    and "\<And>t. idem_ok (after_approval log k a st (Inr x)) (view t) \<Longrightarrow> Q (Inr ()) t"
    and "\<And>e. Q (Inl e) s"
  shows "wp (tx_put (PutIdempotencyKey L (decidedIdem c st r i))) Q s"
proof (rule put_idem_ok)
  show "idem_ok (after_approval log k a st (Inr x)) (view s)"
    using assms(1) by (simp add: after_approval_def idem_ok_append)
  show "authorised (after_approval log k a st (Inr x)) (ik_IdemKey (decidedIdem c st r i))"
    if "open_status (ik_Status (decidedIdem c st r i))"
    using that assms(2) by (simp add: after_approval_def split: if_splits)
qed (rule assms(3,4), assumption?)+

lemma applyApproval_ok:
  assumes "idem_ok log (view s)" and "la_IdemKey a = k"
  shows "wp (applyApproval sv L approvalID status createdAt a)
    (\<lambda>r t. idem_ok (after_approval log k approvalID status r) (view t)) s"
proof (cases "GetIdempotencyKey L k s")
  case None
  with assms show ?thesis by (simp add: applyApproval_def wp_rules after_approval_def)
next
  case (Some i)
  with found_ok [OF assms(1)] have k: "ik_IdemKey i = k" by blast
  show ?thesis
    unfolding applyApproval_def wp_bind using assms Some k
    by (auto intro!: put_other_ok [where log = log] put_decided_ok [where k = k] simp: wp_rules split: option.splits sum.splits)
qed

lemma approveTx_ok:
  assumes "idem_ok log (view s)" and "status \<noteq> ApprovalPending"
  shows "wp (approveTx sv L approvalID status createdAt)
    (\<lambda>r t. idem_ok (log @ decidedEvents L approvalID status r s) (view t)) s"
  unfolding approveTx_def wp_bind
proof (rule putSigningKey_ok [OF assms(1)], goal_cases)
  case (1 t)
  then have g: "GetApproval L approvalID t = GetApproval L approvalID s" by (simp add: get_approval)
  show ?case
  proof (cases "GetApproval L approvalID s")
    case None
    with 1 g show ?thesis by (simp add: wp_rules)
  next
    case (Some a)
    show ?thesis
    proof (cases "la_Status a = ''approved'' \<or> la_Status a = ''denied''")
      case True
      with 1 g Some show ?thesis by (auto simp: wp_rules decidedEvents_def)
    next
      case False
      have "after_approval log (la_IdemKey a) approvalID status r =
          log @ decidedEvents L approvalID status r s" for r
        using False Some assms(2) by (cases r; cases status) (simp_all add: after_approval_def decidedEvents_def)
      with applyApproval_ok [OF 1(1) refl, of sv approvalID status createdAt a]
      have "wp (applyApproval sv L approvalID status createdAt a)
          (\<lambda>r t. idem_ok (log @ decidedEvents L approvalID status r s) (view t)) t" by simp
      moreover have "(\<lambda>r t'. case r of
            Inl e \<Rightarrow> idem_ok (log @ decidedEvents L approvalID status (Inl e) s) (view t')
          | Inr x \<Rightarrow> idem_ok (log @ decidedEvents L approvalID status (Inr x) s) (view t')) =
          (\<lambda>r t'. idem_ok (log @ decidedEvents L approvalID status r s) (view t'))"
        by (auto simp: fun_eq_iff split: sum.splits)
      ultimately show ?thesis using False g Some by (simp add: wp_rules)
    qed
  qed
next
  case (2 e)
  with assms show ?case by simp
qed

lemma Approve_ok:
  assumes "idem_ok log (view s)" and "Approve sv L approvalID status createdAt s = (r, s')"
  shows "idem_ok (log @ approveEvents L approvalID status r s) (view s')"
proof -
  have tx: "idem_ok (log @ decidedEvents L approvalID st r s) (view s')"
    if "WithTx L (approveTx sv L approvalID st createdAt) s = (r, s')" and "st \<noteq> ApprovalPending" for st
    by (rule wpD [OF wp_tx that(1)], rule wp_mono [OF approveTx_ok [OF assms(1) that(2)]])
      (use assms(1) in \<open>auto split: sum.splits\<close>)
  from assms tx [of ApprovalApproved] tx [of ApprovalDenied] show ?thesis
    by (auto simp: Approve_def approveEvents_def split: option.splits approval_status.splits)
qed

section \<open>The outbox does not touch idempotency keys\<close>

lemma put_outbox_idem: "PutSlackOutbox L r s = Inr s' \<Longrightarrow> lv_idem (view s') = lv_idem (view s)"
  by (drule put_outbox) auto

lemma put_approval_idem: "lv_idem (view (put_best_effort (PutApproval L a) s)) = lv_idem (view s)"
proof (cases "PutApproval L a s")
  case (Inr s')
  with put_approval [OF Inr] show ?thesis by (auto simp: put_best_effort_def)
qed (simp add: put_best_effort_def)

lemma writeRow_idem:
  "writeRow L env now n rec approval s = (r, s') \<Longrightarrow> lv_idem (view s') = lv_idem (view s)"
  by (auto simp: writeRow_def tx_put_apply put_approval_idem dest!: put_outbox_idem
      split: if_splits option.splits sum.splits)

lemma processRows_idem:
  "processRows L env now n p due s = (x, s') \<Longrightarrow> lv_idem (view s') = lv_idem (view s)"
proof (induction due arbitrary: n p s)
  case Nil
  then show ?case by simp
next
  case (Cons rec due)
  show ?case
  proof (cases "processRow L env now n rec s")
    case (Pair r t)
    then have "lv_idem (view t) = lv_idem (view s)"
      by (auto simp: processRow_def tx_bind_get dest: writeRow_idem)
    with Pair Cons show ?thesis by (fastforce split: if_splits sum.splits)
  qed
qed

lemma ProcessOutboxDue_idem:
  "ProcessOutboxDue L poster now limit s = (x, s') \<Longrightarrow> lv_idem (view s') = lv_idem (view s)"
  by (auto simp: ProcessOutboxDue_def Let_def split: option.splits sum.splits dest: processRows_idem)

lemma kickOutbox_idem: "lv_idem (view (kickOutbox sv L c p s)) = lv_idem (view s)"
  using ProcessOutboxDue_idem [of "cl_Slack c" "cl_Now c" 1 s]
  by (auto simp: kickOutbox_def split: prod.splits) (metis prod.collapse)

section \<open>Every step keeps the invariant\<close>

lemma lookupStep_ok:
  assumes "idem_ok log (view s)" and "lookupStep sv L c k s = (pc', evs)" and "mints_ok log"
  shows "pc_ok (log @ evs) k pc' \<and> mints_ok (log @ evs)"
proof (cases "GetIdempotencyKey L k s")
  case None
  show ?thesis
  proof (cases "prepare sv c k")
    case (Inl e)
    with None assms show ?thesis by (auto simp: lookupStep_def)
  next
    case (Inr p)
    note pf = prepare_fields [OF Inr]
    let ?ev = "EvEvaluated k (lp_Policy (pp_Loaded p)) (policyInput (cl_Req c))"
    have "authorised (log @ [?ev]) k" if "pp_Action p = ActionIssueCredentials"
    proof -
      have "verdict_spec (lp_Policy (pp_Loaded p)) (policyInput (cl_Req c)) = ''allow''"
        using that by (simp add: pp_Action_def pf(2) TransitionFromDecision_action)
      then show ?thesis unfolding authorised_def by auto
    qed
    with Inr None assms pf(1) show ?thesis
      by (auto simp: lookupStep_def mints_ok_snoc)
  qed
next
  case (Some i)
  note ok = found_ok [OF assms(1) Some]
  show ?thesis
  proof (cases "idem_parse (ik_Status i)")
    case None
    with Some assms show ?thesis by (auto simp: lookupStep_def error_response_def)
  next
    case st: (Some st)
    then have "ik_Status i = idem_str st" by (simp add: idem_parse_Some)
    with Some assms ok st show ?thesis
      by (cases st) (auto simp: lookupStep_def error_response_def)
  qed
qed

lemma mintStep_ok:
  assumes "authorised log k" and "mintStep sv c k i role ttl = (pc', evs)" and "mints_ok log"
  shows "pc_ok (log @ evs) k pc' \<and> mints_ok (log @ evs)"
proof (cases "cl_Broker c (brokerInput c role ttl)")
  case (Inl e)
  with assms show ?thesis by (auto simp: mintStep_def mintCredentials_def)
next
  case (Inr creds)
  with assms show ?thesis
    by (auto simp: mintStep_def mintCredentials_def mints_ok_snoc authorised_append
        split: sum.splits)
qed

lemma auth_step_ok:
  assumes "idem_ok log (view s)" and "pc_ok log k pc" and "mints_ok log"
    and "auth_step sv L c k pc s = ((pc', evs), s')"
  shows "idem_ok (log @ evs) (view s') \<and> pc_ok (log @ evs) k pc' \<and> mints_ok (log @ evs)"
proof -
  have tx: "idem_ok log (view t)" if "WithTx L fn s = (r, t)" "wp fn (\<lambda>r t. idem_ok log (view t)) s" for fn r t
    by (rule wpD [OF wp_tx that(1)], rule wp_mono [OF that(2)]) (use assms(1) in \<open>auto split: sum.splits\<close>)
  show ?thesis
  proof (cases pc)
    case PLookup
    with assms lookupStep_ok [OF assms(1)] show ?thesis by (auto intro: idem_ok_append)
  next
    case (PView i)
    with assms handleExisting_no_credentials [of L i s] show ?thesis by auto
  next
    case (PReady i)
    with assms show ?thesis by (auto split: sum.splits)
  next
    case (PReadyCommit a b d)
    with assms tx [OF _ readyTx_ok [OF assms(1)]] show ?thesis by (auto split: prod.splits sum.splits)
  next
    case (PRetry i)
    with assms show ?thesis by (auto split: sum.splits dest: retryPlan_no_credentials)
  next
    case (PCommit p)
    with assms tx [OF _ firstTx_ok [OF assms(1)]] show ?thesis by (auto split: prod.splits sum.splits)
  next
    case (PLost e)
    with assms show ?thesis by (auto split: option.splits)
  next
    case (PKick p)
    with assms idem_ok_cong [OF kickOutbox_idem] show ?thesis
      by (auto simp: firstPlan_def split: if_splits)
  next
    case (PFinalize a b d)
    with assms mintStep_ok show ?thesis by (auto intro: idem_ok_append)
  next
    case (PPersist a b d)
    with assms tx [OF _ finalTx_ok [OF assms(1)]] show ?thesis
      by (auto simp: persistIssuance_def split: prod.splits sum.splits)
  next
    case (PDone r)
    with assms show ?thesis by auto
  qed
qed

theorem gw_inv_step:
  assumes "gw_inv view g" and "gw_step sv L g g'"
  shows "gw_inv view g'"
  using assms(2)
proof (cases rule: gw_step.cases)
  case (arrive c k t)
  with assms(1) show ?thesis by (auto simp: gw_inv_def)
next
  case (advance t th pc' evs s')
  from assms(1) advance have pre: "idem_ok (gw_Log g) (view (gw_Store g))" "mints_ok (gw_Log g)"
    "pc_ok (gw_Log g) (th_Key th) (th_Pc th)" by (auto simp: gw_inv_def)
  from auth_step_ok [OF pre(1,3,2) advance(3)] assms(1) advance show ?thesis
    by (auto simp: gw_inv_def intro: pc_ok_append)
next
  case (crash t)
  with assms(1) show ?thesis by (auto simp: gw_inv_def split: if_splits)
next
  case (approve approvalID status createdAt r s')
  let ?evs = "approveEvents L approvalID status r (gw_Store g)"
  have "mints_ok (gw_Log g @ ?evs)"
    using assms(1) by (auto simp: gw_inv_def approveEvents_def decidedEvents_def mints_ok_snoc
        split: option.splits sum.splits)
  with Approve_ok [OF _ approve(2), of "gw_Log g"] assms(1) approve show ?thesis
    by (auto simp: gw_inv_def intro: pc_ok_append)
next
  case (outbox_read now limit due rec env n)
  with assms(1) show ?thesis by (auto simp: gw_inv_def)
next
  case (outbox_write j r s')
  with assms(1) idem_ok_cong [OF writeRow_idem [OF outbox_write(3)]] show ?thesis
    by (auto simp: gw_inv_def)
qed

lemma gw_inv_init: "view s = empty_view \<Longrightarrow> gw_inv view (gw_init s)"
  by (simp add: gw_inv_def gw_init_def idem_ok_def empty_view_def)

theorem gw_inv_reach:
  assumes "view s = empty_view" and "gw_reach sv L (gw_init s) g"
  shows "gw_inv view g"
  using assms(2) by induction (auto intro: gw_inv_step gw_inv_init assms(1))

theorem minted_authorised:
  assumes "view s = empty_view" and "gw_reach sv L (gw_init s) g"
    and "gw_Log g = pre @ EvMinted k # post"
  shows "authorised pre k"
  using gw_inv_reach [OF assms(1,2)] assms(3) by (auto simp: gw_inv_def mints_ok_def)

theorem delivered_minted:
  assumes "view s = empty_view" and "gw_reach sv L (gw_init s) g"
    and "gw_Threads g t = Some th" and "th_Pc th = PDone (Inr resp)"
    and "rs_AWSCredentials resp \<noteq> None"
  shows "EvMinted (th_Key th) \<in> set (gw_Log g)"
  using gw_inv_reach [OF assms(1,2)] assms(3-5) by (fastforce simp: gw_inv_def)

end

end
