(* ===== verification/Ledger_Invariant.thy ===== *)
theory Ledger_Invariant
  imports Concurrent_Gateway
begin

text \<open>
  Invariants of the ledger of a running gateway.  A property of the store that every put keeps is
  kept by every transaction of the service, by every step of a call and by every run; the locale
  asks for the puts and gives the runs.
\<close>

section \<open>From the puts to the runs\<close>

locale ledger_invariant =
  fixes L :: "'s ledger" and P :: "'s \<Rightarrow> bool"
  assumes keep_key: "preserves P (tx_put (PutKey L a))"
    and keep_outbox: "preserves P (tx_put (PutSlackOutbox L b))"
    and keep_policy: "preserves P (tx_put (PutPolicyVersion L c))"
    and keep_context: "preserves P (tx_put (PutContext L d))"
    and keep_decision: "preserves P (tx_put (PutDecision L e))"
    and keep_receipt: "preserves P (tx_put (PutReceipt L f))"
    and keep_approval: "preserves P (tx_put (PutApproval L g))"
    and keep_idem: "preserves P (tx_put (PutIdempotencyKey L h))"
    and keep_rollback: "Rollback L s s' = s \<or> Rollback L s s' = s'"
begin

lemmas keep_rules = preserves_return preserves_fail preserves_get preserves_bind keep_key keep_outbox
  keep_policy keep_context keep_decision keep_receipt keep_approval keep_idem

lemma keep_WithTx:
  assumes "preserves P fn" and "WithTx L fn s = (r, t)" and "P s"
  shows "P t"
proof (cases "fn s")
  case (Pair q u)
  from preservesD [OF assms(1) Pair assms(3)] have "P u" .
  with assms(2,3) Pair keep_rollback [of s u] show ?thesis
    by (auto simp: WithTx_def split: sum.splits)
qed

lemma keep_putSigningKey: "preserves P (putSigningKey sv L c)"
  by (auto simp: putSigningKey_def intro: keep_rules split: option.splits)

lemma keep_firstTx: "preserves P (firstTx sv L c p)"
  unfolding firstTx_def pendingTx_def Let_def
  by (auto intro!: keep_rules keep_putSigningKey split: option.splits)

lemma keep_readyTx: "preserves P (readyTx sv L c k x)"
  unfolding readyTx_def by (auto intro!: keep_rules keep_putSigningKey split: option.splits)

lemma keep_finalTx: "preserves P (finalTx sv L c k x)"
  unfolding finalTx_def by (auto intro!: keep_rules keep_putSigningKey split: option.splits)

lemma keep_approveTx: "preserves P (approveTx sv L a st c)"
  unfolding approveTx_def applyApproval_def
  by (auto intro!: keep_rules keep_putSigningKey split: option.splits sum.splits)

lemma keep_Approve: "P s \<Longrightarrow> Approve sv L a st c s = (r, t) \<Longrightarrow> P t"
  using keep_WithTx [OF keep_approveTx]
  by (auto simp: Approve_def split: option.splits approval_status.splits)

lemma keep_best_effort: "preserves P (tx_put p) \<Longrightarrow> P s \<Longrightarrow> P (put_best_effort p s)"
  by (auto simp: put_best_effort_def preserves_def wp_put split: sum.splits)

lemma keep_writeRow:
  assumes "P s" and "writeRow L env now n rec approval s = (r, t)"
  shows "P t"
  using assms preservesD [OF keep_outbox] keep_best_effort [OF keep_approval assms(1)]
  by (auto simp: writeRow_def split: if_splits option.splits sum.splits)

lemma keep_processRows: "P s \<Longrightarrow> processRows L env now n p due s = (x, t) \<Longrightarrow> P t"
proof (induction due arbitrary: n p s)
  case (Cons rec due)
  then show ?case
    by (cases "processRow L env now n rec s")
      (auto simp: processRow_def tx_bind_get dest: keep_writeRow split: if_splits sum.splits)
qed simp

lemma keep_ProcessOutboxDue: "P s \<Longrightarrow> ProcessOutboxDue L poster now limit s = (x, t) \<Longrightarrow> P t"
  by (auto simp: ProcessOutboxDue_def Let_def split: option.splits sum.splits dest: keep_processRows)

lemma keep_kickOutbox: "P s \<Longrightarrow> P (kickOutbox sv L c p s)"
  using keep_ProcessOutboxDue [of s "cl_Slack c" "cl_Now c" 1]
  by (cases "ProcessOutboxDue L (cl_Slack c) (cl_Now c) 1 s") (auto simp: kickOutbox_def)

lemma keep_auth_step:
  assumes "P s" and "auth_step sv L c k pc s = ((pc', evs), t)"
  shows "P t"
  using assms keep_WithTx [OF keep_readyTx] keep_WithTx [OF keep_firstTx] keep_WithTx [OF keep_finalTx]
    keep_kickOutbox
  by (cases pc) (auto simp: persistIssuance_def split: prod.splits sum.splits)

lemma keep_gw_step:
  assumes "P (gw_Store g)" and "gw_step sv L g g'"
  shows "P (gw_Store g')"
  using assms(2)
proof (cases rule: gw_step.cases)
  case (advance t th pc' evs s')
  with keep_auth_step [OF assms(1) advance(3)] show ?thesis by simp
next
  case (approve approvalID status createdAt r s')
  with keep_Approve [OF assms(1)] show ?thesis by simp
next
  case (outbox_write j r s')
  with keep_writeRow [OF assms(1) outbox_write(3)] show ?thesis by simp
qed (use assms(1) in auto)

theorem keep_reach: "P s \<Longrightarrow> gw_reach sv L (gw_init s) g \<Longrightarrow> P (gw_Store g)"
  by (rotate_tac, induction rule: gw_reach.induct) (auto simp: gw_init_def intro: keep_gw_step)

end

section \<open>The rows carry their keys\<close>

sublocale ledger_contract \<subseteq> keyed: ledger_invariant L "\<lambda>s. well_keyed (view s)"
  by unfold_locales (rule preserves_keyed rollback)+

context ledger_contract
begin

theorem gw_keyed_reach:
  "view s = empty_view \<Longrightarrow> gw_reach sv L (gw_init s) g \<Longrightarrow> well_keyed (view (gw_Store g))"
  by (rule keyed.keep_reach) simp_all

end

end
