(* ===== verification/Service_Facts.thy ===== *)
theory Service_Facts
  imports Authorize_Service Ledger_Logic
begin

text \<open>
  What one call of the service does to the ledger: replays of a decided request, the state an
  issuance and an approval leave, and the calls that never reach the broker.
\<close>

section \<open>Helpers\<close>

lemma Authorize_cases:
  assumes "ComputeIdemKey (sv_Prims sv) (sv_NFC sv) (cl_Claims c) (cl_Req c) = Inr k"
  shows "Authorize sv L c s =
    (case GetIdempotencyKey L k s of
       None \<Rightarrow> authorizeFirst sv L c k s
     | Some i \<Rightarrow>
         if ik_Status i = ''approved_ready'' then issueApprovedReady sv L c k i s
         else if ik_Status i = ''issuing'' then retryIssuing sv L c k i s
         else if ik_Status i = ''errored'' then (Inr (error_response ''previous error''), s)
         else if idem_parse (ik_Status i) = None then (Inr (error_response ''unsupported state''), s)
         else (handleExisting L i s, s))"
proof (cases "GetIdempotencyKey L k s")
  case None
  with assms show ?thesis by (simp add: Authorize_def)
next
  case (Some i)
  show ?thesis
  proof (cases "idem_parse (ik_Status i)")
    case None
    then have "ik_Status i \<noteq> idem_str st" for st by (metis idem_parse_str option.distinct(1))
    from this [of IdemApprovedReady] this [of IdemIssuing] this [of IdemErrored] None Some assms
    show ?thesis by (simp add: Authorize_def)
  next
    case st: (Some st)
    then have "ik_Status i = idem_str st" by (simp add: idem_parse_Some)
    with Some assms st show ?thesis by (cases st) (simp_all add: Authorize_def)
  qed
qed

lemma empty_response_credentials [simp]: "rs_AWSCredentials empty_response = None"
  by (simp add: empty_response_def)

lemma existing_no_credentials:
  "handleExisting L i s = Inr resp \<Longrightarrow> rs_AWSCredentials resp = None"
  by (auto simp: handleExisting_def existingFinal_def receiptResponse_def error_response_def
      split: option.splits idem_status.splits)

lemma MakeReceipt_id: "MakeReceipt pr nfc i sg = Inr r \<Longrightarrow> sr_ReceiptID r \<noteq> []"
  by (auto simp: MakeReceipt_def Let_def res_bind_Inr_iff split: if_splits)

text \<open>A request that has its final answer: the status and the receipt that a replay shows.\<close>

definition decided :: "ledger_view \<Rightarrow> string \<Rightarrow> string \<Rightarrow> string \<Rightarrow> bool" where
  "decided v k st rid \<longleftrightarrow>
     rid \<noteq> [] \<and>
     (\<exists>i. lv_idem v k = Some i \<and> ik_Status i = st \<and> ik_FinalReceiptID i = Some rid) \<and>
     lv_receipts v rid \<noteq> None"

text \<open>
  Credentials come out of \<open>finalizeIssuance\<close> only, for a new request that the policy allows or for a
  request whose recorded status is \<open>approved\_ready\<close> or \<open>issuing\<close>.
\<close>

definition may_issue :: "service \<Rightarrow> call \<Rightarrow> idem_rec option \<Rightarrow> bool" where
  "may_issue sv c found \<longleftrightarrow>
     (case found of
        None \<Rightarrow> (\<exists>loaded. LoadPolicy (sv_Prims sv) (sv_Yaml sv) (sv_ReadFile sv) (sv_PolicyPath sv) = Inr loaded \<and>
                  verdict_spec (lp_Policy loaded) (policyInput (cl_Req c)) = ''allow'')
      | Some i \<Rightarrow> ik_Status i = ''approved_ready'' \<or> ik_Status i = ''issuing'')"

lemma first_may_issue:
  assumes "prepare sv c k = Inr p" and "pp_Action p = ActionIssueCredentials"
  shows "may_issue sv c None"
proof -
  from assms(1) obtain loaded
    where l: "LoadPolicy (sv_Prims sv) (sv_Yaml sv) (sv_ReadFile sv) (sv_PolicyPath sv) = Inr loaded"
    and v: "d_Verdict (pp_Decision p) = verdict_spec (lp_Policy loaded) (policyInput (cl_Req c))"
    by (auto simp: prepare_def res_bind_Inr_iff Let_def Evaluate_verdict)
  from assms(2) v have "verdict_spec (lp_Policy loaded) (policyInput (cl_Req c)) = ''allow''"
    by (simp add: pp_Action_def TransitionFromDecision_action)
  with l show ?thesis by (auto simp: may_issue_def)
qed

definition open_approval :: "approval_rec \<Rightarrow> bool" where
  "open_approval a \<longleftrightarrow> la_Status a \<noteq> ''approved'' \<and> la_Status a \<noteq> ''denied''"

text \<open>What a decision leaves: the idempotency row, the approval row and the receipt.\<close>

definition decision_post ::
  "string \<Rightarrow> approval_status \<Rightarrow> approval_rec \<Rightarrow> ledger_view \<Rightarrow> string \<Rightarrow> bool"
where
  "decision_post approvalID st a v rid \<longleftrightarrow>
     rid \<noteq> [] \<and>
     (\<exists>i. lv_idem v (la_IdemKey a) = Some i \<and> ik_LatestReceiptID i = Some rid \<and>
        (if st = ApprovalDenied then ik_Status i = ''denied'' \<and> ik_FinalReceiptID i = Some rid
         else ik_Status i = ''approved_ready'' \<and> ik_FinalReceiptID i = None)) \<and>
     lv_receipts v rid \<noteq> None \<and>
     (\<exists>b. lv_approvals v (la_ApprovalID a) = Some b \<and> la_Status b = approval_str st)"

lemma decidedIdem_post:
  "idem_merge old (decidedIdem c st rid i) r \<Longrightarrow> ik_IdemKey r = ik_IdemKey i \<and>
   ik_LatestReceiptID r = Some rid \<and>
   (if st = ApprovalDenied then ik_Status r = ''denied'' \<and> ik_FinalReceiptID r = Some rid
    else ik_Status r = ''approved_ready'' \<and> ik_FinalReceiptID r = None)"
  by (drule idem_merge_fields) (auto simp: decidedIdem_def Let_def)

context ledger_contract
begin

section \<open>The service keeps the keys\<close>

lemma putSigningKey_keyed [preserves_intros]: "preserves (\<lambda>s. well_keyed (view s)) (putSigningKey sv L c)"
  by (auto simp: putSigningKey_def intro: preserves_intros split: option.splits)

lemma pendingTx_keyed: "preserves (\<lambda>s. well_keyed (view s)) (pendingTx sv L c p)"
  unfolding pendingTx_def Let_def by (intro preserves_intros; auto intro: preserves_intros)

lemma firstTx_keyed: "preserves (\<lambda>s. well_keyed (view s)) (firstTx sv L c p)"
  unfolding firstTx_def Let_def
  by (intro preserves_intros; auto intro: preserves_intros pendingTx_keyed split: option.splits)

lemma readyTx_keyed: "preserves (\<lambda>s. well_keyed (view s)) (readyTx sv L c k x)"
  unfolding readyTx_def by (intro preserves_intros; auto intro: preserves_intros split: option.splits)

lemma finalTx_keyed: "preserves (\<lambda>s. well_keyed (view s)) (finalTx sv L c k x)"
  unfolding finalTx_def by (intro preserves_intros; auto intro: preserves_intros split: option.splits)

lemma approveTx_keyed: "preserves (\<lambda>s. well_keyed (view s)) (approveTx sv L a st c)"
  unfolding approveTx_def applyApproval_def
  by (intro preserves_intros; auto intro!: preserves_intros split: option.splits sum.splits)

lemma kickOutbox_keyed: "well_keyed (view s) \<Longrightarrow> well_keyed (view (kickOutbox sv L c p s))"
  using ProcessOutboxDue_same [of s "cl_Slack c" "cl_Now c" 1]
  by (cases "ProcessOutboxDue L (cl_Slack c) (cl_Now c) 1 s") (auto simp: kickOutbox_def)

lemma finalizeIssuance_keyed:
  assumes "well_keyed (view s)" and "finalizeIssuance sv L c k i role ttl s = (r, t)"
  shows "well_keyed (view t)"
  using assms preservesD [OF preserves_tx [OF finalTx_keyed]]
  by (auto simp: finalizeIssuance_def persistIssuance_def split: sum.splits prod.splits)

section \<open>Issuance\<close>

lemma finalTx_post:
  "wp (finalTx sv L createdAt k x)
    (\<lambda>r t. \<forall>u. r = Inr u \<longrightarrow>
      (\<exists>i0 i y. lv_idem (view s) k = Some i0 \<and>
         lv_idem (view t) (ik_IdemKey i0) = Some i \<and> ik_Status i = ''allowed'' \<and>
         ik_FinalReceiptID i = Some (sr_ReceiptID x) \<and> ik_LatestReceiptID i = Some (sr_ReceiptID x) \<and>
         lv_receipts (view t) (sr_ReceiptID x) = Some y \<and>
         kept_or_new receipt_like (lv_receipts (view s) (sr_ReceiptID x)) (receiptRecordFromStored x) y)) s"
  unfolding finalTx_def wp_bind putSigningKey_def
  by (auto intro!: wp_puts simp: wp_rules get_idem receiptRecordFromStored_def
      dest: idem_merge_fields split: option.splits sum.splits)

lemma finalizeIssuance_decided:
  assumes "well_keyed (view s)" and "finalizeIssuance sv L c k i role ttl s = (Inr resp, t)"
  shows "decided (view t) k ''allowed'' (rs_ReceiptID resp) \<and> rs_Verdict resp = ''allow'' \<and>
    rs_AWSCredentials resp \<noteq> None"
proof -
  from assms(2) obtain x creds where m: "mintCredentials sv c k i role ttl = Inr (x, creds)"
    and p: "persistIssuance sv L c k i x creds s = (Inr resp, t)"
    by (auto simp: finalizeIssuance_def split: sum.splits)
  from m have "sr_ReceiptID x \<noteq> []" by (auto simp: mintCredentials_def res_bind_Inr_iff dest: MakeReceipt_id)
  moreover from p have tx: "WithTx L (finalTx sv L (cl_CreatedAt c) k x) s = (Inr (), t)"
    and resp: "resp = issuedResponse i x creds"
    by (auto simp: persistIssuance_def split: prod.splits sum.splits)
  from tx have "finalTx sv L (cl_CreatedAt c) k x s = (Inr (), t)" by (simp add: WithTx_Inr_iff)
  from wpD [OF finalTx_post this] assms(1) obtain j y
    where "lv_idem (view t) k = Some j" "ik_Status j = ''allowed''"
      "ik_FinalReceiptID j = Some (sr_ReceiptID x)" "lv_receipts (view t) (sr_ReceiptID x) = Some y"
    by (auto simp: well_keyed_def)
  ultimately show ?thesis by (simp add: decided_def resp issuedResponse_def)
qed

section \<open>Replays\<close>

lemma existingFinal_decided:
  assumes "decided (view s) k st rid" and "GetIdempotencyKey L k s = Some i"
  shows "\<exists>r. lv_receipts (view s) rid = Some r \<and> existingFinal L v i s = Inr (receiptResponse v r)"
  using assms by (auto simp: decided_def get_idem existingFinal_def finalReceiptOf_def get_receipt)

theorem replay_decided:
  assumes "ComputeIdemKey (sv_Prims sv) (sv_NFC sv) (cl_Claims c) (cl_Req c) = Inr k"
    and "decided (view s) k st rid" and "st = ''allowed'' \<and> v = ''allow'' \<or> st = ''denied'' \<and> v = ''deny''"
  shows "\<exists>r. lv_receipts (view s) rid = Some r \<and> Authorize sv L c s = (Inr (receiptResponse v r), s)"
proof -
  from assms(2) obtain i where i: "GetIdempotencyKey L k s = Some i" "ik_Status i = st"
    by (auto simp: decided_def get_idem)
  from existingFinal_decided [OF assms(2) i(1), of v] assms(1,3) i show ?thesis
    by (auto simp: Authorize_def handleExisting_def)
qed

lemma authorizeFirst_issued:
  assumes "well_keyed (view s)" and "authorizeFirst sv L c k s = (Inr resp, s')"
    and "rs_AWSCredentials resp \<noteq> None"
  shows "may_issue sv c None \<and> (\<exists>issuing role ttl t. well_keyed (view t) \<and>
    finalizeIssuance sv L c k issuing role ttl t = (Inr resp, s'))"
proof -
  from assms(2) obtain p where p: "prepare sv c k = Inr p"
    by (auto simp: authorizeFirst_def split: sum.splits)
  obtain r t where tx: "WithTx L (firstTx sv L c p) s = (r, t)" by (cases "WithTx L (firstTx sv L c p) s")
  from preservesD [OF preserves_tx [OF firstTx_keyed] tx] assms(1) have t: "well_keyed (view t)" .
  show ?thesis
  proof (cases r)
    case (Inl e)
    with assms(2,3) p tx show ?thesis
      by (auto simp: authorizeFirst_def dest: existing_no_credentials split: option.splits)
  next
    case (Inr u)
    have a: "pp_Action p = ActionIssueCredentials"
      using assms(2,3) p tx Inr
      by (auto simp: authorizeFirst_def Let_def firstResponse_def split: if_splits)
    with assms(2) p tx Inr have "finalizeIssuance sv L c k (pp_Base p) (d_AWSRoleARN (pp_Decision p))
        (d_TTLSeconds (pp_Decision p)) (kickOutbox sv L c p t) = (Inr resp, s')"
      by (simp add: authorizeFirst_def Let_def firstPlan_def)
    with kickOutbox_keyed [OF t] first_may_issue [OF p a] show ?thesis by blast
  qed
qed

lemma issueApprovedReady_issued:
  assumes "well_keyed (view s)" and "issueApprovedReady sv L c k i s = (Inr resp, s')"
  shows "\<exists>issuing role ttl t. well_keyed (view t) \<and>
    finalizeIssuance sv L c k issuing role ttl t = (Inr resp, s')"
proof -
  from assms(2) obtain x role ttl t
    where tx: "WithTx L (readyTx sv L (cl_CreatedAt c) k x) s = (Inr (), t)"
      and f: "finalizeIssuance sv L c k x role ttl t = (Inr resp, s')"
    by (auto simp: issueApprovedReady_def split: sum.splits prod.splits)
  from preservesD [OF preserves_tx [OF readyTx_keyed] tx] assms(1) f show ?thesis by blast
qed

lemma retryIssuing_issued:
  assumes "well_keyed (view s)" and "retryIssuing sv L c k i s = (Inr resp, s')"
    and "rs_AWSCredentials resp \<noteq> None"
  shows "\<exists>issuing role ttl t. well_keyed (view t) \<and>
    finalizeIssuance sv L c k issuing role ttl t = (Inr resp, s')"
  using assms
  by (auto simp: retryIssuing_def retryPlan_def error_response_def res_bind_Inr_iff Let_def
      split: sum.splits prod.splits option.splits if_splits)

theorem Authorize_issued:
  assumes "well_keyed (view s)" and "Authorize sv L c s = (Inr resp, s')"
    and "rs_AWSCredentials resp \<noteq> None"
  obtains k issuing role ttl t where
    "ComputeIdemKey (sv_Prims sv) (sv_NFC sv) (cl_Claims c) (cl_Req c) = Inr k"
    and "may_issue sv c (GetIdempotencyKey L k s)" and "well_keyed (view t)"
    and "finalizeIssuance sv L c k issuing role ttl t = (Inr resp, s')"
proof (cases "ComputeIdemKey (sv_Prims sv) (sv_NFC sv) (cl_Claims c) (cl_Req c)")
  case (Inl e)
  with assms show ?thesis by (simp add: Authorize_def)
next
  case (Inr k)
  show ?thesis
  proof (cases "GetIdempotencyKey L k s")
    case None
    with assms Inr have "authorizeFirst sv L c k s = (Inr resp, s')" by (simp add: Authorize_def)
    from authorizeFirst_issued [OF assms(1) this assms(3)] that [OF Inr] None show ?thesis by auto
  next
    case (Some i)
    with assms(2,3) Authorize_cases [OF Inr, of L s] existing_no_credentials [of L i s]
    consider "ik_Status i = ''approved_ready''" "issueApprovedReady sv L c k i s = (Inr resp, s')"
      | "ik_Status i = ''issuing''" "retryIssuing sv L c k i s = (Inr resp, s')"
      by (auto simp: error_response_def split: if_splits)
    then show ?thesis
    proof cases
      case 1
      with issueApprovedReady_issued [OF assms(1) 1(2)] that [OF Inr] Some show ?thesis
        by (auto simp: may_issue_def)
    next
      case 2
      with retryIssuing_issued [OF assms(1) 2(2) assms(3)] that [OF Inr] Some show ?thesis
        by (auto simp: may_issue_def)
    qed
  qed
qed

theorem credentials_once:
  assumes "well_keyed (view s)" and "Authorize sv L c s = (Inr resp, t)"
    and "rs_AWSCredentials resp \<noteq> None"
    and "ComputeIdemKey (sv_Prims sv') (sv_NFC sv') (cl_Claims c') (cl_Req c') =
         ComputeIdemKey (sv_Prims sv) (sv_NFC sv) (cl_Claims c) (cl_Req c)"
  shows "\<exists>resp'. Authorize sv' L c' t = (Inr resp', t) \<and> rs_Verdict resp' = ''allow'' \<and>
    rs_ReceiptID resp' = rs_ReceiptID resp \<and> rs_AWSCredentials resp' = None"
proof -
  obtain k issuing role ttl u where k: "ComputeIdemKey (sv_Prims sv) (sv_NFC sv) (cl_Claims c) (cl_Req c) = Inr k"
    and u: "well_keyed (view u)" and f: "finalizeIssuance sv L c k issuing role ttl u = (Inr resp, t)"
    by (rule Authorize_issued [OF assms(1-3)])
  from finalizeIssuance_decided [OF u f] have d: "decided (view t) k ''allowed'' (rs_ReceiptID resp)" by blast
  from replay_decided [OF _ d, of sv' c' "''allow''"] assms(4) k
  obtain r where r: "lv_receipts (view t) (rs_ReceiptID resp) = Some r"
    "Authorize sv' L c' t = (Inr (receiptResponse ''allow'' r), t)" by auto
  from finalizeIssuance_keyed [OF u f] r(1) have "lr_ReceiptID r = rs_ReceiptID resp"
    by (simp add: well_keyed_def)
  with r(2) show ?thesis by (simp add: receiptResponse_def)
qed

section \<open>Approvals\<close>

lemma putSigningKey_same:
  assumes "\<And>t. lv_approvals (view t) = lv_approvals (view s) \<Longrightarrow> lv_idem (view t) = lv_idem (view s) \<Longrightarrow>
      lv_receipts (view t) = lv_receipts (view s) \<Longrightarrow> Q (Inr ()) t" and "\<And>e. Q (Inl e) s"
  shows "wp (putSigningKey sv L c) Q s"
proof (cases "sv_PublicKey sv")
  case None
  with assms show ?thesis by (simp add: putSigningKey_def wp_return)
next
  case (Some pub)
  show ?thesis
    unfolding putSigningKey_def Some option.case by (rule wp_put_key) (simp_all add: assms)
qed

lemma applyApproval_post:
  assumes "\<forall>k i. lv_idem (view s) k = Some i \<longrightarrow> ik_IdemKey i = k"
  shows "wp (applyApproval sv L approvalID st c a)
    (\<lambda>r t. \<forall>rid. r = Inr rid \<longrightarrow> decision_post approvalID st a (view t) rid) s"
proof (cases "lv_idem (view s) (la_IdemKey a)")
  case None
  then show ?thesis by (simp add: applyApproval_def wp_rules get_idem)
next
  case (Some i)
  with assms have k: "ik_IdemKey i = la_IdemKey a" by blast
  show ?thesis
    unfolding applyApproval_def wp_bind
    by (auto intro!: wp_puts simp: wp_rules get_idem get_receipt Some decision_post_def k
        decidedIdem_def Let_def receiptRecordFromStored_def approval_merge_def
        dest: MakeReceipt_id idem_merge_fields split: option.splits sum.splits)
qed

theorem approveTx_post:
  assumes "well_keyed (view s)" and "lv_approvals (view s) approvalID = Some a" and "open_approval a"
  shows "wp (approveTx sv L approvalID st c)
    (\<lambda>r t. \<forall>rid. r = Inr rid \<longrightarrow> decision_post approvalID st a (view t) rid) s"
  unfolding approveTx_def wp_bind
proof (rule putSigningKey_same, goal_cases)
  case (1 t)
  then have "\<forall>k i. lv_idem (view t) k = Some i \<longrightarrow> ik_IdemKey i = k"
    using assms(1) by (simp add: well_keyed_def)
  from applyApproval_post [OF this, of sv approvalID st c a] 1 assms(2,3) show ?case
    by (simp add: wp_rules get_approval open_approval_def split: sum.splits)
next
  case (2 e)
  show ?case by simp
qed

theorem Approve_open:
  assumes "well_keyed (view s)" and "lv_approvals (view s) approvalID = Some a" and "open_approval a"
    and "approval_parse status = Some st" and "Approve sv L approvalID status c s = (Inr rid, t)"
  shows "decision_post approvalID st a (view t) rid"
proof -
  from assms(4,5) have "approveTx sv L approvalID st c s = (Inr rid, t)"
    by (cases st) (auto simp: Approve_def WithTx_Inr_iff)
  from wpD [OF approveTx_post [OF assms(1-3)] this] show ?thesis by simp
qed

theorem denied_for_good:
  assumes "well_keyed (view s)" and "lv_approvals (view s) approvalID = Some a" and "open_approval a"
    and "Approve sv L approvalID ''denied'' createdAt s = (Inr rid, t)"
    and "ComputeIdemKey (sv_Prims sv') (sv_NFC sv') (cl_Claims c) (cl_Req c) = Inr (la_IdemKey a)"
  shows "\<exists>r. Authorize sv' L c t = (Inr (receiptResponse ''deny'' r), t)"
proof -
  from Approve_open [OF assms(1-3) _ assms(4), of ApprovalDenied]
  have "decision_post approvalID ApprovalDenied a (view t) rid" by simp
  then have "decided (view t) (la_IdemKey a) ''denied'' rid"
    by (auto simp: decision_post_def decided_def)
  from replay_decided [OF assms(5) this, of "''deny''"] show ?thesis by auto
qed

text \<open>A decided approval stays decided, whoever calls again and whatever they ask for.\<close>

theorem approval_final:
  assumes "lv_approvals (view s) approvalID = Some a" and "\<not> open_approval a"
    and "Approve sv L approvalID status createdAt s = (r, t)"
  shows "lv_approvals (view t) = lv_approvals (view s) \<and> lv_idem (view t) = lv_idem (view s) \<and>
    lv_receipts (view t) = lv_receipts (view s)"
proof -
  let ?same = "\<lambda>t. lv_approvals (view t) = lv_approvals (view s) \<and> lv_idem (view t) = lv_idem (view s) \<and>
    lv_receipts (view t) = lv_receipts (view s)"
  have w: "wp (approveTx sv L approvalID st createdAt) (\<lambda>_. ?same) s" for st
    unfolding approveTx_def wp_bind
    using assms(1,2) by (intro putSigningKey_same) (auto simp: wp_rules get_approval open_approval_def)
  have "?same t" if "WithTx L (approveTx sv L approvalID st createdAt) s = (r, t)" for st
    by (rule wpD [OF wp_tx that, where Q = "\<lambda>_. ?same"], rule wp_mono [OF w]) (auto split: sum.splits)
  with assms(3) show ?thesis
    by (auto simp: Approve_def split: option.splits approval_status.splits)
qed

end

section \<open>The broker is not called\<close>

text \<open>
  The answer to a request does not depend on the broker when the policy denies it or asks for an
  approval, or when the ledger already has a final or pending answer.
\<close>

lemma prepare_broker [simp]: "prepare sv (c\<lparr>cl_Broker := b\<rparr>) k = prepare sv c k"
proof -
  have "baseReceiptInput (c\<lparr>cl_Broker := b\<rparr>) = baseReceiptInput c"
    by (simp add: fun_eq_iff baseReceiptInput_def)
  then show ?thesis by (simp add: prepare_def Let_def)
qed

lemma firstTx_broker [simp]: "firstTx sv L (c\<lparr>cl_Broker := b\<rparr>) p = firstTx sv L c p"
  by (simp add: firstTx_def pendingTx_def approvalRecOf_def outboxRecOf_def initialIdem_def
      policyRecOf_def postSlack_def)

lemma firstResponse_broker [simp]: "firstResponse (c\<lparr>cl_Broker := b\<rparr>) p = firstResponse c p"
  by (simp add: firstResponse_def Let_def)

lemma postSlack_broker [simp]: "postSlack sv (c\<lparr>cl_Broker := b\<rparr>) = postSlack sv c"
  by (simp add: postSlack_def)

lemma kickOutbox_broker [simp]: "kickOutbox sv L (c\<lparr>cl_Broker := b\<rparr>) p s = kickOutbox sv L c p s"
  by (simp add: kickOutbox_def)

theorem broker_not_consulted:
  assumes "ComputeIdemKey (sv_Prims sv) (sv_NFC sv) (cl_Claims c) (cl_Req c) = Inr k"
    and "\<not> may_issue sv c (GetIdempotencyKey L k s)"
  shows "Authorize sv L (c\<lparr>cl_Broker := b\<rparr>) s = Authorize sv L c s"
proof (cases "GetIdempotencyKey L k s")
  case None
  have "pp_Action p \<noteq> ActionIssueCredentials" if "prepare sv c k = Inr p" for p
    using first_may_issue [OF that] assms(2) None by auto
  with None assms(1) show ?thesis
    by (auto simp: Authorize_def authorizeFirst_def Let_def split: sum.splits prod.splits)
next
  case (Some i)
  with assms(2) have "ik_Status i \<noteq> ''approved_ready''" "ik_Status i \<noteq> ''issuing''"
    by (auto simp: may_issue_def)
  with Some assms(1) show ?thesis by (simp add: Authorize_cases)
qed

end
