(* ===== verification/Receipt_Facts.thy ===== *)
theory Receipt_Facts
  imports Receipt
begin

text \<open>
  What receipts guarantee: a made receipt verifies, a verified receipt cannot be altered, its
  identifier binds every field of its body, and the references read back from a body are the
  ones it was made with.
\<close>

section \<open>Making and verifying\<close>

definition effective_input :: "make_receipt_input \<Rightarrow> make_receipt_input" where
  "effective_input i = (if mi_Schema i = [] then i\<lparr>mi_Schema := ReceiptSchema\<rparr> else i)"

lemma effective_input_simps [simp]:
  "mi_CreatedAt (effective_input i) = mi_CreatedAt i"
  "mi_IdemKey (effective_input i) = mi_IdemKey i"
  "mi_ContextID (effective_input i) = mi_ContextID i"
  "mi_DecisionID (effective_input i) = mi_DecisionID i"
  "mi_Actor (effective_input i) = mi_Actor i" "mi_Request (effective_input i) = mi_Request i"
  "mi_Policy (effective_input i) = mi_Policy i"
  "mi_InteractionRef (effective_input i) = mi_InteractionRef i"
  "mi_Refs (effective_input i) = mi_Refs i" "mi_Approval (effective_input i) = mi_Approval i"
  "mi_CredentialGrant (effective_input i) = mi_CredentialGrant i"
  "mi_Outcome (effective_input i) = mi_Outcome i"
  "mi_SupersedesReceiptID (effective_input i) = mi_SupersedesReceiptID i"
  by (simp_all add: effective_input_def)

lemma MakeReceipt_Inr:
  assumes "MakeReceipt pr nfc i sg = Inr r"
  obtains b sig where "Canonicalize nfc (VMap (receiptBody (effective_input i))) = Inr b"
    and "sg_SignEd25519 sg (DigestBytes pr b) = Inr sig"
    and "sr_BodyJSON r = b" and "sr_ReceiptID r = DigestWithPrefix pr b"
    and "sr_BodyDigest r = DigestWithPrefix pr b" and "sr_Sig r = sig" and "sr_KeyID r = sg_KeyID sg"
  using assms
  by (auto simp: MakeReceipt_def effective_input_def Let_def res_bind_Inr_iff split: if_splits)

lemma MakeReceipt_fields:
  assumes "MakeReceipt pr nfc i sg = Inr r"
  shows "sr_IdemKey r = mi_IdemKey i" "sr_ContextID r = mi_ContextID i"
    "sr_DecisionID r = mi_DecisionID i" "sr_PolicyHash r = rp_PolicyHash (mi_Policy i)"
    "sr_OutcomeStatus r = ro_Status (mi_Outcome i)"
    "sr_Final r = isFinalOutcome (ro_Status (mi_Outcome i))"
    "sr_SupersedesReceiptID r = mi_SupersedesReceiptID i" "sr_ReceiptID r \<noteq> []"
    "sr_CreatedAt r = mi_CreatedAt i" "validOutcome (ro_Status (mi_Outcome i))"
    "sr_KeyID r = sg_KeyID sg"
  using assms
  by (auto simp: MakeReceipt_def Let_def res_bind_Inr_iff split: if_splits)

lemma MakeReceipt_approval:
  "MakeReceipt pr nfc i sg = Inr r \<Longrightarrow> mi_Approval i = None \<Longrightarrow> sr_ApprovalID r = None"
  by (auto simp: MakeReceipt_def Let_def res_bind_Inr_iff split: if_splits)

lemma MakeReceipt_pending:
  "MakeReceipt pr nfc i sg = Inr r \<Longrightarrow> mi_Approval i = Some ap \<Longrightarrow> rap_ApprovalID ap \<noteq> [] \<Longrightarrow>
   sr_ApprovalID r = Some (rap_ApprovalID ap)"
  by (auto simp: MakeReceipt_def Let_def res_bind_Inr_iff split: if_splits)

text \<open>The signer signs with the key whose public half is \<open>pub\<close>.\<close>

definition signer_for :: "prims \<Rightarrow> signer \<Rightarrow> string \<Rightarrow> bool" where
  "signer_for pr sg pub \<longleftrightarrow>
     (\<forall>m sig. length m = 32 \<longrightarrow> sg_SignEd25519 sg m = Inr sig \<longrightarrow>
        VerifyEd25519 pr pub m sig = Inr True)"

lemma make_verify:
  assumes "prims_laws pr" and "signer_for pr sg pub" and "MakeReceipt pr nfc i sg = Inr r"
  shows "VerifyReceipt pr r pub = Inr ()"
proof -
  from assms(3) obtain b where "sg_SignEd25519 sg (DigestBytes pr b) = Inr (sr_Sig r)"
    and "sr_BodyJSON r = b" "sr_ReceiptID r = DigestWithPrefix pr b"
    "sr_BodyDigest r = DigestWithPrefix pr b"
    by (rule MakeReceipt_Inr) auto
  moreover have "length (DigestBytes pr b) = 32" using assms(1) by (simp add: DigestBytes_def length_sha256)
  ultimately show ?thesis
    using assms(2) by (auto simp: VerifyReceipt_def signer_for_def Let_def)
qed

lemma VerifyReceipt_Inr:
  "VerifyReceipt pr r pub = Inr u \<longleftrightarrow>
   sr_BodyDigest r = DigestWithPrefix pr (sr_BodyJSON r) \<and>
   sr_ReceiptID r = DigestWithPrefix pr (sr_BodyJSON r) \<and>
   VerifyEd25519 pr pub (DigestBytes pr (sr_BodyJSON r)) (sr_Sig r) = Inr True"
  by (auto simp: VerifyReceipt_def Let_def res_bind_Inr_iff)

lemma tampered_body:
  assumes "VerifyReceipt pr r pub = Inr ()" and "sr_BodyJSON r' \<noteq> sr_BodyJSON r"
    and "sr_ReceiptID r' = sr_ReceiptID r" and "\<not> collides pr (sr_BodyJSON r') (sr_BodyJSON r)"
  shows "VerifyReceipt pr r' pub' = Inl ErrReceiptDigestMismatch"
proof -
  have "DigestWithPrefix pr (sr_BodyJSON r') \<noteq> DigestWithPrefix pr (sr_BodyJSON r)"
    using assms(2,4) unfolding DigestWithPrefix_inj collides_def by blast
  with assms(1,3) show ?thesis by (auto simp: VerifyReceipt_Inr VerifyReceipt_def Let_def)
qed

section \<open>The identifier binds the body\<close>

lemma refsMap_cases: "refsMap r = VNilMap \<or> (\<exists>x. refsMap r = VMap x)"
  by (simp add: refsMap_def split: option.splits)

lemma interactionRefMap_cases: "interactionRefMap r = VNilMap \<or> (\<exists>x. interactionRefMap r = VMap x)"
  by (simp add: interactionRefMap_def split: option.splits)

lemma plain_keys_receipt [simp]:
  "plain_keys (actorView a)" "plain_keys (requestView q)" "plain_keys (receiptPolicyView p)"
  "plain_keys (outcomeView o')" "plain_keys (receiptBody i)" "plain_keys (approvalView v)"
  "plain_keys (credentialView c)" "plain_keys (contextRefView cr)" "plain_keys (decisionRefView dr)"
  "plain_keys (refsView r)" "plain_keys (interactionRefView ir)"
  by (simp_all add: plain_keys_def actorView_def requestView_def receiptPolicyView_def
      outcomeView_def receiptBody_def approvalView_def credentialView_def contextRefView_def
      decisionRefView_def refsView_def interactionRefView_def Let_def)

lemma map_of_receiptBody [simp]:
  "map_of (receiptBody i) ''created_at'' = Some (VStr (mi_CreatedAt i))"
  "map_of (receiptBody i) ''context_id'' = Some (VStr (mi_ContextID i))"
  "map_of (receiptBody i) ''decision_id'' = Some (VStr (mi_DecisionID i))"
  "map_of (receiptBody i) ''actor'' = Some (VMap (actorView (mi_Actor i)))"
  "map_of (receiptBody i) ''request'' = Some (VMap (requestView (mi_Request i)))"
  "map_of (receiptBody i) ''policy'' = Some (VMap (receiptPolicyView (mi_Policy i)))"
  "map_of (receiptBody i) ''outcome'' = Some (VMap (outcomeView (mi_Outcome i)))"
  "map_of (receiptBody i) ''approval'' = Some (approvalMap (mi_Approval i))"
  "map_of (receiptBody i) ''credential_grant'' = Some (credentialMap (mi_CredentialGrant i))"
  by (simp_all add: receiptBody_def)

lemma map_of_receiptBody_opt:
  "map_of (receiptBody i) ''refs'' =
     (if refsMap (mi_Refs i) = VNilMap then None else Some (refsMap (mi_Refs i)))"
  "map_of (receiptBody i) ''interaction_ref'' =
     (if interactionRefMap (mi_InteractionRef i) = VNilMap then None
      else Some (interactionRefMap (mi_InteractionRef i)))"
  by (simp_all add: receiptBody_def Let_def)

lemma same_receipt_same_body:
  assumes "nfc_laws nfc"
    and "MakeReceipt pr nfc i sg = Inr r" and "MakeReceipt pr nfc i' sg' = Inr r'"
    and "sr_ReceiptID r = sr_ReceiptID r'" and "\<not> collides pr (sr_BodyJSON r) (sr_BodyJSON r')"
  shows "same_repr nfc (VMap (receiptBody (effective_input i))) (VMap (receiptBody (effective_input i')))"
proof -
  obtain b where "Canonicalize nfc (VMap (receiptBody (effective_input i))) = Inr b"
    and "sr_ReceiptID r = DigestWithPrefix pr b" "sr_BodyJSON r = b" by (rule MakeReceipt_Inr [OF assms(2)])
  moreover obtain b' where "Canonicalize nfc (VMap (receiptBody (effective_input i'))) = Inr b'"
    and "sr_ReceiptID r' = DigestWithPrefix pr b'" "sr_BodyJSON r' = b'" by (rule MakeReceipt_Inr [OF assms(3)])
  ultimately show ?thesis using assms(4,5) by (metis same_digest_same_repr [OF assms(1)])
qed

lemma receiptBody_inj:
  assumes laws: "nfc_laws nfc" and same: "same_repr nfc (VMap (receiptBody i)) (VMap (receiptBody i'))"
  shows "same_text nfc (mi_CreatedAt i) (mi_CreatedAt i')"
    and "same_text nfc (mi_ContextID i) (mi_ContextID i')"
    and "same_text nfc (mi_DecisionID i) (mi_DecisionID i')"
    and "same_repr nfc (VMap (actorView (mi_Actor i))) (VMap (actorView (mi_Actor i')))"
    and "same_repr nfc (VMap (requestView (mi_Request i))) (VMap (requestView (mi_Request i')))"
    and "same_repr nfc (VMap (receiptPolicyView (mi_Policy i))) (VMap (receiptPolicyView (mi_Policy i')))"
    and "same_repr nfc (VMap (outcomeView (mi_Outcome i))) (VMap (outcomeView (mi_Outcome i')))"
    and "same_repr nfc (approvalMap (mi_Approval i)) (approvalMap (mi_Approval i'))"
    and "same_repr nfc (credentialMap (mi_CredentialGrant i)) (credentialMap (mi_CredentialGrant i'))"
  using same_repr_at [OF laws same, of "''created_at''"] same_repr_at [OF laws same, of "''context_id''"]
    same_repr_at [OF laws same, of "''decision_id''"] same_repr_at [OF laws same, of "''actor''"]
    same_repr_at [OF laws same, of "''request''"] same_repr_at [OF laws same, of "''policy''"]
    same_repr_at [OF laws same, of "''outcome''"] same_repr_at [OF laws same, of "''approval''"]
    same_repr_at [OF laws same, of "''credential_grant''"]
  by simp_all

lemma actorView_inj:
  assumes laws: "nfc_laws nfc" and same: "same_repr nfc (VMap (actorView a)) (VMap (actorView a'))"
  shows "same_text nfc (ra_Subject a) (ra_Subject a')" "same_text nfc (ra_Issuer a) (ra_Issuer a')"
    "same_text nfc (ra_Repo a) (ra_Repo a')" "same_text nfc (ra_RunID a) (ra_RunID a')"
  using same_repr_at [OF laws same, of "''subject''"] same_repr_at [OF laws same, of "''issuer''"]
    same_repr_at [OF laws same, of "''repo''"] same_repr_at [OF laws same, of "''run_id''"]
  by (simp_all add: plain_keys_def actorView_def)

lemma requestView_inj:
  assumes laws: "nfc_laws nfc" and same: "same_repr nfc (VMap (requestView q)) (VMap (requestView q'))"
  shows "same_text nfc (rq_RequestID q) (rq_RequestID q')" "same_text nfc (rq_Action q) (rq_Action q')"
    "same_text nfc (rq_Resource q) (rq_Resource q')" "same_text nfc (rq_Env q) (rq_Env q')"
    "same_repr nfc (rq_Intent q) (rq_Intent q')"
  using same_repr_at [OF laws same, of "''request_id''"] same_repr_at [OF laws same, of "''action''"]
    same_repr_at [OF laws same, of "''resource''"] same_repr_at [OF laws same, of "''env''"]
    same_repr_at [OF laws same, of "''intent''"]
  by (simp_all add: plain_keys_def requestView_def)

lemma receiptPolicyView_inj:
  assumes laws: "nfc_laws nfc"
    and same: "same_repr nfc (VMap (receiptPolicyView p)) (VMap (receiptPolicyView p'))"
  shows "same_text nfc (rp_PolicyHash p) (rp_PolicyHash p')"
  using same_repr_at [OF laws same, of "''policy_hash''"]
  by (simp add: plain_keys_def receiptPolicyView_def)

lemma outcomeView_inj:
  assumes laws: "nfc_laws nfc" and same: "same_repr nfc (VMap (outcomeView p)) (VMap (outcomeView p'))"
  shows "same_text nfc (ro_Status p) (ro_Status p')" "same_text nfc (ro_ExpiresAt p) (ro_ExpiresAt p')"
  using same_repr_at [OF laws same, of "''status''"] same_repr_at [OF laws same, of "''expires_at''"]
  by (simp_all add: plain_keys_def outcomeView_def)

lemma ascii_outcome_str [simp]: "ascii (outcome_str o')"
  by (cases o') simp_all

lemma validOutcome_ascii: "validOutcome s \<Longrightarrow> ascii s"
  by (auto simp: validOutcome_def outcome_parse_def find_Some_iff split: option.splits)

section \<open>References survive a round trip\<close>

definition norm_text :: "(string \<Rightarrow> string) \<Rightarrow> string \<Rightarrow> string" where
  "norm_text nfc s = sanitize (nfc s)"

lemma norm_text_Nil [simp]: "nfc_laws nfc \<Longrightarrow> norm_text nfc [] = []"
  by (simp add: norm_text_def nfc_ascii)

lemma norm_text_ascii: "nfc_laws nfc \<Longrightarrow> ascii s \<Longrightarrow> norm_text nfc s = s"
  by (simp add: norm_text_def nfc_ascii)

lemma field_values_view:
  assumes "nfc_laws nfc" and "plain_keys kvs" and "field_repr nfc (VMap kvs) = Inr (Some (JObj ms))"
    and "distinct (map fold_name keys)" and "fst ` set kvs \<subseteq> set keys" and "name \<in> set keys"
  shows "field_values name ms = (case map_of ms name of None \<Rightarrow> [] | Some v \<Rightarrow> [v])"
    and "map_of kvs name = Some v \<Longrightarrow> field_repr nfc v = Inr (map_of ms name)"
    and "map_of kvs name = None \<Longrightarrow> map_of ms name = None"
proof -
  from assms(3) obtain t where t: "canon_tree nfc (VMap kvs) = Inr t" "json_sanitize t = JObj ms"
    by (auto simp: field_repr_def res_bind_Inr_iff simp del: canon_tree.simps)
  from canon_map_object [OF assms(1,2) t(1)] t(2)
  have d: "distinct (map fst ms)" and sub: "fst ` set ms \<subseteq> fst ` set kvs" by auto
  have "inj_on fold_name (set keys)" using assms(4) by (simp add: distinct_map)
  then have "\<forall>k \<in> fst ` set ms. fold_name k = fold_name name \<longrightarrow> k = name"
    using sub assms(5,6) by (meson inj_on_contraD subset_iff)
  with d show "field_values name ms = (case map_of ms name of None \<Rightarrow> [] | Some v \<Rightarrow> [v])"
    by (rule field_values_one)
  show "map_of kvs name = Some v \<Longrightarrow> field_repr nfc v = Inr (map_of ms name)"
    using canon_map_field [OF assms(1,2) t(1)] t(2) by auto
  show "map_of kvs name = None \<Longrightarrow> map_of ms name = None"
    using canon_map_no_field [OF assms(1,2) t(1)] t(2) by auto
qed

lemma string_field_view:
  assumes "nfc_laws nfc" and "plain_keys kvs" and "field_repr nfc (VMap kvs) = Inr (Some (JObj ms))"
    and "distinct (map fold_name keys)" and "fst ` set kvs \<subseteq> set keys" and "name \<in> set keys"
    and "map_of kvs name = Some (emptyToNil s)"
  shows "string_field name ms [] = Some (norm_text nfc s)"
  using field_values_view(1,2) [OF assms(1-6)] assms(1,7)
  by (cases "s = []") (auto simp: string_field_def norm_text_def nfc_ascii split: option.splits)

lemma folded_keys:
  "distinct (map fold_name [''context_id'', ''record_hash'', ''content_hash''])"
  "distinct (map fold_name [''decision_id'', ''inputs_digest'', ''record_hash'', ''content_digest''])"
  "distinct (map fold_name [''context'', ''decision''])"
  "distinct (map fold_name [''mode'', ''session_id'', ''call_id'', ''turn_id'', ''turn_index'',
     ''turn_started_at'', ''turn_ended_at'', ''jurisdiction'', ''consent_state'', ''redaction_mode''])"
  "distinct (map fold_name [''schema'', ''created_at'', ''context_id'', ''decision_id'', ''actor'',
     ''request'', ''policy'', ''approval'', ''credential_grant'', ''outcome'', ''interaction_ref'', ''refs''])"
  by (simp_all add: upper_ascii_letters)

definition norm_context_ref :: "(string \<Rightarrow> string) \<Rightarrow> context_ref \<Rightarrow> context_ref" where
  "norm_context_ref nfc c =
    \<lparr>cr_ContextID = norm_text nfc (cr_ContextID c), cr_RecordHash = norm_text nfc (cr_RecordHash c),
     cr_ContentHash = norm_text nfc (cr_ContentHash c)\<rparr>"

definition norm_decision_ref :: "(string \<Rightarrow> string) \<Rightarrow> decision_ref \<Rightarrow> decision_ref" where
  "norm_decision_ref nfc d =
    \<lparr>dr_DecisionID = norm_text nfc (dr_DecisionID d), dr_InputsDigest = norm_text nfc (dr_InputsDigest d),
     dr_RecordHash = norm_text nfc (dr_RecordHash d), dr_ContentDigest = norm_text nfc (dr_ContentDigest d)\<rparr>"

definition norm_refs :: "(string \<Rightarrow> string) \<Rightarrow> receipt_refs \<Rightarrow> receipt_refs" where
  "norm_refs nfc r =
    \<lparr>rf_Context = map_option (norm_context_ref nfc) (rf_Context r),
     rf_Decision = map_option (norm_decision_ref nfc) (rf_Decision r)\<rparr>"

lemma decodeContextRef_view:
  assumes "nfc_laws nfc" and "field_repr nfc (VMap (contextRefView c)) = Inr (Some (JObj ms))"
  shows "decodeContextRef ms zero_context_ref = Some (norm_context_ref nfc c)"
  using string_field_view [OF assms(1) _ assms(2) folded_keys(1), of "''context_id''"]
    string_field_view [OF assms(1) _ assms(2) folded_keys(1), of "''record_hash''"]
    string_field_view [OF assms(1) _ assms(2) folded_keys(1), of "''content_hash''"]
  by (simp add: contextRefView_def decodeContextRef_def zero_context_ref_def norm_context_ref_def
      plain_keys_def)

lemma decodeDecisionRef_view:
  assumes "nfc_laws nfc" and "field_repr nfc (VMap (decisionRefView d)) = Inr (Some (JObj ms))"
  shows "decodeDecisionRef ms zero_decision_ref = Some (norm_decision_ref nfc d)"
  using string_field_view [OF assms(1) _ assms(2) folded_keys(2), of "''decision_id''"]
    string_field_view [OF assms(1) _ assms(2) folded_keys(2), of "''inputs_digest''"]
    string_field_view [OF assms(1) _ assms(2) folded_keys(2), of "''record_hash''"]
    string_field_view [OF assms(1) _ assms(2) folded_keys(2), of "''content_digest''"]
  by (simp add: decisionRefView_def decodeDecisionRef_def zero_decision_ref_def norm_decision_ref_def
      plain_keys_def)

lemma field_repr_VMap_JObj:
  assumes "nfc_laws nfc" and "plain_keys kvs" and "field_repr nfc (VMap kvs) = Inr x"
  shows "\<exists>ms. x = Some (JObj ms)"
proof -
  from assms(3) obtain t where t: "canon_tree nfc (VMap kvs) = Inr t" "x = Some (json_sanitize t)"
    by (auto simp: field_repr_def res_bind_Inr_iff simp del: canon_tree.simps)
  with canon_map_object [OF assms(1,2) t(1)] show ?thesis by auto
qed

text \<open>A pointer field: absent, or an object that its struct decoder reads.\<close>

lemma ptr_field_view:
  assumes "nfc_laws nfc" and "plain_keys kvs" and "field_repr nfc (VMap kvs) = Inr (Some (JObj ms))"
    and "distinct (map fold_name keys)" and "fst ` set kvs \<subseteq> set keys" and "name \<in> set keys"
  shows "map_of kvs name = None \<Longrightarrow> ptr_field name dec zero ms None = Some None"
    and "map_of kvs name = Some VNilMap \<Longrightarrow> ptr_field name dec zero ms None = Some None"
    and "map_of kvs name = Some (VMap kvs') \<Longrightarrow> plain_keys kvs' \<Longrightarrow>
      (\<And>ms'. field_repr nfc (VMap kvs') = Inr (Some (JObj ms')) \<Longrightarrow> dec ms' zero = Some r) \<Longrightarrow>
      ptr_field name dec zero ms None = Some (Some r)"
proof -
  note fv = field_values_view [OF assms]
  show "map_of kvs name = None \<Longrightarrow> ptr_field name dec zero ms None = Some None"
    using fv(1,3) by (simp add: ptr_field_def)
  show "map_of kvs name = Some VNilMap \<Longrightarrow> ptr_field name dec zero ms None = Some None"
    using fv(1) fv(2) [of VNilMap] by (simp add: ptr_field_def)
  assume k: "map_of kvs name = Some (VMap kvs')" "plain_keys kvs'"
    and dec: "\<And>ms'. field_repr nfc (VMap kvs') = Inr (Some (JObj ms')) \<Longrightarrow> dec ms' zero = Some r"
  from fv(2) [OF k(1)] field_repr_VMap_JObj [OF assms(1) k(2)]
  obtain ms' where "field_repr nfc (VMap kvs') = Inr (Some (JObj ms'))" "map_of ms name = Some (JObj ms')"
    by metis
  with fv(1) dec show "ptr_field name dec zero ms None = Some (Some r)"
    by (simp add: ptr_field_def)
qed

lemma decodeReceiptRefs_view:
  assumes "nfc_laws nfc" and ms: "field_repr nfc (VMap (refsView r)) = Inr (Some (JObj ms))"
  shows "decodeReceiptRefs ms zero_refs = Some (norm_refs nfc r)"
proof -
  note pf = ptr_field_view [OF assms(1) _ ms folded_keys(3)]
  have c: "ptr_field ''context'' decodeContextRef zero_context_ref ms None =
      Some (map_option (norm_context_ref nfc) (rf_Context r))"
  proof (cases "rf_Context r")
    case None
    then show ?thesis using pf(2) [of "''context''"] by (simp add: refsView_def plain_keys_def)
  next
    case (Some c)
    then show ?thesis
      using pf(3) [of "''context''" "contextRefView c" decodeContextRef zero_context_ref]
        decodeContextRef_view [OF assms(1)]
      by (simp add: refsView_def plain_keys_def [of "[_, _]"])
  qed
  have d: "ptr_field ''decision'' decodeDecisionRef zero_decision_ref ms None =
      Some (map_option (norm_decision_ref nfc) (rf_Decision r))"
  proof (cases "rf_Decision r")
    case None
    then show ?thesis using pf(2) [of "''decision''"] by (simp add: refsView_def plain_keys_def)
  next
    case (Some d)
    then show ?thesis
      using pf(3) [of "''decision''" "decisionRefView d" decodeDecisionRef zero_decision_ref]
        decodeDecisionRef_view [OF assms(1)]
      by (simp add: refsView_def plain_keys_def [of "[_, _]"])
  qed
  from c d show ?thesis by (simp add: decodeReceiptRefs_def zero_refs_def norm_refs_def)
qed

lemma receiptBody_keys:
  "fst ` set (receiptBody i) \<subseteq> set [''schema'', ''created_at'', ''context_id'', ''decision_id'', ''actor'',
     ''request'', ''policy'', ''approval'', ''credential_grant'', ''outcome'', ''interaction_ref'', ''refs'']"
  by (auto simp: receiptBody_def Let_def)

lemma receiptBody_parsed:
  assumes "nfc_laws nfc" and "Canonicalize nfc (VMap (receiptBody i)) = Inr b"
  obtains ms where "json_parse b = Some (JObj ms)" "b \<noteq> []"
    "field_repr nfc (VMap (receiptBody i)) = Inr (Some (JObj ms))"
proof -
  from Canonicalize_repr [OF assms] obtain j
    where j: "field_repr nfc (VMap (receiptBody i)) = Inr (Some j)" "json_parse b = Some j" by blast
  with field_repr_VMap_JObj [OF assms(1) _ j(1)] obtain ms where "j = JObj ms" by auto
  moreover have "json_parse [] = None" by (simp add: json_parse_def skip_ws_def)
  with j(2) have "b \<noteq> []" by auto
  ultimately show ?thesis using j that by blast
qed

theorem refs_roundtrip:
  assumes "nfc_laws nfc" and "Canonicalize nfc (VMap (receiptBody i)) = Inr b"
  shows "receiptRefsFromBody b =
    (case mi_Refs i of None \<Rightarrow> None
     | Some r \<Rightarrow> if rf_Context r = None \<and> rf_Decision r = None then None else Some (norm_refs nfc r))"
proof -
  obtain ms where ms: "json_parse b = Some (JObj ms)" "b \<noteq> []"
    and fr: "field_repr nfc (VMap (receiptBody i)) = Inr (Some (JObj ms))"
    by (rule receiptBody_parsed [OF assms])
  note pf = ptr_field_view [OF assms(1) plain_keys_receipt(5) fr folded_keys(5) receiptBody_keys,
      of "''refs''"]
  show ?thesis
  proof (cases "refsMap (mi_Refs i) = VNilMap")
    case True
    then have "map_of (receiptBody i) ''refs'' = None" by (simp add: map_of_receiptBody_opt)
    with pf(1) have "ptr_field ''refs'' decodeReceiptRefs zero_refs ms None = Some None" by simp
    with True ms show ?thesis
      by (auto simp: receiptRefsFromBody_def unmarshal_struct_def refsMap_def split: option.splits if_splits)
  next
    case False
    then obtain r where r: "mi_Refs i = Some r" "\<not> (rf_Context r = None \<and> rf_Decision r = None)"
      by (auto simp: refsMap_def split: option.splits if_splits)
    then have "map_of (receiptBody i) ''refs'' = Some (VMap (refsView r))"
      by (auto simp: map_of_receiptBody_opt refsMap_def)
    then have "ptr_field ''refs'' decodeReceiptRefs zero_refs ms None = Some (Some (norm_refs nfc r))"
      by (intro pf(3) decodeReceiptRefs_view [OF assms(1)]) simp_all
    with r ms show ?thesis
      by (auto simp: receiptRefsFromBody_def unmarshal_struct_def norm_refs_def)
  qed
qed

section \<open>Interaction references\<close>

definition norm_interaction_ref :: "(string \<Rightarrow> string) \<Rightarrow> interaction_ref \<Rightarrow> interaction_ref" where
  "norm_interaction_ref nfc r =
    \<lparr>ir_Mode = norm_text nfc (ir_Mode r), ir_SessionID = norm_text nfc (ir_SessionID r),
     ir_CallID = norm_text nfc (ir_CallID r), ir_TurnID = norm_text nfc (ir_TurnID r),
     ir_TurnIndex = ir_TurnIndex r, ir_TurnStartedAt = norm_text nfc (ir_TurnStartedAt r),
     ir_TurnEndedAt = norm_text nfc (ir_TurnEndedAt r), ir_Jurisdiction = norm_text nfc (ir_Jurisdiction r),
     ir_ConsentState = norm_text nfc (ir_ConsentState r), ir_RedactionMode = norm_text nfc (ir_RedactionMode r)\<rparr>"

lemma interactionRefView_keys:
  "fst ` set (interactionRefView r) \<subseteq> set [''mode'', ''session_id'', ''call_id'', ''turn_id'', ''turn_index'',
     ''turn_started_at'', ''turn_ended_at'', ''jurisdiction'', ''consent_state'', ''redaction_mode'']"
  by (auto simp: interactionRefView_def)

lemma turn_index_view:
  assumes "nfc_laws nfc" and "field_repr nfc (VMap (interactionRefView r)) = Inr (Some (JObj ms))"
    and "- (2 ^ 63) \<le> ir_TurnIndex r" and "ir_TurnIndex r < 2 ^ 63"
  shows "int_field ''turn_index'' ms 0 = Some (ir_TurnIndex r)"
proof -
  note fv = field_values_view [OF assms(1) plain_keys_receipt(11) assms(2) folded_keys(4)
      interactionRefView_keys, of "''turn_index''"]
  show ?thesis
  proof (cases "ir_TurnIndex r = 0")
    case True
    then have "map_of (interactionRefView r) ''turn_index'' = None" by (simp add: interactionRefView_def)
    with fv(1,3) True show ?thesis by (simp add: int_field_def)
  next
    case False
    then have "map_of (interactionRefView r) ''turn_index'' = Some (VInt (ir_TurnIndex r))"
      by (simp add: interactionRefView_def)
    with fv(2) [of "VInt (ir_TurnIndex r)"]
    have "map_of ms ''turn_index'' = Some (JNum (show_int (ir_TurnIndex r)))" by simp
    with fv(1) parse_int64_show_int [of "ir_TurnIndex r"] assms(3,4) show ?thesis
      by (simp add: int_field_def)
  qed
qed

lemma decodeInteractionRef_view:
  assumes "nfc_laws nfc" and ms: "field_repr nfc (VMap (interactionRefView r)) = Inr (Some (JObj ms))"
    and "- (2 ^ 63) \<le> ir_TurnIndex r" and "ir_TurnIndex r < 2 ^ 63"
  shows "decodeInteractionRef ms zero_interaction_ref = Some (norm_interaction_ref nfc r)"
proof -
  note sf = string_field_view [OF assms(1) plain_keys_receipt(11) ms folded_keys(4) interactionRefView_keys]
  have "string_field ''mode'' ms [] = Some (norm_text nfc (ir_Mode r))"
    by (rule sf) (simp_all add: interactionRefView_def)
  moreover have "string_field ''session_id'' ms [] = Some (norm_text nfc (ir_SessionID r))"
    by (rule sf) (simp_all add: interactionRefView_def)
  moreover have "string_field ''call_id'' ms [] = Some (norm_text nfc (ir_CallID r))"
    by (rule sf) (simp_all add: interactionRefView_def)
  moreover have "string_field ''turn_id'' ms [] = Some (norm_text nfc (ir_TurnID r))"
    by (rule sf) (simp_all add: interactionRefView_def)
  moreover have "string_field ''turn_started_at'' ms [] = Some (norm_text nfc (ir_TurnStartedAt r))"
    by (rule sf) (simp_all add: interactionRefView_def)
  moreover have "string_field ''turn_ended_at'' ms [] = Some (norm_text nfc (ir_TurnEndedAt r))"
    by (rule sf) (simp_all add: interactionRefView_def)
  moreover have "string_field ''jurisdiction'' ms [] = Some (norm_text nfc (ir_Jurisdiction r))"
    by (rule sf) (simp_all add: interactionRefView_def)
  moreover have "string_field ''consent_state'' ms [] = Some (norm_text nfc (ir_ConsentState r))"
    by (rule sf) (simp_all add: interactionRefView_def)
  moreover have "string_field ''redaction_mode'' ms [] = Some (norm_text nfc (ir_RedactionMode r))"
    by (rule sf) (simp_all add: interactionRefView_def)
  moreover have "int_field ''turn_index'' ms 0 = Some (ir_TurnIndex r)"
    by (rule turn_index_view [OF assms])
  ultimately show ?thesis
    by (simp add: decodeInteractionRef_def zero_interaction_ref_def norm_interaction_ref_def)
qed

lemma interactionRefMap_zero:
  assumes "nfc_laws nfc" and "interactionRefMap (Some r) = VNilMap"
  shows "r = zero_interaction_ref"
  using assms(2)
  by (auto simp: interactionRefMap_def interactionRefView_def emptyToNil_def zero_interaction_ref_def
      split: if_splits)

theorem interaction_ref_roundtrip:
  assumes "nfc_laws nfc" and "Canonicalize nfc (VMap (receiptBody i)) = Inr b"
    and "\<forall>r. mi_InteractionRef i = Some r \<longrightarrow> - (2 ^ 63) \<le> ir_TurnIndex r \<and> ir_TurnIndex r < 2 ^ 63"
  shows "interactionRefFromBody b =
    (case mi_InteractionRef i of None \<Rightarrow> None
     | Some r \<Rightarrow> if r = zero_interaction_ref then None else Some (norm_interaction_ref nfc r))"
proof -
  obtain ms where ms: "json_parse b = Some (JObj ms)" "b \<noteq> []"
    and fr: "field_repr nfc (VMap (receiptBody i)) = Inr (Some (JObj ms))"
    by (rule receiptBody_parsed [OF assms(1,2)])
  note pf = ptr_field_view [OF assms(1) plain_keys_receipt(5) fr folded_keys(5) receiptBody_keys,
      of "''interaction_ref''"]
  show ?thesis
  proof (cases "interactionRefMap (mi_InteractionRef i) = VNilMap")
    case True
    then have "map_of (receiptBody i) ''interaction_ref'' = None" by (simp add: map_of_receiptBody_opt)
    with pf(1) have "ptr_field ''interaction_ref'' decodeInteractionRef zero_interaction_ref ms None = Some None"
      by simp
    with True ms interactionRefMap_zero [OF assms(1)] show ?thesis
      by (auto simp: interactionRefFromBody_def unmarshal_struct_def split: option.splits)
  next
    case False
    then obtain r where r: "mi_InteractionRef i = Some r" by (auto simp: interactionRefMap_def split: option.splits)
    with False have m: "interactionRefMap (mi_InteractionRef i) = VMap (interactionRefView r)"
      by (auto simp: interactionRefMap_def split: if_splits)
    then have "map_of (receiptBody i) ''interaction_ref'' = Some (VMap (interactionRefView r))"
      by (simp add: map_of_receiptBody_opt)
    then have "ptr_field ''interaction_ref'' decodeInteractionRef zero_interaction_ref ms None =
        Some (Some (norm_interaction_ref nfc r))"
      using assms(3) r by (intro pf(3) decodeInteractionRef_view [OF assms(1)]) simp_all
    moreover have "r \<noteq> zero_interaction_ref"
      using False r by (auto simp: interactionRefMap_def interactionRefView_def zero_interaction_ref_def
          emptyToNil_def)
    ultimately show ?thesis using r ms by (simp add: interactionRefFromBody_def unmarshal_struct_def)
  qed
qed

end
