(* ===== verification/Ledger_Audit.thy ===== *)
theory Ledger_Audit
  imports Ledger_Invariant Service_Facts Receipt_Facts
begin

text \<open>
  What an auditor finds in the ledger of a gateway, whatever was interleaved: the rows carry the key
  they are stored under, the signing key is recorded, and every receipt verifies.
\<close>

section \<open>Receipts that verify\<close>

text \<open>The body of such a receipt can only be read as a JSON object.\<close>

definition object_body :: "string \<Rightarrow> bool" where
  "object_body b \<longleftrightarrow> (\<forall>j. json_parse b = Some j \<longrightarrow> (\<exists>kvs. j = JObj kvs))"

lemma parse_value_object: "parse_value n (CHR ''{'' # s) = Some (j, t) \<Longrightarrow> \<exists>kvs. j = JObj kvs"
  by (cases n) (auto split: list.splits if_splits)

lemma Canonicalize_object:
  assumes "Canonicalize nfc (VMap kvs) = Inr b"
  shows "object_body b"
proof -
  obtain s where "b = CHR ''{'' # s" using assms by (auto simp: Canonicalize_def res_bind_Inr_iff)
  then show ?thesis
    by (auto simp: object_body_def json_parse_def simp del: parse_value.simps split: option.splits prod.splits if_splits
        dest: parse_value_object)
qed

definition verified_stored :: "prims \<Rightarrow> string \<Rightarrow> stored_receipt \<Rightarrow> bool" where
  "verified_stored pr pub x \<longleftrightarrow> VerifyReceipt pr x pub = Inr () \<and> object_body (sr_BodyJSON x)"

definition verified_record :: "prims \<Rightarrow> string \<Rightarrow> receipt_rec \<Rightarrow> bool" where
  "verified_record pr pub r \<longleftrightarrow> verified_stored pr pub (storedFromRecord r)"

lemma verified_record_stored [simp]:
  "verified_record pr pub (receiptRecordFromStored x) = verified_stored pr pub x"
  by (simp add: verified_record_def verified_stored_def VerifyReceipt_def storedFromRecord_def
      receiptRecordFromStored_def Let_def)

definition audited :: "service \<Rightarrow> string \<Rightarrow> ledger_view \<Rightarrow> bool" where
  "audited sv pub v \<longleftrightarrow>
     (\<forall>rid r. lv_receipts v rid = Some r \<longrightarrow>
        verified_record (sv_Prims sv) pub r \<and> lr_KeyID r = sg_KeyID (sv_Signer sv)) \<and>
     (\<forall>kid row. lv_keys v kid = Some row \<longrightarrow> kr_PublicKey row = pub)"

text \<open>The receipts a call carries between its steps, signed by the service.\<close>

definition signed_here :: "service \<Rightarrow> string \<Rightarrow> stored_receipt \<Rightarrow> bool" where
  "signed_here sv pub x \<longleftrightarrow> verified_stored (sv_Prims sv) pub x \<and> sr_KeyID x = sg_KeyID (sv_Signer sv)"

fun pc_audited :: "service \<Rightarrow> string \<Rightarrow> pc \<Rightarrow> bool" where
  "pc_audited sv pub (PReadyCommit x role ttl) = signed_here sv pub x"
| "pc_audited sv pub (PCommit p) = signed_here sv pub (pp_Base p)"
| "pc_audited sv pub (PPersist i x creds) = signed_here sv pub x"
| "pc_audited sv pub _ = True"

text \<open>A service whose signer and published key belong together.\<close>

definition key_pair_of :: "service \<Rightarrow> string \<Rightarrow> bool" where
  "key_pair_of sv pub \<longleftrightarrow>
     prims_laws (sv_Prims sv) \<and> signer_for (sv_Prims sv) (sv_Signer sv) pub \<and> sv_PublicKey sv = Some pub"

lemma made_audited:
  assumes "key_pair_of sv pub" and "MakeReceipt (sv_Prims sv) nfc i (sv_Signer sv) = Inr x"
  shows "signed_here sv pub x"
proof -
  have "object_body (sr_BodyJSON x)" by (rule MakeReceipt_Inr [OF assms(2)]) (simp add: Canonicalize_object)
  with assms make_verify [OF _ _ assms(2)] MakeReceipt_fields [OF assms(2)] show ?thesis
    by (simp add: key_pair_of_def verified_stored_def signed_here_def)
qed

lemma audited_cong:
  "lv_receipts v = lv_receipts w \<Longrightarrow> lv_keys v = lv_keys w \<Longrightarrow> audited sv pub v = audited sv pub w"
  by (simp add: audited_def)

lemma prepare_audited:
  "key_pair_of sv pub \<Longrightarrow> prepare sv c k = Inr p \<Longrightarrow> signed_here sv pub (pp_Base p)"
  by (auto simp: prepare_def res_bind_Inr_iff Let_def dest: made_audited)

lemma readyPlan_audited:
  "key_pair_of sv pub \<Longrightarrow> readyPlan sv L c k i s = Inr (x, role, ttl) \<Longrightarrow> signed_here sv pub x"
  by (auto simp: readyPlan_def res_bind_Inr_iff Let_def split: option.splits if_splits dest: made_audited)

lemma mint_audited:
  "key_pair_of sv pub \<Longrightarrow> mintCredentials sv c k i role ttl = Inr (x, creds) \<Longrightarrow> signed_here sv pub x"
  by (auto simp: mintCredentials_def res_bind_Inr_iff dest: made_audited)

definition gw_audited :: "('s \<Rightarrow> ledger_view) \<Rightarrow> service \<Rightarrow> string \<Rightarrow> 's gateway \<Rightarrow> bool" where
  "gw_audited view sv pub g \<longleftrightarrow> audited sv pub (view (gw_Store g)) \<and>
     (\<forall>t th. gw_Threads g t = Some th \<longrightarrow> pc_audited sv pub (th_Pc th))"

context exact_ledger
begin

abbreviation keeps_audit :: "service \<Rightarrow> string \<Rightarrow> ('a, 'b) tx \<Rightarrow> bool" where
  "keeps_audit sv pub \<equiv> preserves (\<lambda>s. audited sv pub (view s))"

lemma keeps_others:
  "keeps_audit sv pub (tx_put (PutSlackOutbox L b))" "keeps_audit sv pub (tx_put (PutPolicyVersion L c))"
  "keeps_audit sv pub (tx_put (PutContext L d))" "keeps_audit sv pub (tx_put (PutDecision L e))"
  "keeps_audit sv pub (tx_put (PutApproval L g))" "keeps_audit sv pub (tx_put (PutIdempotencyKey L h))"
proof -
  show "keeps_audit sv pub (tx_put (PutSlackOutbox L b))"
    by (rule preserves_put, drule put_outbox) (auto simp: audited_def)
  show "keeps_audit sv pub (tx_put (PutPolicyVersion L c))"
    by (rule preserves_put, drule put_policy) (auto simp: audited_def)
  show "keeps_audit sv pub (tx_put (PutContext L d))"
    by (rule preserves_put, drule put_context) (auto simp: audited_def)
  show "keeps_audit sv pub (tx_put (PutDecision L e))"
    by (rule preserves_put, drule put_decision) (auto simp: audited_def)
  show "keeps_audit sv pub (tx_put (PutApproval L g))"
    by (rule preserves_put, drule put_approval) (auto simp: audited_def)
  show "keeps_audit sv pub (tx_put (PutIdempotencyKey L h))"
    by (rule preserves_put, drule put_idem) (auto simp: audited_def)
qed

lemma keeps_signing_key: "key_pair_of sv pub \<Longrightarrow> keeps_audit sv pub (putSigningKey sv L c)"
  by (auto intro!: preserves_put dest!: put_key simp: audited_def kept_or_new_def key_like_def putSigningKey_def key_pair_of_def
      split: if_splits)

lemma keeps_receipt:
  "signed_here sv pub x \<Longrightarrow> keeps_audit sv pub (tx_put (PutReceipt L (receiptRecordFromStored x)))"
proof (rule preserves_put)
  fix s t
  assume x: "signed_here sv pub x" and a: "audited sv pub (view s)"
    and p: "PutReceipt L (receiptRecordFromStored x) s = Inr t"
  let ?k = "lr_ReceiptID (receiptRecordFromStored x)"
  from put_receipt [OF p] obtain r' where
    t: "view t = (view s)\<lparr>lv_receipts := (lv_receipts (view s))(?k \<mapsto> r')\<rparr>" by blast
  with exact_receipt [OF p] consider "r' = receiptRecordFromStored x" | "lv_receipts (view s) ?k = Some r'"
    by fastforce
  then have "verified_record (sv_Prims sv) pub r' \<and> lr_KeyID r' = sg_KeyID (sv_Signer sv)"
  proof cases
    case 1
    with x show ?thesis by (simp add: signed_here_def) (simp add: receiptRecordFromStored_def)
  qed (use a in \<open>auto simp: audited_def\<close>)
  with a t show "audited sv pub (view t)" by (auto simp: audited_def)
qed

lemmas keeps_rules = preserves_return preserves_fail preserves_get preserves_bind
  keeps_others keeps_signing_key keeps_receipt

lemma firstTx_audit:
  "key_pair_of sv pub \<Longrightarrow> signed_here sv pub (pp_Base p) \<Longrightarrow> keeps_audit sv pub (firstTx sv L c p)"
  unfolding firstTx_def pendingTx_def Let_def
  by (auto intro!: keeps_rules split: option.splits)

lemma readyTx_audit:
  "key_pair_of sv pub \<Longrightarrow> signed_here sv pub x \<Longrightarrow> keeps_audit sv pub (readyTx sv L c k x)"
  unfolding readyTx_def by (auto intro!: keeps_rules split: option.splits)

lemma finalTx_audit:
  "key_pair_of sv pub \<Longrightarrow> signed_here sv pub x \<Longrightarrow> keeps_audit sv pub (finalTx sv L c k x)"
  unfolding finalTx_def by (auto intro!: keeps_rules split: option.splits)

lemma approveTx_audit:
  assumes "key_pair_of sv pub"
  shows "keeps_audit sv pub (approveTx sv L a st c)"
proof -
  have "keeps_audit sv pub (applyApproval sv L a st c ap)" for ap
    unfolding applyApproval_def
    by (auto intro!: keeps_rules split: option.splits sum.splits) (erule made_audited [OF assms])
  then show ?thesis
    unfolding approveTx_def using assms by (auto intro!: keeps_rules split: option.splits)
qed

section \<open>The whole gateway\<close>

lemma put_best_effort_keeps: "keeps_audit sv pub (tx_put p) \<Longrightarrow> audited sv pub (view s) \<Longrightarrow>
    audited sv pub (view (put_best_effort p s))"
  by (auto simp: put_best_effort_def preserves_def wp_put split: sum.splits)

lemma writeRow_audit:
  assumes "audited sv pub (view s)" and "writeRow L env now n rec approval s = (r, t)"
  shows "audited sv pub (view t)"
  using assms preservesD [OF keeps_others(1)] put_best_effort_keeps [OF keeps_others(5) assms(1)]
  by (auto simp: writeRow_def split: if_splits option.splits sum.splits)

lemma processRows_audit:
  "audited sv pub (view s) \<Longrightarrow> processRows L env now n p due s = (x, t) \<Longrightarrow> audited sv pub (view t)"
proof (induction due arbitrary: n p s)
  case (Cons rec due)
  then show ?case
    by (cases "processRow L env now n rec s")
      (auto simp: processRow_def tx_bind_get dest: writeRow_audit split: if_splits sum.splits)
qed simp

lemma kickOutbox_audit:
  assumes "audited sv' pub (view s)"
  shows "audited sv' pub (view (kickOutbox sv L c p s))"
proof -
  have "audited sv' pub (view (snd (processRows L x now n m due s)))" for x now n m due
    using assms by (auto intro: processRows_audit [OF assms, of x now n m due, OF prod.collapse [symmetric]])
  with assms show ?thesis
    by (auto simp: kickOutbox_def ProcessOutboxDue_def Let_def split: option.splits sum.splits)
qed

lemma tx_audit:
  "keeps_audit sv pub fn \<Longrightarrow> WithTx L fn s = (r, t) \<Longrightarrow> audited sv pub (view s) \<Longrightarrow> audited sv pub (view t)"
  by (rule preservesD [OF preserves_tx])

lemma auth_step_audit:
  assumes "key_pair_of sv pub" and "audited sv pub (view s)" and "pc_audited sv pub pc"
    and "auth_step sv L c k pc s = ((pc', evs), t)"
  shows "audited sv pub (view t) \<and> pc_audited sv pub pc'"
proof (cases pc)
  case PLookup
  with assms show ?thesis
    by (auto simp: lookupStep_def dest: prepare_audited split: option.splits sum.splits idem_status.splits)
next
  case (PReady i)
  with assms show ?thesis by (auto dest: readyPlan_audited split: sum.splits)
next
  case (PReadyCommit x role ttl)
  with assms tx_audit [OF readyTx_audit] show ?thesis by (auto split: prod.splits sum.splits)
next
  case (PRetry i)
  with assms show ?thesis by (auto split: sum.splits)
next
  case (PCommit p)
  with assms tx_audit [OF firstTx_audit] show ?thesis by (auto split: prod.splits sum.splits)
next
  case (PLost e)
  with assms show ?thesis by (auto split: option.splits)
next
  case (PKick p)
  with assms kickOutbox_audit show ?thesis by (auto simp: firstPlan_def split: if_splits)
next
  case (PFinalize x role ttl)
  with assms show ?thesis by (auto simp: mintStep_def dest: mint_audited split: sum.splits)
next
  case (PPersist i x creds)
  with assms tx_audit [OF finalTx_audit] show ?thesis
    by (auto simp: persistIssuance_def split: prod.splits sum.splits)
qed (use assms in auto)

lemma gw_audited_step:
  assumes "key_pair_of sv pub" and "gw_audited view sv pub g" and "gw_step sv L g g'"
  shows "gw_audited view sv pub g'"
  using assms(3)
proof (cases rule: gw_step.cases)
  case (advance t th pc' evs s')
  from auth_step_audit [OF assms(1) _ _ advance(3)] assms(2) advance show ?thesis
    by (auto simp: gw_audited_def)
next
  case (approve approvalID status createdAt r s')
  with tx_audit [OF approveTx_audit [OF assms(1)]] assms(2) show ?thesis
    by (auto simp: gw_audited_def Approve_def split: option.splits approval_status.splits)
next
  case (outbox_write j r s')
  with assms(2) writeRow_audit [OF _ outbox_write(3)] show ?thesis by (auto simp: gw_audited_def)
qed (use assms(2) in \<open>auto simp: gw_audited_def split: if_splits\<close>)

theorem gw_audited_reach:
  assumes "key_pair_of sv pub" and "view s = empty_view" and "gw_reach sv L (gw_init s) g"
  shows "gw_audited view sv pub g"
  using assms(3)
proof induction
  case reach_refl
  show ?case by (simp add: gw_audited_def gw_init_def assms(2) audited_def empty_view_def)
next
  case (reach_step g g')
  then show ?case by (blast intro: gw_audited_step [OF assms(1)])
qed

end

end
