(* ===== verification/Http_Facts.thy ===== *)
theory Http_Facts
  imports Http_Pages Ledger_Audit
begin

text \<open>
  What the HTTP interface promises: which requests reach the ledger, that intents with numbers are
  refused, and that receipts which verify are reported as valid.
\<close>

section \<open>Requests that change the ledger\<close>

lemma answerOf_apply:
  "answerOf out = (r, s') \<Longrightarrow> s' = snd out"
  by (auto simp: answerOf_def split: prod.splits sum.splits)

definition authorized_call ::
  "http_env \<Rightarrow> 's handler \<Rightarrow> http_request \<Rightarrow> service \<times> 's ledger \<Rightarrow> call \<Rightarrow> bool"
where
  "authorized_call e h r svc c \<longleftrightarrow>
     hd_Service h = Some svc \<and> (\<exists>c0. hd_Auth h 0 r = Inr c0) \<and>
     (\<exists>claims q. hd_Auth h 1 r = Inr claims \<and> readRequest (pe_Float64 (he_Pack e)) r = Some q \<and>
        c = callOf e claims q)"

lemma HandleAuthorize_cases:
  assumes "HandleAuthorize e h r s = (resp, s')"
  shows "(s' = s \<and> hs_Status resp \<in> {400, 401, 501}) \<or>
    (\<exists>sv L c. authorized_call e h r (sv, L) c \<and> answerOf (Authorize sv L c s) = (resp, s'))"
proof (cases "ensureAuth h r")
  case (Some refusal)
  with assms show ?thesis
    by (auto simp: HandleAuthorize_def ensureAuth_def writeError_def writeJSON_def split: sum.splits)
next
  case None
  then obtain c0 where "hd_Auth h 0 r = Inr c0" by (auto simp: ensureAuth_def split: sum.splits)
  then show ?thesis using assms None
    by (auto simp: HandleAuthorize_def authorized_call_def writeError_def writeJSON_def
        split: option.splits sum.splits)
qed

definition signed_interaction :: "prims \<Rightarrow> string \<Rightarrow> int \<Rightarrow> http_request \<Rightarrow> bool" where
  "signed_interaction pr secret now r \<longleftrightarrow>
     (\<exists>body ts. hq_Body r = Inr body \<and> parse_int64 (hq_Header r ''X-Slack-Request-Timestamp'') = Some ts \<and>
        \<bar>now - 1000000000 * ts\<bar> \<le> 300000000000 \<and>
        hq_Header r ''X-Slack-Signature'' =
          slackSignature pr secret (hq_Header r ''X-Slack-Request-Timestamp'') body)"

text \<open>A clock between the years 1 and 9999, in nanoseconds since 1970.\<close>

definition plausible_clock :: "int \<Rightarrow> bool" where
  "plausible_clock now \<longleftrightarrow> - 62135596800000000000 \<le> now \<and> now < 253402300800000000000"

lemma HandleInteractions_signed:
  assumes "HandleInteractions pr h now1 now2 r s = (status, s')" and "ih_SigningSecret h \<noteq> []"
    and "plausible_clock now1"
  shows "(s' = s \<and> status \<in> {400, 401, 501}) \<or> signed_interaction pr (ih_SigningSecret h) now1 r"
  using HandleInteractions_cases [OF assms(1,2)]
proof (elim disjE exE conjE)
  fix approver body ts
  assume b: "hq_Body r = Inr body" and ts: "parse_int64 (hq_Header r ''X-Slack-Request-Timestamp'') = Some ts"
    and near: "\<bar>now1 - time_Unix ts\<bar> \<le> 300000000000"
    and sig: "hq_Header r ''X-Slack-Signature'' =
      slackSignature pr (ih_SigningSecret h) (hq_Header r ''X-Slack-Request-Timestamp'') body"
  have "time_Unix ts = 1000000000 * ts"
    using parse_int64_range [OF ts] near assms(3) unfolding plausible_clock_def
    by (intro time_Unix_near) auto
  with b ts near sig show ?thesis by (auto simp: signed_interaction_def)
qed simp

lemma serve_changes:
  assumes "serve e h r s = (resp, s')" and "s' \<noteq> s"
  shows "(findHandler (hq_EscapedPath r) = ToEndpoint Authorize_EP \<and>
      (\<exists>sv L c. authorized_call e h r (sv, L) c \<and> answerOf (Authorize sv L c s) = (resp, s'))) \<or>
    (findHandler (hq_EscapedPath r) = ToEndpoint Slack_EP \<and>
      (\<exists>ih. hd_Slack h = Some ih \<and> snd (HandleInteractions (pe_Prims (he_Pack e)) ih (fst (he_Clock e))
         (snd (he_Clock e)) r s) = s' \<and>
       HandleInteractions (pe_Prims (he_Pack e)) ih (fst (he_Clock e)) (snd (he_Clock e)) r s =
         (hs_Status resp, s')))"
proof (cases "findHandler (hq_EscapedPath r)")
  case (ToEndpoint p)
  show ?thesis
  proof (cases p)
    case Authorize_EP
    with ToEndpoint assms have "HandleAuthorize e h r s = (resp, s')" by (simp add: serve_def)
    from HandleAuthorize_cases [OF this] assms(2) Authorize_EP ToEndpoint show ?thesis by blast
  next
    case Slack_EP
    with ToEndpoint assms show ?thesis
      by (auto simp: serve_def SlackInteractions_def plainResponse_def split: option.splits prod.splits)
  qed (use ToEndpoint assms in \<open>simp_all add: serve_def\<close>)
qed (use assms in \<open>simp_all add: serve_def\<close>)

section \<open>Intents with numbers\<close>

text \<open>A number that \<open>encoding/json\<close> decoded, at any depth.\<close>

fun has_float :: "goval \<Rightarrow> bool" where
  "has_float (VFloat f) = True"
| "has_float (VMap kvs) = list_ex (\<lambda>kv. has_float (snd kv)) kvs"
| "has_float (VSlice vs) = list_ex has_float vs"
| "has_float _ = False"

lemma collectEntries_kept:
  "collectEntries nfc strip seen kvs = Inr es \<Longrightarrow> kv \<in> set kvs \<Longrightarrow> \<not> isNilValue (snd kv) \<Longrightarrow>
   snd kv \<in> snd ` set es"
proof (induction kvs arbitrary: seen es)
  case (Cons p kvs)
  obtain k v where p: "p = (k, v)" by (cases p)
  with Cons show ?case by (fastforce simp: Let_def res_bind_Inr_iff split: if_splits)
qed simp

lemma has_float_not_nil: "has_float v \<Longrightarrow> \<not> isNilValue v"
  by (cases v) simp_all

lemma res_mapM_elem: "res_mapM f xs = Inr ys \<Longrightarrow> x \<in> set xs \<Longrightarrow> \<exists>y. f x = Inr y"
  by (induction xs arbitrary: ys) (auto simp: res_bind_Inr_iff)

lemma writeValue_float_free: "writeValue nfc strip v = Inr b \<Longrightarrow> \<not> has_float v"
proof (induction nfc strip v arbitrary: b rule: writeValue.induct)
  case (12 nfc strip kvs)
  from "12.prems" obtain es ts where es: "collectEntries nfc strip [] kvs = Inr es"
    and ts: "res_mapM (\<lambda>kv. res_bind (writeValue nfc strip (snd kv))
        (\<lambda>t. Inr (writeString nfc (fst kv) @ CHR '':'' # t))) (sort_key fst es) = Inr ts"
    by (auto simp: res_bind_Inr_iff)
  have "\<not> has_float (snd kv)" if kv: "kv \<in> set kvs" for kv
  proof
    assume f: "has_float (snd kv)"
    from collectEntries_kept [OF es kv] has_float_not_nil [OF f] obtain kv' where
      kv': "kv' \<in> set (sort_key fst es)" "snd kv' = snd kv" by auto
    from res_mapM_elem [OF ts kv'(1)] obtain t where "writeValue nfc strip (snd kv') = Inr t"
      by (auto simp: res_bind_Inr_iff)
    from "12.IH" [OF es kv'(1) this] f kv'(2) show False by simp
  qed
  then show ?case by (simp add: list_ex_iff)
next
  case (14 nfc strip vs)
  from "14.prems" obtain ts where ts: "res_mapM (writeValue nfc strip) vs = Inr ts"
    by (auto simp: res_bind_Inr_iff)
  have "\<not> has_float v" if v: "v \<in> set vs" for v
  proof -
    from res_mapM_elem [OF ts v] obtain t where "writeValue nfc strip v = Inr t" ..
    from "14.IH" [OF v this] show ?thesis .
  qed
  then show ?case by (simp add: list_ex_iff)
qed simp_all

text \<open>Every number of a request is decoded to a float.\<close>

lemma any_of_json_number: "any_of_json float64 (JNum n) = Some v \<Longrightarrow> has_float v"
  by auto

lemma ComputeIdemKey_float:
  assumes "has_float (aq_Intent q)"
  shows "\<exists>err. ComputeIdemKey pr nfc actor q = Inl err"
proof (cases "ComputeIdemKey pr nfc actor q")
  case (Inr k)
  then obtain b where "writeValue nfc True (VMap (idemPayload actor q)) = Inr b"
    by (auto simp: ComputeIdemKey_Inr Canonicalize_def)
  from writeValue_float_free [OF this] assms have False
    by (auto simp: idemPayload_def list_ex_iff split: if_splits)
  then show ?thesis ..
qed blast

section \<open>Receipts that verify\<close>

lemma validAnswer_valid:
  assumes "object_body (lr_BodyJSON rec)"
  shows "\<exists>grade reasons body. shownReceipt (pe_Float64 (he_Pack e)) rec = Inr body \<and>
    validAnswer e L receiptID rec s = writeJSON 200 (PAny (VMap
    [(''receipt_id'', VStr receiptID), (''valid'', VBool True), (''grade'', VStr grade),
     (''grade_info'', VMap [(''reasons'', VSlice (map VStr reasons))]), (''receipt'', body)]))"
proof -
  have "\<exists>body. shownReceipt f rec = Inr body" for f
  proof (cases "json_parse (lr_BodyJSON rec)")
    case (Some j)
    with assms obtain kvs where "j = JObj kvs" by (auto simp: object_body_def)
    with Some show ?thesis by (auto simp: shownReceipt_def split: option.splits)
  qed (simp add: shownReceipt_def)
  then obtain body where "shownReceipt (pe_Float64 (he_Pack e)) rec = Inr body" by blast
  then show ?thesis by (simp add: validAnswer_def gradeInfo_def Let_def) blast
qed

lemma verified_part: "VerifyReceipt pr (verifiedPart r) key = VerifyReceipt pr (storedFromRecord r) key"
  by (simp add: VerifyReceipt_def verifiedPart_def storedFromRecord_def Let_def)

definition known_receipt :: "service \<Rightarrow> 's ledger \<Rightarrow> string \<Rightarrow> receipt_rec \<Rightarrow> 's \<Rightarrow> bool" where
  "known_receipt sv L pub rec s \<longleftrightarrow>
     verified_record (sv_Prims sv) pub rec \<and> sv_PublicKey sv = Some pub \<and>
     (\<forall>row. GetKey L (lr_KeyID rec) s = Some row \<longrightarrow> kr_PublicKey row = pub)"

lemma HandleVerify_valid:
  assumes "hd_Service h = Some (sv, L)" and "hd_Auth h 0 r = Inr c"
    and "hq_Path r = ''/v1/verify/'' @ receiptID" and "receiptID \<noteq> []"
    and "GetReceipt L receiptID s = Some rec" and "known_receipt sv L pub rec s"
  shows "\<exists>grade reasons body. shownReceipt (pe_Float64 (he_Pack e)) rec = Inr body \<and>
    HandleVerify e h r s = writeJSON 200 (PAny (VMap
    [(''receipt_id'', VStr receiptID), (''valid'', VBool True), (''grade'', VStr grade),
     (''grade_info'', VMap [(''reasons'', VSlice (map VStr reasons))]), (''receipt'', body)]))"
proof -
  from assms(6) have v: "VerifyReceipt (sv_Prims sv) (verifiedPart rec) pub = Inr ()"
    and o: "object_body (lr_BodyJSON rec)" and k: "verifyKeyOf sv L rec s = Some pub"
    by (auto simp: known_receipt_def verified_record_def verified_stored_def verified_part verifyKeyOf_def
        storedFromRecord_def split: option.splits)
  have "HandleVerify e h r s = validAnswer e L receiptID rec s"
    using assms(1-5) v k
    by (simp add: HandleVerify_def ensureAuth_def verifyAnswer_def trim_prefix_def)
  with validAnswer_valid [OF o] show ?thesis by simp
qed

lemma HandleVerifyPage_valid:
  assumes "hd_Service h = Some (sv, L)" and "hd_PublicVerify h"
    and "hq_Path r = ''/verify/'' @ receiptID" and "receiptID \<noteq> []"
    and "GetReceipt L receiptID s = Some rec" and "known_receipt sv L pub rec s"
  shows "\<exists>v. HandleVerifyPage e h r s = pageResponse v \<and> vw_Valid v \<and> vw_Error v = [] \<and> vw_ReceiptID v = receiptID"
proof -
  from assms(6) have v: "VerifyReceipt (sv_Prims sv) (verifiedPart rec) pub = Inr ()"
    and own: "sv_PublicKey sv = Some pub"
    and k: "(case GetKey L (lr_KeyID rec) s of None \<Rightarrow> pub | Some k \<Rightarrow> kr_PublicKey k) = pub"
    by (auto simp: known_receipt_def verified_record_def verified_stored_def verified_part split: option.splits)
  have "HandleVerifyPage e h r s = pageAnswer e sv L pub receiptID rec s"
    using assms(1-5) own by (simp add: HandleVerifyPage_def trim_prefix_def)
  also have "\<exists>v. \<dots> = pageResponse v \<and> vw_Valid v \<and> vw_Error v = [] \<and> vw_ReceiptID v = receiptID"
    unfolding pageAnswer_def k Let_def v by (auto simp: viewOf_def)
  finally show ?thesis .
qed

end
