(* ===== verification/Tables.thy ===== *)
theory Tables
  imports Go_Prelude
begin

text \<open>
  A table of rows under a string key, the representation of a Go \<open>map[string]Rec\<close> and of a SQL
  table with a text primary key.  \<open>table_rows\<close> lists the live rows; a consumer that depends on
  their order takes a permutation as a parameter.
\<close>

type_synonym 'r table = "(string \<times> 'r) list"

definition table_get :: "'r table \<Rightarrow> string \<Rightarrow> 'r option" where
  "table_get t k = map_of t k"

definition table_put :: "string \<Rightarrow> 'r \<Rightarrow> 'r table \<Rightarrow> 'r table" where
  "table_put k r t = AList.update k r t"

definition table_rows :: "'r table \<Rightarrow> 'r list" where
  "table_rows t = map snd (AList.clearjunk t)"

text \<open>\<open>INSERT ... ON CONFLICT DO NOTHING\<close> and \<open>ON CONFLICT DO UPDATE\<close> on the primary key.\<close>

definition table_insert_new :: "string \<Rightarrow> 'r \<Rightarrow> 'r table \<Rightarrow> 'r table" where
  "table_insert_new k r t = (case table_get t k of None \<Rightarrow> table_put k r t | Some _ \<Rightarrow> t)"

definition table_upsert :: "string \<Rightarrow> 'r \<Rightarrow> ('r \<Rightarrow> 'r) \<Rightarrow> 'r table \<Rightarrow> 'r table" where
  "table_upsert k r upd t = (case table_get t k of None \<Rightarrow> table_put k r t | Some q \<Rightarrow> table_put k (upd q) t)"

lemma table_get_Nil [simp]: "table_get [] k = None"
  by (simp add: table_get_def)

lemma table_get_put [simp]: "table_get (table_put k r t) = (table_get t)(k \<mapsto> r)"
  by (rule ext) (simp add: table_get_def table_put_def update_conv)

lemma table_rows_ran: "set (table_rows t) = ran (table_get t)"
proof -
  have "ran (map_of (AList.clearjunk t)) = snd ` set (AList.clearjunk t)"
    by (rule ran_distinct) (simp add: distinct_clearjunk)
  then show ?thesis by (simp add: table_rows_def table_get_def [abs_def] map_of_clearjunk)
qed

lemma table_get_insert_new:
  "table_get (table_insert_new k r t) =
    (case table_get t k of None \<Rightarrow> (table_get t)(k \<mapsto> r) | Some _ \<Rightarrow> table_get t)"
  by (simp add: table_insert_new_def split: option.splits)

lemma table_get_upsert:
  "table_get (table_upsert k r upd t) =
    (table_get t)(k \<mapsto> (case table_get t k of None \<Rightarrow> r | Some q \<Rightarrow> upd q))"
  by (simp add: table_upsert_def split: option.splits)

text \<open>The row of a query with at most one match, in the order the rows come.\<close>

lemma find_Some_in: "List.find P xs = Some x \<Longrightarrow> x \<in> set xs \<and> P x"
  by (induction xs) (auto split: if_splits)

lemma find_None_all: "List.find P xs = None \<Longrightarrow> \<forall>x \<in> set xs. \<not> P x"
  by (induction xs) (auto split: if_splits)

end
