(* ===== verification/Memory_Store.thy ===== *)
theory Memory_Store
  imports Ledger_Store Tables
begin

text \<open>
  \<open>internal/ledger/memory_store.go\<close>: the tables are Go maps, a put overwrites, and \<open>WithTx\<close>
  only takes the lock, so a failing transaction keeps the writes it made before it failed.
  The two loops over a map take its iteration order as a parameter.
\<close>

record mem_state =
  ms_keys :: "key_rec table"
  ms_outbox :: "slack_outbox_rec table"
  ms_policies :: "policy_version_rec table"
  ms_contexts :: "context_rec table"
  ms_decisions :: "decision_rec table"
  ms_receipts :: "receipt_rec table"
  ms_approvals :: "approval_rec table"
  ms_idemKeys :: "idem_rec table"

definition NewInMemoryStore :: mem_state where
  "NewInMemoryStore =
     \<lparr>ms_keys = [], ms_outbox = [], ms_policies = [], ms_contexts = [], ms_decisions = [],
      ms_receipts = [], ms_approvals = [], ms_idemKeys = []\<rparr>"

record mem_order =
  mo_outbox :: "slack_outbox_rec list \<Rightarrow> slack_outbox_rec list"
  mo_approvals :: "approval_rec list \<Rightarrow> approval_rec list"

definition mem_PutKey :: "key_rec \<Rightarrow> mem_state \<Rightarrow> mem_state res" where
  "mem_PutKey r s = Inr (s\<lparr>ms_keys := table_put (kr_KeyID r) r (ms_keys s)\<rparr>)"

definition mem_GetKey :: "string \<Rightarrow> mem_state \<Rightarrow> key_rec option" where
  "mem_GetKey k s = table_get (ms_keys s) k"

definition mem_PutSlackOutbox :: "slack_outbox_rec \<Rightarrow> mem_state \<Rightarrow> mem_state res" where
  "mem_PutSlackOutbox r s = Inr (s\<lparr>ms_outbox := table_put (so_NotificationID r) r (ms_outbox s)\<rparr>)"

definition mem_GetSlackOutbox :: "string \<Rightarrow> mem_state \<Rightarrow> slack_outbox_rec option" where
  "mem_GetSlackOutbox k s = table_get (ms_outbox s) k"

text \<open>The loop of \<open>ListSlackOutboxDue\<close>; \<open>out\<close> is the slice built so far.\<close>

fun mem_dueLoop ::
  "string \<Rightarrow> int \<Rightarrow> slack_outbox_rec list \<Rightarrow> slack_outbox_rec list \<Rightarrow> slack_outbox_rec list"
where
  "mem_dueLoop now limit out [] = out"
| "mem_dueLoop now limit out (rec # recs) =
    (if so_Status rec \<noteq> ''pending'' then mem_dueLoop now limit out recs
     else if so_NextAttemptAt rec > now then mem_dueLoop now limit out recs
     else let out' = out @ [rec]
          in if limit > 0 \<and> int (length out') \<ge> limit then out'
             else mem_dueLoop now limit out' recs)"

definition mem_ListSlackOutboxDue ::
  "mem_order \<Rightarrow> string \<Rightarrow> int \<Rightarrow> mem_state \<Rightarrow> slack_outbox_rec list res"
where
  "mem_ListSlackOutboxDue ord now limit s =
    Inr (mem_dueLoop now limit [] (mo_outbox ord (table_rows (ms_outbox s))))"

definition mem_PutPolicyVersion :: "policy_version_rec \<Rightarrow> mem_state \<Rightarrow> mem_state res" where
  "mem_PutPolicyVersion r s = Inr (s\<lparr>ms_policies := table_put (pv_PolicyHash r) r (ms_policies s)\<rparr>)"

definition mem_GetPolicyVersion :: "string \<Rightarrow> mem_state \<Rightarrow> policy_version_rec option" where
  "mem_GetPolicyVersion k s = table_get (ms_policies s) k"

definition mem_PutContext :: "context_rec \<Rightarrow> mem_state \<Rightarrow> mem_state res" where
  "mem_PutContext r s = Inr (s\<lparr>ms_contexts := table_put (lc_ContextID r) r (ms_contexts s)\<rparr>)"

definition mem_GetContext :: "string \<Rightarrow> mem_state \<Rightarrow> context_rec option" where
  "mem_GetContext k s = table_get (ms_contexts s) k"

definition mem_PutDecision :: "decision_rec \<Rightarrow> mem_state \<Rightarrow> mem_state res" where
  "mem_PutDecision r s = Inr (s\<lparr>ms_decisions := table_put (ld_DecisionID r) r (ms_decisions s)\<rparr>)"

definition mem_GetDecision :: "string \<Rightarrow> mem_state \<Rightarrow> decision_rec option" where
  "mem_GetDecision k s = table_get (ms_decisions s) k"

definition mem_PutReceipt :: "receipt_rec \<Rightarrow> mem_state \<Rightarrow> mem_state res" where
  "mem_PutReceipt r s = Inr (s\<lparr>ms_receipts := table_put (lr_ReceiptID r) r (ms_receipts s)\<rparr>)"

definition mem_GetReceipt :: "string \<Rightarrow> mem_state \<Rightarrow> receipt_rec option" where
  "mem_GetReceipt k s = table_get (ms_receipts s) k"

definition mem_PutApproval :: "approval_rec \<Rightarrow> mem_state \<Rightarrow> mem_state res" where
  "mem_PutApproval r s = Inr (s\<lparr>ms_approvals := table_put (la_ApprovalID r) r (ms_approvals s)\<rparr>)"

definition mem_GetApproval :: "string \<Rightarrow> mem_state \<Rightarrow> approval_rec option" where
  "mem_GetApproval k s = table_get (ms_approvals s) k"

definition mem_GetApprovalByIdemKey :: "mem_order \<Rightarrow> string \<Rightarrow> mem_state \<Rightarrow> approval_rec option" where
  "mem_GetApprovalByIdemKey ord k s =
    List.find (\<lambda>approval. la_IdemKey approval = k) (mo_approvals ord (table_rows (ms_approvals s)))"

definition mem_PutIdempotencyKey :: "idem_rec \<Rightarrow> mem_state \<Rightarrow> mem_state res" where
  "mem_PutIdempotencyKey r s = Inr (s\<lparr>ms_idemKeys := table_put (ik_IdemKey r) r (ms_idemKeys s)\<rparr>)"

definition mem_GetIdempotencyKey :: "string \<Rightarrow> mem_state \<Rightarrow> idem_rec option" where
  "mem_GetIdempotencyKey k s = table_get (ms_idemKeys s) k"

text \<open>\<open>WithTx\<close>: whatever \<open>fn\<close> has written stays.\<close>

definition mem_Rollback :: "mem_state \<Rightarrow> mem_state \<Rightarrow> mem_state" where
  "mem_Rollback s s' = s'"

definition mem_ledger :: "mem_order \<Rightarrow> mem_state ledger" where
  "mem_ledger ord =
     \<lparr>PutKey = mem_PutKey, GetKey = mem_GetKey,
      PutSlackOutbox = mem_PutSlackOutbox, GetSlackOutbox = mem_GetSlackOutbox,
      ListSlackOutboxDue = mem_ListSlackOutboxDue ord,
      PutPolicyVersion = mem_PutPolicyVersion, GetPolicyVersion = mem_GetPolicyVersion,
      PutContext = mem_PutContext, GetContext = mem_GetContext,
      PutDecision = mem_PutDecision, GetDecision = mem_GetDecision,
      PutReceipt = mem_PutReceipt, GetReceipt = mem_GetReceipt,
      PutApproval = mem_PutApproval, GetApproval = mem_GetApproval,
      GetApprovalByIdemKey = mem_GetApprovalByIdemKey ord,
      PutIdempotencyKey = mem_PutIdempotencyKey, GetIdempotencyKey = mem_GetIdempotencyKey,
      Rollback = mem_Rollback\<rparr>"

lemmas mem_defs [store_simps] =
  mem_PutKey_def mem_GetKey_def mem_PutSlackOutbox_def mem_GetSlackOutbox_def
  mem_PutPolicyVersion_def mem_GetPolicyVersion_def
  mem_PutContext_def mem_GetContext_def mem_PutDecision_def mem_GetDecision_def
  mem_PutReceipt_def mem_GetReceipt_def mem_PutApproval_def mem_GetApproval_def
  mem_PutIdempotencyKey_def mem_GetIdempotencyKey_def
  mem_Rollback_def mem_ledger_def NewInMemoryStore_def

section \<open>The listing loop\<close>

definition due_filter :: "string \<Rightarrow> slack_outbox_rec \<Rightarrow> bool" where
  "due_filter now r \<longleftrightarrow> so_Status r = ''pending'' \<and> so_NextAttemptAt r \<le> now"

lemma mem_dueLoop_unlimited:
  "limit \<le> 0 \<Longrightarrow> mem_dueLoop now limit out recs = out @ filter (due_filter now) recs"
  by (induction recs arbitrary: out) (auto simp: due_filter_def)

lemma mem_dueLoop_take:
  "limit > 0 \<Longrightarrow> int (length out) < limit \<Longrightarrow>
   mem_dueLoop now limit out recs =
     out @ take (nat limit - length out) (filter (due_filter now) recs)"
proof (induction recs arbitrary: out)
  case Nil
  then show ?case by simp
next
  case (Cons r recs)
  show ?case
  proof (cases "due_filter now r")
    case False
    then show ?thesis using Cons by (auto simp: due_filter_def)
  next
    case True
    show ?thesis
    proof (cases "int (length (out @ [r])) \<ge> limit")
      case full: True
      then have "nat limit - length out = Suc 0" using Cons.prems by auto
      with True full Cons.prems show ?thesis by (auto simp: due_filter_def)
    next
      case False
      then obtain k where "nat limit - length out = Suc k" "nat limit - length (out @ [r]) = k"
        using Cons.prems by (auto intro: that [of "nat limit - Suc (length out)"])
      with True False Cons.IH [of "out @ [r]"] Cons.prems show ?thesis
        by (auto simp: due_filter_def)
    qed
  qed
qed

lemma mem_dueLoop_sound:
  "set (mem_dueLoop now limit [] recs) \<subseteq> {r \<in> set recs. due_filter now r}"
  using mem_dueLoop_unlimited [of limit now "[]" recs] mem_dueLoop_take [of limit "[]" now recs]
  by (cases "limit > 0") (auto dest: in_set_takeD)

section \<open>The contract holds\<close>

definition mem_view :: "mem_state \<Rightarrow> ledger_view" where
  "mem_view s =
     \<lparr>lv_keys = table_get (ms_keys s), lv_outbox = table_get (ms_outbox s),
      lv_policies = table_get (ms_policies s), lv_contexts = table_get (ms_contexts s),
      lv_decisions = table_get (ms_decisions s), lv_receipts = table_get (ms_receipts s),
      lv_approvals = table_get (ms_approvals s), lv_idem = table_get (ms_idemKeys s)\<rparr>"

lemma mem_view_empty [simp]: "mem_view NewInMemoryStore = empty_view"
  by (simp add: mem_view_def NewInMemoryStore_def empty_view_def fun_eq_iff)

definition mem_order_ok :: "mem_order \<Rightarrow> bool" where
  "mem_order_ok ord \<longleftrightarrow> permuting (mo_outbox ord) \<and> permuting (mo_approvals ord)"

definition insertion_order :: mem_order where
  "insertion_order = \<lparr>mo_outbox = (\<lambda>xs. xs), mo_approvals = (\<lambda>xs. xs)\<rparr>"

lemma insertion_order_ok [simp]: "mem_order_ok insertion_order"
  by (simp add: mem_order_ok_def insertion_order_def)

lemma mem_due_sound:
  assumes "mem_order_ok ord" and "mem_ListSlackOutboxDue ord now n s = Inr due" and "o' \<in> set due"
  shows "o' \<in> ran (lv_outbox (mem_view s)) \<and> so_Status o' = ''pending'' \<and> so_NextAttemptAt o' \<le> now"
proof -
  from assms(2,3) have "o' \<in> set (mo_outbox ord (table_rows (ms_outbox s)))" and "due_filter now o'"
    using mem_dueLoop_sound [of now n] by (auto simp: mem_ListSlackOutboxDue_def)
  with assms(1) show ?thesis
    by (simp add: mem_order_ok_def permuting_set table_rows_ran mem_view_def due_filter_def)
qed

lemma mem_contract: "mem_order_ok ord \<Longrightarrow> ledger_contract (mem_ledger ord) mem_view"
proof
  show "Rollback (mem_ledger ord) s s' = s \<or> Rollback (mem_ledger ord) s s' = s'" for s s'
    by (simp add: store_simps)
next
  fix now n s due and o' :: slack_outbox_rec
  assume "mem_order_ok ord" and "ListSlackOutboxDue (mem_ledger ord) now n s = Inr due" and "o' \<in> set due"
  then show "o' \<in> ran (lv_outbox (mem_view s)) \<and> so_Status o' = ''pending''"
    using mem_due_sound by (auto simp: mem_ledger_def)
next
  fix k s a
  assume "mem_order_ok ord" and "GetApprovalByIdemKey (mem_ledger ord) k s = Some a"
  then show "la_IdemKey a = k \<and> a \<in> ran (lv_approvals (mem_view s))"
    by (auto simp: mem_ledger_def mem_GetApprovalByIdemKey_def mem_view_def mem_order_ok_def
        permuting_set table_rows_ran dest!: find_Some_in)
next
  fix k s
  assume "mem_order_ok ord" and "GetApprovalByIdemKey (mem_ledger ord) k s = None"
  then show "\<forall>a \<in> ran (lv_approvals (mem_view s)). la_IdemKey a \<noteq> k"
    by (auto simp: mem_ledger_def mem_GetApprovalByIdemKey_def mem_view_def mem_order_ok_def
        permuting_set table_rows_ran dest!: find_None_all)
qed (auto simp: store_simps mem_view_def kept_or_new_def idem_merge_def outbox_merge_def
      approval_merge_def split: option.splits)

lemma mem_exact: "mem_order_ok ord \<Longrightarrow> exact_ledger (mem_ledger ord) mem_view"
  using mem_due_sound
  by (intro exact_ledger.intro mem_contract exact_ledger_axioms.intro)
    (auto simp: mem_ledger_def mem_PutReceipt_def mem_view_def split: option.splits)

interpretation mem: exact_ledger "mem_ledger insertion_order" mem_view
  by (rule mem_exact) simp

end
