(* ===== verification/Service_Liveness.thy ===== *)
theory Service_Liveness
  imports Service_Facts Receipt_Facts Memory_Store
begin

text \<open>
  Requests that get an answer.  Every signing view of the service is canonicalisable as soon as the
  intent is, so on a store whose writes succeed an allowed request ends with credentials, and a
  request that needs approval ends with credentials after the approval.
\<close>

section \<open>Canonicalisable views\<close>

definition canon_ok :: "(string \<Rightarrow> string) \<Rightarrow> goval \<Rightarrow> bool" where
  "canon_ok nfc v \<longleftrightarrow> isNilValue v \<or> (\<exists>t. canon_tree nfc v = Inr t)"

lemma canon_ok_simps [simp]:
  "canon_ok nfc VNil" "canon_ok nfc VNilMap" "canon_ok nfc VNilSlice" "canon_ok nfc (VStr s)"
  "canon_ok nfc (VBool b)" "canon_ok nfc (VInt i)" "canon_ok nfc (emptyToNil s)"
  by (simp_all add: canon_ok_def emptyToNil_def)

lemma canon_ok_strings [simp]: "canon_ok nfc (VSlice (map VStr ss))"
proof -
  have "res_mapM (canon_tree nfc) (map VStr ss) = Inr (map (\<lambda>s. JStr (nfc s)) ss)"
    by (induction ss) simp_all
  then show ?thesis by (simp add: canon_ok_def)
qed

lemma res_mapM_total: "(\<And>x. x \<in> set xs \<Longrightarrow> \<exists>y. f x = Inr y) \<Longrightarrow> \<exists>ys. res_mapM f xs = Inr ys"
proof (induction xs)
  case Nil
  then show ?case by simp
next
  case (Cons x xs)
  then obtain y ys where "f x = Inr y" "res_mapM f xs = Inr ys" by fastforce
  then show ?case by simp
qed

lemma canon_ok_VMap:
  assumes "nfc_laws nfc" and "plain_keys kvs" and "list_all (\<lambda>kv. canon_ok nfc (snd kv)) kvs"
  shows "canon_ok nfc (VMap kvs)"
proof -
  have "\<exists>ms. res_mapM (\<lambda>kv. res_bind (canon_tree nfc (snd kv)) (\<lambda>t. Inr (nfc (fst kv), t)))
      (sort_key fst (filter (\<lambda>kv. \<not> isNilValue (snd kv)) kvs)) = Inr ms"
    using assms(3) by (intro res_mapM_total) (auto simp: list_all_iff canon_ok_def)
  moreover have "distinct (map (nfc \<circ> fst) kvs)"
    using assms(1,2) by (simp add: plain_keys_nfc plain_keys_def)
  ultimately show ?thesis
    using assms(1,2) by (auto simp: canon_ok_def plain_keys_kept)
qed

lemma Canonicalize_total:
  "nfc_laws nfc \<Longrightarrow> canon_ok nfc (VMap kvs) \<Longrightarrow> \<exists>b. Canonicalize nfc (VMap kvs) = Inr b"
  unfolding Canonicalize_def canon_ok_def
  using writeValue_canon_tree [of nfc "VMap kvs"] by (auto simp del: canon_tree.simps writeValue.simps)

lemma canon_ok_views:
  assumes "nfc_laws nfc"
  shows "canon_ok nfc (VMap (sourceView s))" "canon_ok nfc (VMap (evidenceView e))"
    "canon_ok nfc (VMap (decisionPolicyView p))" "canon_ok nfc (VMap (actorView a))"
    "canon_ok nfc (VMap (receiptPolicyView q))" "canon_ok nfc (VMap (approverView ap))"
  by (rule canon_ok_VMap [OF assms];
      simp add: sourceView_def evidenceView_def decisionPolicyView_def actorView_def
        receiptPolicyView_def approverView_def plain_keys_def)+

lemma canon_ok_optional:
  assumes "nfc_laws nfc"
  shows "canon_ok nfc (outcomeErrorMap err)" "canon_ok nfc (credentialMap cr)"
    "canon_ok nfc (approvalMap ap)" "canon_ok nfc (refsMap rf)" "canon_ok nfc (interactionRefMap ir)"
proof -
  note map_ok = canon_ok_VMap [OF assms]
  show "canon_ok nfc (outcomeErrorMap err)"
    by (auto simp: outcomeErrorMap_def plain_keys_def intro!: map_ok split: option.splits)
  show "canon_ok nfc (credentialMap cr)"
    by (auto simp: credentialMap_def credentialView_def plain_keys_def intro!: map_ok split: option.splits)
  show "canon_ok nfc (approvalMap ap)"
    by (auto simp: approvalMap_def approvalView_def plain_keys_def canon_ok_views(6) [OF assms]
        intro!: map_ok split: option.splits)
  show "canon_ok nfc (refsMap rf)"
    by (auto simp: refsMap_def refsView_def contextRefView_def decisionRefView_def plain_keys_def
        intro!: map_ok split: option.splits)
  show "canon_ok nfc (interactionRefMap ir)"
    by (auto simp: interactionRefMap_def interactionRefView_def plain_keys_def
        intro!: map_ok split: option.splits)
qed

lemma canon_ok_outcomeView: "nfc_laws nfc \<Longrightarrow> canon_ok nfc (VMap (outcomeView o'))"
  by (rule canon_ok_VMap) (simp_all add: outcomeView_def plain_keys_def canon_ok_optional)

lemma canon_ok_requestView:
  "nfc_laws nfc \<Longrightarrow> canon_ok nfc (rq_Intent q) \<Longrightarrow> canon_ok nfc (VMap (requestView q))"
  by (rule canon_ok_VMap) (simp_all add: requestView_def plain_keys_def)

lemma canon_ok_receiptBody:
  assumes "nfc_laws nfc" and "canon_ok nfc (rq_Intent (mi_Request i))"
  shows "canon_ok nfc (VMap (receiptBody i))"
proof (rule canon_ok_VMap [OF assms(1) plain_keys_receipt(5)])
  show "list_all (\<lambda>kv. canon_ok nfc (snd kv)) (receiptBody i)"
    unfolding receiptBody_def Let_def
    by (simp add: assms canon_ok_views canon_ok_optional canon_ok_outcomeView canon_ok_requestView)
qed

text \<open>A signer that never fails.\<close>

definition total_signer :: "signer \<Rightarrow> bool" where
  "total_signer sg \<longleftrightarrow> (\<forall>m. \<exists>sig. sg_SignEd25519 sg m = Inr sig)"

lemma total_signer_dev [simp]: "total_signer (devSigner pr kid priv)"
  by (simp add: total_signer_def devSigner_def)

lemma MakeReceipt_total:
  assumes "nfc_laws nfc" and "total_signer sg" and "canon_ok nfc (rq_Intent (mi_Request i))"
    and "mi_Schema i = []" and "mi_IdemKey i \<noteq> []" "mi_ContextID i \<noteq> []" "mi_DecisionID i \<noteq> []"
    "rp_PolicyHash (mi_Policy i) \<noteq> []" "validOutcome (ro_Status (mi_Outcome i))"
  shows "\<exists>r. MakeReceipt pr nfc i sg = Inr r"
proof -
  from Canonicalize_total [OF assms(1) canon_ok_receiptBody [OF assms(1), of "effective_input i"]] assms(3)
  obtain b where b: "Canonicalize nfc (VMap (receiptBody (i\<lparr>mi_Schema := ReceiptSchema\<rparr>))) = Inr b"
    using assms(4) by (auto simp: effective_input_def)
  from assms(2) obtain sig where "sg_SignEd25519 sg (DigestBytes pr b) = Inr sig"
    by (auto simp: total_signer_def)
  with b assms(4-9) show ?thesis by (simp add: MakeReceipt_def Let_def)
qed

lemma BuildContext_total:
  assumes "nfc_laws nfc" and "canon_ok nfc (ci_Intent i)"
  shows "\<exists>r. BuildContext pr nfc s i e c = Inr r \<and> cx_ContextID r \<noteq> [] \<and> cx_Inputs r = i"
proof -
  let ?r = "\<lparr>cx_Schema = ContextSchema, cx_ContextID = [], cx_CreatedAt = c, cx_Source = s,
     cx_Inputs = i, cx_Evidence = e\<rparr>"
  have i: "canon_ok nfc (VMap (inputsView i))"
    by (rule canon_ok_VMap [OF assms(1)]) (simp_all add: inputsView_def plain_keys_def assms(2))
  have "canon_ok nfc (VMap (contextView ?r))"
    by (rule canon_ok_VMap [OF assms(1)])
      (simp_all add: contextView_def plain_keys_def canon_ok_views [OF assms(1)] i)
  from Canonicalize_total [OF assms(1) this] show ?thesis by (auto simp: BuildContext_def Let_def)
qed

lemma canon_ok_reasonCodes [simp]: "canon_ok nfc (reasonCodesView rs)"
  by (simp add: reasonCodesView_def)

lemma BuildDecision_total:
  assumes "nfc_laws nfc"
  shows "\<exists>r. BuildDecision pr nfc x p v rs q k c = Inr r \<and> dc_DecisionID r \<noteq> []"
proof -
  have "canon_ok nfc (VMap (decisionView \<lparr>dc_Schema = DecisionSchema, dc_DecisionID = [], dc_CreatedAt = c,
      dc_ContextID = x, dc_Policy = p, dc_Verdict = v, dc_ReasonCodes = rs, dc_RequiresApproval = q,
      dc_Risk = k\<rparr>))"
    by (rule canon_ok_VMap [OF assms])
      (simp_all add: decisionView_def plain_keys_def canon_ok_views [OF assms])
  from Canonicalize_total [OF assms this] show ?thesis by (auto simp: BuildDecision_def Let_def)
qed

section \<open>Stores whose writes succeed\<close>

locale reliable_ledger = ledger_contract +
  assumes key_total: "\<exists>s'. PutKey L a s = Inr s'"
    and outbox_total: "\<exists>s'. PutSlackOutbox L b s = Inr s'"
    and policy_total: "\<exists>s'. PutPolicyVersion L c s = Inr s'"
    and context_total: "\<exists>s'. PutContext L d s = Inr s'"
    and decision_total: "\<exists>s'. PutDecision L e s = Inr s'"
    and receipt_total: "\<exists>s'. PutReceipt L f s = Inr s'"
    and approval_total: "\<exists>s'. PutApproval L g s = Inr s'"
    and idem_total: "\<exists>s'. PutIdempotencyKey L h s = Inr s'"
begin

lemma wp_put_total:
  assumes "\<exists>s'. p s = Inr s'" and "\<And>s'. p s = Inr s' \<Longrightarrow> Q (Inr ()) s'"
  shows "wp (tx_put p) Q s"
  using assms by (auto simp: wp_put)

lemmas totals = key_total outbox_total policy_total context_total decision_total receipt_total
  approval_total idem_total

lemma putSigningKey_total:
  assumes "\<And>t. lv_approvals (view t) = lv_approvals (view s) \<Longrightarrow> lv_idem (view t) = lv_idem (view s) \<Longrightarrow>
      lv_receipts (view t) = lv_receipts (view s) \<Longrightarrow> lv_policies (view t) = lv_policies (view s) \<Longrightarrow>
      Q (Inr ()) t"
  shows "wp (putSigningKey sv L c) Q s"
proof (cases "sv_PublicKey sv")
  case None
  with assms show ?thesis by (simp add: putSigningKey_def wp_return)
next
  case (Some pub)
  show ?thesis
    unfolding putSigningKey_def Some option.case
    by (rule wp_put_total [OF key_total]) (auto dest!: put_key intro: assms)
qed

text \<open>The first transaction: it commits and leaves the row of the request.\<close>

lemma put_idem_total:
  assumes "\<And>t r. idem_merge (lv_idem (view s) (ik_IdemKey i)) i r \<Longrightarrow>
      view t = (view s)\<lparr>lv_idem := (lv_idem (view s))(ik_IdemKey i \<mapsto> r)\<rparr> \<Longrightarrow> Q (Inr ()) t"
  shows "wp (tx_put (PutIdempotencyKey L i)) Q s"
  by (rule wp_put_total [OF idem_total]) (auto dest!: put_idem intro: assms)

lemma put_others_total:
  assumes "\<And>t. lv_idem (view t) = lv_idem (view s) \<Longrightarrow> Q (Inr ()) t"
  shows "wp (tx_put (PutPolicyVersion L a)) Q s" "wp (tx_put (PutContext L b)) Q s"
    "wp (tx_put (PutDecision L c)) Q s" "wp (tx_put (PutReceipt L d)) Q s"
    "wp (tx_put (PutApproval L e)) Q s" "wp (tx_put (PutSlackOutbox L f)) Q s"
proof -
  show "wp (tx_put (PutPolicyVersion L a)) Q s"
    by (rule wp_put_total [OF policy_total]) (auto dest!: put_policy intro: assms)
  show "wp (tx_put (PutContext L b)) Q s"
    by (rule wp_put_total [OF context_total]) (auto dest!: put_context intro: assms)
  show "wp (tx_put (PutDecision L c)) Q s"
    by (rule wp_put_total [OF decision_total]) (auto dest!: put_decision intro: assms)
  show "wp (tx_put (PutReceipt L d)) Q s"
    by (rule wp_put_total [OF receipt_total]) (auto dest!: put_receipt intro: assms)
  show "wp (tx_put (PutApproval L e)) Q s"
    by (rule wp_put_total [OF approval_total]) (auto dest!: put_approval intro: assms)
  show "wp (tx_put (PutSlackOutbox L f)) Q s"
    by (rule wp_put_total [OF outbox_total]) (auto dest!: put_outbox intro: assms)
qed

lemma firstTx_total:
  "wp (firstTx sv L c p)
    (\<lambda>r t. r = Inr () \<and> (\<exists>i. lv_idem (view t) (pp_IdemKey p) = Some i \<and>
       ik_Status i = idem_str (initialStatus (pp_Action p)) \<and>
       ik_LatestReceiptID i = Some (sr_ReceiptID (pp_Base p)))) s"
  unfolding firstTx_def pendingTx_def wp_bind
  by (auto intro!: putSigningKey_total put_others_total put_idem_total
      simp: wp_rules Let_def initialIdem_def dest: idem_merge_fields split: option.splits sum.splits if_splits)

lemma finalTx_total:
  assumes "lv_idem (view s) k \<noteq> None"
  shows "wp (finalTx sv L createdAt k x) (\<lambda>r t. r = Inr ()) s"
  unfolding finalTx_def wp_bind
  using assms
  by (auto intro!: putSigningKey_total put_others_total put_idem_total simp: wp_rules get_idem
      split: option.splits sum.splits)

end

lemma mem_reliable: "mem_order_ok ord \<Longrightarrow> reliable_ledger (mem_ledger ord) mem_view"
  by (intro reliable_ledger.intro mem_contract reliable_ledger_axioms.intro) (simp_all add: store_simps)

interpretation mem_reliable: reliable_ledger "mem_ledger insertion_order" mem_view
  by (rule mem_reliable) simp

section \<open>A request that the policy allows\<close>

text \<open>What a call needs to be answered: a service that can sign and load its policy, and an intent
  that has a canonical and a JSON form.\<close>

definition serviceable :: "service \<Rightarrow> loaded_policy \<Rightarrow> bool" where
  "serviceable sv loaded \<longleftrightarrow>
     nfc_laws (sv_NFC sv) \<and> total_signer (sv_Signer sv) \<and>
     LoadPolicy (sv_Prims sv) (sv_Yaml sv) (sv_ReadFile sv) (sv_PolicyPath sv) = Inr loaded"

definition encodable :: "service \<Rightarrow> authorize_request \<Rightarrow> bool" where
  "encodable sv q \<longleftrightarrow>
     canon_ok (sv_NFC sv) (aq_Intent q) \<and> (\<exists>j. inputsJson (contextInputs q) = Inr j)"

lemma LoadPolicy_hash: "LoadPolicy pr yaml rd path = Inr loaded \<Longrightarrow> lp_Hash loaded \<noteq> []"
  by (auto simp: LoadPolicy_def LoadPolicyFromBytes_def res_bind_Inr_iff)

lemma validOutcome_action: "validOutcome (ro_Status (outcomeForAction a))"
  by (cases a) (simp_all add: plain_outcome_def validOutcome_def outcome_parse_def outcome_list_def)

lemma prepare_total:
  assumes "serviceable sv loaded" and "encodable sv (cl_Req c)" and "k \<noteq> []"
  shows "\<exists>p. prepare sv c k = Inr p \<and> pp_Loaded p = loaded \<and> pp_IdemKey p = k \<and>
    pp_Decision p = Evaluate (lp_Policy loaded) (lp_Hash loaded) (policyInput (cl_Req c)) \<and>
    (\<exists>x d m a. MakeReceipt (sv_Prims sv) (sv_NFC sv) (baseReceiptInput c k x d m a) (sv_Signer sv) =
       Inr (pp_Base p) \<and> cx_ContextID x \<noteq> [] \<and> dc_DecisionID d \<noteq> [] \<and> dp_PolicyHash m = lp_Hash loaded)"
proof -
  let ?dec = "Evaluate (lp_Policy loaded) (lp_Hash loaded) (policyInput (cl_Req c))"
  let ?meta = "\<lparr>dp_PolicyID = p_PolicyID (lp_Policy loaded),
    dp_PolicyVersion = p_PolicyVersion (lp_Policy loaded), dp_PolicyHash = lp_Hash loaded\<rparr>"
  let ?ev = "\<lparr>ce_PlanDigest = aq_PlanDigest (cl_Req c), ce_DiffURL = aq_DiffURL (cl_Req c)\<rparr>"
  from assms have laws: "nfc_laws (sv_NFC sv)" and sg: "total_signer (sv_Signer sv)"
    and l: "LoadPolicy (sv_Prims sv) (sv_Yaml sv) (sv_ReadFile sv) (sv_PolicyPath sv) = Inr loaded"
    and ok: "canon_ok (sv_NFC sv) (aq_Intent (cl_Req c))"
    and j: "\<exists>j. inputsJson (contextInputs (cl_Req c)) = Inr j"
    by (auto simp: serviceable_def encodable_def)
  obtain x where x: "BuildContext (sv_Prims sv) (sv_NFC sv) (contextSource (cl_Claims c))
      (contextInputs (cl_Req c)) ?ev (cl_CreatedAt c) = Inr x" "cx_ContextID x \<noteq> []"
      "cx_Inputs x = contextInputs (cl_Req c)"
    using BuildContext_total [OF laws, of "contextInputs (cl_Req c)"] ok
    by (fastforce simp: contextInputs_def)
  obtain d where d: "BuildDecision (sv_Prims sv) (sv_NFC sv) (cx_ContextID x) ?meta (d_Verdict ?dec)
      (d_ReasonCodes ?dec) (d_RequireApproval ?dec) (d_Risk ?dec) (cl_CreatedAt c) = Inr d"
      "dc_DecisionID d \<noteq> []"
    using BuildDecision_total [OF laws] by blast
  let ?a = "snd (TransitionFromDecision (d_Verdict ?dec))"
  obtain b where b: "MakeReceipt (sv_Prims sv) (sv_NFC sv) (baseReceiptInput c k x d ?meta ?a) (sv_Signer sv) = Inr b"
    using MakeReceipt_total [OF laws sg, of "baseReceiptInput c k x d ?meta ?a"] ok x(2) d(2) assms(3)
      LoadPolicy_hash [OF l] validOutcome_action
    by (auto simp: baseReceiptInput_def workloadRequest_def)
  from j x(3) obtain cj where cj: "marshalContext x = Inr cj" by (auto simp: marshalContext_def contextJson_def)
  obtain dj where dj: "marshalDecision d = Inr dj" by (auto simp: marshalDecision_def)
  show ?thesis
    using l x(1) d(1) b cj dj x(2) d(2) LoadPolicy_hash [OF l]
    by (auto simp: prepare_def Let_def intro!: exI [of _ x] exI [of _ d] exI [of _ ?meta])
qed

lemma mint_total:
  assumes "nfc_laws (sv_NFC sv)" and "total_signer (sv_Signer sv)"
    and "canon_ok (sv_NFC sv) (aq_Intent (cl_Req c))" and "k \<noteq> []"
    and "sr_ContextID x \<noteq> []" "sr_DecisionID x \<noteq> []" "sr_PolicyHash x \<noteq> []"
    and "cl_Broker c (brokerInput c role ttl) = Inr creds"
  shows "\<exists>f. mintCredentials sv c k x role ttl = Inr (f, creds)"
proof -
  have "\<exists>r. MakeReceipt (sv_Prims sv) (sv_NFC sv) (finalReceiptInput c k x role ttl creds) (sv_Signer sv) = Inr r"
    by (rule MakeReceipt_total [OF assms(1,2)])
      (simp_all add: assms finalReceiptInput_def workloadRequest_def hashOnlyPolicy_def plain_outcome_def
        validOutcome_def outcome_parse_def outcome_list_def)
  with assms(8) show ?thesis by (auto simp: mintCredentials_def)
qed

context reliable_ledger
begin

text \<open>The second half of an allowed request: the row is there, the broker answers.\<close>

lemma finalizeIssuance_total:
  assumes "mintCredentials sv c k x role ttl = Inr (f, creds)" and "lv_idem (view s) k \<noteq> None"
  shows "\<exists>t. finalizeIssuance sv L c k x role ttl s = (Inr (issuedResponse x f creds), t)"
proof -
  obtain r t where tx: "finalTx sv L (cl_CreatedAt c) k f s = (r, t)" by fastforce
  from wpD [OF finalTx_total [OF assms(2)] tx] tx have "WithTx L (finalTx sv L (cl_CreatedAt c) k f) s = (Inr (), t)"
    by (simp add: WithTx_Inr_iff)
  with assms(1) show ?thesis by (simp add: finalizeIssuance_def persistIssuance_def)
qed

theorem allow_issues:
  assumes "serviceable sv loaded" and "encodable sv (cl_Req c)"
    and "verdict_spec (lp_Policy loaded) (policyInput (cl_Req c)) = ''allow''"
    and "ComputeIdemKey (sv_Prims sv) (sv_NFC sv) (cl_Claims c) (cl_Req c) = Inr k"
    and "GetIdempotencyKey L k s = None" and "\<And>i. \<exists>creds. cl_Broker c i = Inr creds"
  shows "\<exists>resp t. Authorize sv L c s = (Inr resp, t) \<and> rs_Verdict resp = ''allow'' \<and>
    rs_AWSCredentials resp \<noteq> None"
proof -
  from prepare_total [OF assms(1,2) ComputeIdemKey_nonempty [OF assms(4)]]
  obtain p x d m a where p: "prepare sv c k = Inr p" "pp_IdemKey p = k"
    "pp_Decision p = Evaluate (lp_Policy loaded) (lp_Hash loaded) (policyInput (cl_Req c))"
    and b: "MakeReceipt (sv_Prims sv) (sv_NFC sv) (baseReceiptInput c k x d m a) (sv_Signer sv) = Inr (pp_Base p)"
      "cx_ContextID x \<noteq> []" "dc_DecisionID d \<noteq> []" "dp_PolicyHash m = lp_Hash loaded" by blast
  have h: "lp_Hash loaded \<noteq> []" using assms(1) by (auto simp: serviceable_def LoadPolicy_hash)
  have act: "pp_Action p = ActionIssueCredentials"
    using assms(3) by (simp add: pp_Action_def p(3) Evaluate_verdict TransitionFromDecision_action)
  obtain r t where tx: "firstTx sv L c p s = (r, t)" by fastforce
  from wpD [OF firstTx_total tx] p(2) have r: "r = Inr ()" and row: "lv_idem (view t) k \<noteq> None" by auto
  have kick: "kickOutbox sv L c p t = t" using act by (simp add: kickOutbox_def)
  obtain creds where creds: "cl_Broker c (brokerInput c (d_AWSRoleARN (pp_Decision p)) (d_TTLSeconds (pp_Decision p))) = Inr creds"
    using assms(6) by blast
  have "\<exists>f. mintCredentials sv c k (pp_Base p) (d_AWSRoleARN (pp_Decision p)) (d_TTLSeconds (pp_Decision p)) = Inr (f, creds)"
    by (rule mint_total [OF _ _ _ ComputeIdemKey_nonempty [OF assms(4)] _ _ _ creds])
      (use assms(1,2) b h MakeReceipt_fields [OF b(1)] in
        \<open>simp_all add: serviceable_def encodable_def baseReceiptInput_def\<close>)
  then obtain f where f: "mintCredentials sv c k (pp_Base p) (d_AWSRoleARN (pp_Decision p)) (d_TTLSeconds (pp_Decision p)) = Inr (f, creds)"
    by blast
  from finalizeIssuance_total [OF f row] obtain u where
    "finalizeIssuance sv L c k (pp_Base p) (d_AWSRoleARN (pp_Decision p)) (d_TTLSeconds (pp_Decision p)) t =
      (Inr (issuedResponse (pp_Base p) f creds), u)" by blast
  then show ?thesis
    using assms(4,5) p(1) tx r act kick
    by (simp add: Authorize_def authorizeFirst_def WithTx_Inr_iff [THEN iffD2] Let_def firstPlan_def issuedResponse_def)
qed

end

end
