(* ===== verification/Approval_Flow.thy ===== *)
theory Approval_Flow
  imports Service_Liveness
begin

text \<open>
  The life of a request that needs a person: it waits under an approval, the approval makes it
  ready, and the next call of the same request returns credentials.
\<close>

section \<open>The states between the calls\<close>

text \<open>A receipt of the request under the policy with hash \<open>h\<close>.\<close>

definition flow_receipt :: "string \<Rightarrow> receipt_rec \<Rightarrow> bool" where
  "flow_receipt h r \<longleftrightarrow> lr_ContextID r \<noteq> [] \<and> lr_DecisionID r \<noteq> [] \<and> lr_PolicyHash r = h"

definition flow_state :: "ledger_view \<Rightarrow> string \<Rightarrow> string \<Rightarrow> loaded_policy \<Rightarrow> bool" where
  "flow_state v k st loaded \<longleftrightarrow>
     (\<exists>i rid r. lv_idem v k = Some i \<and> ik_IdemKey i = k \<and> ik_Status i = st \<and>
        ik_LatestReceiptID i = Some rid \<and> lv_receipts v rid = Some r) \<and>
     (\<forall>rid r. lv_receipts v rid = Some r \<longrightarrow> flow_receipt (lp_Hash loaded) r) \<and>
     (\<exists>pv. lv_policies v (lp_Hash loaded) = Some pv \<and> pv_PolicyYAML pv = lp_Bytes loaded)"

definition waits_for :: "ledger_view \<Rightarrow> string \<Rightarrow> string \<Rightarrow> bool" where
  "waits_for v k approvalID \<longleftrightarrow>
     (\<exists>a. lv_approvals v approvalID = Some a \<and> la_IdemKey a = k \<and> la_Status a = ''pending'')"

definition decided_status :: "approval_status \<Rightarrow> string" where
  "decided_status st = (if st = ApprovalDenied then ''denied'' else ''approved_ready'')"

lemma flow_state_cong:
  "lv_idem v = lv_idem w \<Longrightarrow> lv_receipts v = lv_receipts w \<Longrightarrow> lv_policies v = lv_policies w \<Longrightarrow>
   flow_state v k st loaded = flow_state w k st loaded"
  by (simp add: flow_state_def)

lemma waits_for_same:
  assumes "same_decisions v w" and "waits_for v k approvalID"
  shows "waits_for w k approvalID"
proof -
  from assms(1) have "approval_core v approvalID = approval_core w approvalID"
    by (simp add: same_decisions_def)
  with assms(2) show ?thesis by (cases "lv_approvals w approvalID") (auto simp: waits_for_def approval_core_def)
qed

lemma flow_state_same: "same_decisions v w \<Longrightarrow> flow_state v k st loaded = flow_state w k st loaded"
  by (rule flow_state_cong) (simp_all add: same_decisions_def)

lemma flow_receipt_stored:
  "sr_ContextID x \<noteq> [] \<Longrightarrow> sr_DecisionID x \<noteq> [] \<Longrightarrow> sr_PolicyHash x = h \<Longrightarrow>
   flow_receipt h (receiptRecordFromStored x)"
  by (simp add: flow_receipt_def receiptRecordFromStored_def)

lemma loaded_bytes:
  "LoadPolicy pr yaml rd path = Inr loaded \<Longrightarrow> LoadPolicyFromBytes pr yaml (lp_Bytes loaded) = Inr loaded"
  by (auto simp: LoadPolicy_def LoadPolicyFromBytes_def res_bind_Inr_iff)

context reliable_ledger
begin

lemma wp_put_totals:
  "(\<And>t r'. view t = (view s)\<lparr>lv_outbox := (lv_outbox (view s))(so_NotificationID a \<mapsto> r')\<rparr> \<Longrightarrow> Q (Inr ()) t) \<Longrightarrow>
    wp (tx_put (PutSlackOutbox L a)) Q s"
  "(\<And>t r'. view t = (view s)\<lparr>lv_policies := (lv_policies (view s))(pv_PolicyHash b \<mapsto> r')\<rparr> \<Longrightarrow>
      kept_or_new policy_like (lv_policies (view s) (pv_PolicyHash b)) b r' \<Longrightarrow> Q (Inr ()) t) \<Longrightarrow>
    wp (tx_put (PutPolicyVersion L b)) Q s"
  "(\<And>t r'. view t = (view s)\<lparr>lv_contexts := (lv_contexts (view s))(lc_ContextID c \<mapsto> r')\<rparr> \<Longrightarrow> Q (Inr ()) t) \<Longrightarrow>
    wp (tx_put (PutContext L c)) Q s"
  "(\<And>t r'. view t = (view s)\<lparr>lv_decisions := (lv_decisions (view s))(ld_DecisionID d \<mapsto> r')\<rparr> \<Longrightarrow> Q (Inr ()) t) \<Longrightarrow>
    wp (tx_put (PutDecision L d)) Q s"
  "(\<And>t r'. view t = (view s)\<lparr>lv_receipts := (lv_receipts (view s))(lr_ReceiptID x \<mapsto> r')\<rparr> \<Longrightarrow>
      kept_or_new receipt_like (lv_receipts (view s) (lr_ReceiptID x)) x r' \<Longrightarrow> Q (Inr ()) t) \<Longrightarrow>
    wp (tx_put (PutReceipt L x)) Q s"
  "(\<And>t r'. view t = (view s)\<lparr>lv_approvals := (lv_approvals (view s))(la_ApprovalID y \<mapsto> r')\<rparr> \<Longrightarrow>
      approval_merge (lv_approvals (view s) (la_ApprovalID y)) y r' \<Longrightarrow> Q (Inr ()) t) \<Longrightarrow>
    wp (tx_put (PutApproval L y)) Q s"
  "(\<And>t r'. view t = (view s)\<lparr>lv_idem := (lv_idem (view s))(ik_IdemKey z \<mapsto> r')\<rparr> \<Longrightarrow>
      idem_merge (lv_idem (view s) (ik_IdemKey z)) z r' \<Longrightarrow> Q (Inr ()) t) \<Longrightarrow>
    wp (tx_put (PutIdempotencyKey L z)) Q s"
  by (rule wp_put_total [OF outbox_total], blast dest: put_outbox,
      rule wp_put_total [OF policy_total], blast dest: put_policy,
      rule wp_put_total [OF context_total], blast dest: put_context,
      rule wp_put_total [OF decision_total], blast dest: put_decision,
      rule wp_put_total [OF receipt_total], blast dest: put_receipt,
      rule wp_put_total [OF approval_total], blast dest: put_approval,
      rule wp_put_total [OF idem_total], blast dest: put_idem)

lemma put_receipt_flow:
  assumes "\<forall>rid r. lv_receipts (view s) rid = Some r \<longrightarrow> flow_receipt h r"
    and "flow_receipt h (receiptRecordFromStored x)"
    and "\<And>t r. \<forall>rid r. lv_receipts (view t) rid = Some r \<longrightarrow> flow_receipt h r \<Longrightarrow>
      lv_receipts (view t) (sr_ReceiptID x) = Some r \<Longrightarrow> lv_idem (view t) = lv_idem (view s) \<Longrightarrow>
      lv_policies (view t) = lv_policies (view s) \<Longrightarrow> lv_approvals (view t) = lv_approvals (view s) \<Longrightarrow>
      Q (Inr ()) t"
  shows "wp (tx_put (PutReceipt L (receiptRecordFromStored x))) Q s"
proof (rule wp_put_totals(5))
  fix t r'
  assume t: "view t = (view s)\<lparr>lv_receipts := (lv_receipts (view s))(lr_ReceiptID (receiptRecordFromStored x) \<mapsto> r')\<rparr>"
    and "kept_or_new receipt_like (lv_receipts (view s) (lr_ReceiptID (receiptRecordFromStored x))) (receiptRecordFromStored x) r'"
  then have "flow_receipt h r'" using assms(1,2)
    by (auto simp: kept_or_new_def flow_receipt_def receipt_like_fields)
  with t assms(1) show "Q (Inr ()) t"
    by (intro assms(3) [of t r']) (auto simp: receiptRecordFromStored_def)
qed

lemma put_idem_flow:
  assumes "ik_IdemKey z = k"
    and "\<And>t i. lv_idem (view t) = (lv_idem (view s))(k \<mapsto> i) \<Longrightarrow> ik_IdemKey i = k \<Longrightarrow> ik_Status i = ik_Status z \<Longrightarrow>
      ik_LatestReceiptID i = ik_LatestReceiptID z \<Longrightarrow> lv_receipts (view t) = lv_receipts (view s) \<Longrightarrow>
      lv_policies (view t) = lv_policies (view s) \<Longrightarrow> lv_approvals (view t) = lv_approvals (view s) \<Longrightarrow> Q (Inr ()) t"
  shows "wp (tx_put (PutIdempotencyKey L z)) Q s"
  using assms by (intro wp_put_totals(7)) (auto dest: idem_merge_fields)

section \<open>The request waits\<close>

lemma firstTx_pending:
  assumes "view s = empty_view" and "pp_Action p = ActionReturnPending" and "pp_IdemKey p = k"
    and "pp_Loaded p = loaded"
    and "flow_receipt (lp_Hash loaded) (receiptRecordFromStored (pp_Base p))"
  shows "wp (firstTx sv L c p) (\<lambda>r t. r = Inr () \<and> flow_state (view t) k ''pending_approval'' loaded \<and>
    waits_for (view t) k (cl_ApprovalID c)) s"
  unfolding firstTx_def pendingTx_def wp_bind
  by (rule putSigningKey_total)
    (use assms in \<open>auto intro!: wp_put_totals(1-4,6) put_receipt_flow [where h = "lp_Hash loaded"]
      put_idem_flow [where k = k] simp: wp_rules Let_def initialIdem_def initialFinal_def empty_view_def
      policyRecOf_def kept_or_new_def policy_like_fields flow_state_def waits_for_def approvalRecOf_def approval_merge_def\<close>)

lemma Authorize_pends:
  assumes "view s = empty_view" and "serviceable sv loaded" and "encodable sv (cl_Req c)"
    and "verdict_spec (lp_Policy loaded) (policyInput (cl_Req c)) = ''require_approval''"
    and "ComputeIdemKey (sv_Prims sv) (sv_NFC sv) (cl_Claims c) (cl_Req c) = Inr k"
  shows "\<exists>resp t. Authorize sv L c s = (Inr resp, t) \<and> rs_Verdict resp = ''require_approval'' \<and>
    rs_AWSCredentials resp = None \<and>
    rs_Approval resp = Some \<lparr>rap_ID = cl_ApprovalID c, rap_State = ''pending''\<rparr> \<and>
    flow_state (view t) k ''pending_approval'' loaded \<and> waits_for (view t) k (cl_ApprovalID c) \<and>
    well_keyed (view t)"
proof -
  from prepare_total [OF assms(2,3) ComputeIdemKey_nonempty [OF assms(5)]]
  obtain p x d m a where p: "prepare sv c k = Inr p" "pp_IdemKey p = k" "pp_Loaded p = loaded"
    "pp_Decision p = Evaluate (lp_Policy loaded) (lp_Hash loaded) (policyInput (cl_Req c))"
    and b: "MakeReceipt (sv_Prims sv) (sv_NFC sv) (baseReceiptInput c k x d m a) (sv_Signer sv) = Inr (pp_Base p)"
      "cx_ContextID x \<noteq> []" "dc_DecisionID d \<noteq> []" "dp_PolicyHash m = lp_Hash loaded" by blast
  have act: "pp_Action p = ActionReturnPending"
    using assms(4) by (simp add: pp_Action_def p(4) Evaluate_verdict TransitionFromDecision_action)
  have base: "flow_receipt (lp_Hash loaded) (receiptRecordFromStored (pp_Base p))"
    using b MakeReceipt_fields [OF b(1)] by (simp add: flow_receipt_stored baseReceiptInput_def)
  obtain r t where tx: "firstTx sv L c p s = (r, t)" by fastforce
  from wpD [OF firstTx_pending [OF assms(1) act p(2,3) base] tx]
  have t: "r = Inr ()" "flow_state (view t) k ''pending_approval'' loaded"
    "waits_for (view t) k (cl_ApprovalID c)" by auto
  have wk: "well_keyed (view t)"
    using preservesD [OF firstTx_keyed tx] assms(1) by simp
  let ?u = "kickOutbox sv L c p t"
  have "same_decisions (view t) (view ?u)"
    using ProcessOutboxDue_same [OF wk, of "cl_Slack c" "cl_Now c" 1]
    by (cases "ProcessOutboxDue L (cl_Slack c) (cl_Now c) 1 t") (auto simp: kickOutbox_def)
  with t wk have "flow_state (view ?u) k ''pending_approval'' loaded" "waits_for (view ?u) k (cl_ApprovalID c)"
    "well_keyed (view ?u)"
    by (simp_all add: flow_state_same waits_for_same kickOutbox_keyed)
  moreover have "GetIdempotencyKey L k s = None" using assms(1) by (simp add: get_idem empty_view_def)
  ultimately show ?thesis
    using assms(5) p(1) tx t(1) act
    by (simp add: Authorize_def authorizeFirst_def WithTx_Inr_iff [THEN iffD2] Let_def firstResponse_def)
qed

section \<open>The approval\<close>

lemma applyApproval_decides:
  assumes "flow_state (view s) k ''pending_approval'' loaded" and "la_IdemKey a = k" and "k \<noteq> []"
    and "nfc_laws (sv_NFC sv)" and "total_signer (sv_Signer sv)" and "lp_Hash loaded \<noteq> []"
  shows "wp (applyApproval sv L approvalID st createdAt a)
    (\<lambda>r t. (\<exists>rid. r = Inr rid) \<and> flow_state (view t) k (decided_status st) loaded) s"
proof -
  from assms(1) obtain i rid r where i: "lv_idem (view s) k = Some i" "ik_IdemKey i = k"
    "ik_LatestReceiptID i = Some rid" "lv_receipts (view s) rid = Some r"
    and all: "\<forall>rid r. lv_receipts (view s) rid = Some r \<longrightarrow> flow_receipt (lp_Hash loaded) r"
    and pol: "\<exists>pv. lv_policies (view s) (lp_Hash loaded) = Some pv \<and> pv_PolicyYAML pv = lp_Bytes loaded"
    by (auto simp: flow_state_def)
  from all i(4) have fr: "flow_receipt (lp_Hash loaded) r" by blast
  let ?in = "approvalReceiptInput createdAt approvalID st a i r"
  have "\<exists>x. MakeReceipt (sv_Prims sv) (sv_NFC sv) ?in (sv_Signer sv) = Inr x"
    by (rule MakeReceipt_total [OF assms(4,5)])
      (use fr assms(2,3,6) in \<open>simp_all add: approvalReceiptInput_def flow_receipt_def hashOnlyPolicy_def
        plain_outcome_def validOutcome_def outcome_parse_def outcome_list_def\<close>)
  then obtain x where x: "MakeReceipt (sv_Prims sv) (sv_NFC sv) ?in (sv_Signer sv) = Inr x" by blast
  have "flow_receipt (lp_Hash loaded) (receiptRecordFromStored x)"
    using fr MakeReceipt_fields [OF x]
    by (simp add: approvalReceiptInput_def flow_receipt_def hashOnlyPolicy_def receiptRecordFromStored_def)
  then show ?thesis
    unfolding applyApproval_def wp_bind
    using i all pol x assms(2)
    by (auto simp: wp_rules get_idem get_receipt decidedIdem_def Let_def flow_state_def decided_status_def
        intro!: put_receipt_flow [where h = "lp_Hash loaded"] wp_put_totals(6) put_idem_flow [where k = k])
qed

lemma Approve_decides:
  assumes "flow_state (view s) k ''pending_approval'' loaded" and "waits_for (view s) k approvalID"
    and "k \<noteq> []" and "serviceable sv loaded" and "st \<noteq> ApprovalPending"
  shows "\<exists>rid t. Approve sv L approvalID (approval_str st) createdAt s = (Inr rid, t) \<and>
    flow_state (view t) k (decided_status st) loaded"
proof -
  from assms(2) obtain a where a: "lv_approvals (view s) approvalID = Some a" "la_IdemKey a = k"
    "la_Status a = ''pending''" by (auto simp: waits_for_def)
  from assms(4) have sv: "nfc_laws (sv_NFC sv)" "total_signer (sv_Signer sv)" "lp_Hash loaded \<noteq> []"
    by (auto simp: serviceable_def LoadPolicy_hash)
  let ?post = "\<lambda>r t. (\<exists>rid. r = Inr rid) \<and> flow_state (view t) k (decided_status st) loaded"
  have "wp (approveTx sv L approvalID st createdAt) ?post s"
    unfolding approveTx_def wp_bind
  proof (rule putSigningKey_total)
    fix t
    assume t: "lv_approvals (view t) = lv_approvals (view s)" "lv_idem (view t) = lv_idem (view s)"
      "lv_receipts (view t) = lv_receipts (view s)" "lv_policies (view t) = lv_policies (view s)"
    then have "flow_state (view t) k ''pending_approval'' loaded"
      using assms(1) flow_state_cong [of "view t" "view s"] by simp
    from applyApproval_decides [OF this a(2) assms(3) sv, of approvalID st createdAt] t(1) a
    show "case Inr () of Inl e \<Rightarrow> ?post (Inl e) t | Inr u \<Rightarrow>
        wp (tx_get (GetApproval L approvalID)) (\<lambda>r u. case r of Inl e \<Rightarrow> ?post (Inl e) u
          | Inr found \<Rightarrow> wp (case found of None \<Rightarrow> tx_fail (Errorf ''approval not found'')
             | Some approval \<Rightarrow>
                 if la_Status approval = approval_str ApprovalApproved \<or>
                    la_Status approval = approval_str ApprovalDenied
                 then tx_bind (tx_get (GetIdempotencyKey L (la_IdemKey approval))) (\<lambda>idem.
                   tx_return (case Option.bind idem ik_LatestReceiptID of None \<Rightarrow> [] | Some r \<Rightarrow> r))
                 else applyApproval sv L approvalID st createdAt approval) ?post u) t"
      by (simp add: wp_rules get_approval)
  qed
  then obtain rid t where "approveTx sv L approvalID st createdAt s = (Inr rid, t)"
    "flow_state (view t) k (decided_status st) loaded"
    by (cases "approveTx sv L approvalID st createdAt s") (auto simp: wp_def)
  with assms(5) show ?thesis by (cases st) (auto simp: Approve_def WithTx_Inr_iff)
qed

section \<open>The credentials\<close>

lemma readyPlan_total:
  assumes "flow_state (view s) k ''approved_ready'' loaded" and "GetIdempotencyKey L k s = Some i"
    and "serviceable sv loaded" and "encodable sv (cl_Req c)" and "k \<noteq> []"
    and "verdict_spec (lp_Policy loaded) (policyInput (cl_Req c)) = ''require_approval''"
    and "d_AWSRoleARN (Evaluate (lp_Policy loaded) (lp_Hash loaded) (policyInput (cl_Req c))) \<noteq> []"
  shows "\<exists>x role ttl. readyPlan sv L c k i s = Inr (x, role, ttl) \<and> sr_ContextID x \<noteq> [] \<and>
    sr_DecisionID x \<noteq> [] \<and> sr_PolicyHash x \<noteq> []"
proof -
  from assms(1,2) obtain rid r where i: "ik_LatestReceiptID i = Some rid" "lv_receipts (view s) rid = Some r"
    and fr: "flow_receipt (lp_Hash loaded) r"
    and pol: "\<exists>pv. lv_policies (view s) (lp_Hash loaded) = Some pv \<and> pv_PolicyYAML pv = lp_Bytes loaded"
    by (auto simp: flow_state_def get_idem)
  from assms(3) have sv: "nfc_laws (sv_NFC sv)" "total_signer (sv_Signer sv)" "lp_Hash loaded \<noteq> []"
    "LoadPolicyFromBytes (sv_Prims sv) (sv_Yaml sv) (lp_Bytes loaded) = Inr loaded"
    by (auto simp: serviceable_def LoadPolicy_hash loaded_bytes)
  let ?in = "issuingReceiptInput c k (ik_LatestReceiptID i) r"
  have "\<exists>x. MakeReceipt (sv_Prims sv) (sv_NFC sv) ?in (sv_Signer sv) = Inr x"
    by (rule MakeReceipt_total [OF sv(1,2)])
      (use fr assms(4,5) sv(3) in \<open>simp_all add: issuingReceiptInput_def flow_receipt_def hashOnlyPolicy_def
        plain_outcome_def validOutcome_def outcome_parse_def outcome_list_def workloadRequest_def encodable_def\<close>)
  then obtain x where x: "MakeReceipt (sv_Prims sv) (sv_NFC sv) ?in (sv_Signer sv) = Inr x" by blast
  moreover have "sr_ContextID x \<noteq> []" "sr_DecisionID x \<noteq> []" "sr_PolicyHash x \<noteq> []"
    using MakeReceipt_fields [OF x] fr sv(3)
    by (simp_all add: issuingReceiptInput_def flow_receipt_def hashOnlyPolicy_def)
  moreover from pol fr have "reloadPolicy sv L (lr_PolicyHash r) s = Inr loaded"
    by (auto simp: reloadPolicy_def get_policy flow_receipt_def sv(4))
  ultimately show ?thesis
    using i assms(6,7) by (simp add: readyPlan_def get_receipt Let_def Evaluate_verdict)
qed

lemma readyTx_total:
  assumes "lv_idem (view s) k = Some i" and "ik_IdemKey i = k" and "ik_Status i = ''approved_ready''"
  shows "wp (readyTx sv L createdAt k x) (\<lambda>r t. r = Inr () \<and> lv_idem (view t) k \<noteq> None) s"
  unfolding readyTx_def wp_bind
  by (rule putSigningKey_total)
    (use assms in \<open>auto intro!: put_others_total put_idem_flow [where k = k] simp: wp_rules get_idem\<close>)

theorem approved_issues:
  assumes "flow_state (view s) k ''approved_ready'' loaded"
    and "serviceable sv loaded" and "encodable sv (cl_Req c)"
    and "verdict_spec (lp_Policy loaded) (policyInput (cl_Req c)) = ''require_approval''"
    and "d_AWSRoleARN (Evaluate (lp_Policy loaded) (lp_Hash loaded) (policyInput (cl_Req c))) \<noteq> []"
    and "ComputeIdemKey (sv_Prims sv) (sv_NFC sv) (cl_Claims c) (cl_Req c) = Inr k"
    and "\<And>i. \<exists>creds. cl_Broker c i = Inr creds"
  shows "\<exists>resp t. Authorize sv L c s = (Inr resp, t) \<and> rs_Verdict resp = ''allow'' \<and>
    rs_AWSCredentials resp \<noteq> None"
proof -
  note k = ComputeIdemKey_nonempty [OF assms(6)]
  from assms(1) obtain i where i: "lv_idem (view s) k = Some i" "ik_IdemKey i = k" "ik_Status i = ''approved_ready''"
    by (auto simp: flow_state_def)
  then have gi: "GetIdempotencyKey L k s = Some i" by (simp add: get_idem)
  from readyPlan_total [OF assms(1) gi assms(2,3) k assms(4,5)] obtain x role ttl where
    x: "readyPlan sv L c k i s = Inr (x, role, ttl)" "sr_ContextID x \<noteq> []" "sr_DecisionID x \<noteq> []"
    "sr_PolicyHash x \<noteq> []" by blast
  obtain r t where tx: "readyTx sv L (cl_CreatedAt c) k x s = (r, t)" by fastforce
  from wpD [OF readyTx_total [OF i] tx] have t: "r = Inr ()" "lv_idem (view t) k \<noteq> None" by auto
  obtain creds where creds: "cl_Broker c (brokerInput c role ttl) = Inr creds" using assms(7) by blast
  have "\<exists>f. mintCredentials sv c k x role ttl = Inr (f, creds)"
    by (rule mint_total [OF _ _ _ k x(2-4) creds])
      (use assms(2,3) in \<open>simp_all add: serviceable_def encodable_def\<close>)
  then obtain f where f: "mintCredentials sv c k x role ttl = Inr (f, creds)" by blast
  from finalizeIssuance_total [OF f t(2)] obtain u where
    "finalizeIssuance sv L c k x role ttl t = (Inr (issuedResponse x f creds), u)" by blast
  then show ?thesis
    using Authorize_cases [OF assms(6), of L s] gi i(3) x(1) tx t(1)
    by (simp add: issueApprovedReady_def WithTx_Inr_iff [THEN iffD2] issuedResponse_def)
qed

end

end
