(* ===== verification/Sql_Store.thy ===== *)
theory Sql_Store
  imports Ledger_Store Tables
begin

text \<open>
  \<open>internal/ledger/sqlstore/sqlstore.go\<close> over the schema of \<open>internal/ledger/migrations/sqlite\<close>:
  every statement with its conflict clause, the CHECK and UNIQUE constraints, and the foreign keys,
  which SQLite enforces only on a connection on which the pragma took effect (\<open>sc_fk\<close>; inside a
  transaction the pragma is a no-op, so the connection that \<open>OpenSQLite\<close> touched is the one that
  has it).  \<open>sc_ties\<close> is the order in which a query meets rows with equal sort keys.
\<close>

record sql_config =
  sc_fk :: bool
  sc_ties :: "slack_outbox_rec list \<Rightarrow> slack_outbox_rec list"

record sql_state =
  ss_keys :: "key_rec table"
  ss_policy_versions :: "policy_version_rec table"
  ss_contexts :: "context_rec table"
  ss_decisions :: "decision_rec table"
  ss_idempotency_keys :: "idem_rec table"
  ss_approvals :: "approval_rec table"
  ss_receipts :: "receipt_rec table"
  ss_slack_outbox :: "slack_outbox_rec table"

definition empty_db :: sql_state where
  "empty_db =
     \<lparr>ss_keys = [], ss_policy_versions = [], ss_contexts = [], ss_decisions = [],
      ss_idempotency_keys = [], ss_approvals = [], ss_receipts = [], ss_slack_outbox = []\<rparr>"

section \<open>Constraints\<close>

definition require :: "bool \<Rightarrow> string \<Rightarrow> 's \<Rightarrow> 's res" where
  "require c msg s = (if c then Inr s else Inl (Errorf msg))"

lemma require_Inr [simp]: "require c msg s = Inr s' \<longleftrightarrow> c \<and> s' = s"
  by (auto simp: require_def)

definition check_failed :: string where
  "check_failed = ''CHECK constraint failed''"

definition unique_failed :: string where
  "unique_failed = ''UNIQUE constraint failed''"

definition fk_failed :: string where
  "fk_failed = ''FOREIGN KEY constraint failed''"

text \<open>A foreign key: off, NULL, or a row of the parent table.\<close>

definition references :: "bool \<Rightarrow> 'r table \<Rightarrow> string option \<Rightarrow> bool" where
  "references fk t k = (\<not> fk \<or> (case k of None \<Rightarrow> True | Some k' \<Rightarrow> table_get t k' \<noteq> None))"

definition idem_status_check :: "string \<Rightarrow> bool" where
  "idem_status_check st \<longleftrightarrow>
     st \<in> {''pending_approval'', ''approved_ready'', ''issuing'', ''allowed'', ''denied'', ''errored''}"

definition approval_status_check :: "string \<Rightarrow> bool" where
  "approval_status_check st \<longleftrightarrow> st \<in> {''pending'', ''approved'', ''denied''}"

definition outcome_status_check :: "string \<Rightarrow> bool" where
  "outcome_status_check st \<longleftrightarrow>
     st \<in> {''approval_pending'', ''approval_approved'', ''approval_denied'', ''issuing_credentials'',
           ''issued_credentials'', ''denied'', ''issue_failed''}"

definition outbox_status_check :: "string \<Rightarrow> bool" where
  "outbox_status_check st \<longleftrightarrow> st \<in> {''pending'', ''sent''}"

definition coalesce :: "'a option \<Rightarrow> 'a option \<Rightarrow> 'a option" where
  "coalesce a b = (case a of None \<Rightarrow> b | Some x \<Rightarrow> Some x)"

section \<open>Statements\<close>

definition sql_PutKey :: "key_rec \<Rightarrow> sql_state \<Rightarrow> sql_state res" where
  "sql_PutKey key s = Inr (s\<lparr>ss_keys := table_insert_new (kr_KeyID key) key (ss_keys s)\<rparr>)"

definition sql_GetKey :: "string \<Rightarrow> sql_state \<Rightarrow> key_rec option" where
  "sql_GetKey k s = table_get (ss_keys s) k"

definition sql_PutPolicyVersion :: "policy_version_rec \<Rightarrow> sql_state \<Rightarrow> sql_state res" where
  "sql_PutPolicyVersion p s =
    Inr (s\<lparr>ss_policy_versions := table_insert_new (pv_PolicyHash p) p (ss_policy_versions s)\<rparr>)"

definition sql_GetPolicyVersion :: "string \<Rightarrow> sql_state \<Rightarrow> policy_version_rec option" where
  "sql_GetPolicyVersion k s = table_get (ss_policy_versions s) k"

definition sql_PutContext :: "context_rec \<Rightarrow> sql_state \<Rightarrow> sql_state res" where
  "sql_PutContext c s =
    Inr (s\<lparr>ss_contexts := table_insert_new (lc_ContextID c) c (ss_contexts s)\<rparr>)"

definition sql_GetContext :: "string \<Rightarrow> sql_state \<Rightarrow> context_rec option" where
  "sql_GetContext k s = table_get (ss_contexts s) k"

definition sql_PutDecision :: "bool \<Rightarrow> decision_rec \<Rightarrow> sql_state \<Rightarrow> sql_state res" where
  "sql_PutDecision fk d s =
    (case table_get (ss_decisions s) (ld_DecisionID d) of
       Some _ \<Rightarrow> Inr s
     | None \<Rightarrow>
         res_bind (require (references fk (ss_contexts s) (Some (ld_ContextID d)) \<and>
                            references fk (ss_policy_versions s) (Some (ld_PolicyHash d))) fk_failed s)
           (\<lambda>s. Inr (s\<lparr>ss_decisions := table_put (ld_DecisionID d) d (ss_decisions s)\<rparr>)))"

definition sql_GetDecision :: "string \<Rightarrow> sql_state \<Rightarrow> decision_rec option" where
  "sql_GetDecision k s = table_get (ss_decisions s) k"

definition sql_PutReceipt :: "bool \<Rightarrow> receipt_rec \<Rightarrow> sql_state \<Rightarrow> sql_state res" where
  "sql_PutReceipt fk x s =
    (if lr_ReceiptID x = [] then Inl (Errorf ''missing receipt_id'')
     else if \<not> outcome_status_check (lr_OutcomeStatus x) then Inl (Errorf check_failed)
     else case table_get (ss_receipts s) (lr_ReceiptID x) of
       Some _ \<Rightarrow> Inr s
     | None \<Rightarrow>
         let receipts' = table_put (lr_ReceiptID x) x (ss_receipts s)
         in res_bind
              (require (references fk (ss_idempotency_keys s) (Some (lr_IdemKey x)) \<and>
                        references fk receipts' (lr_SupersedesReceiptID x) \<and>
                        references fk (ss_contexts s) (Some (lr_ContextID x)) \<and>
                        references fk (ss_decisions s) (Some (lr_DecisionID x)) \<and>
                        references fk (ss_policy_versions s) (Some (lr_PolicyHash x)) \<and>
                        references fk (ss_approvals s) (lr_ApprovalID x) \<and>
                        references fk (ss_keys s) (Some (lr_KeyID x))) fk_failed s)
              (\<lambda>s. Inr (s\<lparr>ss_receipts := receipts'\<rparr>)))"

definition sql_GetReceipt :: "string \<Rightarrow> sql_state \<Rightarrow> receipt_rec option" where
  "sql_GetReceipt k s = table_get (ss_receipts s) k"

definition sql_updateApproval :: "approval_rec \<Rightarrow> approval_rec \<Rightarrow> approval_rec" where
  "sql_updateApproval new old =
    old\<lparr>la_Status := la_Status new,
        la_SlackChannel := coalesce (la_SlackChannel new) (la_SlackChannel old),
        la_SlackMsgTS := coalesce (la_SlackMsgTS new) (la_SlackMsgTS old),
        la_ApprovedBy := coalesce (la_ApprovedBy new) (la_ApprovedBy old),
        la_ApprovedAt := coalesce (la_ApprovedAt new) (la_ApprovedAt old),
        la_UpdatedAt := la_UpdatedAt new\<rparr>"

definition sql_PutApproval :: "bool \<Rightarrow> approval_rec \<Rightarrow> sql_state \<Rightarrow> sql_state res" where
  "sql_PutApproval fk a s =
    (if \<not> approval_status_check (la_Status a) then Inl (Errorf check_failed)
     else case table_get (ss_approvals s) (la_ApprovalID a) of
       Some old \<Rightarrow>
         Inr (s\<lparr>ss_approvals :=
                table_put (la_ApprovalID a)
                  ((sql_updateApproval a old)\<lparr>la_ApprovalID := la_ApprovalID a\<rparr>) (ss_approvals s)\<rparr>)
     | None \<Rightarrow>
         if list_ex (\<lambda>b. la_IdemKey b = la_IdemKey a) (table_rows (ss_approvals s))
         then Inl (Errorf unique_failed)
         else res_bind (require (references fk (ss_idempotency_keys s) (Some (la_IdemKey a))) fk_failed s)
                (\<lambda>s. Inr (s\<lparr>ss_approvals := table_put (la_ApprovalID a) a (ss_approvals s)\<rparr>)))"

definition sql_GetApproval :: "string \<Rightarrow> sql_state \<Rightarrow> approval_rec option" where
  "sql_GetApproval k s = table_get (ss_approvals s) k"

definition sql_GetApprovalByIdemKey :: "string \<Rightarrow> sql_state \<Rightarrow> approval_rec option" where
  "sql_GetApprovalByIdemKey k s =
    List.find (\<lambda>a. la_IdemKey a = k) (table_rows (ss_approvals s))"

definition sql_PutIdempotencyKey :: "bool \<Rightarrow> idem_rec \<Rightarrow> sql_state \<Rightarrow> sql_state res" where
  "sql_PutIdempotencyKey fk i s =
    (if \<not> idem_status_check (ik_Status i) then Inl (Errorf check_failed)
     else res_bind
       (require (references fk (ss_approvals s) (ik_ApprovalID i) \<and>
                 references fk (ss_receipts s) (ik_LatestReceiptID i) \<and>
                 references fk (ss_receipts s) (ik_FinalReceiptID i)) fk_failed s)
       (\<lambda>s. Inr (s\<lparr>ss_idempotency_keys :=
          table_upsert (ik_IdemKey i) i (\<lambda>old. i\<lparr>ik_CreatedAt := ik_CreatedAt old\<rparr>)
            (ss_idempotency_keys s)\<rparr>)))"

definition sql_GetIdempotencyKey :: "string \<Rightarrow> sql_state \<Rightarrow> idem_rec option" where
  "sql_GetIdempotencyKey k s = table_get (ss_idempotency_keys s) k"

definition sql_updateOutbox :: "slack_outbox_rec \<Rightarrow> slack_outbox_rec \<Rightarrow> slack_outbox_rec" where
  "sql_updateOutbox new old =
    new\<lparr>so_ApprovalID := so_ApprovalID old, so_Channel := so_Channel old,
        so_MessageJSON := so_MessageJSON old, so_CreatedAt := so_CreatedAt old\<rparr>"

definition sql_PutSlackOutbox :: "bool \<Rightarrow> slack_outbox_rec \<Rightarrow> sql_state \<Rightarrow> sql_state res" where
  "sql_PutSlackOutbox fk r s =
    (if \<not> outbox_status_check (so_Status r) then Inl (Errorf check_failed)
     else case table_get (ss_slack_outbox s) (so_NotificationID r) of
       Some old \<Rightarrow>
         Inr (s\<lparr>ss_slack_outbox :=
                table_put (so_NotificationID r) (sql_updateOutbox r old) (ss_slack_outbox s)\<rparr>)
     | None \<Rightarrow>
         if list_ex (\<lambda>q. so_ApprovalID q = so_ApprovalID r) (table_rows (ss_slack_outbox s))
         then Inl (Errorf unique_failed)
         else res_bind (require (references fk (ss_approvals s) (Some (so_ApprovalID r))) fk_failed s)
                (\<lambda>s. Inr (s\<lparr>ss_slack_outbox := table_put (so_NotificationID r) r (ss_slack_outbox s)\<rparr>)))"

definition sql_GetSlackOutbox :: "string \<Rightarrow> sql_state \<Rightarrow> slack_outbox_rec option" where
  "sql_GetSlackOutbox k s = table_get (ss_slack_outbox s) k"

definition sql_ListSlackOutboxDue ::
  "sql_config \<Rightarrow> string \<Rightarrow> int \<Rightarrow> sql_state \<Rightarrow> slack_outbox_rec list res"
where
  "sql_ListSlackOutboxDue cfg now limit s =
    (let limit' = (if limit \<le> 0 then 100 else limit)
     in Inr (take (nat limit')
          (sort_key so_CreatedAt
            (sc_ties cfg (filter (\<lambda>r. so_Status r = ''pending'' \<and> so_NextAttemptAt r \<le> now)
              (table_rows (ss_slack_outbox s)))))))"

text \<open>\<open>WithTx\<close> rolls back when \<open>fn\<close> fails.\<close>

definition sql_Rollback :: "sql_state \<Rightarrow> sql_state \<Rightarrow> sql_state" where
  "sql_Rollback s s' = s"

definition sql_ledger :: "sql_config \<Rightarrow> sql_state ledger" where
  "sql_ledger cfg =
     \<lparr>PutKey = sql_PutKey, GetKey = sql_GetKey,
      PutSlackOutbox = sql_PutSlackOutbox (sc_fk cfg), GetSlackOutbox = sql_GetSlackOutbox,
      ListSlackOutboxDue = sql_ListSlackOutboxDue cfg,
      PutPolicyVersion = sql_PutPolicyVersion, GetPolicyVersion = sql_GetPolicyVersion,
      PutContext = sql_PutContext, GetContext = sql_GetContext,
      PutDecision = sql_PutDecision (sc_fk cfg), GetDecision = sql_GetDecision,
      PutReceipt = sql_PutReceipt (sc_fk cfg), GetReceipt = sql_GetReceipt,
      PutApproval = sql_PutApproval (sc_fk cfg), GetApproval = sql_GetApproval,
      GetApprovalByIdemKey = sql_GetApprovalByIdemKey,
      PutIdempotencyKey = sql_PutIdempotencyKey (sc_fk cfg), GetIdempotencyKey = sql_GetIdempotencyKey,
      Rollback = sql_Rollback\<rparr>"

lemmas sql_defs =
  sql_PutKey_def sql_GetKey_def sql_PutSlackOutbox_def sql_GetSlackOutbox_def
  sql_PutPolicyVersion_def sql_GetPolicyVersion_def
  sql_PutContext_def sql_GetContext_def sql_PutDecision_def sql_GetDecision_def
  sql_PutReceipt_def sql_GetReceipt_def sql_PutApproval_def sql_GetApproval_def
  sql_PutIdempotencyKey_def sql_GetIdempotencyKey_def sql_Rollback_def sql_ledger_def
  sql_updateApproval_def sql_updateOutbox_def

text \<open>
  The methods of \<open>Store\<close> run the statements of \<open>Tx\<close>: a get on the connection, a put in a transaction
  of its own, which is the put itself because a statement that fails writes nothing.
\<close>

lemma put_in_its_own_tx: "WithTx (sql_ledger cfg) (tx_put put) s = tx_put put s"
  by (simp add: WithTx_def tx_put_def sql_ledger_def sql_Rollback_def split: sum.splits prod.splits)

section \<open>The contract holds\<close>

definition sql_view :: "sql_state \<Rightarrow> ledger_view" where
  "sql_view s =
     \<lparr>lv_keys = table_get (ss_keys s), lv_outbox = table_get (ss_slack_outbox s),
      lv_policies = table_get (ss_policy_versions s), lv_contexts = table_get (ss_contexts s),
      lv_decisions = table_get (ss_decisions s), lv_receipts = table_get (ss_receipts s),
      lv_approvals = table_get (ss_approvals s), lv_idem = table_get (ss_idempotency_keys s)\<rparr>"

lemma sql_view_empty [simp]: "sql_view empty_db = empty_view"
  by (simp add: sql_view_def empty_db_def empty_view_def fun_eq_iff)

definition sql_config_ok :: "sql_config \<Rightarrow> bool" where
  "sql_config_ok cfg \<longleftrightarrow> permuting (sc_ties cfg)"

definition default_config :: sql_config where
  "default_config = \<lparr>sc_fk = True, sc_ties = (\<lambda>xs. xs)\<rparr>"

lemma default_config_ok [simp]: "sql_config_ok default_config"
  by (simp add: sql_config_ok_def default_config_def)

lemma fun_upd_same_Some: "f k = Some v \<Longrightarrow> f(k \<mapsto> v) = f"
  by auto

lemma kept_row: "f k = Some v \<Longrightarrow> \<exists>r'. (like r r' \<or> v = r') \<and> f = f(k \<mapsto> r')"
  by (rule exI [of _ v]) auto

lemma sql_due_sound:
  assumes "sql_config_ok cfg" and "sql_ListSlackOutboxDue cfg now n s = Inr due" and "r \<in> set due"
  shows "r \<in> ran (table_get (ss_slack_outbox s)) \<and> so_Status r = ''pending'' \<and> so_NextAttemptAt r \<le> now"
proof -
  from assms(2,3) have "r \<in> set (sc_ties cfg (filter (\<lambda>r. so_Status r = ''pending'' \<and> so_NextAttemptAt r \<le> now)
      (table_rows (ss_slack_outbox s))))"
    unfolding sql_ListSlackOutboxDue_def Let_def by (auto dest: in_set_takeD)
  with assms(1) show ?thesis by (auto simp: sql_config_ok_def permuting_set table_rows_ran)
qed

lemma sql_contract: "sql_config_ok cfg \<Longrightarrow> atomic_ledger (sql_ledger cfg) sql_view"
proof
  fix now n s due and r :: slack_outbox_rec
  assume "sql_config_ok cfg" and "ListSlackOutboxDue (sql_ledger cfg) now n s = Inr due" and "r \<in> set due"
  with sql_due_sound [of cfg now n s due r]
  show "r \<in> ran (lv_outbox (sql_view s)) \<and> so_Status r = ''pending''"
    by (simp add: sql_ledger_def sql_view_def)
next
  fix k s a
  assume "GetApprovalByIdemKey (sql_ledger cfg) k s = Some a"
  then show "la_IdemKey a = k \<and> a \<in> ran (lv_approvals (sql_view s))"
    by (auto simp: sql_ledger_def sql_GetApprovalByIdemKey_def sql_view_def table_rows_ran
        dest!: find_Some_in)
next
  fix k s
  assume "GetApprovalByIdemKey (sql_ledger cfg) k s = None"
  then show "\<forall>a \<in> ran (lv_approvals (sql_view s)). la_IdemKey a \<noteq> k"
    by (auto simp: sql_ledger_def sql_GetApprovalByIdemKey_def sql_view_def table_rows_ran
        dest!: find_None_all)
next
  show "PutApproval (sql_ledger cfg) a s = Inr s' \<Longrightarrow>
      \<exists>r'. approval_merge (lv_approvals (sql_view s) (la_ApprovalID a)) a r' \<and>
           sql_view s' = (sql_view s)\<lparr>lv_approvals := (lv_approvals (sql_view s))(la_ApprovalID a \<mapsto> r')\<rparr>"
    for a s s'
    by (auto simp: sql_defs sql_view_def approval_merge_def res_bind_Inr_iff
        split: option.splits if_splits)
next
  show "PutSlackOutbox (sql_ledger cfg) r s = Inr s' \<Longrightarrow>
      \<exists>r'. outbox_merge (lv_outbox (sql_view s) (so_NotificationID r)) r r' \<and>
           sql_view s' = (sql_view s)\<lparr>lv_outbox := (lv_outbox (sql_view s))(so_NotificationID r \<mapsto> r')\<rparr>"
    for r s s'
    by (auto simp: sql_defs sql_view_def outbox_merge_def res_bind_Inr_iff
        split: option.splits if_splits)
next
  show "PutIdempotencyKey (sql_ledger cfg) i s = Inr s' \<Longrightarrow>
      \<exists>r'. idem_merge (lv_idem (sql_view s) (ik_IdemKey i)) i r' \<and>
           sql_view s' = (sql_view s)\<lparr>lv_idem := (lv_idem (sql_view s))(ik_IdemKey i \<mapsto> r')\<rparr>"
    for i s s'
    by (auto simp: sql_defs sql_view_def idem_merge_def res_bind_Inr_iff table_get_upsert
        split: option.splits if_splits)
qed (auto simp: sql_defs sql_view_def kept_or_new_def table_get_insert_new fun_upd_same_Some
      res_bind_Inr_iff Let_def intro: kept_row split: option.splits if_splits)

lemma sql_exact: "sql_config_ok cfg \<Longrightarrow> exact_ledger (sql_ledger cfg) sql_view"
  using sql_due_sound
  by (intro exact_ledger.intro atomic_ledger.axioms(1) [OF sql_contract] exact_ledger_axioms.intro)
    (auto simp: sql_ledger_def sql_PutReceipt_def sql_view_def res_bind_Inr_iff Let_def
      split: option.splits if_splits)

interpretation sqlite: atomic_ledger "sql_ledger default_config" sql_view
  by (rule sql_contract) simp

interpretation sqlite_exact: exact_ledger "sql_ledger default_config" sql_view
  by (rule sql_exact) simp

section \<open>One approval per idempotency key\<close>

definition approvals_unique :: "sql_state \<Rightarrow> bool" where
  "approvals_unique s \<longleftrightarrow>
     (\<forall>i j a b. table_get (ss_approvals s) i = Some a \<longrightarrow> table_get (ss_approvals s) j = Some b \<longrightarrow>
        la_IdemKey a = la_IdemKey b \<longrightarrow> i = j)"

lemma approvals_unique_PutApproval:
  assumes "approvals_unique s" and "sql_PutApproval fk a s = Inr s'"
  shows "approvals_unique s'"
proof (cases "table_get (ss_approvals s) (la_ApprovalID a)")
  case (Some old)
  with assms have "table_get (ss_approvals s') =
      (table_get (ss_approvals s))(la_ApprovalID a \<mapsto> (sql_updateApproval a old)\<lparr>la_ApprovalID := la_ApprovalID a\<rparr>)"
    by (auto simp: sql_PutApproval_def split: if_splits)
  with assms(1) Some show ?thesis
    by (auto simp: approvals_unique_def sql_updateApproval_def)
next
  case None
  with assms(2) have s': "table_get (ss_approvals s') = (table_get (ss_approvals s))(la_ApprovalID a \<mapsto> a)"
    and new: "\<forall>b \<in> ran (table_get (ss_approvals s)). la_IdemKey b \<noteq> la_IdemKey a"
    by (auto simp: sql_PutApproval_def res_bind_Inr_iff list_ex_iff table_rows_ran split: if_splits)
  from new have *: "la_IdemKey b \<noteq> la_IdemKey a \<and> la_IdemKey a \<noteq> la_IdemKey b"
    if "table_get (ss_approvals s) j = Some b" for j b
    using that by (force simp: ran_def)
  from assms(1) s' show ?thesis
    unfolding approvals_unique_def by (auto split: if_splits dest: *)
qed

lemma approvals_unique_empty [simp]: "approvals_unique empty_db"
  by (simp add: approvals_unique_def empty_db_def)

end
