(* ===== verification/Demo.thy ===== *)
theory Demo
  imports Service_Facts Memory_Store Sql_Store
begin

text \<open>
  Concrete inputs: a signing key, a policy with an allow and a require-approval rule, a service and
  calls, on which the properties are instantiated.
\<close>

definition demo_seed :: string where
  "demo_seed = replicate 32 (CHR ''k'')"

definition demo_priv :: string where
  "demo_priv = NewKeyFromSeed toy_prims demo_seed"

definition demo_rule :: "string \<Rightarrow> string \<Rightarrow> bool option \<Rightarrow> policy_rule" where
  "demo_rule rid action approval =
    \<lparr>pr_ID = rid, pr_Match = \<lparr>pm_Action = action, pm_Resource = [], pm_Env = []\<rparr>,
     pr_Effect = \<lparr>pe_RequireApproval = approval, pe_Deny = Some False, pe_TTLSeconds = Some 900,
                  pe_AWSRoleARN = ''arn:role'', pe_Risk = ''low'', pe_Reason = []\<rparr>\<rparr>"

definition demo_policy :: policy where
  "demo_policy =
    \<lparr>p_PolicyID = ''demo'', p_PolicyVersion = ''1'',
     p_Defaults = \<lparr>pd_TTLSeconds = 900, pd_RequireApproval = False, pd_Deny = True\<rparr>,
     p_Rules = [demo_rule ''r1'' ''plan'' None, demo_rule ''r2'' ''apply'' (Some True)]\<rparr>"

definition demo_service :: service where
  "demo_service =
    \<lparr>sv_Prims = toy_prims, sv_NFC = (\<lambda>s. s), sv_Yaml = (\<lambda>_. Inr demo_policy),
     sv_ReadFile = (\<lambda>_. Inr ''policy''), sv_PolicyPath = ''p.yaml'',
     sv_Signer = devSigner toy_prims ''dev'' demo_priv, sv_PublicKey = Some (PublicOf demo_priv),
     sv_SlackChan = []\<rparr>"

definition demo_actor :: actor_context where
  "demo_actor =
    \<lparr>ac_Subject = ''sub'', ac_Issuer = ''iss'', ac_Repo = ''org/repo'', ac_Workflow = ''ci'',
     ac_RunID = ''1'', ac_SHA = ''abc'', ac_Token = ''tok''\<rparr>"

definition demo_request :: "string \<Rightarrow> authorize_request" where
  "demo_request action =
    \<lparr>aq_RequestID = [], aq_Action = action, aq_Resource = ''res'', aq_Env = ''prod'', aq_Intent = VNilMap,
     aq_PlanDigest = [], aq_DiffURL = [], aq_AWSRegion = None, aq_InteractionRef = None,
     aq_ContextRef = None, aq_DecisionRef = None\<rparr>"

definition demo_broker :: "assume_role_input \<Rightarrow> credentials res" where
  "demo_broker i = Inr \<lparr>cd_AccessKeyID = ''AK'', cd_SecretAccessKey = ''SK'', cd_SessionToken = ''ST'',
                       cd_ExpiresAt = 0\<rparr>"

definition demo_call :: "string \<Rightarrow> call" where
  "demo_call action =
    \<lparr>cl_Claims = demo_actor, cl_Req = demo_request action, cl_CreatedAt = ''2025-01-01T00:00:00Z'',
     cl_ApprovalID = ''approval-1'', cl_Broker = demo_broker, cl_Slack = None, cl_Now = 0\<rparr>"

end
