(* ===== verification/Gateway_Runs.thy ===== *)
theory Gateway_Runs
  imports Ledger_Audit Approval_Flow Sql_Store Demo
begin

text \<open>
  Runs of the gateway: an allowed request that arrives at an empty ledger gets as far as its
  credentials, on the memory store and on SQLite, so the safety properties speak about states that
  exist.  The last section puts the demonstration inputs through these lemmas.
\<close>

section \<open>Keys\<close>

lemma ComputeIdemKey_total:
  assumes "nfc_laws nfc" and "canon_ok nfc (aq_Intent q)"
    and "aq_Action q \<noteq> []" "aq_Resource q \<noteq> []" "aq_Env q \<noteq> []"
    and "ac_Subject a \<noteq> []" "ac_Issuer a \<noteq> []" "ac_Repo a \<noteq> []" "ac_RunID a \<noteq> []"
  shows "\<exists>k. ComputeIdemKey pr nfc a q = Inr k"
proof -
  have views: "canon_ok nfc (VMap (idemContextRef c))" "canon_ok nfc (VMap (idemDecisionRef d))"
    "canon_ok nfc (VMap (idemInteractionRef r))" "canon_ok nfc (VMap [])" for c d r
    by (rule canon_ok_VMap [OF assms(1)];
        simp add: plain_keys_def idemContextRef_def idemDecisionRef_def idemInteractionRef_def)+
  have "canon_ok nfc (VMap (idemPayload a q))"
    by (rule canon_ok_VMap [OF assms(1) plain_keys_idem(4)])
      (simp add: idemPayload_def assms(2) views split: option.splits)
  from Canonicalize_total [OF assms(1) this] assms(3-) show ?thesis
    by (auto simp: ComputeIdemKey_def)
qed

section \<open>Calls in sequence\<close>

text \<open>A call that runs without interruption is a run of the gateway.\<close>

lemma run_alone_reach:
  assumes "gw_reach sv L g0 g" and "gw_Threads g t = Some \<lparr>th_Call = c, th_Key = k, th_Pc = pc\<rparr>"
    and "run_alone n sv L c k pc (gw_Store g) = (pc', s')"
  shows "\<exists>g'. gw_reach sv L g0 g' \<and> gw_Store g' = s'"
  using assms
proof (induction n arbitrary: g pc)
  case 0
  then show ?case by auto
next
  case (Suc n)
  obtain pc1 evs s1 where st: "auth_step sv L c k pc (gw_Store g) = ((pc1, evs), s1)"
    by (metis prod.collapse)
  let ?g1 = "g\<lparr>gw_Store := s1, gw_Threads := (gw_Threads g)(t \<mapsto> \<lparr>th_Call = c, th_Key = k, th_Pc = pc1\<rparr>),
    gw_Log := gw_Log g @ evs\<rparr>"
  have "gw_step sv L g ?g1"
    using gw_step.advance [OF Suc.prems(2), of sv L pc1 evs s1] st by simp
  with Suc.prems(1) have "gw_reach sv L g0 ?g1" by (rule reach_step)
  from Suc.IH [OF this] Suc.prems(3) st show ?case by simp
qed

theorem Authorize_reach:
  assumes "gw_reach sv L g0 g" and "Authorize sv L c (gw_Store g) = (r, s')"
  shows "\<exists>g'. gw_reach sv L g0 g' \<and> gw_Store g' = s'"
proof (cases "ComputeIdemKey (sv_Prims sv) (sv_NFC sv) (cl_Claims c) (cl_Req c)")
  case (Inl e)
  with assms show ?thesis by (auto simp: Authorize_def)
next
  case (Inr k)
  let ?g1 = "g\<lparr>gw_Threads := (gw_Threads g)(0 := None)\<rparr>"
  let ?g2 = "?g1\<lparr>gw_Threads := (gw_Threads ?g1)(0 \<mapsto> \<lparr>th_Call = c, th_Key = k, th_Pc = PLookup\<rparr>)\<rparr>"
  have "gw_reach sv L g0 ?g1" by (rule reach_step [OF assms(1) gw_step.crash])
  from reach_step [OF this gw_step.arrive [OF Inr, of ?g1 0]] have "gw_reach sv L g0 ?g2" by simp
  from run_alone_reach [OF this, of 0 c k PLookup 5 "PDone r" s'] run_alone_Authorize [OF Inr, of L] assms(2)
  show ?thesis by simp
qed

theorem Approve_reach:
  assumes "gw_reach sv L g0 g" and "Approve sv L approvalID st at (gw_Store g) = (r, s')"
  shows "\<exists>g'. gw_reach sv L g0 g' \<and> gw_Store g' = s'"
  using reach_step [OF assms(1) gw_step.approve [OF assms(2)]] by auto

section \<open>The steps of an allowed request\<close>

lemma run_to_mint:
  assumes "ComputeIdemKey (sv_Prims sv) (sv_NFC sv) (cl_Claims c) (cl_Req c) = Inr k"
    and "GetIdempotencyKey L k s = None" and "prepare sv c k = Inr p"
    and "pp_Action p = ActionIssueCredentials" and "firstTx sv L c p s = (Inr (), t)"
    and "\<And>i. \<exists>creds. cl_Broker c i = Inr creds"
  shows "\<exists>g. gw_reach sv L (gw_init s) g \<and>
    gw_Log g = [EvEvaluated k (lp_Policy (pp_Loaded p)) (policyInput (cl_Req c)), EvMinted k]"
proof -
  let ?ev = "EvEvaluated k (lp_Policy (pp_Loaded p)) (policyInput (cl_Req c))"
  let ?th = "\<lambda>pc. \<lparr>th_Call = c, th_Key = k, th_Pc = pc\<rparr>"
  let ?g = "\<lambda>pc log s. \<lparr>gw_Store = s, gw_Threads = (\<lambda>_. None)(0 \<mapsto> ?th pc), gw_Job = None, gw_Log = log\<rparr>"
  have adv: "gw_step sv L (?g pc log u) (?g pc' (log @ evs) u')"
    if "auth_step sv L c k pc u = ((pc', evs), u')" for pc pc' log evs u u'
    using gw_step.advance [of "?g pc log u" 0 "?th pc" sv L pc' evs u'] that by simp
  have kick: "kickOutbox sv L c p t = t" using assms(4) by (simp add: kickOutbox_def)
  obtain x role ttl where plan: "firstPlan p = (x, role, ttl)" by (cases "firstPlan p")
  have mint: "snd (mintStep sv c k x role ttl) = [EvMinted k]"
    using assms(6) [of "brokerInput c role ttl"] by (auto simp: mintStep_def)
  have 1: "gw_step sv L (gw_init s) (?g PLookup [] s)"
    using gw_step.arrive [OF assms(1), of "gw_init s" 0 L] by (simp add: gw_init_def)
  have 2: "gw_step sv L (?g PLookup [] s) (?g (PCommit p) [?ev] s)"
    using adv [of PLookup s "PCommit p" "[?ev]" s "[]"] assms(2,3) by (simp add: lookupStep_def)
  have 3: "gw_step sv L (?g (PCommit p) [?ev] s) (?g (PKick p) [?ev] t)"
    using adv [of "PCommit p" s "PKick p" "[]" t "[?ev]"] assms(5) by (simp add: WithTx_Inr_iff [THEN iffD2])
  have 4: "gw_step sv L (?g (PKick p) [?ev] t) (?g (PFinalize x role ttl) [?ev] t)"
    using adv [of "PKick p" t "PFinalize x role ttl" "[]" t "[?ev]"] assms(4) kick plan by simp
  have 5: "gw_step sv L (?g (PFinalize x role ttl) [?ev] t)
      (?g (fst (mintStep sv c k x role ttl)) ([?ev] @ [EvMinted k]) t)"
    by (rule adv) (simp add: mint [symmetric])
  from reach_step [OF reach_step [OF reach_step [OF reach_step [OF reach_step [OF reach_refl 1] 2] 3] 4] 5]
  show ?thesis by auto
qed

text \<open>On a ledger where the first transaction of an allowed request commits.\<close>

lemma reach_mint:
  assumes "serviceable sv loaded" and "encodable sv (cl_Req c)"
    and "verdict_spec (lp_Policy loaded) (policyInput (cl_Req c)) = ''allow''"
    and "ComputeIdemKey (sv_Prims sv) (sv_NFC sv) (cl_Claims c) (cl_Req c) = Inr k"
    and "GetIdempotencyKey L k s = None" and "\<And>i. \<exists>creds. cl_Broker c i = Inr creds"
    and "\<And>p x d m a. pp_Action p = ActionIssueCredentials \<Longrightarrow> pp_IdemKey p = k \<Longrightarrow>
      MakeReceipt (sv_Prims sv) (sv_NFC sv) (baseReceiptInput c k x d m a) (sv_Signer sv) = Inr (pp_Base p) \<Longrightarrow>
      cx_ContextID x = cx_ContextID (pp_Context p) \<Longrightarrow> dc_DecisionID d = dc_DecisionID (pp_DecRecord p) \<Longrightarrow>
      dc_ContextID (pp_DecRecord p) = cx_ContextID (pp_Context p) \<Longrightarrow> a = ActionIssueCredentials \<Longrightarrow>
      dp_PolicyHash m = lp_Hash (pp_Loaded p) \<Longrightarrow> \<exists>t. firstTx sv L c p s = (Inr (), t)"
  shows "\<exists>g. gw_reach sv L (gw_init s) g \<and>
    gw_Log g = [EvEvaluated k (lp_Policy loaded) (policyInput (cl_Req c)), EvMinted k]"
proof -
  from prepare_total [OF assms(1,2) ComputeIdemKey_nonempty [OF assms(4)]]
  obtain p where p: "prepare sv c k = Inr p" "pp_IdemKey p = k" "pp_Loaded p = loaded"
    "pp_Decision p = Evaluate (lp_Policy loaded) (lp_Hash loaded) (policyInput (cl_Req c))" by blast
  have act: "pp_Action p = ActionIssueCredentials"
    using assms(3) by (simp add: pp_Action_def p(4) Evaluate_verdict TransitionFromDecision_action)
  have "\<exists>t. firstTx sv L c p s = (Inr (), t)"
    using p(1) assms(7) [OF act p(2)] act
    by (auto simp: prepare_def res_bind_Inr_iff Let_def BuildDecision_Inr pp_Action_def)
  then obtain t where "firstTx sv L c p s = (Inr (), t)" by blast
  from run_to_mint [OF assms(4,5) p(1) act this assms(6)] p(3) show ?thesis by simp
qed

text \<open>SQLite: every constraint and foreign key of the first transaction holds on the empty database.\<close>

lemma sql_firstTx_empty:
  assumes "pp_Action p = ActionIssueCredentials" and "sr_ReceiptID (pp_Base p) \<noteq> []"
    and "sr_OutcomeStatus (pp_Base p) = ''issuing_credentials''" and "sr_IdemKey (pp_Base p) = pp_IdemKey p"
    and "sr_SupersedesReceiptID (pp_Base p) = None" and "sr_ApprovalID (pp_Base p) = None"
    and "sr_ContextID (pp_Base p) = cx_ContextID (pp_Context p)"
    and "sr_DecisionID (pp_Base p) = dc_DecisionID (pp_DecRecord p)"
    and "dc_ContextID (pp_DecRecord p) = cx_ContextID (pp_Context p)"
    and "sr_PolicyHash (pp_Base p) = lp_Hash (pp_Loaded p)"
    and "sv_PublicKey sv \<noteq> None" and "sr_KeyID (pp_Base p) = sg_KeyID (sv_Signer sv)"
  shows "\<exists>t. firstTx sv (sql_ledger cfg) c p empty_db = (Inr (), t)"
proof -
  from assms(11) obtain pub where pub: "sv_PublicKey sv = Some pub" by blast
  show ?thesis
    by (simp add: assms pub firstTx_def putSigningKey_def tx_bind_def tx_put_def tx_return_def sql_ledger_def
        sql_PutKey_def sql_PutPolicyVersion_def sql_PutContext_def sql_PutDecision_def sql_PutReceipt_def
        sql_PutIdempotencyKey_def empty_db_def references_def require_def table_insert_new_def
        table_upsert_def policyRecOf_def initialIdem_def initialFinal_def idem_status_check_def
        outcome_status_check_def receiptRecordFromStored_def Let_def)
qed

theorem sqlite_reach_mint:
  fixes c :: call
  assumes "serviceable sv loaded" and "encodable sv (cl_Req c)"
    and "verdict_spec (lp_Policy loaded) (policyInput (cl_Req c)) = ''allow''"
    and "ComputeIdemKey (sv_Prims sv) (sv_NFC sv) (cl_Claims c) (cl_Req c) = Inr k"
    and "\<And>i. \<exists>creds. cl_Broker c i = Inr creds" and "sv_PublicKey sv \<noteq> None"
  shows "\<exists>g. gw_reach sv (sql_ledger cfg) (gw_init empty_db) g \<and>
    gw_Log g = [EvEvaluated k (lp_Policy loaded) (policyInput (cl_Req c)), EvMinted k]"
proof (rule reach_mint [OF assms(1-4)])
  show "\<exists>creds. cl_Broker c i = Inr creds" for i by (rule assms(5))
next
  show "GetIdempotencyKey (sql_ledger cfg) k empty_db = None"
    by (simp add: sql_ledger_def sql_GetIdempotencyKey_def empty_db_def)
next
  fix p x d m a
  assume a: "pp_Action p = ActionIssueCredentials" "pp_IdemKey p = k" "a = ActionIssueCredentials"
    and b: "MakeReceipt (sv_Prims sv) (sv_NFC sv) (baseReceiptInput c k x d m a) (sv_Signer sv) = Inr (pp_Base p)"
    and ids: "cx_ContextID x = cx_ContextID (pp_Context p)" "dc_DecisionID d = dc_DecisionID (pp_DecRecord p)"
      "dc_ContextID (pp_DecRecord p) = cx_ContextID (pp_Context p)" "dp_PolicyHash m = lp_Hash (pp_Loaded p)"
  show "\<exists>t. firstTx sv (sql_ledger cfg) c p empty_db = (Inr (), t)"
    by (rule sql_firstTx_empty)
      (use a ids assms(6) MakeReceipt_fields [OF b] MakeReceipt_approval [OF b] in
        \<open>simp_all add: baseReceiptInput_def plain_outcome_def\<close>)
qed

section \<open>The demonstration inputs\<close>

definition demo_loaded :: loaded_policy where
  "demo_loaded =
    \<lparr>lp_Policy = demo_policy, lp_Hash = DigestWithPrefix toy_prims ''policy'', lp_Bytes = ''policy''\<rparr>"

lemma demo_serviceable [simp]: "serviceable demo_service demo_loaded"
  by (simp add: serviceable_def demo_service_def demo_loaded_def LoadPolicy_def LoadPolicyFromBytes_def)

lemma demo_encodable [simp]: "encodable demo_service (cl_Req (demo_call a))"
  by (simp add: encodable_def demo_call_def demo_request_def contextInputs_def inputsJson_def)

lemma demo_verdict:
  "verdict_spec (lp_Policy demo_loaded) (policyInput (cl_Req (demo_call ''plan''))) = ''allow''"
  "verdict_spec (lp_Policy demo_loaded) (policyInput (cl_Req (demo_call ''apply''))) = ''require_approval''"
  "verdict_spec (lp_Policy demo_loaded) (policyInput (cl_Req (demo_call ''destroy''))) = ''deny''"
  by code_simp+

lemma demo_key:
  "a \<noteq> [] \<Longrightarrow> \<exists>k. ComputeIdemKey (sv_Prims demo_service) (sv_NFC demo_service) (cl_Claims (demo_call a))
    (cl_Req (demo_call a)) = Inr k"
  by (rule ComputeIdemKey_total)
    (simp_all add: demo_service_def demo_call_def demo_request_def demo_actor_def)

lemma demo_broker_total: "\<exists>creds. cl_Broker (demo_call a) i = Inr creds"
  by (simp add: demo_call_def demo_broker_def)

lemma demo_public_key: "sv_PublicKey demo_service \<noteq> None"
  by (simp add: demo_service_def)

lemma demo_role:
  "d_AWSRoleARN (Evaluate (lp_Policy demo_loaded) (lp_Hash demo_loaded)
    (policyInput (cl_Req (demo_call ''apply'')))) \<noteq> []"
  by code_simp

text \<open>
  The three calls of the demonstration on the memory store: a request that waits, its approval, and
  a request that is answered at once.
\<close>

abbreviation demo_reach :: "mem_state gateway \<Rightarrow> bool" where
  "demo_reach \<equiv> gw_reach demo_service (mem_ledger insertion_order) (gw_init NewInMemoryStore)"

lemma demo_waits:
  "\<exists>g k. demo_reach g \<and> k \<noteq> [] \<and>
     ComputeIdemKey (sv_Prims demo_service) (sv_NFC demo_service) (cl_Claims (demo_call ''apply''))
       (cl_Req (demo_call ''apply'')) = Inr k \<and>
     flow_state (mem_view (gw_Store g)) k ''pending_approval'' demo_loaded \<and>
     waits_for (mem_view (gw_Store g)) k (cl_ApprovalID (demo_call ''apply''))"
proof -
  from demo_key [of "''apply''"] obtain k where
    k: "ComputeIdemKey (sv_Prims demo_service) (sv_NFC demo_service) (cl_Claims (demo_call ''apply''))
      (cl_Req (demo_call ''apply'')) = Inr k" by auto
  from mem_reliable.Authorize_pends [OF mem_view_empty demo_serviceable demo_encodable demo_verdict(2) k]
  obtain resp t where t: "Authorize demo_service (mem_ledger insertion_order) (demo_call ''apply'') NewInMemoryStore = (Inr resp, t)"
    "flow_state (mem_view t) k ''pending_approval'' demo_loaded"
    "waits_for (mem_view t) k (cl_ApprovalID (demo_call ''apply''))" by auto
  from Authorize_reach [OF reach_refl, of demo_service "mem_ledger insertion_order" "demo_call ''apply''"
      "gw_init NewInMemoryStore" "Inr resp" t] t(1)
  obtain g where "demo_reach g" "gw_Store g = t" by (auto simp: gw_init_def)
  with t k ComputeIdemKey_nonempty [OF k] show ?thesis by blast
qed

lemma demo_decides:
  assumes "st \<noteq> ApprovalPending"
  shows "\<exists>g k rid t. demo_reach g \<and>
     ComputeIdemKey (sv_Prims demo_service) (sv_NFC demo_service) (cl_Claims (demo_call ''apply''))
       (cl_Req (demo_call ''apply'')) = Inr k \<and>
     waits_for (mem_view (gw_Store g)) k (cl_ApprovalID (demo_call ''apply'')) \<and>
     Approve demo_service (mem_ledger insertion_order) (cl_ApprovalID (demo_call ''apply'')) (approval_str st)
       ''2025-01-01T00:01:00Z'' (gw_Store g) = (Inr rid, t) \<and>
     flow_state (mem_view t) k (decided_status st) demo_loaded"
  using demo_waits mem_reliable.Approve_decides [OF _ _ _ demo_serviceable assms] by metis

lemma demo_issues:
  "\<exists>resp t k. ComputeIdemKey (sv_Prims demo_service) (sv_NFC demo_service) (cl_Claims (demo_call ''plan''))
       (cl_Req (demo_call ''plan'')) = Inr k \<and>
     Authorize demo_service (mem_ledger insertion_order) (demo_call ''plan'') NewInMemoryStore = (Inr resp, t) \<and>
     rs_Verdict resp = ''allow'' \<and> rs_AWSCredentials resp \<noteq> None"
proof -
  from demo_key [of "''plan''"] obtain k where
    k: "ComputeIdemKey (sv_Prims demo_service) (sv_NFC demo_service) (cl_Claims (demo_call ''plan''))
      (cl_Req (demo_call ''plan'')) = Inr k" by auto
  have "GetIdempotencyKey (mem_ledger insertion_order) k NewInMemoryStore = None"
    by (simp add: store_simps)
  from mem_reliable.allow_issues [OF demo_serviceable demo_encodable demo_verdict(1) k this demo_broker_total] k
  show ?thesis by blast
qed

lemma demo_plan_key:
  obtains k where "ComputeIdemKey (sv_Prims demo_service) (sv_NFC demo_service) (cl_Claims (demo_call ''plan''))
      (cl_Req (demo_call ''plan'')) = Inr k"
  using demo_key [of "''plan''"] by auto

lemma demo_mints: "\<exists>g k. demo_reach g \<and> EvMinted k \<in> set (gw_Log g)"
proof -
  obtain k where k: "ComputeIdemKey (sv_Prims demo_service) (sv_NFC demo_service) (cl_Claims (demo_call ''plan''))
      (cl_Req (demo_call ''plan'')) = Inr k" by (rule demo_plan_key)
  have none: "GetIdempotencyKey (mem_ledger insertion_order) k NewInMemoryStore = None"
    by (simp add: store_simps)
  have "\<exists>t. firstTx demo_service (mem_ledger insertion_order) (demo_call ''plan'') p s = (Inr (), t)" for p s
    using mem_reliable.firstTx_total [of demo_service "demo_call ''plan''" p s]
    by (cases "firstTx demo_service (mem_ledger insertion_order) (demo_call ''plan'') p s") (auto simp: wp_def)
  from reach_mint [OF demo_serviceable demo_encodable demo_verdict(1) k none demo_broker_total this]
  obtain g where "demo_reach g" "gw_Log g = [EvEvaluated k (lp_Policy demo_loaded)
      (policyInput (cl_Req (demo_call ''plan''))), EvMinted k]" by blast
  then show ?thesis by (intro exI [of _ g] exI [of _ k]) simp
qed

lemma demo_mints_sqlite:
  "\<exists>g k p i. gw_reach demo_service (sql_ledger default_config) (gw_init empty_db) g \<and>
     gw_Log g = [EvEvaluated k p i, EvMinted k]"
proof -
  obtain k where k: "ComputeIdemKey (sv_Prims demo_service) (sv_NFC demo_service) (cl_Claims (demo_call ''plan''))
      (cl_Req (demo_call ''plan'')) = Inr k" by (rule demo_plan_key)
  from sqlite_reach_mint [OF demo_serviceable demo_encodable demo_verdict(1) k demo_broker_total demo_public_key]
  show ?thesis by blast
qed

lemma demo_key_pair:
  "prims_laws (sv_Prims demo_service)"
  "signer_for (sv_Prims demo_service) (sv_Signer demo_service) (PublicOf demo_priv)"
  "sv_PublicKey demo_service = Some (PublicOf demo_priv)"
proof -
  show "prims_laws (sv_Prims demo_service)" by (simp add: demo_service_def)
  show "signer_for (sv_Prims demo_service) (sv_Signer demo_service) (PublicOf demo_priv)"
    by (simp add: demo_service_def signer_for_def devSigner_def VerifyEd25519_def toy_prims_def
        demo_priv_def PublicOf_def NewKeyFromSeed_def demo_seed_def)
  show "sv_PublicKey demo_service = Some (PublicOf demo_priv)" by (simp add: demo_service_def)
qed

text \<open>A request that waits for its approval on SQLite.\<close>

lemma sql_pendingTx_empty:
  assumes "pp_Action p = ActionReturnPending" and "sr_ReceiptID (pp_Base p) \<noteq> []"
    and "sr_OutcomeStatus (pp_Base p) = ''approval_pending''" and "sr_IdemKey (pp_Base p) = pp_IdemKey p"
    and "sr_SupersedesReceiptID (pp_Base p) = None" and "sr_ApprovalID (pp_Base p) = Some (cl_ApprovalID c)"
    and "sr_ContextID (pp_Base p) = cx_ContextID (pp_Context p)"
    and "sr_DecisionID (pp_Base p) = dc_DecisionID (pp_DecRecord p)"
    and "dc_ContextID (pp_DecRecord p) = cx_ContextID (pp_Context p)"
    and "sr_PolicyHash (pp_Base p) = lp_Hash (pp_Loaded p)"
    and "sv_PublicKey sv \<noteq> None" and "sr_KeyID (pp_Base p) = sg_KeyID (sv_Signer sv)"
    and "\<not> postSlack sv c"
  shows "\<exists>t a. firstTx sv (sql_ledger cfg) c p empty_db = (Inr (), t) \<and> sql_GetApproval (cl_ApprovalID c) t = Some a"
proof -
  from assms(11) obtain pub where pub: "sv_PublicKey sv = Some pub" by blast
  show ?thesis
    by (simp add: assms pub firstTx_def pendingTx_def putSigningKey_def tx_bind_def tx_put_def tx_return_def
        sql_ledger_def sql_PutKey_def sql_PutPolicyVersion_def sql_PutContext_def sql_PutDecision_def
        sql_PutReceipt_def sql_PutIdempotencyKey_def sql_PutApproval_def sql_GetApproval_def empty_db_def
        references_def require_def table_insert_new_def table_upsert_def policyRecOf_def initialIdem_def
        initialFinal_def idem_status_check_def approval_status_check_def approvalRecOf_def ptrOrNil_def
        outcome_status_check_def receiptRecordFromStored_def Let_def table_rows_def)
qed

lemma prepare_base:
  assumes "prepare sv c k = Inr p"
  obtains m where "MakeReceipt (sv_Prims sv) (sv_NFC sv)
      (baseReceiptInput c k (pp_Context p) (pp_DecRecord p) m (pp_Action p)) (sv_Signer sv) = Inr (pp_Base p)"
    and "dp_PolicyHash m = lp_Hash (pp_Loaded p)"
    and "dc_ContextID (pp_DecRecord p) = cx_ContextID (pp_Context p)" and "pp_IdemKey p = k"
  using assms by (auto simp: prepare_def res_bind_Inr_iff Let_def BuildDecision_Inr pp_Action_def)

lemma demo_waits_sqlite:
  "\<exists>g a. gw_reach demo_service (sql_ledger default_config) (gw_init empty_db) g \<and>
     sql_GetApproval ''approval-1'' (gw_Store g) = Some a"
proof -
  let ?c = "demo_call ''apply''"
  obtain k where k: "ComputeIdemKey (sv_Prims demo_service) (sv_NFC demo_service) (cl_Claims ?c) (cl_Req ?c) = Inr k"
    using demo_key [of "''apply''"] by auto
  from prepare_total [OF demo_serviceable demo_encodable ComputeIdemKey_nonempty [OF k]] obtain p where
    p: "prepare demo_service ?c k = Inr p" "pp_IdemKey p = k"
    "pp_Decision p = Evaluate (lp_Policy demo_loaded) (lp_Hash demo_loaded) (policyInput (cl_Req ?c))" by blast
  have act: "pp_Action p = ActionReturnPending"
    using demo_verdict(2) by (simp add: pp_Action_def p(3) Evaluate_verdict TransitionFromDecision_action)
  obtain m where b: "MakeReceipt (sv_Prims demo_service) (sv_NFC demo_service)
      (baseReceiptInput ?c k (pp_Context p) (pp_DecRecord p) m (pp_Action p)) (sv_Signer demo_service) = Inr (pp_Base p)"
    and m: "dp_PolicyHash m = lp_Hash (pp_Loaded p)" "dc_ContextID (pp_DecRecord p) = cx_ContextID (pp_Context p)"
    by (rule prepare_base [OF p(1)])
  have id: "cl_ApprovalID ?c \<noteq> []" by (simp add: demo_call_def)
  have "\<exists>t a. firstTx demo_service (sql_ledger default_config) ?c p empty_db = (Inr (), t) \<and>
      sql_GetApproval (cl_ApprovalID ?c) t = Some a"
  proof (rule sql_pendingTx_empty [OF act])
    show "sv_PublicKey demo_service \<noteq> None" "\<not> postSlack demo_service ?c"
      by (simp_all add: demo_service_def postSlack_def demo_call_def)
  qed (use p(2) act m id MakeReceipt_fields [OF b] MakeReceipt_pending [OF b] in
      \<open>simp_all add: baseReceiptInput_def plain_outcome_def\<close>)
  then obtain t a where t: "firstTx demo_service (sql_ledger default_config) ?c p empty_db = (Inr (), t)"
    "sql_GetApproval (cl_ApprovalID ?c) t = Some a" by blast
  have "GetIdempotencyKey (sql_ledger default_config) k empty_db = None"
    by (simp add: sql_ledger_def sql_GetIdempotencyKey_def empty_db_def)
  with k p(1) t(1) act have "Authorize demo_service (sql_ledger default_config) ?c (gw_Store (gw_init empty_db)) =
      (Inr (firstResponse ?c p), t)"
    by (simp add: Authorize_def authorizeFirst_def WithTx_Inr_iff [THEN iffD2] Let_def gw_init_def
        kickOutbox_def postSlack_def demo_call_def)
  from Authorize_reach [OF reach_refl this] t(2) show ?thesis by (auto simp: demo_call_def)
qed

lemma demo_receipt:
  obtains i r where "MakeReceipt (sv_Prims demo_service) (sv_NFC demo_service) i (sv_Signer demo_service) = Inr r"
    and "mi_Refs i = None" and "mi_InteractionRef i = None"
    and "mi_Request i = workloadRequest (cl_Req (demo_call ''plan''))"
proof -
  obtain k where k: "ComputeIdemKey (sv_Prims demo_service) (sv_NFC demo_service) (cl_Claims (demo_call ''plan''))
      (cl_Req (demo_call ''plan'')) = Inr k" by (rule demo_plan_key)
  from prepare_total [OF demo_serviceable demo_encodable ComputeIdemKey_nonempty [OF k]]
  obtain p where p: "prepare demo_service (demo_call ''plan'') k = Inr p" by blast
  obtain m where "MakeReceipt (sv_Prims demo_service) (sv_NFC demo_service)
      (baseReceiptInput (demo_call ''plan'') k (pp_Context p) (pp_DecRecord p) m (pp_Action p))
      (sv_Signer demo_service) = Inr (pp_Base p)" by (rule prepare_base [OF p])
  then show ?thesis
    by (rule that) (simp_all add: baseReceiptInput_def demo_call_def demo_request_def receiptRefsOf_def)
qed

section \<open>Two first requests at once\<close>

text \<open>
  A second call of the same request that has looked the key up before the first one commits is not
  stopped: its transaction overwrites the row, and both calls reach the broker.
\<close>

definition pair_state :: "call \<Rightarrow> string \<Rightarrow> 's \<Rightarrow> event list \<Rightarrow> pc \<Rightarrow> pc \<Rightarrow> 's gateway" where
  "pair_state c k s log pc0 pc1 =
    \<lparr>gw_Store = s,
     gw_Threads = (\<lambda>_. None)(0 \<mapsto> \<lparr>th_Call = c, th_Key = k, th_Pc = pc0\<rparr>, 1 \<mapsto> \<lparr>th_Call = c, th_Key = k, th_Pc = pc1\<rparr>),
     gw_Job = None, gw_Log = log\<rparr>"

lemma pair_step:
  assumes "auth_step sv L c k pc s = ((pc', evs), t)"
  shows "gw_step sv L (pair_state c k s log pc q) (pair_state c k t (log @ evs) pc' q)"
    and "gw_step sv L (pair_state c k s log q pc) (pair_state c k t (log @ evs) q pc')"
  using gw_step.advance [of "pair_state c k s log pc q" 0 _ sv L pc' evs t]
    gw_step.advance [of "pair_state c k s log q pc" 1 _ sv L pc' evs t] assms
  by (simp_all add: pair_state_def fun_upd_twist)

lemma pair_reach:
  assumes "gw_reach sv L g0 (pair_state c k s log pc q)" and "auth_step sv L c k pc s = ((pc', evs), t)"
  shows "gw_reach sv L g0 (pair_state c k t (log @ evs) pc' q)"
  by (rule reach_step [OF assms(1) pair_step(1) [OF assms(2)]])

lemma pair_reach':
  assumes "gw_reach sv L g0 (pair_state c k s log q pc)" and "auth_step sv L c k pc s = ((pc', evs), t)"
  shows "gw_reach sv L g0 (pair_state c k t (log @ evs) q pc')"
  by (rule reach_step [OF assms(1) pair_step(2) [OF assms(2)]])

lemma pair_arrives:
  assumes "ComputeIdemKey (sv_Prims sv) (sv_NFC sv) (cl_Claims c) (cl_Req c) = Inr k"
  shows "gw_reach sv L (gw_init s) (pair_state c k s [] PLookup PLookup)"
proof -
  let ?g1 = "(gw_init s)\<lparr>gw_Threads := (gw_Threads (gw_init s))(0 \<mapsto> \<lparr>th_Call = c, th_Key = k, th_Pc = PLookup\<rparr>)\<rparr>"
  have "gw_reach sv L (gw_init s) ?g1"
    by (rule reach_step [OF reach_refl gw_step.arrive [OF assms]]) (simp add: gw_init_def)
  from reach_step [OF this gw_step.arrive [OF assms, of ?g1 1]] show ?thesis
    by (simp add: gw_init_def pair_state_def)
qed

lemma pair_mints:
  assumes "ComputeIdemKey (sv_Prims sv) (sv_NFC sv) (cl_Claims c) (cl_Req c) = Inr k"
    and "GetIdempotencyKey L k s = None" and "prepare sv c k = Inr p"
    and "pp_Action p = ActionIssueCredentials" and "firstTx sv L c p s = (Inr (), t)"
    and "firstTx sv L c p t = (Inr (), u)" and "\<And>i. \<exists>creds. cl_Broker c i = Inr creds"
  shows "\<exists>g. gw_reach sv L (gw_init s) g \<and> count_list (gw_Log g) (EvMinted k) = 2"
proof -
  let ?ev = "EvEvaluated k (lp_Policy (pp_Loaded p)) (policyInput (cl_Req c))"
  obtain x role ttl where plan: "firstPlan p = (x, role, ttl)" by (cases "firstPlan p")
  let ?pf = "PFinalize x role ttl"
  have look: "auth_step sv L c k PLookup s = ((PCommit p, [?ev]), s)"
    using assms(2,3) by (simp add: lookupStep_def)
  have commit: "auth_step sv L c k (PCommit p) s = ((PKick p, []), t)"
    "auth_step sv L c k (PCommit p) t = ((PKick p, []), u)"
    using assms(5,6) by (simp_all add: WithTx_Inr_iff [THEN iffD2])
  have kick: "auth_step sv L c k (PKick p) u = ((?pf, []), u)"
    using assms(4) plan by (simp add: kickOutbox_def)
  obtain pm where mint: "auth_step sv L c k ?pf u = ((pm, [EvMinted k]), u)"
    using assms(7) [of "brokerInput c role ttl"] by (auto simp: mintStep_def)
  note r1 = pair_reach' [OF pair_reach [OF pair_arrives [OF assms(1)] look] look]
  note r2 = pair_reach' [OF pair_reach [OF r1 commit(1)] commit(2)]
  note r3 = pair_reach' [OF pair_reach [OF r2 kick] kick]
  from pair_reach' [OF pair_reach [OF r3 mint] mint]
  show ?thesis by (auto simp: pair_state_def intro!: exI)
qed

context reliable_ledger
begin

theorem minted_twice:
  fixes c :: call
  assumes "serviceable sv loaded" and "encodable sv (cl_Req c)"
    and "verdict_spec (lp_Policy loaded) (policyInput (cl_Req c)) = ''allow''"
    and "ComputeIdemKey (sv_Prims sv) (sv_NFC sv) (cl_Claims c) (cl_Req c) = Inr k"
    and "GetIdempotencyKey L k s = None" and "\<And>i. \<exists>creds. cl_Broker c i = Inr creds"
  shows "\<exists>g. gw_reach sv L (gw_init s) g \<and> count_list (gw_Log g) (EvMinted k) = 2"
proof -
  from prepare_total [OF assms(1,2) ComputeIdemKey_nonempty [OF assms(4)]]
  obtain p where p: "prepare sv c k = Inr p"
    "pp_Decision p = Evaluate (lp_Policy loaded) (lp_Hash loaded) (policyInput (cl_Req c))" by blast
  have act: "pp_Action p = ActionIssueCredentials"
    using assms(3) by (simp add: pp_Action_def p(2) Evaluate_verdict TransitionFromDecision_action)
  have tx: "\<exists>t. firstTx sv L c p s' = (Inr (), t)" for s'
    using firstTx_total [of sv c p s'] by (cases "firstTx sv L c p s'") (auto simp: wp_def)
  obtain t where t: "firstTx sv L c p s = (Inr (), t)" using tx by blast
  obtain u where u: "firstTx sv L c p t = (Inr (), u)" using tx by blast
  from pair_mints [OF assms(4,5) p(1) act t u assms(6)] show ?thesis .
qed

end

end
