(* ===== verification/Aws_Broker.thy ===== *)
theory Aws_Broker
  imports Authorize_Service
begin

text \<open>
  \<open>internal/aws/sts.go\<close> and \<open>internal/aws/sts_real.go\<close>: the broker for development and the one that
  calls AWS.  The SDK is a parameter.
\<close>

definition DevBroker :: "int \<Rightarrow> assume_role_input \<Rightarrow> credentials res" where
  "DevBroker now i =
    Inr \<lparr>cd_AccessKeyID = ''DEV_ACCESS_KEY'', cd_SecretAccessKey = ''DEV_SECRET_KEY'',
         cd_SessionToken = ''DEV_SESSION_TOKEN'',
         cd_ExpiresAt = time_Add now (word_of_int (ri_TTLSeconds i) * second)\<rparr>"

record sts_credentials =
  st_AccessKeyId :: "string option"
  st_SecretAccessKey :: "string option"
  st_SessionToken :: "string option"
  st_Expiration :: "int option"

record sts_request =
  st_RoleArn :: string
  st_RoleSessionName :: string
  st_WebIdentityToken :: string
  st_DurationSeconds :: "32 word"

definition maxInt32 :: int where
  "maxInt32 = 2147483647"

definition strOrEmpty :: "string option \<Rightarrow> string" where
  "strOrEmpty s = (case s of None \<Rightarrow> [] | Some x \<Rightarrow> x)"

text \<open>\<open>LoadDefaultConfig\<close> is \<open>load\<close>; the client it gives is \<open>'c\<close>.\<close>

definition NewSTSBroker :: "(string \<Rightarrow> 'c res) \<Rightarrow> string \<Rightarrow> 'c res" where
  "NewSTSBroker load region =
    (if trim_space region = [] then Inl (Errorf ''missing region'') else load region)"

definition stsRequest :: "assume_role_input \<Rightarrow> sts_request" where
  "stsRequest i =
    \<lparr>st_RoleArn = ri_RoleARN i, st_RoleSessionName = ''relia'', st_WebIdentityToken = ri_WebIdentityToken i,
     st_DurationSeconds = word_of_int (ri_TTLSeconds i)\<rparr>"

definition stsCredentials :: "int \<Rightarrow> sts_credentials \<Rightarrow> credentials" where
  "stsCredentials now c =
    \<lparr>cd_AccessKeyID = strOrEmpty (st_AccessKeyId c), cd_SecretAccessKey = strOrEmpty (st_SecretAccessKey c),
     cd_SessionToken = strOrEmpty (st_SessionToken c),
     cd_ExpiresAt = (case st_Expiration c of None \<Rightarrow> now | Some t \<Rightarrow> t)\<rparr>"

text \<open>\<open>client\<close> is the SDK call; its output may lack the credentials.\<close>

definition STSBroker ::
  "(sts_request \<Rightarrow> sts_credentials option res) \<Rightarrow> int \<Rightarrow> assume_role_input \<Rightarrow> credentials res"
where
  "STSBroker client now i =
    (if ri_RoleARN i = [] then Inl (Errorf ''missing role arn'')
     else if ri_WebIdentityToken i = [] then Inl (Errorf ''missing web identity token'')
     else if ri_TTLSeconds i \<le> 0 then Inl (Errorf ''invalid ttl'')
     else if ri_TTLSeconds i > maxInt32 then Inl (Errorf ''invalid ttl'')
     else res_bind (client (stsRequest i)) (\<lambda>out.
       case out of None \<Rightarrow> Inl (Errorf ''missing credentials'') | Some c \<Rightarrow> Inr (stsCredentials now c)))"

text \<open>What reaches AWS is complete, and its lifetime is the one asked for.\<close>

definition asks_aws :: "assume_role_input \<Rightarrow> bool" where
  "asks_aws i \<longleftrightarrow> ri_RoleARN i \<noteq> [] \<and> ri_WebIdentityToken i \<noteq> [] \<and> 0 < ri_TTLSeconds i \<and> ri_TTLSeconds i \<le> maxInt32"

lemma STSBroker_refuses:
  assumes "\<not> asks_aws i"
  shows "\<exists>e. \<forall>client. STSBroker client now i = Inl e"
proof -
  from assms consider "ri_RoleARN i = []" | "ri_RoleARN i \<noteq> []" "ri_WebIdentityToken i = []"
    | "ri_RoleARN i \<noteq> []" "ri_WebIdentityToken i \<noteq> []" "ri_TTLSeconds i \<le> 0 \<or> ri_TTLSeconds i > maxInt32"
    by (fastforce simp: asks_aws_def)
  then show ?thesis by cases (simp_all add: STSBroker_def, blast)
qed

lemma stsRequest_ttl:
  assumes "asks_aws i"
  shows "sint (st_DurationSeconds (stsRequest i)) = ri_TTLSeconds i"
proof -
  have "st_DurationSeconds (stsRequest i) = word_of_int (ri_TTLSeconds i)" by (simp add: stsRequest_def)
  moreover have "sint (word_of_int (ri_TTLSeconds i) :: 32 word) = ri_TTLSeconds i"
    unfolding sint_sbintrunc' by (rule signed_take_bit_int_eq_self) (use assms in \<open>auto simp: asks_aws_def maxInt32_def\<close>)
  ultimately show ?thesis by simp
qed

lemma DevBroker_expiry:
  assumes "\<bar>ri_TTLSeconds i\<bar> < 9000000000"
  shows "\<exists>c. DevBroker now i = Inr c \<and> cd_ExpiresAt c = now + 1000000000 * ri_TTLSeconds i"
proof -
  have "(word_of_int (ri_TTLSeconds i) * second :: 64 word) = word_of_int (ri_TTLSeconds i * 1000000000)"
    by (simp add: second_def)
  moreover have "sint (word_of_int (ri_TTLSeconds i * 1000000000) :: 64 word) = ri_TTLSeconds i * 1000000000"
    unfolding sint_sbintrunc' by (rule signed_take_bit_int_eq_self) (use assms in auto)
  ultimately show ?thesis by (simp only: DevBroker_def time_Add_def) simp
qed

end
