(* ===== verification/Go_Path.thy ===== *)
theory Go_Path
  imports Go_Prelude
begin

text \<open>
  \<open>path/filepath\<close> on Unix, as the sources use it: \<open>Clean\<close>, \<open>Dir\<close>, \<open>Base\<close> and \<open>Join\<close>, and
  \<open>strings.TrimSuffix\<close>.  The lemmas show that \<open>Base\<close> takes back the name that \<open>Join\<close> added.
\<close>

section \<open>Definitions\<close>

definition trim_suffix :: "string \<Rightarrow> string \<Rightarrow> string" where
  "trim_suffix s p = (if has_suffix s p then take (length s - length p) s else s)"

fun split_all :: "char \<Rightarrow> string \<Rightarrow> string list" where
  "split_all sep [] = [[]]"
| "split_all sep (c # s) =
    (if c = sep then [] # split_all sep s
     else case split_all sep s of [] \<Rightarrow> [[c]] | p # ps \<Rightarrow> (c # p) # ps)"

text \<open>\<open>Clean\<close> works on the list of elements that are kept, the last one first.\<close>

fun clean_step :: "bool \<Rightarrow> string list \<Rightarrow> string \<Rightarrow> string list" where
  "clean_step rooted kept p =
    (if p = [] \<or> p = ''.'' then kept
     else if p = ''..'' then
       (case kept of
          [] \<Rightarrow> if rooted then [] else [p]
        | q # kept' \<Rightarrow> if q \<noteq> ''..'' then kept' else p # kept)
     else p # kept)"

definition path_clean :: "string \<Rightarrow> string" where
  "path_clean p =
    (if p = [] then ''.''
     else
       let rooted = (hd p = CHR ''/'');
           out = str_join ''/'' (rev (foldl (clean_step rooted) [] (split_all (CHR ''/'') p)))
       in if rooted then CHR ''/'' # out else if out = [] then ''.'' else out)"

definition path_dir :: "string \<Rightarrow> string" where
  "path_dir p = path_clean (rev (dropWhile (\<lambda>c. c \<noteq> CHR ''/'') (rev p)))"

definition path_base :: "string \<Rightarrow> string" where
  "path_base p =
    (if p = [] then ''.''
     else let t = trim_right_byte p (CHR ''/'')
          in if t = [] then ''/'' else rev (takeWhile (\<lambda>c. c \<noteq> CHR ''/'') (rev t)))"

definition path_join :: "string list \<Rightarrow> string" where
  "path_join ps = (case dropWhile (\<lambda>p. p = []) ps of [] \<Rightarrow> [] | es \<Rightarrow> path_clean (str_join ''/'' es))"

section \<open>Facts\<close>

lemma trim_suffix_append [simp]: "trim_suffix (s @ p) p = s"
  by (simp add: trim_suffix_def has_suffix_def)

lemma split_all_nonempty [simp]: "split_all sep s \<noteq> []"
  by (cases s) (auto split: list.splits)

lemma split_all_single: "sep \<notin> set s \<Longrightarrow> split_all sep s = [s]"
  by (induction s) auto

lemma split_all_append: "split_all sep (s @ sep # t) = split_all sep s @ split_all sep t"
  by (induction s) (auto split: list.splits)

lemma str_join_snoc: "ps \<noteq> [] \<Longrightarrow> str_join sep (ps @ [p]) = str_join sep ps @ sep @ p"
  by (induction sep ps rule: str_join.induct) auto

text \<open>An element that stands for itself.\<close>

definition plain_name :: "string \<Rightarrow> bool" where
  "plain_name p \<longleftrightarrow> p \<noteq> [] \<and> p \<noteq> ''.'' \<and> p \<noteq> ''..'' \<and> CHR ''/'' \<notin> set p"

lemma path_base_plain:
  assumes "plain_name p"
  shows "path_base p = p" and "path_base (q @ CHR ''/'' # p) = p"
proof -
  from assms have p: "p \<noteq> []" "CHR ''/'' \<notin> set p" by (simp_all add: plain_name_def)
  then obtain x xs where "rev p = x # xs" by (cases "rev p") auto
  moreover from this p(2) have "x \<noteq> CHR ''/''" by (metis list.set_intros(1) set_rev)
  ultimately have t: "trim_right_byte p (CHR ''/'') = p" "trim_right_byte (q @ CHR ''/'' # p) (CHR ''/'') = q @ CHR ''/'' # p"
    by (simp_all add: trim_right_byte_def rev_swap)
  have all: "\<forall>c \<in> set (rev p). c \<noteq> CHR ''/''" using p(2) by auto
  have w: "takeWhile (\<lambda>c. c \<noteq> CHR ''/'') (rev p) = rev p"
    using all by (simp add: takeWhile_eq_all_conv)
  have v: "takeWhile (\<lambda>c. c \<noteq> CHR ''/'') (rev p @ CHR ''/'' # rev q) = rev p"
    using all by (subst takeWhile_append2) simp_all
  show "path_base p = p" and "path_base (q @ CHR ''/'' # p) = p"
    by (simp_all add: path_base_def Let_def t w v p(1))
qed

lemma path_join_name:
  assumes "dir \<noteq> []" and "plain_name p"
  shows "path_base (path_join [dir, p]) = p"
proof -
  let ?kept = "foldl (clean_step (hd dir = CHR ''/'')) [] (split_all (CHR ''/'') dir)"
  from assms(2) have step: "clean_step r kept p = p # kept" for r kept
    by (simp add: plain_name_def)
  have "path_join [dir, p] = (let out = str_join ''/'' (rev ?kept @ [p])
      in if hd dir = CHR ''/'' then CHR ''/'' # out else if out = [] then ''.'' else out)"
    using assms by (simp add: path_join_def path_clean_def split_all_append plain_name_def
        split_all_single step Let_def del: clean_step.simps)
  moreover have "path_base (str_join ''/'' (rev ?kept @ [p])) = p \<and>
      path_base (CHR ''/'' # str_join ''/'' (rev ?kept @ [p])) = p \<and> str_join ''/'' (rev ?kept @ [p]) \<noteq> []"
  proof (cases "?kept = []")
    case True
    then show ?thesis
      using path_base_plain(1) [OF assms(2)] path_base_plain(2) [OF assms(2), of "[]"] assms(2) by (simp add: plain_name_def)
  next
    case False
    then have j: "str_join ''/'' (rev ?kept @ [p]) = str_join ''/'' (rev ?kept) @ CHR ''/'' # p"
      by (simp add: str_join_snoc)
    show ?thesis
      unfolding j using path_base_plain(2) [OF assms(2), of "str_join ''/'' (rev ?kept)"]
        path_base_plain(2) [OF assms(2), of "CHR ''/'' # str_join ''/'' (rev ?kept)"] by simp
  qed
  ultimately show ?thesis unfolding Let_def by presburger
qed

end
