(* ===== verification/Migrations.thy ===== *)
theory Migrations
  imports Go_Path Go_Time Tables
begin

text \<open>
  \<open>internal/ledger/migrate.go\<close>: the embedded SQL files of a driver are applied in the order of their
  names, each in a transaction of its own that also records the version in the migrations table.
  What a script does to the schema is a parameter; no script of \<open>internal/ledger/migrations\<close> names the
  migrations tables, so they are kept apart.  The lemmas show that at every moment, failures
  included, the schema is the result of exactly the recorded versions, each executed once.
\<close>

section \<open>State and environment\<close>

text \<open>
  \<open>md_Tables\<close> has the migrations tables that exist: the versions with their times.  The environment is
  the embedded file system (\<open>me_ReadDir\<close> gives names and whether they are directories), the clock, the
  effect of a script, and where the driver fails.
\<close>

record 'd migration_db =
  md_Tables :: "string \<rightharpoonup> string table"
  md_Schema :: 'd

datatype migration_op = OpCreate | OpBegin string | OpInsert string | OpCommit string

record 'd migration_env =
  me_ReadDir :: "string \<Rightarrow> (string \<times> bool) list res"
  me_ReadFile :: "string \<Rightarrow> string res"
  me_Exec :: "string \<Rightarrow> 'd \<Rightarrow> 'd res"
  me_Now :: int
  me_Timestamptz :: "int \<Rightarrow> string"
  me_Fault :: "migration_op \<Rightarrow> goerr option"

definition faulty :: "'d migration_env \<Rightarrow> migration_op \<Rightarrow> unit res" where
  "faulty env p = (case me_Fault env p of Some e \<Rightarrow> Inl e | None \<Rightarrow> Inr ())"

section \<open>Operations\<close>

definition migrationConfig :: "string \<Rightarrow> (string \<times> string) res" where
  "migrationConfig driver =
    (if driver = ''sqlite'' then Inr (''migrations/sqlite'', ''schema_migrations'')
     else if driver = ''postgres'' then Inr (''migrations/postgres'', ''relia_schema_migrations'')
     else Inl (Errorf (''unsupported db driver: '' @ driver)))"

definition ensureMigrationsTable ::
  "'d migration_env \<Rightarrow> string \<Rightarrow> string \<Rightarrow> 'd migration_db \<Rightarrow> 'd migration_db res"
where
  "ensureMigrationsTable env driver table db =
    (if driver = ''sqlite'' \<or> driver = ''postgres'' then
       res_bind (faulty env OpCreate) (\<lambda>_.
         Inr (case md_Tables db table of Some _ \<Rightarrow> db | None \<Rightarrow> db\<lparr>md_Tables := (md_Tables db)(table \<mapsto> [])\<rparr>))
     else Inl (Errorf (''unsupported db driver: '' @ driver)))"

text \<open>Whether the row was inserted, and the database with it.\<close>

definition tryInsertMigration ::
  "'d migration_env \<Rightarrow> string \<Rightarrow> string \<Rightarrow> string \<Rightarrow> int \<Rightarrow> 'd migration_db \<Rightarrow> (bool \<times> 'd migration_db) res"
where
  "tryInsertMigration env driver table version now db =
    (if driver = ''sqlite'' \<or> driver = ''postgres'' then
       let applied_at = (if driver = ''sqlite'' then rfc3339 now else me_Timestamptz env now)
       in res_bind (faulty env (OpInsert version)) (\<lambda>_.
            case md_Tables db table of
              None \<Rightarrow> Inl (Errorf (''no such table: '' @ table))
            | Some rows \<Rightarrow>
                if table_get rows version \<noteq> None then Inr (False, db)
                else Inr (True, db\<lparr>md_Tables := (md_Tables db)(table \<mapsto> table_put version applied_at rows)\<rparr>))
     else Inl (Errorf (''unsupported db driver: '' @ driver)))"

definition listMigrationFiles :: "'d migration_env \<Rightarrow> string \<Rightarrow> string list res" where
  "listMigrationFiles env dir =
    res_bind (me_ReadDir env dir) (\<lambda>es.
      Inr (sort (map (\<lambda>(name, _). path_join [dir, name])
        (filter (\<lambda>(name, isDir). \<not> isDir \<and> has_suffix name ''.sql'') es))))"

definition fileVersion :: "string \<Rightarrow> string" where
  "fileVersion file = trim_suffix (path_base file) ''.sql''"

text \<open>
  The script of a version, and one round of the loop; a transaction that does not commit leaves the
  database as it was.
\<close>

definition applyScript :: "'d migration_env \<Rightarrow> string \<Rightarrow> string \<Rightarrow> 'd \<Rightarrow> 'd res" where
  "applyScript env version contents d =
    (case me_Exec env contents d of
       Inl e \<Rightarrow> Inl (Errorf (''apply migration '' @ version @ '': '' @ err_msg e))
     | Inr d' \<Rightarrow> Inr d')"

definition migrationTx ::
  "'d migration_env \<Rightarrow> string \<Rightarrow> string \<Rightarrow> int \<Rightarrow> string \<Rightarrow> string \<Rightarrow> 'd migration_db \<Rightarrow> 'd migration_db res"
where
  "migrationTx env driver table now version contents db =
    res_bind (faulty env (OpBegin version)) (\<lambda>_.
    res_bind (tryInsertMigration env driver table version now db) (\<lambda>(applied, tx).
      if \<not> applied then Inr db
      else res_bind (applyScript env version contents (md_Schema tx)) (\<lambda>schema.
           res_bind (faulty env (OpCommit version)) (\<lambda>_. Inr (tx\<lparr>md_Schema := schema\<rparr>)))))"

definition migrateFile ::
  "'d migration_env \<Rightarrow> string \<Rightarrow> string \<Rightarrow> int \<Rightarrow> string \<Rightarrow> ('d migration_db, unit) tx"
where
  "migrateFile env driver table now file =
    tx_put (\<lambda>db. res_bind (me_ReadFile env file) (\<lambda>contents.
      migrationTx env driver table now (fileVersion file) contents db))"

fun migrateFiles ::
  "'d migration_env \<Rightarrow> string \<Rightarrow> string \<Rightarrow> int \<Rightarrow> string list \<Rightarrow> ('d migration_db, unit) tx"
where
  "migrateFiles env driver table now [] = tx_return ()"
| "migrateFiles env driver table now (file # files) =
    tx_bind (migrateFile env driver table now file) (\<lambda>_. migrateFiles env driver table now files)"

definition Migrate :: "'d migration_env \<Rightarrow> string \<Rightarrow> ('d migration_db option, unit) tx" where
  "Migrate env driver db =
    (case db of
       None \<Rightarrow> (Inl (Errorf ''missing db''), None)
     | Some d \<Rightarrow>
       (case migrationConfig driver of
          Inl e \<Rightarrow> (Inl e, Some d)
        | Inr (dir, table) \<Rightarrow>
          (case ensureMigrationsTable env driver table d of
             Inl e \<Rightarrow> (Inl e, Some d)
           | Inr d1 \<Rightarrow>
             (case listMigrationFiles env dir of
                Inl e \<Rightarrow> (Inl e, Some d1)
              | Inr files \<Rightarrow> map_prod id Some (migrateFiles env driver table (me_Now env) files d1)))))"

section \<open>What has been applied\<close>

definition recorded :: "string \<Rightarrow> 'd migration_db \<Rightarrow> string set" where
  "recorded table db = (case md_Tables db table of None \<Rightarrow> {} | Some rows \<Rightarrow> dom (table_get rows))"

text \<open>The scripts of some files executed one after the other.\<close>

fun execFiles :: "'d migration_env \<Rightarrow> string list \<Rightarrow> 'd \<Rightarrow> 'd res" where
  "execFiles env [] d = Inr d"
| "execFiles env (file # files) d =
    res_bind (me_ReadFile env file) (\<lambda>contents. res_bind (me_Exec env contents d) (execFiles env files))"

text \<open>The database is what the files \<open>fs\<close> made of \<open>d\<close>, and exactly their versions are recorded.\<close>

definition migrated_by :: "'d migration_env \<Rightarrow> string \<Rightarrow> 'd \<Rightarrow> string list \<Rightarrow> 'd migration_db \<Rightarrow> bool" where
  "migrated_by env table d fs db \<longleftrightarrow>
     distinct (map fileVersion fs) \<and> recorded table db = fileVersion ` set fs \<and>
     execFiles env fs d = Inr (md_Schema db)"

definition same_files :: "'d migration_env \<Rightarrow> 'd migration_env \<Rightarrow> bool" where
  "same_files env env' \<longleftrightarrow> me_ReadDir env' = me_ReadDir env \<and> me_ReadFile env' = me_ReadFile env \<and>
     me_Exec env' = me_Exec env"

section \<open>Facts\<close>

lemma execFiles_snoc:
  "execFiles env (fs @ [f]) d =
    res_bind (execFiles env fs d) (\<lambda>d'. res_bind (me_ReadFile env f) (\<lambda>c. me_Exec env c d'))"
  by (induction fs arbitrary: d) (auto simp: res_bind_def split: sum.splits)

lemma migrationConfig_Inr:
  "migrationConfig driver = Inr (dir, table) \<Longrightarrow> driver = ''sqlite'' \<or> driver = ''postgres''"
  by (auto simp: migrationConfig_def split: if_splits)

lemma ensure_recorded:
  "ensureMigrationsTable env driver table db = Inr db' \<Longrightarrow>
     recorded table' db' = recorded table' db \<and> md_Schema db' = md_Schema db \<and> md_Tables db' table \<noteq> None"
  by (auto simp: ensureMigrationsTable_def recorded_def res_bind_Inr_iff split: if_splits option.splits)

lemma tryInsert_Inr:
  "tryInsertMigration env driver table version now db = Inr (applied, db') \<Longrightarrow>
     applied = (version \<notin> recorded table db) \<and> md_Schema db' = md_Schema db \<and>
     (applied \<longrightarrow> recorded table db' = insert version (recorded table db)) \<and> (\<not> applied \<longrightarrow> db' = db)"
  by (auto simp: tryInsertMigration_def recorded_def res_bind_Inr_iff Let_def split: if_splits option.splits)

lemma applyScript_Inr: "applyScript env version contents d = Inr d' \<longleftrightarrow> me_Exec env contents d = Inr d'"
  by (simp add: applyScript_def split: sum.splits)

text \<open>A round either leaves the database alone or applies its file.\<close>

lemma migrateFile_cases:
  assumes "migrateFile env driver table now file db = (r, db')"
  obtains (same) "db' = db" and "r = Inr () \<Longrightarrow> fileVersion file \<in> recorded table db"
  | (applied) contents where "r = Inr ()" and "fileVersion file \<notin> recorded table db"
      and "recorded table db' = insert (fileVersion file) (recorded table db)"
      and "me_ReadFile env file = Inr contents" and "me_Exec env contents (md_Schema db) = Inr (md_Schema db')"
proof (cases r)
  case (Inl e)
  with assms have "db' = db" by (simp add: migrateFile_def tx_put_def split: sum.splits)
  with Inl same show thesis by simp
next
  case (Inr u)
  with assms obtain contents where c: "me_ReadFile env file = Inr contents"
    and m: "migrationTx env driver table now (fileVersion file) contents db = Inr db'"
    by (auto simp: migrateFile_def tx_put_Inr_iff res_bind_Inr_iff)
  from m obtain applied tx where
    t: "tryInsertMigration env driver table (fileVersion file) now db = Inr (applied, tx)"
    and d: "if applied then \<exists>schema. me_Exec env contents (md_Schema tx) = Inr schema \<and> db' = tx\<lparr>md_Schema := schema\<rparr>
            else db' = db"
    by (fastforce simp: migrationTx_def res_bind_Inr_iff applyScript_Inr split: if_splits)
  note t = tryInsert_Inr [OF t]
  show thesis
  proof (cases applied)
    case True
    with d obtain schema where e: "me_Exec env contents (md_Schema tx) = Inr schema" "db' = tx\<lparr>md_Schema := schema\<rparr>"
      by auto
    then have "recorded table db' = recorded table tx" by (simp add: recorded_def)
    with True Inr t c e show thesis by (intro applied) simp_all
  next
    case False
    with d t same show thesis by simp
  qed
qed

text \<open>A round on a file that is recorded changes nothing; on the next file it applies it or fails.\<close>

lemma migrateFile_next:
  assumes "migrateFile env driver table now (files ! i) db = (r, db')" and "i < length files"
    and "distinct (map fileVersion files)" and "migrated_by env table d (take n files) db"
    and "n \<le> length files" and "i \<le> n"
  obtains m where "n \<le> m" and "m \<le> length files" and "migrated_by env table d (take m files) db'"
    and "r = Inr () \<Longrightarrow> Suc i \<le> m"
proof -
  have rec: "recorded table db = fileVersion ` set (take n files)" using assms(4) by (simp add: migrated_by_def)
  have known: "fileVersion (files ! i) \<in> recorded table db \<longleftrightarrow> i < n"
  proof
    assume "i < n"
    then have "files ! i \<in> set (take n files)" using assms(2) by (auto simp: in_set_conv_nth)
    then show "fileVersion (files ! i) \<in> recorded table db" unfolding rec by blast
  next
    assume "fileVersion (files ! i) \<in> recorded table db"
    then obtain j where "j < n" "j < length files" "fileVersion (files ! j) = fileVersion (files ! i)"
      unfolding rec by (fastforce simp: in_set_conv_nth)
    with assms(2,3) show "i < n" by (metis distinct_conv_nth length_map nth_map)
  qed
  from assms(1) show thesis
  proof (cases rule: migrateFile_cases)
    case same
    with that [of n] assms(4,5) known show thesis by auto
  next
    case (applied contents)
    with known assms(6) have i: "i = n" by simp
    have t: "take (Suc n) files = take n files @ [files ! n]" using assms(2) i by (simp add: take_Suc_conv_app_nth)
    have "distinct (map fileVersion (take (Suc n) files))" using assms(3) by (simp add: take_map [symmetric])
    with applied assms(4) have "migrated_by env table d (take (Suc n) files) db'"
      by (auto simp: migrated_by_def t i execFiles_snoc)
    with that [of "Suc n"] assms(2) i show thesis by simp
  qed
qed

lemma migrateFiles_prefix:
  assumes "distinct (map fileVersion files)"
    and "migrateFiles env driver table now (drop i files) db = (r, db')"
    and "migrated_by env table d (take n files) db" and "n \<le> length files" and "i \<le> n"
  shows "\<exists>m \<le> length files. migrated_by env table d (take m files) db' \<and> (r = Inr () \<longrightarrow> m = length files)"
  using assms(2-)
proof (induction "length files - i" arbitrary: i n db)
  case 0
  then show ?case by (auto simp: tx_return_def)
next
  case (Suc k)
  then have i: "i < length files" by simp
  then have "drop i files = files ! i # drop (Suc i) files" by (simp add: Cons_nth_drop_Suc)
  with Suc.prems(1) obtain r1 db1 where one: "migrateFile env driver table now (files ! i) db = (r1, db1)"
    and rest: "case r1 of Inl e \<Rightarrow> r = Inl e \<and> db' = db1
      | Inr _ \<Rightarrow> migrateFiles env driver table now (drop (Suc i) files) db1 = (r, db')"
    by (auto simp: tx_bind_def split: prod.splits sum.splits)
  obtain m where m: "n \<le> m" "m \<le> length files" "migrated_by env table d (take m files) db1"
    "r1 = Inr () \<Longrightarrow> Suc i \<le> m"
    using migrateFile_next [OF one i assms(1) Suc.prems(2-)] by blast
  show ?case
  proof (cases r1)
    case (Inl e)
    with rest m(2,3) show ?thesis by auto
  next
    case (Inr u)
    with Suc.hyps(1) [OF _ _ m(3,2) m(4)] Suc.hyps(2) rest i show ?thesis by auto
  qed
qed

text \<open>The names of a directory are distinct, and so are the versions of its scripts.\<close>

lemma fileVersion_join:
  "dir \<noteq> [] \<Longrightarrow> plain_name name \<Longrightarrow> fileVersion (path_join [dir, name]) = trim_suffix name ''.sql''"
  by (simp add: fileVersion_def path_join_name)

lemma has_suffix_split: "has_suffix a s \<Longrightarrow> \<exists>b. a = b @ s"
  by (auto simp: has_suffix_def has_prefix_iff) (metis rev_append rev_rev_ident)

lemma trim_suffix_inj:
  "has_suffix a s \<Longrightarrow> has_suffix b s \<Longrightarrow> trim_suffix a s = trim_suffix b s \<Longrightarrow> a = b"
  by (metis has_suffix_split trim_suffix_append)

lemma listed_versions:
  assumes "listMigrationFiles env dir = Inr files" and "me_ReadDir env dir = Inr es" and "dir \<noteq> []"
    and "distinct (map fst es)" and "\<forall>e \<in> set es. plain_name (fst e)"
  shows "distinct (map fileVersion files)"
proof -
  let ?scripts = "filter (\<lambda>(name, isDir). \<not> isDir \<and> has_suffix name ''.sql'') es"
  have "inj_on (fileVersion \<circ> (\<lambda>(name, _). path_join [dir, name])) (set ?scripts)"
  proof (rule inj_onI)
    fix x y
    assume x: "x \<in> set ?scripts" and y: "y \<in> set ?scripts"
      and same: "(fileVersion \<circ> (\<lambda>(name, _). path_join [dir, name])) x =
        (fileVersion \<circ> (\<lambda>(name, _). path_join [dir, name])) y"
    from x y assms(5) have "plain_name (fst x)" "plain_name (fst y)" by auto
    from fileVersion_join [OF assms(3) this(1)] fileVersion_join [OF assms(3) this(2)] same
    have "trim_suffix (fst x) ''.sql'' = trim_suffix (fst y) ''.sql''" by (simp add: case_prod_unfold)
    with x y have "fst x = fst y" by (auto intro: trim_suffix_inj [of _ "''.sql''"])
    moreover have "inj_on fst (set es)" using assms(4) by (simp add: distinct_map)
    ultimately show "x = y" using x y by (auto dest: inj_onD)
  qed
  moreover have "distinct ?scripts" using assms(4) by (simp add: distinct_map)
  ultimately have "distinct (map (fileVersion \<circ> (\<lambda>(name, _). path_join [dir, name])) ?scripts)"
    by (simp add: distinct_map)
  moreover have "mset (map fileVersion files) =
      mset (map (fileVersion \<circ> (\<lambda>(name, _). path_join [dir, name])) ?scripts)"
    using assms(1,2) by (auto simp: listMigrationFiles_def multiset.map_comp)
  ultimately show ?thesis by (metis mset_eq_imp_distinct_iff)
qed

section \<open>Attempts\<close>

text \<open>
  The database after the starts of the gateway, each with its own clock and its own failures; a failed
  attempt is made again at the next start.
\<close>

fun attempts :: "string \<Rightarrow> 'd migration_env list \<Rightarrow> 'd migration_db option \<Rightarrow> 'd migration_db option" where
  "attempts driver [] db = db"
| "attempts driver (env # envs) db = attempts driver envs (snd (Migrate env driver db))"

lemma same_files_migrated: "same_files env env' \<Longrightarrow> migrated_by env' table d fs db = migrated_by env table d fs db"
proof -
  assume "same_files env env'"
  then have same: "me_ReadFile env' = me_ReadFile env" "me_Exec env' = me_Exec env"
    by (simp_all add: same_files_def)
  have "execFiles env' fs = execFiles env fs"
  proof (induction fs)
    case (Cons f fs)
    then show ?case by (intro ext) (simp add: same)
  qed (intro ext, simp)
  then show ?thesis by (simp add: migrated_by_def)
qed

lemma Migrate_prefix:
  assumes "migrationConfig driver = Inr (dir, table)" and "listMigrationFiles env dir = Inr files"
    and "distinct (map fileVersion files)" and "same_files env env'"
    and "migrated_by env table d (take n files) db" and "n \<le> length files"
    and "Migrate env' driver (Some db) = (r, db')"
  shows "\<exists>m db2. db' = Some db2 \<and> m \<le> length files \<and> migrated_by env table d (take m files) db2 \<and>
    (r = Inr () \<longrightarrow> m = length files)"
proof (cases "ensureMigrationsTable env' driver table db")
  case (Inl e)
  with assms show ?thesis by (auto simp: Migrate_def)
next
  case (Inr d1)
  have fs: "listMigrationFiles env' dir = Inr files"
    using assms(2,4) by (simp add: listMigrationFiles_def same_files_def)
  from ensure_recorded [OF Inr] assms(5) have m: "migrated_by env' table d (take n files) d1"
    unfolding same_files_migrated [OF assms(4)] by (simp add: migrated_by_def)
  obtain d2 where run: "migrateFiles env' driver table (me_Now env') (drop 0 files) d1 = (r, d2)" and "db' = Some d2"
    using assms(1,7) fs Inr by (auto simp: Migrate_def map_prod_def split: prod.splits)
  with migrateFiles_prefix [OF assms(3) run m assms(6)] same_files_migrated [OF assms(4)] show ?thesis by auto
qed

lemma attempts_prefix:
  assumes "migrationConfig driver = Inr (dir, table)" and "listMigrationFiles env dir = Inr files"
    and "distinct (map fileVersion files)" and "\<forall>e \<in> set envs. same_files env e"
    and "migrated_by env table d (take n files) db" and "n \<le> length files"
  shows "\<exists>m db'. attempts driver envs (Some db) = Some db' \<and> m \<le> length files \<and>
    migrated_by env table d (take m files) db'"
  using assms(4-)
proof (induction envs arbitrary: db n)
  case (Cons e envs)
  obtain r db1 where one: "Migrate e driver (Some db) = (r, db1)" by fastforce
  have same: "same_files env e" "\<forall>e \<in> set envs. same_files env e" using Cons.prems(1) by simp_all
  obtain m db2 where "db1 = Some db2" "m \<le> length files" "migrated_by env table d (take m files) db2"
    using Migrate_prefix [OF assms(1-3) same(1) Cons.prems(2,3) one] by blast
  with Cons.IH [OF same(2)] one show ?case by auto
qed auto

section \<open>A second run\<close>

lemma migrateFile_recorded:
  assumes "driver = ''sqlite'' \<or> driver = ''postgres''" and "\<And>p. me_Fault env p = None"
    and "me_ReadFile env f = Inr c" and "fileVersion f \<in> recorded table db"
  shows "migrateFile env driver table now f db = (Inr (), db)"
proof -
  from assms(4) obtain rows where "md_Tables db table = Some rows" "table_get rows (fileVersion f) \<noteq> None"
    by (auto simp: recorded_def split: option.splits)
  with assms(1-3) show ?thesis
    by (auto simp: migrateFile_def tx_put_def migrationTx_def tryInsertMigration_def faulty_def Let_def)
qed

lemma migrateFiles_recorded:
  assumes "driver = ''sqlite'' \<or> driver = ''postgres''" and "\<And>p. me_Fault env p = None"
    and "\<forall>f \<in> set files. \<exists>c. me_ReadFile env f = Inr c"
    and "fileVersion ` set files \<subseteq> recorded table db"
  shows "migrateFiles env driver table now files db = (Inr (), db)"
  using assms(3,4)
proof (induction files)
  case (Cons f files)
  then obtain c where "me_ReadFile env f = Inr c" "fileVersion f \<in> recorded table db" by auto
  from migrateFile_recorded [OF assms(1,2) this] Cons show ?case by (simp add: tx_bind_def)
qed (simp add: tx_return_def)

lemma migrateFiles_success:
  "migrateFiles env driver table now files db = (Inr u, db') \<Longrightarrow>
     (\<forall>f \<in> set files. \<exists>c. me_ReadFile env f = Inr c) \<and>
     recorded table db' = recorded table db \<union> fileVersion ` set files"
proof (induction files arbitrary: db)
  case (Cons f files)
  then obtain db1 where one: "migrateFile env driver table now f db = (Inr (), db1)"
    and "migrateFiles env driver table now files db1 = (Inr u, db')" by (auto simp: tx_bind_Inr_iff)
  from Cons.IH [OF this(2)] have "\<forall>f \<in> set files. \<exists>c. me_ReadFile env f = Inr c"
    "recorded table db' = recorded table db1 \<union> fileVersion ` set files" by blast+
  moreover from one have "\<exists>c. me_ReadFile env f = Inr c"
    by (auto simp: migrateFile_def tx_put_Inr_iff res_bind_Inr_iff)
  moreover from one have "recorded table db1 = insert (fileVersion f) (recorded table db)"
    by (cases rule: migrateFile_cases) auto
  ultimately show ?case by auto
qed (simp add: tx_return_def)

lemma migrateFiles_tables:
  assumes "migrateFiles env driver table now files db = (r, db')" and "md_Tables db table \<noteq> None"
  shows "md_Tables db' table \<noteq> None"
  using assms
proof (induction files arbitrary: db)
  case (Cons f files)
  obtain r1 db1 where one: "migrateFile env driver table now f db = (r1, db1)" by fastforce
  then have "md_Tables db1 table \<noteq> None"
    using Cons.prems(2) by (auto simp: migrateFile_def tx_put_def migrationTx_def tryInsertMigration_def Let_def
        res_bind_Inr_iff split: sum.splits if_splits option.splits)
  with one Cons show ?case by (auto simp: tx_bind_def split: sum.splits)
qed (simp add: tx_return_def)

lemma Migrate_Inr:
  assumes "Migrate env driver (Some db) = (Inr u, db')"
  obtains dir table d1 files d2 where "migrationConfig driver = Inr (dir, table)"
    and "ensureMigrationsTable env driver table db = Inr d1" and "listMigrationFiles env dir = Inr files"
    and "migrateFiles env driver table (me_Now env) files d1 = (Inr (), d2)" and "db' = Some d2"
  using assms by (auto simp: Migrate_def map_prod_def split: sum.splits prod.splits)

lemma Migrate_again:
  assumes "Migrate env driver (Some db) = (Inr u, db')"
    and "same_files env env'" and "\<And>p. me_Fault env' p = None"
  shows "Migrate env' driver db' = (Inr (), db')"
proof -
  obtain dir table d1 files d2 where c: "migrationConfig driver = Inr (dir, table)"
    and d1: "ensureMigrationsTable env driver table db = Inr d1" and fs: "listMigrationFiles env dir = Inr files"
    and run: "migrateFiles env driver table (me_Now env) files d1 = (Inr (), d2)" and db': "db' = Some d2"
    by (rule Migrate_Inr [OF assms(1)])
  note driver = migrationConfig_Inr [OF c]
  note ok = migrateFiles_success [OF run]
  have read: "\<forall>f \<in> set files. \<exists>c. me_ReadFile env' f = Inr c" using ok assms(2) by (simp add: same_files_def)
  have fs': "listMigrationFiles env' dir = Inr files" using fs assms(2) by (simp add: listMigrationFiles_def same_files_def)
  obtain rows where rows: "md_Tables d2 table = Some rows"
    using migrateFiles_tables [OF run] ensure_recorded [OF d1] by auto
  have ens: "ensureMigrationsTable env' driver table d2 = Inr d2"
    using driver rows assms(3) by (simp add: ensureMigrationsTable_def faulty_def)
  have "migrateFiles env' driver table (me_Now env') files d2 = (Inr (), d2)"
    using ok by (intro migrateFiles_recorded [OF driver assms(3) read]) auto
  with c ens fs' db' show ?thesis by (simp add: Migrate_def)
qed

end
