(* ===== verification/Go_Flag.thy ===== *)
theory Go_Flag
  imports Go_Prelude
begin

text \<open>
  The \<open>flag\<close> package: \<open>FlagSet.Parse\<close> with \<open>ContinueOnError\<close> for string and boolean flags.  Parsing
  stops at the first argument that is not a flag, and everything from there on is an argument.
\<close>

datatype flag_value = FString string | FBool bool

text \<open>The flags with their current values, and the arguments after them.\<close>

type_synonym flags = "(string \<times> flag_value) list"

section \<open>Parsing\<close>

definition parseBool :: "string \<Rightarrow> bool option" where
  "parseBool s =
    (if s \<in> {''1'', ''t'', ''T'', ''TRUE'', ''true'', ''True''} then Some True
     else if s \<in> {''0'', ''f'', ''F'', ''FALSE'', ''false'', ''False''} then Some False
     else None)"

text \<open>\<open>--name=value\<close>: the name up to the first equals sign that is not its first byte.\<close>

definition flag_name :: "string \<Rightarrow> string \<times> string option" where
  "flag_name s =
    (let n = take 1 s @ takeWhile (\<lambda>c. c \<noteq> CHR ''='') (drop 1 s)
     in (n, if length n < length s then Some (drop (length n + 1) s) else None))"

datatype flag_error = FlagHelp | FlagError string

definition set_flag :: "string \<Rightarrow> flag_value \<Rightarrow> flags \<Rightarrow> flags" where
  "set_flag name v fs = AList.update name v fs"

text \<open>
  One step of the loop: \<open>Inr None\<close> ends the flags here, \<open>Inr (Some (fs, rest))\<close> goes on with the
  arguments \<open>rest\<close>.
\<close>

datatype flag_step = FlagsEnd "string list" | FlagSeen flags "string list"

definition parseFlag :: "flags \<Rightarrow> string \<Rightarrow> string \<Rightarrow> string list \<Rightarrow> flag_error + flag_step" where
  "parseFlag fs s name args =
    (let (n, v) = flag_name name
     in case map_of fs n of
          None \<Rightarrow> if n = ''help'' \<or> n = ''h'' then Inl FlagHelp
                  else Inl (FlagError (''flag provided but not defined: -'' @ n))
        | Some (FBool _) \<Rightarrow>
            (case v of
               None \<Rightarrow> Inr (FlagSeen (set_flag n (FBool True) fs) args)
             | Some v' \<Rightarrow>
               (case parseBool v' of
                  None \<Rightarrow> Inl (FlagError (''invalid boolean value for -'' @ n))
                | Some b \<Rightarrow> Inr (FlagSeen (set_flag n (FBool b) fs) args)))
        | Some (FString _) \<Rightarrow>
            (case v of
               Some v' \<Rightarrow> Inr (FlagSeen (set_flag n (FString v') fs) args)
             | None \<Rightarrow>
               (case args of
                  [] \<Rightarrow> Inl (FlagError (''flag needs an argument: -'' @ n))
                | a # args' \<Rightarrow> Inr (FlagSeen (set_flag n (FString a) fs) args'))))"

definition parseOne :: "flags \<Rightarrow> string list \<Rightarrow> flag_error + flag_step" where
  "parseOne fs args =
    (case args of
       [] \<Rightarrow> Inr (FlagsEnd [])
     | s # rest \<Rightarrow>
         if length s < 2 \<or> hd s \<noteq> CHR ''-'' then Inr (FlagsEnd args)
         else if s = ''--'' then Inr (FlagsEnd rest)
         else
           let name = (if s ! 1 = CHR ''-'' then drop 2 s else drop 1 s)
           in if hd name = CHR ''-'' \<or> hd name = CHR ''='' then Inl (FlagError (''bad flag syntax: '' @ s))
              else parseFlag fs s name rest)"

lemma parseFlag_args: "parseFlag fs s name args = Inr (FlagSeen fs' rest) \<Longrightarrow> \<exists>used. args = used @ rest"
  by (auto simp: parseFlag_def split: prod.splits option.splits flag_value.splits list.splits if_splits)

lemma parseOne_shorter: "parseOne fs args = Inr (FlagSeen fs' rest) \<Longrightarrow> length rest < length args"
  by (auto simp: parseOne_def Let_def dest!: parseFlag_args split: list.splits if_splits)

function parseFlags :: "flags \<Rightarrow> string list \<Rightarrow> flag_error + (flags \<times> string list)" where
  "parseFlags fs args =
    (case parseOne fs args of
       Inl e \<Rightarrow> Inl e
     | Inr (FlagsEnd rest) \<Rightarrow> Inr (fs, rest)
     | Inr (FlagSeen fs' rest) \<Rightarrow> parseFlags fs' rest)"
  by pat_completeness auto
termination
proof (relation "measure (\<lambda>(fs, args). length args)")
  show "wf (measure (\<lambda>(fs :: flags, args :: string list). length args))" by simp
next
  fix fs fs' args rest and st :: flag_step
  assume "parseOne fs args = Inr st" and "st = FlagSeen fs' rest"
  then show "((fs', rest), (fs, args)) \<in> measure (\<lambda>(fs, args). length args)"
    using parseOne_shorter by simp
qed

declare parseFlags.simps [simp del]

text \<open>The values the program reads.\<close>

definition string_flag :: "flags \<Rightarrow> string \<Rightarrow> string" where
  "string_flag fs name = (case map_of fs name of Some (FString s) \<Rightarrow> s | _ \<Rightarrow> [])"

definition bool_flag :: "flags \<Rightarrow> string \<Rightarrow> bool" where
  "bool_flag fs name = (case map_of fs name of Some (FBool b) \<Rightarrow> b | _ \<Rightarrow> False)"

section \<open>Facts\<close>

text \<open>What the parser leaves are the last arguments, and the flags keep their kinds.\<close>

lemma parseFlags_rest: "parseFlags fs args = Inr (fs', rest) \<Longrightarrow> \<exists>used. args = used @ rest"
proof (induction fs args rule: parseFlags.induct)
  case (1 fs args)
  show ?case
  proof (cases "parseOne fs args")
    case (Inl e)
    with 1 show ?thesis by (simp add: parseFlags.simps)
  next
    case (Inr st)
    show ?thesis
    proof (cases st)
      case (FlagsEnd r)
      with Inr 1 show ?thesis
        by (fastforce simp: parseFlags.simps [of fs args] parseOne_def Let_def parseFlag_def
            split: list.splits if_splits prod.splits option.splits flag_value.splits)
    next
      case (FlagSeen fs1 r)
      with Inr 1 have "\<exists>used. r = used @ rest" by (simp add: parseFlags.simps [of fs args])
      moreover have "\<exists>used. args = used @ r"
        using Inr FlagSeen by (fastforce simp: parseOne_def Let_def dest: parseFlag_args split: list.splits if_splits)
      ultimately show ?thesis by auto
    qed
  qed
qed

text \<open>An argument that does not begin with a dash ends the flags.\<close>

lemma parseFlags_stop:
  "s = [] \<or> hd s \<noteq> CHR ''-'' \<Longrightarrow> parseFlags fs (s # args) = Inr (fs, s # args)"
  by (auto simp: parseFlags.simps [of fs "s # args"] parseOne_def)

end
