(* ===== verification/Gateway_Config.thy ===== *)
theory Gateway_Config
  imports Aws_Broker Slack_Handler Migrations Go_Flag Sql_Store
begin

text \<open>
  \<open>internal/config/config.go\<close> and the part of \<open>cmd/relia-gateway/main.go\<close> that puts the server
  together from the configuration and the environment.  Opening the database, the clock and the
  random seed are parameters.
\<close>

section \<open>internal/config/config.go\<close>

record db_config =
  cf_Driver :: string
  cf_DSN :: string

record signing_key_config =
  cf_KeyID :: string
  cf_PrivateKeyPath :: string
  cf_PublicKeyPath :: string
  cf_RotateOnStartup :: bool

record slack_config =
  cf_Enabled :: bool
  cf_BotToken :: string
  cf_SigningSecret :: string
  cf_ApprovalChannel :: string

record config =
  cf_ListenAddr :: string
  cf_DB :: db_config
  cf_PolicyPath :: string
  cf_SigningKey :: signing_key_config
  cf_Slack :: slack_config
  cf_STSRegionDefault :: string

definition Validate :: "config \<Rightarrow> unit res" where
  "Validate c =
    (if cf_ListenAddr c = [] then Inl (Errorf ''listen_addr is required'')
     else if cf_PolicyPath c = [] then Inl (Errorf ''policy_path is required'')
     else if cf_Enabled (cf_Slack c) \<and> cf_SigningSecret (cf_Slack c) = []
     then Inl (Errorf ''slack.signing_secret is required when slack.enabled=true'')
     else if cf_Driver (cf_DB c) \<noteq> [] \<and> cf_DSN (cf_DB c) = []
     then Inl (Errorf ''db.dsn is required when db.driver is set'')
     else Inr ())"

text \<open>\<open>strings.ReplaceAll(s, "\r\n", "\n")\<close>\<close>

fun unix_lines :: "string \<Rightarrow> string" where
  "unix_lines (c # d # s) =
    (if c = CHR 0x0D \<and> d = CHR 0x0A then CHR 0x0A # unix_lines s else c # unix_lines (d # s))"
| "unix_lines s = s"

text \<open>\<open>expandEnv\<close> is \<open>os.ExpandEnv\<close>, \<open>yaml\<close> the parser.\<close>

definition Load ::
  "(string \<Rightarrow> string res) \<Rightarrow> (string \<Rightarrow> string) \<Rightarrow> (string \<Rightarrow> config res) \<Rightarrow> string \<Rightarrow> config res"
where
  "Load readFile expandEnv yaml path =
    res_bind (readFile path) (\<lambda>raw.
    res_bind (yaml (unix_lines (expandEnv raw))) (\<lambda>cfg.
    res_bind (Validate cfg) (\<lambda>_. Inr cfg)))"

section \<open>cmd/relia-gateway/main.go\<close>

fun firstNonEmpty :: "string list \<Rightarrow> string" where
  "firstNonEmpty [] = []"
| "firstNonEmpty (v # vs) = (if v \<noteq> [] then v else firstNonEmpty vs)"

text \<open>
  \<open>strings.ToLower\<close> only has to be right on ASCII here: no other rune has a lower case among the
  letters of the words it is compared with.
\<close>

definition lower_ascii :: "string \<Rightarrow> string" where
  "lower_ascii s = map (\<lambda>c. let n = of_char c :: nat in if 65 \<le> n \<and> n \<le> 90 then char_of (n + 32) else c) s"

definition envBool :: "string \<Rightarrow> bool" where
  "envBool value \<longleftrightarrow> lower_ascii (trim_space value) \<in> {''1'', ''true'', ''yes'', ''y'', ''on''}"

datatype broker_choice = UseDevBroker | UseSTSBroker string

text \<open>\<open>newSTS\<close> tells whether \<open>NewSTSBroker\<close> succeeds for a region.\<close>

definition awsBrokerFromEnv :: "(string \<Rightarrow> unit res) \<Rightarrow> (string \<Rightarrow> string) \<Rightarrow> config \<Rightarrow> broker_choice" where
  "awsBrokerFromEnv newSTS getenv cfg =
    (let mode = (if getenv ''RELIA_AWS_MODE'' = [] then ''dev'' else getenv ''RELIA_AWS_MODE'');
         region = (if cf_STSRegionDefault cfg = [] then getenv ''AWS_REGION'' else cf_STSRegionDefault cfg)
     in if mode \<noteq> ''real'' then UseDevBroker
        else case newSTS region of Inl _ \<Rightarrow> UseDevBroker | Inr _ \<Rightarrow> UseSTSBroker region)"

definition slackEnabled :: "(string \<Rightarrow> string) \<Rightarrow> config \<Rightarrow> bool" where
  "slackEnabled getenv cfg =
    (if getenv ''RELIA_SLACK_ENABLED'' \<noteq> [] then envBool (getenv ''RELIA_SLACK_ENABLED'')
     else cf_Enabled (cf_Slack cfg))"

text \<open>An environment variable, else the configured value, else the default.\<close>

definition setting :: "(string \<Rightarrow> string) \<Rightarrow> string \<Rightarrow> string \<Rightarrow> string \<Rightarrow> string" where
  "setting getenv name configured fallback = firstNonEmpty [getenv name, configured, fallback]"

definition signingSecret :: "(string \<Rightarrow> string) \<Rightarrow> config \<Rightarrow> string" where
  "signingSecret getenv cfg =
    setting getenv ''RELIA_SLACK_SIGNING_SECRET'' (cf_SigningSecret (cf_Slack cfg)) []"

text \<open>What starting the server takes from outside.\<close>

record startup =
  su_Prims :: prims
  su_Getenv :: "string \<Rightarrow> string"
  su_OpenDB :: "string \<Rightarrow> string \<Rightarrow> sql_state migration_db res"
  su_Migrations :: "sql_state migration_env"
  su_ReadFile :: "string \<Rightarrow> string res"
  su_NewSTS :: "string \<Rightarrow> unit res"
  su_Random :: "string res"
  su_Base :: service

record server =
  se_Addr :: string
  se_Driver :: string
  se_DSN :: string
  se_DB :: "sql_state migration_db"
  se_Service :: service
  se_Broker :: broker_choice
  se_SigningSecret :: string
  se_Notifier :: "string option"
  se_PublicVerify :: bool
  se_Worker :: bool

text \<open>The database is opened and migrated; what a failed migration leaves is in \<open>Migrations\<close>.\<close>

definition migrateOpened :: "'d migration_env \<Rightarrow> string \<Rightarrow> 'd migration_db \<Rightarrow> 'd migration_db res" where
  "migrateOpened env driver db =
    (case Migrate env driver (Some db) of
       (Inl e, _) \<Rightarrow> Inl e
     | (Inr _, None) \<Rightarrow> Inl (Errorf ''missing db'')
     | (Inr _, Some db') \<Rightarrow> Inr db')"

definition openStore :: "startup \<Rightarrow> string \<Rightarrow> string \<Rightarrow> sql_state migration_db res" where
  "openStore su driver dsn =
    (if driver = ''sqlite'' \<or> driver = ''postgres'' then
       res_bind (su_OpenDB su driver dsn) (migrateOpened (su_Migrations su) driver)
     else Inl (Errorf (''unsupported db.driver: '' @ driver)))"

text \<open>The signer and public key of a configured key file.\<close>

definition configuredSigner :: "startup \<Rightarrow> config \<Rightarrow> (signer \<times> string) option res" where
  "configuredSigner su cfg =
    (let path = cf_PrivateKeyPath (cf_SigningKey cfg)
     in if path = [] then Inr None
        else res_bind (LoadEd25519PrivateKey (su_Prims su) (su_ReadFile su path)) (\<lambda>(priv, pub).
          let keyID = (if cf_KeyID (cf_SigningKey cfg) = [] then ''relia'' else cf_KeyID (cf_SigningKey cfg))
          in Inr (Some (devSigner (su_Prims su) keyID priv, pub))))"

definition newServer :: "startup \<Rightarrow> config \<Rightarrow> server res" where
  "newServer su cfg =
    (let getenv = su_Getenv su;
         addr = setting getenv ''RELIA_LISTEN_ADDR'' (cf_ListenAddr cfg) '':8080'';
         policyPath = setting getenv ''RELIA_POLICY_PATH'' (cf_PolicyPath cfg) ''policies/relia.yaml'';
         secret = signingSecret getenv cfg;
         token = setting getenv ''RELIA_SLACK_BOT_TOKEN'' (cf_BotToken (cf_Slack cfg)) [];
         channel = setting getenv ''RELIA_SLACK_APPROVAL_CHANNEL'' (cf_ApprovalChannel (cf_Slack cfg)) [];
         driver = setting getenv ''RELIA_DB_DRIVER'' (cf_Driver (cf_DB cfg)) ''sqlite'';
         dsn = setting getenv ''RELIA_DB_DSN'' (cf_DSN (cf_DB cfg)) ''file:relia.db?_journal_mode=WAL''
     in if slackEnabled getenv cfg \<and> secret = [] then Inl (Errorf ''missing slack signing secret'')
        else res_bind (openStore su driver dsn) (\<lambda>db.
          res_bind (configuredSigner su cfg) (\<lambda>key.
            let notifier = (if slackEnabled getenv cfg \<and> token \<noteq> [] then Some token else None)
            in res_bind (NewAuthorizeService
                  ((su_Base su)\<lparr>sv_Prims := su_Prims su, sv_ReadFile := su_ReadFile su,
                                sv_PolicyPath := policyPath, sv_SlackChan := channel\<rparr>)
                  (map_option fst key) (map_option snd key) (su_Random su)) (\<lambda>service.
               Inr \<lparr>se_Addr = addr, se_Driver = driver, se_DSN = dsn, se_DB = db, se_Service = service,
                    se_Broker = awsBrokerFromEnv (su_NewSTS su) getenv cfg, se_SigningSecret = secret,
                    se_Notifier = notifier, se_PublicVerify = envBool (getenv ''RELIA_PUBLIC_VERIFY''),
                    se_Worker = (notifier \<noteq> None \<and> channel \<noteq> [] \<and>
                                 getenv ''RELIA_SLACK_OUTBOX_WORKER'' \<noteq> ''0'')\<rparr>))))"

text \<open>The handler of Slack interactions that every server gets.\<close>

definition slackHandlerOf :: "server \<Rightarrow> 's ledger \<Rightarrow> 's interaction_handler" where
  "slackHandlerOf srv L =
    \<lparr>ih_SigningSecret = se_SigningSecret srv, ih_Approver = Some (Approve (se_Service srv) L)\<rparr>"

text \<open>
  \<open>run\<close>: the flags, the configuration file, the server, and listening until the server is closed.
  The result is the server that listened and the error that \<open>main\<close> exits with; \<open>load\<close> is \<open>config.Load\<close>,
  and \<open>listen\<close> tells how listening ends.
\<close>

definition ErrServerClosed :: goerr where
  "ErrServerClosed = Errorf ''http: Server closed''"

definition zero_config :: config where
  "zero_config =
    \<lparr>cf_ListenAddr = [], cf_DB = \<lparr>cf_Driver = [], cf_DSN = []\<rparr>, cf_PolicyPath = [],
     cf_SigningKey = \<lparr>cf_KeyID = [], cf_PrivateKeyPath = [], cf_PublicKeyPath = [], cf_RotateOnStartup = False\<rparr>,
     cf_Slack = \<lparr>cf_Enabled = False, cf_BotToken = [], cf_SigningSecret = [], cf_ApprovalChannel = []\<rparr>,
     cf_STSRegionDefault = []\<rparr>"

fun flagErr :: "flag_error \<Rightarrow> goerr" where
  "flagErr FlagHelp = Errorf ''flag: help requested''"
| "flagErr (FlagError e) = Errorf e"

definition gatewayRun ::
  "startup \<Rightarrow> (string \<Rightarrow> config res) \<Rightarrow> (server \<Rightarrow> goerr option) \<Rightarrow> string list \<Rightarrow> server option \<times> unit res"
where
  "gatewayRun su load listen args =
    (case parseFlags [(''config'', FString [])] args of
       Inl e \<Rightarrow> (None, Inl (flagErr e))
     | Inr (fs, _) \<Rightarrow>
       let cfgFile = (if string_flag fs ''config'' = [] then su_Getenv su ''RELIA_CONFIG_PATH''
                      else string_flag fs ''config'')
       in case (if cfgFile \<noteq> [] then load cfgFile else Inr zero_config) of
            Inl e \<Rightarrow> (None, Inl e)
          | Inr cfg \<Rightarrow>
            (case newServer su cfg of
               Inl e \<Rightarrow> (None, Inl e)
             | Inr srv \<Rightarrow>
                 (Some srv, case listen srv of
                    Some e \<Rightarrow> if e \<noteq> ErrServerClosed then Inl e else Inr ()
                  | None \<Rightarrow> Inr ())))"

section \<open>Facts\<close>

lemma migrateOpened_Inr: "migrateOpened env driver db = Inr db' \<longleftrightarrow> Migrate env driver (Some db) = (Inr (), Some db')"
  by (cases "Migrate env driver (Some db)") (auto simp: migrateOpened_def split: sum.splits option.splits)

lemma openStore_migrated:
  "openStore su driver dsn = Inr db' \<Longrightarrow>
     \<exists>db. su_OpenDB su driver dsn = Inr db \<and> Migrate (su_Migrations su) driver (Some db) = (Inr (), Some db')"
  by (auto simp: openStore_def res_bind_Inr_iff migrateOpened_Inr split: if_splits)

lemma newServer_migrated:
  "newServer su cfg = Inr srv \<Longrightarrow>
     \<exists>db. su_OpenDB su (se_Driver srv) (se_DSN srv) = Inr db \<and>
       Migrate (su_Migrations su) (se_Driver srv) (Some db) = (Inr (), Some (se_DB srv))"
  by (auto simp: newServer_def Let_def res_bind_Inr_iff split: if_splits dest!: openStore_migrated)

lemma newServer_Inr:
  assumes "newServer su cfg = Inr srv"
  obtains base key where
    "NewAuthorizeService base (map_option fst key) (map_option snd key) (su_Random su) = Inr (se_Service srv)"
    and "se_SigningSecret srv = signingSecret (su_Getenv su) cfg"
    and "slackEnabled (su_Getenv su) cfg \<Longrightarrow> se_SigningSecret srv \<noteq> []"
  using assms by (auto simp: newServer_def Let_def res_bind_Inr_iff split: if_splits)

lemma NewAuthorizeService_key:
  "NewAuthorizeService base sg pub random = Inr sv \<Longrightarrow> sv_PublicKey sv \<noteq> None"
  by (auto simp: NewAuthorizeService_def Let_def res_bind_Inr_iff split: if_splits option.splits)

end
