(* ===== verification/Http_Runs.thy ===== *)
theory Http_Runs
  imports Http_Facts Gateway_Runs Gateway_Config
begin

text \<open>
  Runs of the server: a sequence of HTTP requests is a run of the gateway of \<open>Concurrent_Gateway\<close>, a
  pressed Slack button decides its approval, and a server without a signing secret decides without
  asking who presses.
\<close>

section \<open>Sequences of requests\<close>

text \<open>The handler that \<open>newServer\<close> installs: one service, and its \<open>Approve\<close> behind Slack.\<close>

definition gateway_handler :: "service \<Rightarrow> 's ledger \<Rightarrow> 's handler \<Rightarrow> bool" where
  "gateway_handler sv L h \<longleftrightarrow>
     hd_Service h = Some (sv, L) \<and>
     (\<forall>ih approver. hd_Slack h = Some ih \<longrightarrow> ih_Approver ih = Some approver \<longrightarrow> approver = Approve sv L)"

fun serve_all :: "'s handler \<Rightarrow> (http_env \<times> http_request) list \<Rightarrow> 's \<Rightarrow> 's" where
  "serve_all h [] s = s"
| "serve_all h ((e, r) # rs) s = serve_all h rs (snd (serve e h r s))"

lemma HandleInteractions_Approve:
  assumes "HandleInteractions pr ih now1 now2 r s = (status, s')" and "s' \<noteq> s"
  shows "\<exists>approver approvalID st at res. ih_Approver ih = Some approver \<and> approver approvalID st at s = (res, s')"
  using assms
  by (auto simp: HandleInteractions_def applyInteraction_def
      split: option.splits sum.splits prod.splits if_splits)

lemma serve_reach:
  assumes "gateway_handler sv L h" and "gw_reach sv L g0 g" and "serve e h r (gw_Store g) = (resp, s')"
  shows "\<exists>g'. gw_reach sv L g0 g' \<and> gw_Store g' = s'"
proof (cases "s' = gw_Store g")
  case True
  with assms(2) show ?thesis by blast
next
  case False
  from serve_changes [OF assms(3) False] show ?thesis
  proof (elim disjE conjE exE)
    fix sv' L' c
    assume "authorized_call e h r (sv', L') c" and a: "answerOf (Authorize sv' L' c (gw_Store g)) = (resp, s')"
    with assms(1) have "sv' = sv" "L' = L" by (auto simp: authorized_call_def gateway_handler_def)
    moreover obtain res t where "Authorize sv L c (gw_Store g) = (res, t)"
      by (cases "Authorize sv L c (gw_Store g)")
    ultimately show ?thesis using Authorize_reach [OF assms(2)] answerOf_apply [OF a] by fastforce
  next
    fix ih
    assume ih: "hd_Slack h = Some ih"
      and "HandleInteractions (pe_Prims (he_Pack e)) ih (fst (he_Clock e)) (snd (he_Clock e)) r (gw_Store g) =
        (hs_Status resp, s')"
    from HandleInteractions_Approve [OF this(2) False] assms(1) ih
    obtain approvalID st at res where "Approve sv L approvalID st at (gw_Store g) = (res, s')"
      by (auto simp: gateway_handler_def)
    from Approve_reach [OF assms(2) this] show ?thesis .
  qed
qed

lemma serve_all_reach:
  assumes "gateway_handler sv L h" and "gw_reach sv L g0 g"
  shows "\<exists>g'. gw_reach sv L g0 g' \<and> gw_Store g' = serve_all h rs (gw_Store g)"
  using assms(2)
proof (induction rs arbitrary: g)
  case (Cons p rs)
  obtain e r where p: "p = (e, r)" by (cases p)
  obtain resp s' where "serve e h r (gw_Store g) = (resp, s')" by (cases "serve e h r (gw_Store g)")
  with serve_reach [OF assms(1) Cons.prems] obtain g' where "gw_reach sv L g0 g'" "gw_Store g' = s'" by blast
  with Cons.IH [of g'] p \<open>serve e h r (gw_Store g) = (resp, s')\<close> show ?case by auto
qed auto

lemma serve_all_init:
  assumes "gateway_handler sv L h"
  shows "\<exists>g. gw_reach sv L (gw_init s) g \<and> gw_Store g = serve_all h rs s"
proof -
  have "gw_reach sv L (gw_init s) (gw_init s)" by (rule reach_refl)
  from serve_all_reach [OF assms this] show ?thesis by (simp add: gw_init_def)
qed

lemma stored_digest:
  assumes "mem_order_ok ord" and "key_pair_of sv pub"
    and "gw_reach sv (mem_ledger ord) (gw_init NewInMemoryStore) g" and "mem_GetReceipt rid (gw_Store g) = Some rec"
  shows "rid = DigestWithPrefix (sv_Prims sv) (lr_BodyJSON rec)"
proof -
  from exact_ledger.gw_audited_reach [OF mem_exact [OF assms(1)] assms(2) mem_view_empty assms(3)] assms(4)
  have "lr_ReceiptID rec = DigestWithPrefix (sv_Prims sv) (lr_BodyJSON rec)"
    by (auto simp: gw_audited_def audited_def mem_view_def mem_GetReceipt_def verified_record_def
        verified_stored_def VerifyReceipt_Inr storedFromRecord_def)
  moreover from ledger_contract.gw_keyed_reach [OF mem_contract [OF assms(1)] mem_view_empty assms(3)] assms(4)
  have "lr_ReceiptID rec = rid" by (auto simp: well_keyed_def mem_view_def mem_GetReceipt_def)
  ultimately show ?thesis by simp
qed

text \<open>What the audit of the ledger says of a stored receipt, for the handlers.\<close>

lemma stored_known:
  assumes "mem_order_ok ord" and "key_pair_of sv pub" and "sv_PublicKey sv = Some pub" and "gateway_handler sv (mem_ledger ord) h"
    and "mem_GetReceipt rid (serve_all h reqs NewInMemoryStore) = Some rec"
  shows "known_receipt sv (mem_ledger ord) pub rec (serve_all h reqs NewInMemoryStore)"
    and "rid = DigestWithPrefix (sv_Prims sv) (lr_BodyJSON rec)"
    and "GetReceipt (mem_ledger ord) rid (serve_all h reqs NewInMemoryStore) = Some rec"
    and "hd_Service h = Some (sv, mem_ledger ord)"
proof -
  obtain g where reach: "gw_reach sv (mem_ledger ord) (gw_init NewInMemoryStore) g"
    and g: "gw_Store g = serve_all h reqs NewInMemoryStore"
    using serve_all_init [OF assms(4)] by blast
  from exact_ledger.gw_audited_reach [OF mem_exact [OF assms(1)] assms(2) mem_view_empty reach]
  show "known_receipt sv (mem_ledger ord) pub rec (serve_all h reqs NewInMemoryStore)"
    using assms(3,5) by (auto simp: known_receipt_def gw_audited_def audited_def mem_view_def mem_ledger_def
        mem_GetReceipt_def mem_GetKey_def g)
  show "rid = DigestWithPrefix (sv_Prims sv) (lr_BodyJSON rec)"
    by (rule stored_digest [OF assms(1,2) reach]) (use assms(5) g in simp)
  show "hd_Service h = Some (sv, mem_ledger ord)" using assms(4) by (simp add: gateway_handler_def)
  show "GetReceipt (mem_ledger ord) rid (serve_all h reqs NewInMemoryStore) = Some rec"
    using assms(5) by (simp add: mem_ledger_def)
qed

section \<open>Buttons\<close>

lemma VerifySignature_accepts:
  assumes "parse_int64 timestamp = Some ts" and "\<bar>now - 1000000000 * ts\<bar> \<le> 300000000000"
    and "plausible_clock now"
  shows "VerifySignature pr secret (slackSignature pr secret timestamp body) timestamp body now = Inr ()"
proof -
  have "time_Unix ts = 1000000000 * ts"
    using parse_int64_range [OF assms(1)] assms(2,3) unfolding plausible_clock_def
    by (intro time_Unix_exact) (auto simp: epoch_seconds_def)
  moreover have "timestamp \<noteq> []" using assms(1) by (auto simp: parse_int64_def)
  moreover have "sint (5 * minute :: duration) = 300000000000" by (simp add: minute_def second_def)
  ultimately show ?thesis
    using assms(1,2) by (auto simp: VerifySignature_def sint_time_Sub slackSignature_def Let_def)
qed

text \<open>The request that Slack sends for a pressed button.\<close>

definition pressed :: "prims \<Rightarrow> string \<Rightarrow> int \<Rightarrow> string \<Rightarrow> string \<Rightarrow> http_request \<Rightarrow> bool" where
  "pressed pr secret ts action value r \<longleftrightarrow>
     hq_Body r = Inr (interaction_body action value) \<and>
     parse_int64 (hq_Header r ''X-Slack-Request-Timestamp'') = Some ts \<and>
     hq_Header r ''X-Slack-Signature'' = slackSignature pr secret (hq_Header r ''X-Slack-Request-Timestamp'')
       (interaction_body action value)"

definition pressAnswer :: "string res \<times> 's \<Rightarrow> int \<times> 's" where
  "pressAnswer out = (case out of (Inl _, s') \<Rightarrow> (500, s') | (Inr _, s') \<Rightarrow> (200, s'))"

lemma pressed_decides:
  assumes "ih_Approver ih = Some approver" and "pressed pr (ih_SigningSecret ih) ts action value r"
    and "\<bar>now1 - 1000000000 * ts\<bar> \<le> 300000000000" and "plausible_clock now1"
    and "sanitize action = action" and "action \<noteq> []"
  shows "HandleInteractions pr ih now1 now2 r s =
    pressAnswer (approver (sanitize value) (actionStatus action) (rfc3339 now2) s)"
  using assms VerifySignature_accepts [OF _ assms(3,4)] applyInteraction_pressed [OF assms(5,6), of approver "value" now2 s]
  by (simp add: pressed_def HandleInteractions_def pressAnswer_def)

section \<open>A server without a signing secret\<close>

lemma unsigned_decides:
  assumes "ih_SigningSecret ih = []" and "ih_Approver ih = Some approver"
    and "hq_Body r = Inr (interaction_body action value)" and "sanitize action = action" and "action \<noteq> []"
  shows "HandleInteractions pr ih now1 now2 r s =
    pressAnswer (approver (sanitize value) (actionStatus action) (rfc3339 now2) s)"
  using assms applyInteraction_pressed [OF assms(4,5), of approver "value" now2 s]
  by (simp add: HandleInteractions_def pressAnswer_def)

end
