(* ===== verification/Pg_Store.thy ===== *)
theory Pg_Store
  imports Sql_Store Receipt_Facts Authorize_Service
begin

text \<open>
  \<open>internal/ledger/pgstore/pgstore.go\<close> over the schema of \<open>internal/ledger/migrations/postgres\<close>.  The
  statements have the conflict clauses of the SQLite store and always check the foreign keys; what
  differs is what the columns keep: times are \<open>timestamptz\<close> and JSON documents are \<open>jsonb\<close>, and both
  come back in the rendering of the database, which is a parameter.  A table holds the rendered row.
\<close>

text \<open>
  \<open>pg_time\<close> and \<open>pg_jsonb\<close> cast a text and give what \<open>::text\<close> renders; \<open>pg_instant\<close> orders rendered times;
  \<open>pg_text\<close> tells whether a text column takes a value (valid UTF-8 without NUL); \<open>pg_ties\<close> is the order
  in which a query meets rows with equal sort keys.
\<close>

record pg_config =
  pg_time :: "string \<Rightarrow> string res"
  pg_jsonb :: "string \<Rightarrow> string res"
  pg_instant :: "string \<Rightarrow> int"
  pg_text :: "string \<Rightarrow> bool"
  pg_ties :: "slack_outbox_rec list \<Rightarrow> slack_outbox_rec list"

section \<open>Values of columns\<close>

definition pg_opt_time :: "pg_config \<Rightarrow> string option \<Rightarrow> string option res" where
  "pg_opt_time cfg t = (case t of None \<Rightarrow> Inr None | Some t' \<Rightarrow> res_bind (pg_time cfg t') (\<lambda>x. Inr (Some x)))"

definition pg_texts :: "pg_config \<Rightarrow> string list \<Rightarrow> string option list \<Rightarrow> unit res" where
  "pg_texts cfg ts os =
    (if list_all (pg_text cfg) ts \<and> list_all (pred_option (pg_text cfg)) os then Inr ()
     else Inl (Errorf ''invalid byte sequence''))"

text \<open>\<open>json.Valid\<close>, then the cast.\<close>

definition pg_document :: "pg_config \<Rightarrow> string \<Rightarrow> string \<Rightarrow> string res" where
  "pg_document cfg msg b = (if json_parse b = None then Inl (Errorf msg) else pg_jsonb cfg b)"

section \<open>Statements\<close>

definition pg_PutKey :: "pg_config \<Rightarrow> key_rec \<Rightarrow> sql_state \<Rightarrow> sql_state res" where
  "pg_PutKey cfg key s =
    res_bind (pg_texts cfg [kr_KeyID key] []) (\<lambda>_.
    res_bind (pg_time cfg (kr_CreatedAt key)) (\<lambda>created.
    res_bind (pg_opt_time cfg (kr_RotatedAt key)) (\<lambda>rotated.
      sql_PutKey (key\<lparr>kr_CreatedAt := created, kr_RotatedAt := rotated\<rparr>) s)))"

definition pg_PutPolicyVersion :: "pg_config \<Rightarrow> policy_version_rec \<Rightarrow> sql_state \<Rightarrow> sql_state res" where
  "pg_PutPolicyVersion cfg p s =
    res_bind (pg_texts cfg [pv_PolicyHash p, pv_PolicyID p, pv_PolicyVersion p, pv_PolicyYAML p] []) (\<lambda>_.
    res_bind (pg_time cfg (pv_CreatedAt p)) (\<lambda>created.
      sql_PutPolicyVersion (p\<lparr>pv_CreatedAt := created\<rparr>) s))"

definition pg_PutContext :: "pg_config \<Rightarrow> context_rec \<Rightarrow> sql_state \<Rightarrow> sql_state res" where
  "pg_PutContext cfg c s =
    res_bind (pg_document cfg ''invalid body_json'' (lc_BodyJSON c)) (\<lambda>body.
    res_bind (pg_texts cfg [lc_ContextID c] []) (\<lambda>_.
    res_bind (pg_time cfg (lc_CreatedAt c)) (\<lambda>created.
      sql_PutContext (c\<lparr>lc_BodyJSON := body, lc_CreatedAt := created\<rparr>) s)))"

definition pg_PutDecision :: "pg_config \<Rightarrow> decision_rec \<Rightarrow> sql_state \<Rightarrow> sql_state res" where
  "pg_PutDecision cfg d s =
    res_bind (pg_document cfg ''invalid body_json'' (ld_BodyJSON d)) (\<lambda>body.
    res_bind (pg_texts cfg [ld_DecisionID d, ld_ContextID d, ld_PolicyHash d, ld_Verdict d] []) (\<lambda>_.
    res_bind (pg_time cfg (ld_CreatedAt d)) (\<lambda>created.
      if ld_Verdict d \<notin> {''allow'', ''deny'', ''require_approval''} then Inl (Errorf check_failed)
      else sql_PutDecision True (d\<lparr>ld_BodyJSON := body, ld_CreatedAt := created\<rparr>) s)))"

text \<open>The row of a receipt.  The identifier may be empty, and has to be the digest of the body.\<close>

definition pg_receipt_row :: "pg_config \<Rightarrow> receipt_rec \<Rightarrow> receipt_rec res" where
  "pg_receipt_row cfg x =
    res_bind (pg_document cfg ''invalid body_json'' (lr_BodyJSON x)) (\<lambda>body.
    res_bind (pg_texts cfg
        [lr_ReceiptID x, lr_IdemKey x, lr_ContextID x, lr_DecisionID x, lr_PolicyHash x, lr_BodyDigest x, lr_KeyID x]
        [lr_SupersedesReceiptID x, lr_ApprovalID x]) (\<lambda>_.
    res_bind (pg_time cfg (lr_CreatedAt x)) (\<lambda>created.
    res_bind (pg_opt_time cfg (lr_ExpiresAt x)) (\<lambda>expires.
      if \<not> outcome_status_check (lr_OutcomeStatus x) \<or> lr_BodyDigest x \<noteq> lr_ReceiptID x
      then Inl (Errorf check_failed)
      else Inr (x\<lparr>lr_BodyJSON := body, lr_CreatedAt := created, lr_ExpiresAt := expires\<rparr>)))))"

definition pg_insertReceipt :: "receipt_rec \<Rightarrow> sql_state \<Rightarrow> sql_state res" where
  "pg_insertReceipt x s =
    (case table_get (ss_receipts s) (lr_ReceiptID x) of
       Some _ \<Rightarrow> Inr s
     | None \<Rightarrow>
         let receipts' = table_put (lr_ReceiptID x) x (ss_receipts s)
         in res_bind
              (require (references True (ss_idempotency_keys s) (Some (lr_IdemKey x)) \<and>
                        references True receipts' (lr_SupersedesReceiptID x) \<and>
                        references True (ss_contexts s) (Some (lr_ContextID x)) \<and>
                        references True (ss_decisions s) (Some (lr_DecisionID x)) \<and>
                        references True (ss_policy_versions s) (Some (lr_PolicyHash x)) \<and>
                        references True (ss_approvals s) (lr_ApprovalID x) \<and>
                        references True (ss_keys s) (Some (lr_KeyID x))) fk_failed s)
              (\<lambda>s. Inr (s\<lparr>ss_receipts := receipts'\<rparr>)))"

definition pg_PutReceipt :: "pg_config \<Rightarrow> receipt_rec \<Rightarrow> sql_state \<Rightarrow> sql_state res" where
  "pg_PutReceipt cfg x s = res_bind (pg_receipt_row cfg x) (\<lambda>row. pg_insertReceipt row s)"

definition pg_PutApproval :: "pg_config \<Rightarrow> approval_rec \<Rightarrow> sql_state \<Rightarrow> sql_state res" where
  "pg_PutApproval cfg a s =
    res_bind (pg_texts cfg [la_ApprovalID a, la_IdemKey a] [la_SlackChannel a, la_SlackMsgTS a, la_ApprovedBy a]) (\<lambda>_.
    res_bind (pg_opt_time cfg (la_ApprovedAt a)) (\<lambda>approved.
    res_bind (pg_time cfg (la_CreatedAt a)) (\<lambda>created.
    res_bind (pg_time cfg (la_UpdatedAt a)) (\<lambda>updated.
      sql_PutApproval True (a\<lparr>la_ApprovedAt := approved, la_CreatedAt := created, la_UpdatedAt := updated\<rparr>) s))))"

definition pg_PutIdempotencyKey :: "pg_config \<Rightarrow> idem_rec \<Rightarrow> sql_state \<Rightarrow> sql_state res" where
  "pg_PutIdempotencyKey cfg i s =
    res_bind (pg_texts cfg [ik_IdemKey i] [ik_ApprovalID i, ik_LatestReceiptID i, ik_FinalReceiptID i]) (\<lambda>_.
    res_bind (pg_time cfg (ik_CreatedAt i)) (\<lambda>created.
    res_bind (pg_time cfg (ik_UpdatedAt i)) (\<lambda>updated.
    res_bind (pg_opt_time cfg (ik_TTLExpiresAt i)) (\<lambda>ttl.
      sql_PutIdempotencyKey True
        (i\<lparr>ik_CreatedAt := created, ik_UpdatedAt := updated, ik_TTLExpiresAt := ttl\<rparr>) s))))"

text \<open>\<open>attempt_count\<close> is a 32-bit integer.\<close>

definition pg_PutSlackOutbox :: "pg_config \<Rightarrow> slack_outbox_rec \<Rightarrow> sql_state \<Rightarrow> sql_state res" where
  "pg_PutSlackOutbox cfg r s =
    res_bind (pg_document cfg ''invalid message_json'' (so_MessageJSON r)) (\<lambda>msg.
    res_bind (pg_texts cfg [so_NotificationID r, so_ApprovalID r, so_Channel r, so_Status r] [so_LastError r]) (\<lambda>_.
    res_bind (pg_time cfg (so_NextAttemptAt r)) (\<lambda>next_at.
    res_bind (pg_opt_time cfg (so_SentAt r)) (\<lambda>sent.
    res_bind (pg_time cfg (so_CreatedAt r)) (\<lambda>created.
    res_bind (pg_time cfg (so_UpdatedAt r)) (\<lambda>updated.
      if so_AttemptCount r < - (2 ^ 31) \<or> so_AttemptCount r \<ge> 2 ^ 31 then Inl (Errorf ''integer out of range'')
      else sql_PutSlackOutbox True
        (r\<lparr>so_MessageJSON := msg, so_NextAttemptAt := next_at, so_SentAt := sent, so_CreatedAt := created,
           so_UpdatedAt := updated\<rparr>) s))))))"

definition pg_ListSlackOutboxDue ::
  "pg_config \<Rightarrow> string \<Rightarrow> int \<Rightarrow> sql_state \<Rightarrow> slack_outbox_rec list res"
where
  "pg_ListSlackOutboxDue cfg now limit s =
    (let limit' = (if limit \<le> 0 then 100 else limit)
     in res_bind (pg_time cfg now) (\<lambda>t.
          Inr (take (nat limit')
            (sort_key (\<lambda>r. pg_instant cfg (so_CreatedAt r))
              (pg_ties cfg (filter (\<lambda>r. so_Status r = ''pending'' \<and>
                  pg_instant cfg (so_NextAttemptAt r) \<le> pg_instant cfg t) (table_rows (ss_slack_outbox s))))))))"

section \<open>Queries\<close>

text \<open>The columns are selected as text, which is what the tables hold here.\<close>

definition pg_GetKey :: "string \<Rightarrow> sql_state \<Rightarrow> key_rec option" where
  "pg_GetKey k s = table_get (ss_keys s) k"

definition pg_GetSlackOutbox :: "string \<Rightarrow> sql_state \<Rightarrow> slack_outbox_rec option" where
  "pg_GetSlackOutbox k s = table_get (ss_slack_outbox s) k"

definition pg_GetPolicyVersion :: "string \<Rightarrow> sql_state \<Rightarrow> policy_version_rec option" where
  "pg_GetPolicyVersion k s = table_get (ss_policy_versions s) k"

definition pg_GetContext :: "string \<Rightarrow> sql_state \<Rightarrow> context_rec option" where
  "pg_GetContext k s = table_get (ss_contexts s) k"

definition pg_GetDecision :: "string \<Rightarrow> sql_state \<Rightarrow> decision_rec option" where
  "pg_GetDecision k s = table_get (ss_decisions s) k"

definition pg_GetReceipt :: "string \<Rightarrow> sql_state \<Rightarrow> receipt_rec option" where
  "pg_GetReceipt k s = table_get (ss_receipts s) k"

definition pg_GetApproval :: "string \<Rightarrow> sql_state \<Rightarrow> approval_rec option" where
  "pg_GetApproval k s = table_get (ss_approvals s) k"

definition pg_GetApprovalByIdemKey :: "string \<Rightarrow> sql_state \<Rightarrow> approval_rec option" where
  "pg_GetApprovalByIdemKey k s = find (\<lambda>a. la_IdemKey a = k) (table_rows (ss_approvals s))"

definition pg_GetIdempotencyKey :: "string \<Rightarrow> sql_state \<Rightarrow> idem_rec option" where
  "pg_GetIdempotencyKey k s = table_get (ss_idempotency_keys s) k"

definition pg_Rollback :: "sql_state \<Rightarrow> sql_state \<Rightarrow> sql_state" where
  "pg_Rollback s s' = s"

definition pg_ledger :: "pg_config \<Rightarrow> sql_state ledger" where
  "pg_ledger cfg =
     \<lparr>PutKey = pg_PutKey cfg, GetKey = pg_GetKey,
      PutSlackOutbox = pg_PutSlackOutbox cfg, GetSlackOutbox = pg_GetSlackOutbox,
      ListSlackOutboxDue = pg_ListSlackOutboxDue cfg,
      PutPolicyVersion = pg_PutPolicyVersion cfg, GetPolicyVersion = pg_GetPolicyVersion,
      PutContext = pg_PutContext cfg, GetContext = pg_GetContext,
      PutDecision = pg_PutDecision cfg, GetDecision = pg_GetDecision,
      PutReceipt = pg_PutReceipt cfg, GetReceipt = pg_GetReceipt,
      PutApproval = pg_PutApproval cfg, GetApproval = pg_GetApproval,
      GetApprovalByIdemKey = pg_GetApprovalByIdemKey,
      PutIdempotencyKey = pg_PutIdempotencyKey cfg, GetIdempotencyKey = pg_GetIdempotencyKey,
      Rollback = pg_Rollback\<rparr>"

section \<open>The contract holds\<close>

text \<open>The rows are those that were put, up to their times and documents.\<close>

definition pg_config_ok :: "pg_config \<Rightarrow> bool" where
  "pg_config_ok cfg \<longleftrightarrow> permuting (pg_ties cfg)"

lemmas pg_gets = pg_GetKey_def pg_GetSlackOutbox_def pg_GetPolicyVersion_def pg_GetContext_def pg_GetDecision_def
  pg_GetReceipt_def pg_GetApproval_def pg_GetApprovalByIdemKey_def pg_GetIdempotencyKey_def pg_Rollback_def

lemma pg_due_sound:
  assumes "pg_config_ok cfg" and "pg_ListSlackOutboxDue cfg now n s = Inr due" and "r \<in> set due"
  shows "r \<in> ran (table_get (ss_slack_outbox s)) \<and> so_Status r = ''pending''"
proof -
  from assms(2) obtain t where "due = take (nat (if n \<le> 0 then 100 else n))
      (sort_key (\<lambda>r. pg_instant cfg (so_CreatedAt r))
        (pg_ties cfg (filter (\<lambda>r. so_Status r = ''pending'' \<and>
            pg_instant cfg (so_NextAttemptAt r) \<le> pg_instant cfg t) (table_rows (ss_slack_outbox s)))))"
    by (auto simp: pg_ListSlackOutboxDue_def Let_def res_bind_Inr_iff)
  with assms(3) have "r \<in> set (pg_ties cfg (filter (\<lambda>r. so_Status r = ''pending'' \<and>
            pg_instant cfg (so_NextAttemptAt r) \<le> pg_instant cfg t) (table_rows (ss_slack_outbox s))))"
    by (auto dest: in_set_takeD)
  with assms(1) show ?thesis by (auto simp: pg_config_ok_def permuting_set table_rows_ran)
qed

lemma pg_writes_once:
  "pg_PutKey cfg a s = Inr s' \<Longrightarrow>
     \<exists>r'. kept_or_new key_like (table_get (ss_keys s) (kr_KeyID a)) a r' \<and>
       sql_view s' = (sql_view s)\<lparr>lv_keys := (lv_keys (sql_view s))(kr_KeyID a \<mapsto> r')\<rparr>"
  "pg_PutPolicyVersion cfg b s = Inr s' \<Longrightarrow>
     \<exists>r'. kept_or_new policy_like (table_get (ss_policy_versions s) (pv_PolicyHash b)) b r' \<and>
       sql_view s' = (sql_view s)\<lparr>lv_policies := (lv_policies (sql_view s))(pv_PolicyHash b \<mapsto> r')\<rparr>"
  "pg_PutContext cfg c s = Inr s' \<Longrightarrow>
     \<exists>r'. kept_or_new context_like (table_get (ss_contexts s) (lc_ContextID c)) c r' \<and>
       sql_view s' = (sql_view s)\<lparr>lv_contexts := (lv_contexts (sql_view s))(lc_ContextID c \<mapsto> r')\<rparr>"
  "pg_PutDecision cfg d s = Inr s' \<Longrightarrow>
     \<exists>r'. kept_or_new decision_like (table_get (ss_decisions s) (ld_DecisionID d)) d r' \<and>
       sql_view s' = (sql_view s)\<lparr>lv_decisions := (lv_decisions (sql_view s))(ld_DecisionID d \<mapsto> r')\<rparr>"
  by (auto simp: pg_PutKey_def pg_PutPolicyVersion_def pg_PutContext_def pg_PutDecision_def sql_defs sql_view_def kept_or_new_def like_defs table_get_insert_new
      fun_upd_same_Some res_bind_Inr_iff Let_def intro: kept_row split: option.splits if_splits)

lemma pg_receipt_row_like:
  "pg_receipt_row cfg x = Inr r \<Longrightarrow> receipt_like x r \<and> lr_ReceiptID r = lr_ReceiptID x"
  by (auto simp: pg_receipt_row_def receipt_like_def res_bind_Inr_iff split: if_splits)

lemma pg_insertReceipt_Inr:
  "pg_insertReceipt r s = Inr s' \<Longrightarrow>
     (case table_get (ss_receipts s) (lr_ReceiptID r) of
        None \<Rightarrow> s' = s\<lparr>ss_receipts := table_put (lr_ReceiptID r) r (ss_receipts s)\<rparr>
      | Some _ \<Rightarrow> s' = s)"
  by (auto simp: pg_insertReceipt_def Let_def require_def split: option.splits if_splits)

lemma pg_writes_receipt:
  assumes "pg_PutReceipt cfg x s = Inr s'"
  shows "\<exists>r'. kept_or_new receipt_like (table_get (ss_receipts s) (lr_ReceiptID x)) x r' \<and>
    sql_view s' = (sql_view s)\<lparr>lv_receipts := (lv_receipts (sql_view s))(lr_ReceiptID x \<mapsto> r')\<rparr>"
proof -
  from assms obtain r where r: "pg_receipt_row cfg x = Inr r" "pg_insertReceipt r s = Inr s'"
    by (auto simp: pg_PutReceipt_def res_bind_Inr_iff)
  from pg_insertReceipt_Inr [OF r(2)] pg_receipt_row_like [OF r(1)] show ?thesis
    by (cases "table_get (ss_receipts s) (lr_ReceiptID x)")
      (auto simp: sql_view_def kept_or_new_def fun_upd_same_Some intro: kept_row)
qed

text \<open>The upserts are those of the SQLite store with other times and documents.\<close>

lemma sqlite_puts:
  "PutSlackOutbox (sql_ledger default_config) = sql_PutSlackOutbox True"
  "PutApproval (sql_ledger default_config) = sql_PutApproval True"
  "PutIdempotencyKey (sql_ledger default_config) = sql_PutIdempotencyKey True"
  by (simp_all add: sql_ledger_def default_config_def)

lemma pg_upserts_outbox:
  assumes "pg_PutSlackOutbox cfg r s = Inr s'"
  shows "\<exists>r'. outbox_merge (lv_outbox (sql_view s) (so_NotificationID r)) r r' \<and>
    sql_view s' = (sql_view s)\<lparr>lv_outbox := (lv_outbox (sql_view s))(so_NotificationID r \<mapsto> r')\<rparr>"
proof -
  from assms obtain m n t c u where "sql_PutSlackOutbox True (r\<lparr>so_MessageJSON := m, so_NextAttemptAt := n,
      so_SentAt := t, so_CreatedAt := c, so_UpdatedAt := u\<rparr>) s = Inr s'"
    by (auto simp: pg_PutSlackOutbox_def res_bind_Inr_iff split: if_splits)
  from sqlite.put_outbox [unfolded sqlite_puts, OF this] show ?thesis by (auto simp: outbox_merge_def)
qed

lemma pg_upserts_approval:
  assumes "pg_PutApproval cfg a s = Inr s'"
  shows "\<exists>r'. approval_merge (lv_approvals (sql_view s) (la_ApprovalID a)) a r' \<and>
    sql_view s' = (sql_view s)\<lparr>lv_approvals := (lv_approvals (sql_view s))(la_ApprovalID a \<mapsto> r')\<rparr>"
proof -
  from assms obtain t c u where
    "sql_PutApproval True (a\<lparr>la_ApprovedAt := t, la_CreatedAt := c, la_UpdatedAt := u\<rparr>) s = Inr s'"
    by (auto simp: pg_PutApproval_def res_bind_Inr_iff)
  from sqlite.put_approval [unfolded sqlite_puts, OF this] show ?thesis
    by (auto simp: approval_merge_def split: option.splits)
qed

lemma pg_upserts_idem:
  assumes "pg_PutIdempotencyKey cfg i s = Inr s'"
  shows "\<exists>r'. idem_merge (lv_idem (sql_view s) (ik_IdemKey i)) i r' \<and>
    sql_view s' = (sql_view s)\<lparr>lv_idem := (lv_idem (sql_view s))(ik_IdemKey i \<mapsto> r')\<rparr>"
proof -
  from assms obtain t c u where
    "sql_PutIdempotencyKey True (i\<lparr>ik_CreatedAt := c, ik_UpdatedAt := u, ik_TTLExpiresAt := t\<rparr>) s = Inr s'"
    by (auto simp: pg_PutIdempotencyKey_def res_bind_Inr_iff)
  from sqlite.put_idem [unfolded sqlite_puts, OF this] show ?thesis by (auto simp: idem_merge_def)
qed

lemma pg_contract: "pg_config_ok cfg \<Longrightarrow> atomic_ledger (pg_ledger cfg) sql_view"
  using pg_writes_once [of cfg] pg_writes_receipt [of cfg] pg_upserts_outbox [of cfg]
    pg_upserts_approval [of cfg] pg_upserts_idem [of cfg] pg_due_sound [of cfg]
  by unfold_locales (auto simp: pg_ledger_def pg_gets sql_view_def table_rows_ran dest!: find_Some_in find_None_all)

section \<open>Receipts do not come back\<close>

text \<open>The documented rendering of \<open>jsonb\<close> puts a space after the colon that follows a key.\<close>

definition jsonb_spaced :: "(string \<Rightarrow> string res) \<Rightarrow> bool" where
  "jsonb_spaced render \<longleftrightarrow>
     (\<forall>b kvs t. json_parse b = Some (JObj kvs) \<longrightarrow> kvs \<noteq> [] \<longrightarrow> render b = Inr t \<longrightarrow>
        (\<exists>u k rest. t = CHR ''{'' # CHR 0x22 # u \<and> parse_str u = Some (k, CHR '':'' # CHR '' '' # rest)))"

lemma jsonb_spacedD:
  "jsonb_spaced render \<Longrightarrow> json_parse b = Some (JObj kvs) \<Longrightarrow> kvs \<noteq> [] \<Longrightarrow> render b = Inr t \<Longrightarrow>
   \<exists>u k rest. t = CHR ''{'' # CHR 0x22 # u \<and> parse_str u = Some (k, CHR '':'' # CHR '' '' # rest)"
  unfolding jsonb_spaced_def by blast

lemma printed_object_tight:
  assumes "json_numbers (JObj ms)" and "json_print (JObj ms) = CHR ''{'' # CHR 0x22 # u"
    and "parse_str u = Some (k, CHR '':'' # CHR '' '' # rest)"
  shows False
proof (cases ms)
  case Nil
  with assms(2) show False by simp
next
  case (Cons m ms')
  obtain k0 v where m: "m = (k0, v)" by (cases m)
  obtain c r where v: "json_print v = c # r" "value_start c"
    using json_print_Cons [of v True] assms(1) Cons m by auto
  obtain w where "u = quote_body k0 @ CHR 0x22 # CHR '':'' # c # w"
    using assms(2) Cons m v(1) by (cases ms') (auto simp: json_string_def)
  then have "c = CHR '' ''" using assms(3) by (auto simp: parse_str_quote_body)
  with v(2) show False by (simp add: value_start_def is_ws_def)
qed

lemma sort_key_empty: "sort_key f xs = [] \<longleftrightarrow> xs = []"
  by (metis length_0_conv length_sort)

lemma pg_body_changes:
  assumes "jsonb_spaced (pg_jsonb cfg)" and "nfc_laws nfc" and "MakeReceipt pr nfc i sg = Inr r"
    and "pg_jsonb cfg (sr_BodyJSON r) = Inr t"
  shows "t \<noteq> sr_BodyJSON r"
proof -
  obtain b where b: "Canonicalize nfc (VMap (receiptBody (effective_input i))) = Inr b" "sr_BodyJSON r = b"
    by (rule MakeReceipt_Inr [OF assms(3)])
  obtain tr where tr: "canon_tree nfc (VMap (receiptBody (effective_input i))) = Inr tr"
    and p: "json_parse b = Some (json_sanitize tr)"
    using Canonicalize_parse [OF assms(2) b(1)] by blast
  have print: "b = json_print tr"
    using b(1) tr writeValue_canon_tree [OF assms(2), of "VMap (receiptBody (effective_input i))"]
    by (simp add: Canonicalize_def del: canon_tree.simps writeValue.simps)
  obtain ms where ms: "tr = JObj ms" "res_mapM (\<lambda>kv. res_bind (canon_tree nfc (snd kv)) (\<lambda>t. Inr (nfc (fst kv), t)))
      (sort_key fst (keptEntries nfc True (receiptBody (effective_input i)))) = Inr ms"
    using tr by (auto simp: res_bind_Inr_iff split: if_splits)
  let ?kept = "keptEntries nfc True (receiptBody (effective_input i))"
  have "hd (receiptBody (effective_input i)) \<in> set (receiptBody (effective_input i))"
    "\<not> isNilValue (snd (hd (receiptBody (effective_input i))))" by (simp_all add: receiptBody_def)
  then have "?kept \<noteq> []" unfolding keptEntries_def filter_empty_conv by fastforce
  then have "sort_key fst ?kept \<noteq> []" unfolding sort_key_empty .
  then have "ms \<noteq> []" using ms(2) unfolding res_mapM_Inr_iff by auto
  then have ne: "map (\<lambda>(k, v). (sanitize k, json_sanitize v)) ms \<noteq> []" by simp
  have "json_parse b = Some (JObj (map (\<lambda>(k, v). (sanitize k, json_sanitize v)) ms))" using p ms(1) by simp
  from jsonb_spacedD [OF assms(1) this ne] assms(4) b(2) obtain u k rest where
    t: "t = CHR ''{'' # CHR 0x22 # u" "parse_str u = Some (k, CHR '':'' # CHR '' '' # rest)" by auto
  have ints: "json_numbers (JObj ms)" using canon_tree_ints [OF tr] ms(1) by simp
  show ?thesis
  proof
    assume "t = sr_BodyJSON r"
    with t(1) print ms(1) b(2) have "json_print (JObj ms) = CHR ''{'' # CHR 0x22 # u" by simp
    from printed_object_tight [OF ints this t(2)] show False .
  qed
qed

lemma pg_PutReceipt_row:
  assumes "pg_PutReceipt cfg x s = Inr s'" and "table_get (ss_receipts s) (lr_ReceiptID x) = None"
  obtains body created expires where "pg_jsonb cfg (lr_BodyJSON x) = Inr body"
    and "pg_GetReceipt (lr_ReceiptID x) s' =
      Some (x\<lparr>lr_BodyJSON := body, lr_CreatedAt := created, lr_ExpiresAt := expires\<rparr>)"
  using assms
  by (auto simp: pg_PutReceipt_def pg_receipt_row_def pg_insertReceipt_def pg_document_def pg_GetReceipt_def
      res_bind_Inr_iff Let_def split: if_splits)

lemma pg_receipt_altered:
  assumes "jsonb_spaced (pg_jsonb cfg)" and "nfc_laws nfc" and "MakeReceipt pr nfc i sg = Inr r"
    and "pg_PutReceipt cfg (receiptRecordFromStored r) s = Inr s'"
    and "table_get (ss_receipts s) (sr_ReceiptID r) = None"
  shows "\<exists>row. pg_GetReceipt (sr_ReceiptID r) s' = Some row \<and> lr_BodyJSON row \<noteq> sr_BodyJSON r \<and>
    (VerifyReceipt pr (storedFromRecord row) pub = Inl ErrReceiptDigestMismatch \<or>
     collides pr (lr_BodyJSON row) (sr_BodyJSON r))"
proof -
  have x: "lr_ReceiptID (receiptRecordFromStored r) = sr_ReceiptID r"
    "lr_BodyJSON (receiptRecordFromStored r) = sr_BodyJSON r" "lr_BodyDigest (receiptRecordFromStored r) = sr_BodyDigest r"
    by (simp_all add: receiptRecordFromStored_def)
  obtain body created expires where body: "pg_jsonb cfg (sr_BodyJSON r) = Inr body"
    and get: "pg_GetReceipt (sr_ReceiptID r) s' = Some ((receiptRecordFromStored r)\<lparr>lr_BodyJSON := body,
        lr_CreatedAt := created, lr_ExpiresAt := expires\<rparr>)"
    using pg_PutReceipt_row [OF assms(4)] assms(5) unfolding x by metis
  have ne: "body \<noteq> sr_BodyJSON r" by (rule pg_body_changes [OF assms(1-3) body])
  obtain b where "sr_BodyJSON r = b" "sr_ReceiptID r = DigestWithPrefix pr b" "sr_BodyDigest r = DigestWithPrefix pr b"
    by (rule MakeReceipt_Inr [OF assms(3)])
  then have "VerifyReceipt pr (storedFromRecord ((receiptRecordFromStored r)\<lparr>lr_BodyJSON := body,
      lr_CreatedAt := created, lr_ExpiresAt := expires\<rparr>)) pub = Inl ErrReceiptDigestMismatch \<or>
      collides pr body (sr_BodyJSON r)"
    using ne by (auto simp: VerifyReceipt_def storedFromRecord_def x Let_def DigestWithPrefix_inj collides_def)
  with get ne show ?thesis by auto
qed

end
