(* ===== verification/Pg_Demo.thy ===== *)
theory Pg_Demo
  imports Pg_Store Gateway_Runs
begin

text \<open>
  A PostgreSQL database that renders \<open>jsonb\<close> with a space after commas and colons, and a run of the
  gateway on it.
\<close>

fun jsonb_tree :: "jval \<Rightarrow> string" where
  "jsonb_tree (JArr vs) = CHR ''['' # str_join '', '' (map jsonb_tree vs) @ '']''"
| "jsonb_tree (JObj kvs) =
    CHR ''{'' # str_join '', '' (map (\<lambda>(k, v). json_quote k @ '': '' @ jsonb_tree v) kvs) @ ''}''"
| "jsonb_tree v = json_print v"

definition demo_jsonb :: "string \<Rightarrow> string res" where
  "demo_jsonb b = (case json_parse b of None \<Rightarrow> Inl (Errorf ''invalid json'') | Some j \<Rightarrow> Inr (jsonb_tree j))"

lemma demo_jsonb_spaced: "jsonb_spaced demo_jsonb"
  unfolding jsonb_spaced_def
proof (intro allI impI)
  fix b kvs t
  assume p: "json_parse b = Some (JObj kvs)" and ne: "kvs \<noteq> []" and t: "demo_jsonb b = Inr t"
  obtain k v kvs' where kvs: "kvs = (k, v) # kvs'" using ne by (metis list.exhaust surj_pair)
  have "\<exists>rest. str_join '', '' (map (\<lambda>(k, v). json_quote k @ '': '' @ jsonb_tree v) kvs) =
      CHR 0x22 # quote_body k @ CHR 0x22 # CHR '':'' # CHR '' '' # rest"
    by (cases kvs') (auto simp: kvs json_string_def)
  then obtain rest where "t = CHR ''{'' # CHR 0x22 # quote_body k @ CHR 0x22 # CHR '':'' # CHR '' '' # rest"
    using p t by (auto simp: demo_jsonb_def)
  then show "\<exists>u k rest. t = CHR ''{'' # CHR 0x22 # u \<and> parse_str u = Some (k, CHR '':'' # CHR '' '' # rest)"
    using parse_str_quote_body by fastforce
qed

definition demo_pg :: pg_config where
  "demo_pg = \<lparr>pg_time = Inr, pg_jsonb = demo_jsonb, pg_instant = (\<lambda>_. 0), pg_text = (\<lambda>_. True), pg_ties = (\<lambda>xs. xs)\<rparr>"

interpretation postgres: atomic_ledger "pg_ledger demo_pg" sql_view
  by (rule pg_contract) (simp add: pg_config_ok_def demo_pg_def)

lemma demo_pg_simps:
  "pg_time demo_pg t = Inr t" "pg_opt_time demo_pg o' = Inr o'" "pg_texts demo_pg ts os = Inr ()"
  "pg_document demo_pg msg b =
    (case json_parse b of None \<Rightarrow> Inl (Errorf msg) | Some j \<Rightarrow> Inr (jsonb_tree j))"
  by (auto simp: demo_pg_def pg_opt_time_def pg_texts_def pg_document_def demo_jsonb_def option.pred_True
      list_all_def split: option.splits)

lemma pg_firstTx_empty:
  assumes "pp_Action p = ActionIssueCredentials" and "sr_ReceiptID (pp_Base p) = sr_BodyDigest (pp_Base p)"
    and "sr_OutcomeStatus (pp_Base p) = ''issuing_credentials''" and "sr_IdemKey (pp_Base p) = pp_IdemKey p"
    and "sr_SupersedesReceiptID (pp_Base p) = None" and "sr_ApprovalID (pp_Base p) = None"
    and "sr_ContextID (pp_Base p) = cx_ContextID (pp_Context p)"
    and "sr_DecisionID (pp_Base p) = dc_DecisionID (pp_DecRecord p)"
    and "dc_ContextID (pp_DecRecord p) = cx_ContextID (pp_Context p)"
    and "sr_PolicyHash (pp_Base p) = lp_Hash (pp_Loaded p)"
    and "sv_PublicKey sv \<noteq> None" and "sr_KeyID (pp_Base p) = sg_KeyID (sv_Signer sv)"
    and "d_Verdict (pp_Decision p) = ''allow''"
    and "json_parse (pp_CtxJSON p) \<noteq> None" "json_parse (pp_DecJSON p) \<noteq> None"
      "json_parse (sr_BodyJSON (pp_Base p)) \<noteq> None"
  shows "\<exists>t. firstTx sv (pg_ledger demo_pg) c p empty_db = (Inr (), t)"
proof -
  from assms(11) obtain pub where pub: "sv_PublicKey sv = Some pub" by blast
  from assms(14-16) obtain x d r where j: "json_parse (pp_CtxJSON p) = Some x" "json_parse (pp_DecJSON p) = Some d"
    "json_parse (sr_BodyJSON (pp_Base p)) = Some r" by blast
  show ?thesis
    by (simp add: assms(1-10,12,13) j pub demo_pg_simps firstTx_def putSigningKey_def tx_bind_def tx_put_def
        tx_return_def pg_ledger_def pg_PutKey_def pg_PutPolicyVersion_def pg_PutContext_def pg_PutDecision_def
        pg_PutReceipt_def pg_receipt_row_def pg_insertReceipt_def pg_PutIdempotencyKey_def sql_PutKey_def
        sql_PutPolicyVersion_def sql_PutContext_def sql_PutDecision_def sql_PutIdempotencyKey_def empty_db_def
        references_def require_def table_insert_new_def table_upsert_def policyRecOf_def initialIdem_def
        initialFinal_def idem_status_check_def outcome_status_check_def receiptRecordFromStored_def Let_def)
qed

section \<open>A run that hands out credentials\<close>

lemma omit_empty_ints [simp]: "(n, j) \<in> set (omit_empty k v) \<Longrightarrow> json_numbers j"
  by (auto simp: omit_empty_def split: if_splits)

lemma context_document:
  assumes "marshalContext x = Inr b" and "ci_Intent (cx_Inputs x) = VNilMap"
  shows "json_parse b \<noteq> None"
proof -
  from assms(1) obtain j where j: "contextJson x = Inr j" "b = json_print j"
    by (auto simp: marshalContext_def res_bind_Inr_iff)
  have "json_numbers j"
    using j(1) assms(2)
    by (auto simp: contextJson_def inputsJson_def sourceJson_def evidenceJson_def res_bind_Inr_iff)
  with json_parse_print [of j True] j(2) show ?thesis by simp
qed

lemma decision_document: "marshalDecision d = Inr b \<Longrightarrow> json_parse b \<noteq> None"
proof -
  assume "marshalDecision d = Inr b"
  moreover have "json_numbers (decisionJson d)" by (auto simp: decisionJson_def decisionPolicyJson_def)
  ultimately show ?thesis using json_parse_print [of "decisionJson d" True] by (auto simp: marshalDecision_def)
qed

lemma receipt_document: "nfc_laws nfc \<Longrightarrow> MakeReceipt pr nfc i sg = Inr r \<Longrightarrow> json_parse (sr_BodyJSON r) \<noteq> None"
  by (elim MakeReceipt_Inr) (auto dest!: Canonicalize_parse)

lemma receipt_digest: "MakeReceipt pr nfc i sg = Inr r \<Longrightarrow> sr_ReceiptID r = sr_BodyDigest r"
  by (elim MakeReceipt_Inr) simp

theorem demo_mints_postgres:
  "\<exists>g k p i. gw_reach demo_service (pg_ledger demo_pg) (gw_init empty_db) g \<and>
     gw_Log g = [EvEvaluated k p i, EvMinted k]"
proof -
  let ?c = "demo_call ''plan''"
  obtain k where k: "ComputeIdemKey (sv_Prims demo_service) (sv_NFC demo_service) (cl_Claims ?c) (cl_Req ?c) = Inr k"
    by (rule demo_plan_key)
  from prepare_total [OF demo_serviceable demo_encodable ComputeIdemKey_nonempty [OF k]]
  obtain p where p: "prepare demo_service ?c k = Inr p" "pp_IdemKey p = k"
    "pp_Decision p = Evaluate (lp_Policy demo_loaded) (lp_Hash demo_loaded) (policyInput (cl_Req ?c))" by blast
  have v: "d_Verdict (pp_Decision p) = ''allow''" using demo_verdict(1) by (simp add: p(3) Evaluate_verdict)
  then have act: "pp_Action p = ActionIssueCredentials" by (simp add: pp_Action_def TransitionFromDecision_action)
  have nfc: "nfc_laws (sv_NFC demo_service)" by (simp add: demo_service_def)
  from p(1) obtain x d m b where
    x: "BuildContext (sv_Prims demo_service) (sv_NFC demo_service) (contextSource (cl_Claims ?c))
      (contextInputs (cl_Req ?c)) \<lparr>ce_PlanDigest = aq_PlanDigest (cl_Req ?c), ce_DiffURL = aq_DiffURL (cl_Req ?c)\<rparr>
      (cl_CreatedAt ?c) = Inr x"
    and r: "MakeReceipt (sv_Prims demo_service) (sv_NFC demo_service)
      (baseReceiptInput ?c k x d m (pp_Action p)) (sv_Signer demo_service) = Inr b"
    and docs: "marshalContext x = Inr (pp_CtxJSON p)" "marshalDecision d = Inr (pp_DecJSON p)"
    and same: "pp_Context p = x" "pp_DecRecord p = d" "pp_Base p = b" "dc_ContextID d = cx_ContextID x"
      "dp_PolicyHash m = lp_Hash (pp_Loaded p)"
    by (auto simp: prepare_def res_bind_Inr_iff Let_def BuildDecision_Inr pp_Action_def)
  have "cx_Inputs x = contextInputs (cl_Req ?c)" using x by (auto simp: BuildContext_Inr Let_def)
  then have "ci_Intent (cx_Inputs x) = VNilMap" by (simp add: contextInputs_def demo_call_def demo_request_def)
  note ctx = context_document [OF docs(1) this]
  obtain t where "firstTx demo_service (pg_ledger demo_pg) ?c p empty_db = (Inr (), t)"
    using pg_firstTx_empty [of p demo_service ?c] act v p(2) same ctx decision_document [OF docs(2)]
      receipt_document [OF nfc r] receipt_digest [OF r] MakeReceipt_fields [OF r] MakeReceipt_approval [OF r] demo_public_key
    by (auto simp: baseReceiptInput_def plain_outcome_def)
  from run_to_mint [OF k _ p(1) act this demo_broker_total] show ?thesis
    by (auto simp: pg_ledger_def pg_GetIdempotencyKey_def empty_db_def)
qed

end
