(* ===== verification/Http_Demo.thy ===== *)
theory Http_Demo
  imports Http_Runs Pg_Demo
begin

text \<open>
  Concrete HTTP requests for the service of \<open>Demo\<close>: one that asks for an approval, and the press of the
  button that gives it.
\<close>

definition demo_claims :: claims where
  "demo_claims =
    \<lparr>cm_Subject = ''sub'', cm_Issuer = ''iss'', cm_Repo = ''org/repo'', cm_Workflow = ''ci'',
     cm_RunID = ''1'', cm_SHA = ''abc'', cm_Token = ''tok''\<rparr>"

definition demo_pack :: pack_env where
  "demo_pack =
    \<lparr>pe_Prims = toy_prims, pe_Float64 = (\<lambda>n. Some n), pe_Order = (\<lambda>xs. xs), pe_Render = (\<lambda>_. Inr ''html''),
     pe_Zip = (\<lambda>files. Inr (concat (map snd files))), pe_Now = ''2025-01-01T00:00:00Z''\<rparr>"

definition demo_env :: http_env where
  "demo_env =
    \<lparr>he_Now = 0, he_Clock = (0, 0), he_ApprovalID = ''approval-1'', he_Broker = demo_broker, he_Slack = None,
     he_Pack = demo_pack\<rparr>"

definition demo_slack :: "'s ledger \<Rightarrow> 's interaction_handler" where
  "demo_slack L = \<lparr>ih_SigningSecret = ''secret'', ih_Approver = Some (Approve demo_service L)\<rparr>"

definition demo_handler :: "'s ledger \<Rightarrow> 's handler" where
  "demo_handler L =
    \<lparr>hd_Auth = (\<lambda>n r. Inr demo_claims), hd_Service = Some (demo_service, L), hd_Slack = Some (demo_slack L),
     hd_PublicVerify = True\<rparr>"

definition demo_http :: "string \<Rightarrow> string \<Rightarrow> http_request" where
  "demo_http path body =
    \<lparr>hq_EscapedPath = path, hq_Path = path, hq_Header = (\<lambda>_. []), hq_Body = Inr body, hq_Host = [], hq_TLS = False\<rparr>"

definition request_text :: "(string \<times> string) list \<Rightarrow> string" where
  "request_text kvs = json_print (JObj (map (\<lambda>(k, v). (k, JStr v)) kvs))"

definition demo_authorize :: "string \<Rightarrow> http_request" where
  "demo_authorize action = demo_http ''/v1/authorize''
     (request_text [(''action'', action), (''resource'', ''res''), (''env'', ''prod'')])"

definition demo_press :: http_request where
  "demo_press = (demo_http ''/v1/slack/interactions'' (interaction_body ''approve'' ''approval-1''))\<lparr>
     hq_Header := (\<lambda>name. if name = ''X-Slack-Signature''
       then slackSignature toy_prims ''secret'' ''0'' (interaction_body ''approve'' ''approval-1'')
       else if name = ''X-Slack-Request-Timestamp'' then ''0'' else [])\<rparr>"

lemma demo_gateway: "gateway_handler demo_service L (demo_handler L)"
  by (simp add: gateway_handler_def demo_handler_def demo_slack_def)

text \<open>A printed tree need not be parsed to be evaluated.\<close>

lemma readRequest_print:
  "hq_Body r = Inr (json_print j) \<Longrightarrow> json_numbers j \<Longrightarrow>
     readRequest fl r = decode_struct (decodeRequest fl) zero_request (json_sanitize j)"
  by (simp add: readRequest_def decode_first_def json_first_print)

lemma unmarshal_lenient_print:
  "json_numbers j \<Longrightarrow> unmarshal_lenient dec zero (json_print j) = struct_value dec zero (json_sanitize j)"
  by (simp add: unmarshal_lenient_def json_parse_print)

lemma number_literals [simp]: "number_literal ''3''" "number_literal ''900''"
  by code_simp+

lemma demo_read: "readRequest (pe_Float64 demo_pack) (demo_authorize ''apply'') = Some (demo_request ''apply'')"
proof -
  let ?j = "JObj [(''action'', JStr ''apply''), (''resource'', JStr ''res''), (''env'', JStr ''prod'')]"
  have "decode_struct (decodeRequest (pe_Float64 demo_pack)) zero_request ?j = Some (demo_request ''apply'')"
    by code_simp
  then show ?thesis
    using readRequest_print [of "demo_authorize ''apply''" ?j "pe_Float64 demo_pack"]
    by (simp add: demo_authorize_def demo_http_def request_text_def del: decode_struct.simps)
qed

definition demo_http_call :: call where
  "demo_http_call = callOf demo_env demo_claims (demo_request ''apply'')"

lemma demo_serve:
  "serve demo_env (demo_handler L) (demo_authorize ''apply'') s =
    answerOf (Authorize demo_service L demo_http_call s)"
proof -
  have "findHandler (hq_EscapedPath (demo_authorize ''apply'')) = ToEndpoint Authorize_EP"
    by (simp add: demo_authorize_def demo_http_def findHandler_routes)
  then show ?thesis
    by (simp add: serve_def HandleAuthorize_def ensureAuth_def demo_handler_def demo_env_def demo_read
        demo_http_call_def)
qed

text \<open>The request waits for an approval, and its first receipt is in the ledger.\<close>

lemma demo_pending:
  obtains k resp t where "Authorize demo_service (mem_ledger insertion_order) demo_http_call NewInMemoryStore = (Inr resp, t)"
    and "flow_state (mem_view t) k ''pending_approval'' demo_loaded" and "waits_for (mem_view t) k ''approval-1''"
    and "k \<noteq> []"
proof -
  have c: "cl_Claims demo_http_call = cl_Claims (demo_call ''apply'')" "cl_Req demo_http_call = cl_Req (demo_call ''apply'')"
    "cl_ApprovalID demo_http_call = ''approval-1''"
    by (simp_all add: demo_http_call_def callOf_def actorOf_def demo_claims_def demo_call_def demo_actor_def demo_env_def)
  from demo_key [of "''apply''"] obtain k where
    k: "ComputeIdemKey (sv_Prims demo_service) (sv_NFC demo_service) (cl_Claims demo_http_call) (cl_Req demo_http_call) = Inr k"
    by (auto simp: c)
  have e: "encodable demo_service (cl_Req demo_http_call)" unfolding c by (rule demo_encodable)
  have v: "verdict_spec (lp_Policy demo_loaded) (policyInput (cl_Req demo_http_call)) = ''require_approval''"
    unfolding c by (rule demo_verdict)
  from mem_reliable.Authorize_pends [OF mem_view_empty demo_serviceable e v k] c(3)
    ComputeIdemKey_nonempty [OF k] that show thesis by metis
qed

lemma demo_receipt_stored:
  "\<exists>rid rec. mem_GetReceipt rid
     (serve_all (demo_handler (mem_ledger insertion_order)) [(demo_env, demo_authorize ''apply'')] NewInMemoryStore) = Some rec"
proof -
  obtain k resp t where t: "Authorize demo_service (mem_ledger insertion_order) demo_http_call NewInMemoryStore = (Inr resp, t)"
    and f: "flow_state (mem_view t) k ''pending_approval'' demo_loaded" by (rule demo_pending)
  have "serve_all (demo_handler (mem_ledger insertion_order)) [(demo_env, demo_authorize ''apply'')] NewInMemoryStore = t"
    by (simp add: demo_serve t answerOf_def)
  with f show ?thesis
    by (auto simp: flow_state_def mem_view_def mem_GetReceipt_def)
qed

lemma demo_pressed:
  "pressed (pe_Prims (he_Pack demo_env)) (ih_SigningSecret (demo_slack L)) 0 ''approve'' ''approval-1'' demo_press"
proof -
  have "parse_int64 ''0'' = Some 0" by code_simp
  then show ?thesis
    by (simp add: pressed_def demo_press_def demo_http_def demo_slack_def demo_env_def demo_pack_def)
qed

section \<open>A numeric intent, a message and a decision\<close>

definition demo_numeric :: http_request where
  "demo_numeric = demo_http ''/v1/authorize'' (json_print (JObj
     [(''action'', JStr ''plan''), (''resource'', JStr ''res''), (''env'', JStr ''prod''),
      (''intent'', JObj [(''count'', JNum ''3'')])]))"

lemma demo_numeric_read:
  obtains q where "readRequest (pe_Float64 (he_Pack demo_env)) demo_numeric = Some q" and "has_float (aq_Intent q)"
proof -
  have "map_option (\<lambda>q. has_float (aq_Intent q)) (readRequest (pe_Float64 demo_pack) demo_numeric) = Some True"
  proof -
    let ?j = "JObj [(''action'', JStr ''plan''), (''resource'', JStr ''res''), (''env'', JStr ''prod''),
      (''intent'', JObj [(''count'', JNum ''3'')])]"
    have "map_option (\<lambda>q. has_float (aq_Intent q)) (decode_struct (decodeRequest (pe_Float64 demo_pack)) zero_request ?j) =
        Some True"
      by code_simp
    then show ?thesis
      using readRequest_print [of demo_numeric ?j "pe_Float64 demo_pack"]
      by (simp add: demo_numeric_def demo_http_def del: decode_struct.simps)
  qed
  with that show thesis by (auto simp: demo_env_def)
qed

definition demo_message :: approval_message where
  "demo_message = 
    \<lparr>am_ApprovalID = ''approval-1'', am_ReceiptID = [], am_PolicyHash = [], am_ContextID = [], am_DecisionID = [],
     am_Action = ''apply'', am_Resource = ''res'', am_Env = ''prod'', am_Risk = ''low'', am_DiffURL = [], am_RunURL = []\<rparr>"

lemma demo_message_buttons:
  obtains b body j where "BuildApprovalMessage demo_message = Inr b" and "postBody (\<lambda>n. None) ''C1'' b = Inr body"
    and "json_parse body = Some j" and "(Some (JStr ''approve''), Some (JStr ''approval-1'')) \<in> set (jbuttons j)"
proof -
  obtain b where b: "BuildApprovalMessage demo_message = Inr b" by (simp add: BuildApprovalMessage_eq)
  obtain body where body: "postBody (\<lambda>n. None) ''C1'' b = Inr body" by (simp add: postBody_eq [OF b])
  from posted_buttons [OF b body] that [OF b body] show thesis by (auto simp: demo_message_def)
qed

lemma demo_approves:
  obtains s t rid where "Approve demo_service (mem_ledger insertion_order) ''approval-1'' ''approved'' at s = (Inr rid, t)"
    and "t \<noteq> s"
proof -
  obtain k resp s where f: "flow_state (mem_view s) k ''pending_approval'' demo_loaded"
    and w: "waits_for (mem_view s) k ''approval-1''"
    and k: "k \<noteq> []" and a: "Authorize demo_service (mem_ledger insertion_order) demo_http_call NewInMemoryStore = (Inr resp, s)"
    by (rule demo_pending)
  have st: "approval_str ApprovalApproved = ''approved''" "ApprovalApproved \<noteq> ApprovalPending" by simp_all
  from mem_reliable.Approve_decides [OF f w k demo_serviceable st(2), of "at"] obtain rid t where
    t: "Approve demo_service (mem_ledger insertion_order) ''approval-1'' ''approved'' at s = (Inr rid, t)"
    "flow_state (mem_view t) k ''approved_ready'' demo_loaded" by (auto simp: decided_status_def)
  with f have "t \<noteq> s" by (auto simp: flow_state_def)
  with t(1) that show thesis by blast
qed

section \<open>A server, a pack and a receipt with references\<close>

text \<open>A configuration without Slack.\<close>

definition demo_config :: config where
  "demo_config =
    \<lparr>cf_ListenAddr = '':8080'', cf_DB = \<lparr>cf_Driver = [], cf_DSN = []\<rparr>, cf_PolicyPath = ''p.yaml'',
     cf_SigningKey = \<lparr>cf_KeyID = [], cf_PrivateKeyPath = [], cf_PublicKeyPath = [], cf_RotateOnStartup = False\<rparr>,
     cf_Slack = \<lparr>cf_Enabled = False, cf_BotToken = [], cf_SigningSecret = [], cf_ApprovalChannel = []\<rparr>,
     cf_STSRegionDefault = []\<rparr>"

definition demo_startup :: startup where
  "demo_startup =
    \<lparr>su_Prims = toy_prims, su_Getenv = (\<lambda>_. []),
     su_OpenDB = (\<lambda>_ _. Inr \<lparr>md_Tables = Map.empty, md_Schema = empty_db\<rparr>),
     su_Migrations = \<lparr>me_ReadDir = (\<lambda>_. Inr []), me_ReadFile = (\<lambda>_. Inr []), me_Exec = (\<lambda>_. Inr), me_Now = 0,
       me_Timestamptz = (\<lambda>_. []), me_Fault = (\<lambda>_. None)\<rparr>,
     su_ReadFile = (\<lambda>_. Inr ''policy''),
     su_NewSTS = (\<lambda>_. Inr ()), su_Random = Inr demo_seed, su_Base = demo_service\<rparr>"

lemma demo_server:
  obtains srv where "newServer demo_startup demo_config = Inr srv" and "se_Service srv = demo_service"
    and "signingSecret (su_Getenv demo_startup) demo_config = []"
proof -
  have e: "su_Getenv demo_startup = (\<lambda>_. [])" "cf_Slack demo_config = \<lparr>cf_Enabled = False, cf_BotToken = [],
      cf_SigningSecret = [], cf_ApprovalChannel = []\<rparr>"
    by (simp_all add: demo_startup_def demo_config_def)
  have s: "signingSecret (\<lambda>_. []) demo_config = []" by (simp add: signingSecret_def setting_def e)
  have "\<exists>srv. newServer demo_startup demo_config = Inr srv \<and> se_Service srv = demo_service"
    by (simp add: newServer_def Let_def e slackEnabled_def s setting_def openStore_def migrateOpened_def Migrate_def
        migrationConfig_def ensureMigrationsTable_def faulty_def listMigrationFiles_def tx_return_def configuredSigner_def
        NewAuthorizeService_def demo_startup_def demo_config_def demo_service_def demo_priv_def)
  with that s e show thesis by auto
qed

definition demo_context :: context_record where
  "demo_context = zero_context\<lparr>cx_ContextID := ''ctx''\<rparr>"

definition demo_pack_input :: pack_input where
  "demo_pack_input =
    \<lparr>pi_Receipt = verifiedPart \<lparr>lr_ReceiptID = ''rid'', lr_IdemKey = [], lr_CreatedAt = [], lr_SupersedesReceiptID = None,
       lr_ContextID = [], lr_DecisionID = [], lr_PolicyHash = [], lr_ApprovalID = None, lr_OutcomeStatus = [],
       lr_Final = True, lr_ExpiresAt = None, lr_BodyJSON = ''{}'', lr_BodyDigest = ''rid'', lr_KeyID = ''dev'',
       lr_Sig = []\<rparr>,
     pi_Context = demo_context, pi_Decision = zero_decision, pi_Policy = ''policy'', pi_Approvals = [],
     pi_CreatedAt = []\<rparr>"

lemma demo_files: "\<exists>files. BuildFiles demo_pack demo_pack_input [] = Inr files"
proof -
  have "json_parse ''{}'' = Some (JObj [])" by code_simp
  then have "\<exists>j. buildReceiptJSON (pe_Float64 demo_pack) (pi_Receipt demo_pack_input) [] = Inr j"
    by (simp add: buildReceiptJSON_def demo_pack_input_def verifiedPart_def last_wins_def entries_def
        receiptMap_def integrityOf_def Let_def)
  moreover have "\<exists>j. contextJson (pi_Context demo_pack_input) = Inr j"
    by (simp add: demo_pack_input_def demo_context_def zero_context_def contextJson_def inputsJson_def)
  ultimately show ?thesis
    by (auto simp: BuildFiles_def BuildSummary_def Let_def demo_pack_input_def demo_pack_def)
qed

text \<open>A receipt with everything that the best grade asks for.\<close>

definition demo_graded :: grade_input where
  "demo_graded =
    \<lparr>gi_Valid = True,
     gi_Receipt = (pi_Receipt demo_pack_input)\<lparr>sr_BodyJSON := json_print (JObj
       [(''policy'', JObj [(''policy_hash'', JStr ''h'')]),
        (''credential_grant'', JObj [(''role_arn'', JStr ''arn:role''), (''ttl_seconds'', JNum ''900'')]),
        (''approval'', JObj [(''required'', JBool True), (''status'', JStr ''approved'')])])\<rparr>,
     gi_Context = Some (demo_context\<lparr>cx_Evidence := \<lparr>ce_PlanDigest = ''p'', ce_DiffURL = ''d''\<rparr>\<rparr>),
     gi_Decision = Some (zero_decision\<lparr>dc_Policy := \<lparr>dp_PolicyID = [], dp_PolicyVersion = [], dp_PolicyHash = ''h''\<rparr>\<rparr>)\<rparr>"

lemma demo_graded_body:
  "unmarshal_lenient lenientGraded zero_graded (sr_BodyJSON (gi_Receipt demo_graded)) =
    \<lparr>gb_Policy = \<lparr>rp_PolicyID = [], rp_PolicyVersion = [], rp_PolicyHash = ''h''\<rparr>,
     gb_Approval = Some \<lparr>rap_Required = True, rap_ApprovalID = [], rap_Status = ''approved'', rap_ApprovedAt = [],
                         rap_Approver = None\<rparr>,
     gb_CredentialGrant = Some \<lparr>cg_Provider = [], cg_Method = [], cg_RoleARN = ''arn:role'', cg_Region = [],
                                cg_TTLSeconds = 900, cg_ScopeDigest = []\<rparr>\<rparr>"
proof -
  let ?j = "JObj [(''policy'', JObj [(''policy_hash'', JStr ''h'')]),
     (''credential_grant'', JObj [(''role_arn'', JStr ''arn:role''), (''ttl_seconds'', JNum ''900'')]),
     (''approval'', JObj [(''required'', JBool True), (''status'', JStr ''approved'')])]"
  have "struct_value lenientGraded zero_graded ?j =
    \<lparr>gb_Policy = \<lparr>rp_PolicyID = [], rp_PolicyVersion = [], rp_PolicyHash = ''h''\<rparr>,
     gb_Approval = Some \<lparr>rap_Required = True, rap_ApprovalID = [], rap_Status = ''approved'', rap_ApprovedAt = [],
                         rap_Approver = None\<rparr>,
     gb_CredentialGrant = Some \<lparr>cg_Provider = [], cg_Method = [], cg_RoleARN = ''arn:role'', cg_Region = [],
                                cg_TTLSeconds = 900, cg_ScopeDigest = []\<rparr>\<rparr>"
    by code_simp
  then show ?thesis
    using unmarshal_lenient_print [of ?j lenientGraded zero_graded] by (simp add: demo_graded_def)
qed

lemma demo_not_blank: "\<not> blank ''p''" "\<not> blank ''d''" "\<not> blank ''arn:role''"
  by code_simp+

definition demo_interaction :: interaction_ref where
  "demo_interaction = zero_interaction_ref\<lparr>ir_Mode := ''voice'', ir_TurnIndex := 7\<rparr>"

definition demo_refs :: receipt_refs where
  "demo_refs = \<lparr>rf_Context = Some \<lparr>cr_ContextID = ''ctx'', cr_RecordHash = [], cr_ContentHash = ''h''\<rparr>, rf_Decision = None\<rparr>"

lemma demo_references:
  obtains i r where "MakeReceipt (sv_Prims demo_service) (sv_NFC demo_service) i (sv_Signer demo_service) = Inr r"
    and "mi_Refs i = Some demo_refs" and "mi_InteractionRef i = Some demo_interaction"
    and "mi_IdemKey i = ''k''" "mi_ContextID i = ''c''" "mi_DecisionID i = ''d''" "rp_PolicyHash (mi_Policy i) = ''h''"
      "mi_SupersedesReceiptID i = None" "mi_Approval i = None" "ro_Status (mi_Outcome i) = ''denied''"
proof -
  let ?i = "\<lparr>mi_Schema = [], mi_CreatedAt = ''t'', mi_IdemKey = ''k'', mi_SupersedesReceiptID = None,
     mi_ContextID = ''c'', mi_DecisionID = ''d'', mi_Actor = workloadActor demo_actor,
     mi_Request = workloadRequest (demo_request ''plan''),
     mi_Policy = \<lparr>rp_PolicyID = ''p'', rp_PolicyVersion = ''1'', rp_PolicyHash = ''h''\<rparr>,
     mi_InteractionRef = Some demo_interaction, mi_Refs = Some demo_refs, mi_Approval = None,
     mi_CredentialGrant = None,
     mi_Outcome = \<lparr>ro_Status = ''denied'', ro_IssuedAt = [], ro_ExpiresAt = [], ro_Error = None\<rparr>\<rparr>"
  have "\<exists>r. MakeReceipt (sv_Prims demo_service) (sv_NFC demo_service) ?i (sv_Signer demo_service) = Inr r"
    by (rule MakeReceipt_total)
      (simp_all add: demo_service_def workloadRequest_def demo_request_def validOutcome_def
        outcome_parse_def outcome_list_def)
  then obtain r where "MakeReceipt (sv_Prims demo_service) (sv_NFC demo_service) ?i (sv_Signer demo_service) = Inr r" ..
  then show thesis by (rule that) simp_all
qed

section \<open>A PostgreSQL database\<close>

definition demo_db :: sql_state where
  "demo_db = empty_db\<lparr>
     ss_keys := [(''dev'', \<lparr>kr_KeyID = ''dev'', kr_PublicKey = [], kr_CreatedAt = [], kr_RotatedAt = None\<rparr>)],
     ss_policy_versions := [(''h'', \<lparr>pv_PolicyHash = ''h'', pv_PolicyID = [], pv_PolicyVersion = [],
       pv_PolicyYAML = [], pv_CreatedAt = []\<rparr>)],
     ss_contexts := [(''c'', \<lparr>lc_ContextID = ''c'', lc_BodyJSON = ''{}'', lc_CreatedAt = []\<rparr>)],
     ss_decisions := [(''d'', \<lparr>ld_DecisionID = ''d'', ld_ContextID = ''c'', ld_PolicyHash = ''h'', ld_Verdict = ''deny'',
       ld_BodyJSON = ''{}'', ld_CreatedAt = []\<rparr>)],
     ss_idempotency_keys := [(''k'', \<lparr>ik_IdemKey = ''k'', ik_Status = ''denied'', ik_ApprovalID = None,
       ik_LatestReceiptID = None, ik_FinalReceiptID = None, ik_CreatedAt = [], ik_UpdatedAt = [],
       ik_TTLExpiresAt = None\<rparr>)]\<rparr>"

lemma demo_pg_stores:
  obtains i r s where "MakeReceipt (sv_Prims demo_service) (sv_NFC demo_service) i (sv_Signer demo_service) = Inr r"
    and "pg_PutReceipt demo_pg (receiptRecordFromStored r) demo_db = Inr s"
proof -
  obtain i r where r: "MakeReceipt (sv_Prims demo_service) (sv_NFC demo_service) i (sv_Signer demo_service) = Inr r"
    and i: "mi_IdemKey i = ''k''" "mi_ContextID i = ''c''" "mi_DecisionID i = ''d''" "rp_PolicyHash (mi_Policy i) = ''h''"
      "mi_SupersedesReceiptID i = None" "mi_Approval i = None" "ro_Status (mi_Outcome i) = ''denied''"
    by (rule demo_references)
  obtain b where b: "Canonicalize (sv_NFC demo_service) (VMap (receiptBody (effective_input i))) = Inr b"
    "sr_BodyJSON r = b" "sr_BodyDigest r = sr_ReceiptID r" "sr_KeyID r = ''dev''"
    by (rule MakeReceipt_Inr [OF r]) (simp add: demo_service_def devSigner_def)
  have nfc: "nfc_laws (sv_NFC demo_service)" by (simp add: demo_service_def)
  from Canonicalize_parse [OF nfc b(1)] obtain j where j: "json_parse b = Some j" by blast
  have row: "\<exists>t. pg_receipt_row demo_pg (receiptRecordFromStored r) =
      Inr ((receiptRecordFromStored r)\<lparr>lr_BodyJSON := t\<rparr>)"
    using b j MakeReceipt_fields(5) [OF r] i(7)
    by (cases "sr_ExpiresAt r") (simp_all add: pg_receipt_row_def pg_document_def pg_texts_def pg_opt_time_def
        demo_pg_def demo_jsonb_def receiptRecordFromStored_def outcome_status_check_def option.pred_True)
  then obtain t where t: "pg_receipt_row demo_pg (receiptRecordFromStored r) =
      Inr ((receiptRecordFromStored r)\<lparr>lr_BodyJSON := t\<rparr>)" ..
  let ?row = "(receiptRecordFromStored r)\<lparr>lr_BodyJSON := t\<rparr>"
  have "lr_IdemKey ?row = ''k''" "lr_ContextID ?row = ''c''" "lr_DecisionID ?row = ''d''"
    "lr_PolicyHash ?row = ''h''" "lr_KeyID ?row = ''dev''" "lr_SupersedesReceiptID ?row = None"
    "lr_ApprovalID ?row = None"
    using b(4) MakeReceipt_fields [OF r] MakeReceipt_approval [OF r i(6)] i
    by (simp_all add: receiptRecordFromStored_def)
  then have "pg_insertReceipt ?row demo_db = Inr (demo_db\<lparr>ss_receipts := table_put (lr_ReceiptID ?row) ?row []\<rparr>)"
    by (simp add: pg_insertReceipt_def demo_db_def empty_db_def references_def require_def table_get_def Let_def
        del: receipt_rec.simps)
  with t have "\<exists>s. pg_PutReceipt demo_pg (receiptRecordFromStored r) demo_db = Inr s"
    by (simp add: pg_PutReceipt_def)
  with r that show thesis by blast
qed

end
