(* ===== verification/Cli.thy ===== *)
theory Cli
  imports Go_Flag Go_Path Go_Decode Go_Base64 Pack Policy Gateway_Config
begin

text \<open>
  \<open>cmd/relia-cli/main.go\<close>: the commands as functions from the arguments and a world (the files, what has
  been written to the two output streams) to an exit code and a world.  The HTTP exchange, the
  generation of keys, the YAML parser and the failures of the file system are parameters.
\<close>

section \<open>The world\<close>

text \<open>
  A file is its permissions, as they were asked for when it was created, and its contents.  What the
  flag package prints for a set of flags is kept as \<open>FlagUsage\<close>.
\<close>

datatype cli_note = Text string | FlagUsage string

record cli_world =
  cw_Files :: "string \<rightharpoonup> nat \<times> string"
  cw_Out :: string
  cw_Err :: "cli_note list"

text \<open>
  \<open>ce_Fetch\<close> sends a GET with an \<open>Authorization\<close> header and gives the body and the status;
  \<open>ce_Quote\<close> is \<open>%q\<close>, \<open>ce_Round\<close> formats with \<open>%.0f\<close> the float that prints as the argument; \<open>ce_Read\<close>, \<open>ce_Mkdir\<close> and
  \<open>ce_Write\<close> tell for which paths the file system fails.
\<close>

record cli_env =
  ce_Prims :: prims
  ce_Getenv :: "string \<Rightarrow> string"
  ce_Fetch :: "string \<Rightarrow> string option \<Rightarrow> (string \<times> nat) res"
  ce_Yaml :: "string \<Rightarrow> policy res"
  ce_GenerateKey :: "(string \<times> string) res"
  ce_Float64 :: "string \<Rightarrow> string option"
  ce_Quote :: "string \<Rightarrow> string"
  ce_Round :: "string \<Rightarrow> string"
  ce_Read :: "string \<Rightarrow> goerr option"
  ce_Mkdir :: "string \<Rightarrow> goerr option"
  ce_Write :: "string \<Rightarrow> goerr option"

type_synonym command = "cli_world \<Rightarrow> int \<times> cli_world"

definition ln :: "string \<Rightarrow> string" where
  "ln s = s @ [CHR 0x0A]"

definition put_out :: "string \<Rightarrow> cli_world \<Rightarrow> cli_world" where
  "put_out s w = w\<lparr>cw_Out := cw_Out w @ s\<rparr>"

definition put_err :: "cli_note list \<Rightarrow> cli_world \<Rightarrow> cli_world" where
  "put_err ns w = w\<lparr>cw_Err := cw_Err w @ ns\<rparr>"

definition failed :: "int \<Rightarrow> cli_note list \<Rightarrow> command" where
  "failed code ns w = (code, put_err ns w)"

definition readFile :: "cli_env \<Rightarrow> cli_world \<Rightarrow> string \<Rightarrow> string res" where
  "readFile env w path =
    (case ce_Read env path of
       Some e \<Rightarrow> Inl e
     | None \<Rightarrow> (case cw_Files w path of None \<Rightarrow> Inl (Errorf (''open '' @ path @ '': no such file or directory''))
                | Some (_, contents) \<Rightarrow> Inr contents))"

text \<open>\<open>os.WriteFile\<close> keeps the permissions of a file that exists.\<close>

definition osWriteFile :: "cli_env \<Rightarrow> string \<Rightarrow> string \<Rightarrow> nat \<Rightarrow> cli_world \<Rightarrow> cli_world res" where
  "osWriteFile env path contents mode w =
    (case ce_Write env path of
       Some e \<Rightarrow> Inl e
     | None \<Rightarrow>
         let mode' = (case cw_Files w path of None \<Rightarrow> mode | Some (m, _) \<Rightarrow> m)
         in Inr (w\<lparr>cw_Files := (cw_Files w)(path \<mapsto> (mode', contents))\<rparr>))"

section \<open>Helpers\<close>

definition usage :: string where
  "usage =
    ln ''Relia CLI'' @ ln '''' @ ln ''Usage:'' @
    ln ''  relia verify <receipt_id> [--addr URL] [--json] [--token TOKEN]'' @
    ln ''  relia pack <receipt_id> --out relia-pack.zip [--addr URL] [--token TOKEN]'' @
    ln ''  relia keys gen --private PATH [--public PATH] [--format hex|base64|raw] [--overwrite]'' @
    ln ''  relia policy lint <policy_path>'' @
    ln ''  relia policy test --policy PATH --action ACTION --resource RESOURCE --env ENV [--json]''"

definition envOrDefault :: "cli_env \<Rightarrow> string \<Rightarrow> string \<Rightarrow> string" where
  "envOrDefault env key fallback = (if ce_Getenv env key \<noteq> [] then ce_Getenv env key else fallback)"

definition httpGet :: "cli_env \<Rightarrow> string \<Rightarrow> string \<Rightarrow> (string \<times> nat) res" where
  "httpGet env url token =
    ce_Fetch env url (if token \<noteq> [] then Some (''Bearer '' @ token) else None)"

definition writeFile :: "cli_env \<Rightarrow> string \<Rightarrow> string \<Rightarrow> nat \<Rightarrow> bool \<Rightarrow> cli_world \<Rightarrow> cli_world res" where
  "writeFile env path contents mode overwrite w =
    (let dir = path_dir path
     in res_bind (if dir \<noteq> ''.'' then (case ce_Mkdir env dir of Some e \<Rightarrow> Inl e | None \<Rightarrow> Inr ()) else Inr ()) (\<lambda>_.
        if \<not> overwrite \<and> cw_Files w path \<noteq> None
        then Inl (Errorf (''file exists (use --overwrite): '' @ path))
        else osWriteFile env path contents mode w))"

definition encodeKey :: "cli_env \<Rightarrow> string \<Rightarrow> string \<Rightarrow> string res" where
  "encodeKey env key format =
    (let f = lower_ascii (trim_space format)
     in if f = ''raw'' then Inr key
        else if f = ''hex'' then Inr (''hex:'' @ ln (hex_encode key))
        else if f = ''base64'' then Inr (''base64:'' @ ln (base64_encode key))
        else Inl (Errorf (''unsupported --format '' @ ce_Quote env format @ '' (use hex|base64|raw)'')))"

text \<open>A missing member is nil.\<close>

definition member_of :: "goval \<Rightarrow> string \<Rightarrow> goval" where
  "member_of v k = (case map_of (entries v) k of None \<Rightarrow> VNil | Some x \<Rightarrow> x)"

definition appendKV :: "string \<Rightarrow> string \<Rightarrow> goval \<Rightarrow> string" where
  "appendKV s k v =
    (case v of
       VStr val \<Rightarrow>
         if trim_space val = [] then s
         else (if s \<noteq> [] then s @ '','' else s) @ k @ ''='' @ val
     | _ \<Rightarrow> s)"

definition formatInteractionRef :: "cli_env \<Rightarrow> goval \<Rightarrow> string" where
  "formatInteractionRef env receipt =
    (let ir = member_of receipt ''interaction_ref''
     in case ir of
          VMap _ \<Rightarrow>
            let out = appendKV (appendKV (appendKV [] ''mode'' (member_of ir ''mode''))
                        ''call_id'' (member_of ir ''call_id'')) ''turn_id'' (member_of ir ''turn_id'')
            in (case member_of ir ''turn_index'' of
                  VFloat ti \<Rightarrow> if ti \<noteq> ''0'' \<and> ti \<noteq> ''-0'' then appendKV out ''turn_index'' (VStr (ce_Round env ti)) else out
                | _ \<Rightarrow> out)
        | _ \<Rightarrow> [])"

definition formatRefs :: "goval \<Rightarrow> string" where
  "formatRefs receipt =
    (let refs = member_of receipt ''refs''
     in case refs of
          VMap _ \<Rightarrow>
            let ctx = member_of refs ''context''; dec = member_of refs ''decision'';
                out = (case ctx of
                    VMap _ \<Rightarrow> appendKV (appendKV (appendKV [] ''context_id'' (member_of ctx ''context_id''))
                        ''record_hash'' (member_of ctx ''record_hash'')) ''content_hash'' (member_of ctx ''content_hash'')
                  | _ \<Rightarrow> [])
            in (case dec of
                  VMap _ \<Rightarrow> appendKV (appendKV out ''decision_id'' (member_of dec ''decision_id''))
                      ''inputs_digest'' (member_of dec ''inputs_digest'')
                | _ \<Rightarrow> out)
        | _ \<Rightarrow> [])"

section \<open>relia verify\<close>

definition parseOrUsage :: "string \<Rightarrow> flags \<Rightarrow> string list \<Rightarrow> (flags \<Rightarrow> string list \<Rightarrow> command) \<Rightarrow> command" where
  "parseOrUsage name fs args k w =
    (case parseFlags fs args of
       Inl FlagHelp \<Rightarrow> failed 2 [FlagUsage name, FlagUsage name] w
     | Inl (FlagError e) \<Rightarrow> failed 2 [Text (ln e), FlagUsage name, FlagUsage name] w
     | Inr (fs', rest) \<Rightarrow> k fs' rest w)"

definition addrFlag :: "cli_env \<Rightarrow> string \<times> flag_value" where
  "addrFlag env = (''addr'', FString (envOrDefault env ''RELIA_ADDR'' ''http://localhost:8080''))"

definition tokenFlag :: "cli_env \<Rightarrow> string \<times> flag_value" where
  "tokenFlag env = (''token'', FString (envOrDefault env ''RELIA_TOKEN'' (ce_Getenv env ''RELIA_DEV_TOKEN'')))"

record verified =
  vd_ReceiptID :: string
  vd_Valid :: bool
  vd_Error :: string
  vd_Grade :: string
  vd_Receipt :: goval

definition decodeVerified ::
  "(string \<Rightarrow> string option) \<Rightarrow> (string \<times> jval) list \<Rightarrow> verified \<Rightarrow> verified option"
where
  "decodeVerified float64 ms v =
    Option.bind (string_field ''receipt_id'' ms (vd_ReceiptID v)) (\<lambda>rid.
    Option.bind (bool_field ''valid'' ms (vd_Valid v)) (\<lambda>valid.
    Option.bind (string_field ''error'' ms (vd_Error v)) (\<lambda>err.
    Option.bind (string_field ''grade'' ms (vd_Grade v)) (\<lambda>grade.
    Option.bind (any_map_field float64 ''receipt'' ms (vd_Receipt v)) (\<lambda>receipt.
      Some \<lparr>vd_ReceiptID = rid, vd_Valid = valid, vd_Error = err, vd_Grade = grade, vd_Receipt = receipt\<rparr>)))))"

definition readVerified :: "cli_env \<Rightarrow> string \<Rightarrow> verified option" where
  "readVerified env body =
    unmarshal_struct (decodeVerified (ce_Float64 env))
      \<lparr>vd_ReceiptID = [], vd_Valid = False, vd_Error = [], vd_Grade = [], vd_Receipt = VNilMap\<rparr> body"

definition withRefs :: "cli_env \<Rightarrow> goval \<Rightarrow> string \<Rightarrow> string" where
  "withRefs env receipt line0 =
    (let ir = formatInteractionRef env receipt;
         line1 = (if ir \<noteq> [] then line0 @ '' interaction='' @ ir else line0);
         refs = formatRefs receipt
     in if refs \<noteq> [] then line1 @ '' refs='' @ refs else line1)"

text \<open>The text of a decoding error is left out.\<close>

definition showVerified :: "cli_env \<Rightarrow> string \<Rightarrow> nat \<Rightarrow> command" where
  "showVerified env body status w =
    (case readVerified env body of
       None \<Rightarrow> failed 1 [Text (ln ''invalid response:'')] w
     | Some v \<Rightarrow>
         if status \<noteq> 200 then failed 1 [Text (ln (''verify failed: '' @ trim_space body))] w
         else if vd_Valid v then
           let line0 = ''valid=true receipt_id='' @ vd_ReceiptID v;
               line1 = (if vd_Grade v \<noteq> [] then line0 @ '' grade='' @ vd_Grade v else line0)
           in (0, put_out (ln (withRefs env (vd_Receipt v) line1)) w)
         else
           let line0 = ''valid=false receipt_id='' @ vd_ReceiptID v @ '' error='' @ vd_Error v
           in (1, put_out (ln (withRefs env (vd_Receipt v) line0)) w))"

definition handleVerify :: "cli_env \<Rightarrow> string list \<Rightarrow> command" where
  "handleVerify env args =
    parseOrUsage ''verify'' [addrFlag env, (''json'', FBool False), tokenFlag env] args (\<lambda>fs rest w.
      case rest of
        [receiptID] \<Rightarrow>
          (case httpGet env (string_flag fs ''addr'' @ ''/v1/verify/'' @ receiptID) (string_flag fs ''token'') of
             Inl e \<Rightarrow> failed 1 [Text (ln (err_msg e))] w
           | Inr (body, status) \<Rightarrow>
               if bool_flag fs ''json'' then (0, put_out body w) else showVerified env body status w)
      | _ \<Rightarrow> failed 2 [Text (ln ''verify requires <receipt_id>''), FlagUsage ''verify''] w)"

section \<open>relia pack\<close>

definition savePack :: "cli_env \<Rightarrow> string \<Rightarrow> string \<Rightarrow> command" where
  "savePack env outPath body w =
    (case (if path_dir outPath \<noteq> ''.'' then ce_Mkdir env (path_dir outPath) else None) of
       Some e \<Rightarrow> failed 1 [Text (ln (''output dir: '' @ err_msg e))] w
     | None \<Rightarrow>
       (case osWriteFile env outPath body 384 w of
          Inl e \<Rightarrow> failed 1 [Text (ln (''write output: '' @ err_msg e))] w
        | Inr w' \<Rightarrow> (0, put_out (ln (''wrote '' @ outPath)) w')))"

definition handlePack :: "cli_env \<Rightarrow> string list \<Rightarrow> command" where
  "handlePack env args =
    parseOrUsage ''pack'' [addrFlag env, (''out'', FString ''relia-pack.zip''), tokenFlag env] args (\<lambda>fs rest w.
      case rest of
        [receiptID] \<Rightarrow>
          (case httpGet env (string_flag fs ''addr'' @ ''/v1/pack/'' @ receiptID) (string_flag fs ''token'') of
             Inl e \<Rightarrow> failed 1 [Text (ln (err_msg e))] w
           | Inr (body, status) \<Rightarrow>
               if status \<noteq> 200 then failed 1 [Text (ln (''pack failed: '' @ trim_space body))] w
               else savePack env (string_flag fs ''out'') body w)
      | _ \<Rightarrow> failed 2 [Text (ln ''pack requires <receipt_id>''), FlagUsage ''pack''] w)"

section \<open>relia policy\<close>

definition loadPolicyAt :: "cli_env \<Rightarrow> cli_world \<Rightarrow> string \<Rightarrow> loaded_policy res" where
  "loadPolicyAt env w path = LoadPolicy (ce_Prims env) (ce_Yaml env) (readFile env w) path"

definition policyLint :: "cli_env \<Rightarrow> string list \<Rightarrow> command" where
  "policyLint env args =
    parseOrUsage ''policy lint'' [] args (\<lambda>fs rest w.
      case rest of
        [path] \<Rightarrow>
          (case loadPolicyAt env w path of
             Inl e \<Rightarrow> failed 1 [Text (ln (err_msg e))] w
           | Inr loaded \<Rightarrow> (0, put_out (ln (''ok policy_id='' @ p_PolicyID (lp_Policy loaded) @
                                 '' policy_hash='' @ lp_Hash loaded)) w))
      | _ \<Rightarrow> failed 2 [Text (ln ''policy lint requires <policy_path>''), FlagUsage ''policy lint''] w)"

text \<open>\<open>json.Marshal\<close> of a decision: the struct has no tags, and no reason codes are a nil slice.\<close>

definition pdecisionJson :: "pdecision \<Rightarrow> jval" where
  "pdecisionJson d = JObj
    [(''Verdict'', JStr (d_Verdict d)), (''RequireApproval'', JBool (d_RequireApproval d)),
     (''TTLSeconds'', JNum (show_int (d_TTLSeconds d))), (''AWSRoleARN'', JStr (d_AWSRoleARN d)),
     (''Risk'', JStr (d_Risk d)), (''Reason'', JStr (d_Reason d)), (''MatchedRuleID'', JStr (d_MatchedRuleID d)),
     (''ReasonCodes'', if d_ReasonCodes d = [] then JNull else JArr (map JStr (d_ReasonCodes d))),
     (''PolicyID'', JStr (d_PolicyID d)), (''PolicyVersion'', JStr (d_PolicyVersion d)),
     (''PolicyHash'', JStr (d_PolicyHash d))]"

definition show_bool :: "bool \<Rightarrow> string" where
  "show_bool b = (if b then ''true'' else ''false'')"

definition decisionText :: "pdecision \<Rightarrow> string" where
  "decisionText d =
    ln (''verdict='' @ d_Verdict d @ '' requires_approval='' @ show_bool (d_RequireApproval d)) @
    ln (''matched_rule='' @ (if d_MatchedRuleID d \<noteq> [] then d_MatchedRuleID d else ''<defaults>'')) @
    ln (''policy_id='' @ d_PolicyID d @ '' policy_version='' @ d_PolicyVersion d @ '' policy_hash='' @ d_PolicyHash d) @
    (if d_AWSRoleARN d \<noteq> [] then ln (''aws_role_arn='' @ d_AWSRoleARN d) else []) @
    (if d_TTLSeconds d \<noteq> 0 then ln (''ttl_seconds='' @ show_int (d_TTLSeconds d)) else []) @
    (if d_Risk d \<noteq> [] then ln (''risk='' @ d_Risk d) else []) @
    (if d_Reason d \<noteq> [] then ln (''reason='' @ d_Reason d) else []) @
    (if d_ReasonCodes d \<noteq> [] then ln (''reason_codes='' @ str_join '','' (d_ReasonCodes d)) else [])"

definition policyTest :: "cli_env \<Rightarrow> string list \<Rightarrow> command" where
  "policyTest env args =
    parseOrUsage ''policy test'' [(''policy'', FString []), (''action'', FString []), (''resource'', FString []),
        (''env'', FString []), (''json'', FBool False)] args (\<lambda>fs rest w.
      if string_flag fs ''policy'' = [] \<or> string_flag fs ''action'' = [] \<or> string_flag fs ''resource'' = [] \<or>
         string_flag fs ''env'' = []
      then failed 2 [Text (ln ''policy test requires --policy --action --resource --env''), FlagUsage ''policy test''] w
      else case loadPolicyAt env w (string_flag fs ''policy'') of
          Inl e \<Rightarrow> failed 1 [Text (ln (err_msg e))] w
        | Inr loaded \<Rightarrow>
            let decision = Evaluate (lp_Policy loaded) (lp_Hash loaded)
                  \<lparr>in_Action = string_flag fs ''action'', in_Resource = string_flag fs ''resource'',
                   in_Env = string_flag fs ''env''\<rparr>
            in if bool_flag fs ''json'' then (0, put_out (ln (marshalIndent (pdecisionJson decision))) w)
               else (0, put_out (decisionText decision) w))"

definition handlePolicy :: "cli_env \<Rightarrow> string list \<Rightarrow> command" where
  "handlePolicy env args w =
    (case args of
       [] \<Rightarrow> failed 2 [Text usage] w
     | sub # rest \<Rightarrow>
         if sub = ''lint'' then policyLint env rest w
         else if sub = ''test'' then policyTest env rest w
         else failed 2 [Text usage] w)"

section \<open>relia keys\<close>

definition saveKey :: "cli_env \<Rightarrow> string \<Rightarrow> string \<Rightarrow> string \<Rightarrow> string \<Rightarrow> nat \<Rightarrow> bool \<Rightarrow> command" where
  "saveKey env what path key format mode overwrite w =
    (case encodeKey env key format of
       Inl e \<Rightarrow> failed 1 [Text (ln (err_msg e))] w
     | Inr bytes \<Rightarrow>
       (case writeFile env path bytes mode overwrite w of
          Inl e \<Rightarrow> failed 1 [Text (ln (''write '' @ what @ '' key: '' @ err_msg e))] w
        | Inr w' \<Rightarrow> (0, put_out (ln (''wrote '' @ path)) w')))"

text \<open>\<open>priv.Seed()\<close> is the first half of the private key.\<close>

definition keysGen :: "cli_env \<Rightarrow> string list \<Rightarrow> command" where
  "keysGen env args =
    parseOrUsage ''keys gen'' [(''private'', FString []), (''public'', FString []), (''format'', FString ''hex''),
        (''overwrite'', FBool False)] args (\<lambda>fs rest w.
      let private = string_flag fs ''private''; public = string_flag fs ''public'';
          format = string_flag fs ''format''; overwrite = bool_flag fs ''overwrite''
      in if private = [] then failed 2 [Text (ln ''keys gen requires --private''), FlagUsage ''keys gen''] w
         else case ce_GenerateKey env of
             Inl e \<Rightarrow> failed 1 [Text (ln (''generate key: '' @ err_msg e))] w
           | Inr (pub, priv) \<Rightarrow>
               let (code, w1) = saveKey env ''private'' private (take 32 priv) format 384 overwrite w
               in if code \<noteq> 0 then (code, w1)
                  else if public = [] then (0, w1)
                  else saveKey env ''public'' public pub format 420 overwrite w1)"

definition handleKeys :: "cli_env \<Rightarrow> string list \<Rightarrow> command" where
  "handleKeys env args w =
    (case args of
       [] \<Rightarrow> failed 2 [Text usage] w
     | sub # rest \<Rightarrow> if sub = ''gen'' then keysGen env rest w else failed 2 [Text usage] w)"

section \<open>The program\<close>

text \<open>\<open>args\<close> begins with the name of the program.\<close>

definition run :: "cli_env \<Rightarrow> string list \<Rightarrow> command" where
  "run env args w =
    (case args of
       name # cmd # rest \<Rightarrow>
         if cmd = ''verify'' then handleVerify env rest w
         else if cmd = ''pack'' then handlePack env rest w
         else if cmd = ''policy'' then handlePolicy env rest w
         else if cmd = ''keys'' then handleKeys env rest w
         else failed 2 [Text usage] w
     | _ \<Rightarrow> failed 2 [Text usage] w)"

end
