(* ===== verification/Cli_Facts.thy ===== *)
theory Cli_Facts
  imports Cli
begin

text \<open>
  What the command-line client promises: a generated key file is what the gateway loads, the flags have
  to come before the receipt identifier, and when \<open>verify\<close> exits with 0.
\<close>

section \<open>Key files\<close>

lemma decodeBytes_prefixed:
  assumes "list_all graphic s" and "p = ''hex:'' \<or> p = ''base64:''"
  shows "decodeBytes (p @ ln s) = (if p = ''hex:'' then hex_decode s else base64_decode s)"
proof -
  from assms have g: "list_all graphic (p @ s)" by (auto simp: graphic_def)
  have ne: "p @ s \<noteq> []" using assms(2) by auto
  with g have "graphic (hd (p @ s))" "graphic (last (p @ s))"
    unfolding list_all_iff by (meson list.set_sel(1) last_in_set)+
  from trim_space_newline [OF ne this] have t: "trim_space (p @ ln s) = p @ s" by (simp add: ln_def)
  from assms(2) show ?thesis
  proof
    assume "p = ''hex:''"
    with t show ?thesis by (simp add: decodeBytes_def trim_prefix_def)
  next
    assume "p = ''base64:''"
    with t show ?thesis by (simp add: decodeBytes_def trim_prefix_def)
  qed
qed

text \<open>A raw seed is read as one when its text, without surrounding white space, has no encoding prefix.\<close>

definition raw_readable :: "string \<Rightarrow> bool" where
  "raw_readable seed \<longleftrightarrow> trim_space seed \<noteq> [] \<and>
     \<not> has_prefix (trim_space seed) ''hex:'' \<and> \<not> has_prefix (trim_space seed) ''base64:''"

lemma encodeKey_loads:
  assumes "encodeKey env seed format = Inr bytes" and "length seed = 32"
    and "lower_ascii (trim_space format) = ''raw'' \<Longrightarrow> raw_readable seed"
  shows "decodeBytes bytes = Inr seed"
proof -
  from assms(1) consider "lower_ascii (trim_space format) = ''raw''" "bytes = seed"
    | "bytes = ''hex:'' @ ln (hex_encode seed)" | "bytes = ''base64:'' @ ln (base64_encode seed)"
    by (auto simp: encodeKey_def Let_def split: if_splits)
  then show ?thesis
  proof cases
    case 1
    with assms(2,3) show ?thesis by (simp add: decodeBytes_def raw_readable_def Let_def)
  next
    case 2
    with decodeBytes_prefixed [OF hex_encode_graphic, of "''hex:''" seed] show ?thesis by simp
  next
    case 3
    with decodeBytes_prefixed [OF base64_encode_graphic, of "''base64:''" seed] show ?thesis
      by (simp add: base64_decode_encode)
  qed
qed

definition modeOf :: "cli_world \<Rightarrow> string \<Rightarrow> nat \<Rightarrow> nat" where
  "modeOf w path mode = (case cw_Files w path of None \<Rightarrow> mode | Some (m, _) \<Rightarrow> m)"

lemma saveKey_written:
  assumes "saveKey env what path key format mode overwrite w = (0, w')"
  obtains bytes where "encodeKey env key format = Inr bytes"
    and "cw_Files w' = (cw_Files w)(path \<mapsto> (modeOf w path mode, bytes))"
    and "overwrite \<or> cw_Files w path = None"
  using assms
  by (auto simp: saveKey_def writeFile_def osWriteFile_def failed_def put_out_def Let_def res_bind_def modeOf_def
      split: sum.splits if_splits option.splits)

lemma saveKey_code: "saveKey env what path key format mode overwrite w = (code, w') \<Longrightarrow> code = 0 \<or> code = 1"
  by (auto simp: saveKey_def failed_def split: sum.splits)

lemma keysGen_written:
  assumes "keysGen env args w = (0, w')" and "ce_GenerateKey env = Inr (pub, priv)"
  obtains fs rest bytes where
    "parseFlags [(''private'', FString []), (''public'', FString []), (''format'', FString ''hex''),
       (''overwrite'', FBool False)] args = Inr (fs, rest)"
    and "encodeKey env (take 32 priv) (string_flag fs ''format'') = Inr bytes"
    and "bool_flag fs ''overwrite'' \<or> cw_Files w (string_flag fs ''private'') = None"
    and "string_flag fs ''public'' \<noteq> string_flag fs ''private'' \<Longrightarrow>
      cw_Files w' (string_flag fs ''private'') = Some (modeOf w (string_flag fs ''private'') 384, bytes)"
proof -
  let ?fs0 = "[(''private'', FString []), (''public'', FString []), (''format'', FString ''hex''), (''overwrite'', FBool False)]"
  from assms(1) obtain fs rest where f: "parseFlags ?fs0 args = Inr (fs, rest)"
    by (auto simp: keysGen_def parseOrUsage_def failed_def split: sum.splits flag_error.splits)
  obtain code w1 where s: "saveKey env ''private'' (string_flag fs ''private'') (take 32 priv)
      (string_flag fs ''format'') 384 (bool_flag fs ''overwrite'') w = (code, w1)" by fastforce
  have 0: "code = 0" and rest: "if string_flag fs ''public'' = [] then w' = w1
      else saveKey env ''public'' (string_flag fs ''public'') pub (string_flag fs ''format'') 420
        (bool_flag fs ''overwrite'') w1 = (0, w')"
    using assms f s by (auto simp: keysGen_def parseOrUsage_def failed_def Let_def split: if_splits)
  obtain bytes where b: "encodeKey env (take 32 priv) (string_flag fs ''format'') = Inr bytes"
    "cw_Files w1 = (cw_Files w)(string_flag fs ''private'' \<mapsto> (modeOf w (string_flag fs ''private'') 384, bytes))"
    "bool_flag fs ''overwrite'' \<or> cw_Files w (string_flag fs ''private'') = None"
    using saveKey_written [OF s [unfolded 0]] by blast
  have kept: "cw_Files w' (string_flag fs ''private'') = cw_Files w1 (string_flag fs ''private'')"
    if "string_flag fs ''public'' \<noteq> string_flag fs ''private''"
  proof (cases "string_flag fs ''public'' = []")
    case True
    with rest show ?thesis by simp
  next
    case False
    with rest have "saveKey env ''public'' (string_flag fs ''public'') pub (string_flag fs ''format'') 420
        (bool_flag fs ''overwrite'') w1 = (0, w')" by simp
    from saveKey_written [OF this] that show ?thesis by (metis fun_upd_apply)
  qed
  show thesis by (rule that [OF f b(1,3)]) (simp add: kept b(2))
qed

section \<open>Flags come first\<close>

lemma plain_argument_first:
  assumes "r = [] \<or> hd r \<noteq> CHR ''-''"
  shows "parseOrUsage name fs (r # args) k w = k fs (r # args) w"
  by (simp add: parseOrUsage_def parseFlags_stop [OF assms])

lemma late_flags_refused:
  assumes "r = [] \<or> hd r \<noteq> CHR ''-''" and "cmd = ''verify'' \<or> cmd = ''pack''"
  shows "run env (name # cmd # r # flag # others) w =
    (2, put_err [Text (ln (cmd @ '' requires <receipt_id>'')), FlagUsage cmd] w)"
  using assms(2)
  by (auto simp: run_def handleVerify_def handlePack_def plain_argument_first [OF assms(1)] failed_def)

section \<open>The exit code of verify\<close>

lemma showVerified_code:
  "fst (showVerified env body status w) = 0 \<longleftrightarrow>
     status = 200 \<and> (\<exists>v. readVerified env body = Some v \<and> vd_Valid v)"
  by (auto simp: showVerified_def failed_def Let_def split: option.splits)

lemma verify_code:
  "fst (handleVerify env args w) = 0 \<longleftrightarrow>
     (\<exists>fs rid body status.
        parseFlags [addrFlag env, (''json'', FBool False), tokenFlag env] args = Inr (fs, [rid]) \<and>
        httpGet env (string_flag fs ''addr'' @ ''/v1/verify/'' @ rid) (string_flag fs ''token'') = Inr (body, status) \<and>
        (bool_flag fs ''json'' \<or> status = 200 \<and> (\<exists>v. readVerified env body = Some v \<and> vd_Valid v)))"
  by (auto simp: handleVerify_def parseOrUsage_def failed_def showVerified_code
      split: sum.splits flag_error.splits list.splits)

end
