(* ===== verification/Start_Demo.thy ===== *)
theory Start_Demo
  imports Http_Demo Cli_Facts
begin

text \<open>
  The start of a gateway on the scripts of the repository, with a database that fails at the second
  script the first time, and a run of \<open>relia keys gen\<close>.  A schema is the list of the scripts that were
  executed.
\<close>

section \<open>Migrations\<close>

definition demo_files :: "(string \<times> bool) list" where
  "demo_files = [(''0001_init.sql'', False), (''0002_slack_outbox.sql'', False)]"

definition demo_scripts :: "(migration_op \<Rightarrow> goerr option) \<Rightarrow> string list migration_env" where
  "demo_scripts fault =
    \<lparr>me_ReadDir = (\<lambda>_. Inr demo_files), me_ReadFile = Inr, me_Exec = (\<lambda>c d. Inr (d @ [c])), me_Now = 0,
     me_Timestamptz = (\<lambda>_. []), me_Fault = fault\<rparr>"

fun demo_fault :: "migration_op \<Rightarrow> goerr option" where
  "demo_fault (OpCommit v) = (if v = ''0002_slack_outbox'' then Some (Errorf ''disk full'') else None)"
| "demo_fault _ = None"

definition fresh_db :: "'d \<Rightarrow> 'd migration_db" where
  "fresh_db d = \<lparr>md_Tables = Map.empty, md_Schema = d\<rparr>"

lemma demo_listing:
  "listMigrationFiles (demo_scripts fault) ''migrations/sqlite'' =
     Inr [''migrations/sqlite/0001_init.sql'', ''migrations/sqlite/0002_slack_outbox.sql'']"
proof -
  have "sort [path_join [''migrations/sqlite'', ''0001_init.sql''], path_join [''migrations/sqlite'', ''0002_slack_outbox.sql'']] =
      [''migrations/sqlite/0001_init.sql'', ''migrations/sqlite/0002_slack_outbox.sql'']" by code_simp
  moreover have "has_suffix ''0001_init.sql'' ''.sql''" "has_suffix ''0002_slack_outbox.sql'' ''.sql''" by code_simp+
  ultimately show ?thesis by (simp add: listMigrationFiles_def demo_scripts_def demo_files_def)
qed

lemma demo_versions:
  "fileVersion ''migrations/sqlite/0001_init.sql'' = ''0001_init''"
  "fileVersion ''migrations/sqlite/0002_slack_outbox.sql'' = ''0002_slack_outbox''"
  by code_simp+

lemma demo_directory: "distinct (map fst demo_files)" "\<forall>e \<in> set demo_files. plain_name (fst e)"
  by (simp_all add: demo_files_def plain_name_def)

lemma demo_sqlite: "migrationConfig ''sqlite'' = Inr (''migrations/sqlite'', ''schema_migrations'')"
  by (simp add: migrationConfig_def)

lemma demo_same: "same_files (demo_scripts f) (demo_scripts g)"
  by (simp add: same_files_def demo_scripts_def)

lemma demo_scripts_simps [simp]:
  "me_ReadDir (demo_scripts f) = (\<lambda>_. Inr demo_files)" "me_ReadFile (demo_scripts f) = Inr"
  "me_Exec (demo_scripts f) = (\<lambda>c d. Inr (d @ [c]))" "me_Now (demo_scripts f) = 0"
  "me_Fault (demo_scripts f) = f"
  by (simp_all add: demo_scripts_def)

text \<open>The first attempt fails after one script, the second applies the other.\<close>

lemma demo_first_attempt:
  obtains db where "Migrate (demo_scripts demo_fault) ''sqlite'' (Some (fresh_db [])) = (Inl (Errorf ''disk full''), Some db)"
    and "md_Schema db = [''migrations/sqlite/0001_init.sql'']"
  by (simp add: Migrate_def demo_sqlite ensureMigrationsTable_def demo_listing faulty_def fresh_db_def
      migrateFile_def tx_bind_def tx_put_def migrationTx_def demo_versions
      tryInsertMigration_def applyScript_def Let_def table_get_def table_put_def)

text \<open>A start on the same files, with scripts that leave the tables of the model empty.\<close>

definition demo_start :: startup where
  "demo_start = demo_startup\<lparr>su_Migrations := (su_Migrations demo_startup)\<lparr>me_ReadDir := (\<lambda>_. Inr demo_files)\<rparr>\<rparr>"

lemma demo_start_simps [simp]:
  "me_ReadDir (su_Migrations demo_start) = (\<lambda>_. Inr demo_files)"
  "me_ReadFile (su_Migrations demo_start) = (\<lambda>_. Inr [])" "me_Exec (su_Migrations demo_start) = (\<lambda>_. Inr)"
  "me_Now (su_Migrations demo_start) = 0" "me_Fault (su_Migrations demo_start) = (\<lambda>_. None)"
  "su_OpenDB demo_start driver dsn = Inr (fresh_db empty_db)"
  by (simp_all add: demo_start_def demo_startup_def fresh_db_def)

lemma demo_start_listing:
  "listMigrationFiles (su_Migrations demo_start) ''migrations/sqlite'' =
     Inr [''migrations/sqlite/0001_init.sql'', ''migrations/sqlite/0002_slack_outbox.sql'']"
  using demo_listing by (simp add: listMigrationFiles_def)

lemma demo_start_migrates:
  obtains db where "Migrate (su_Migrations demo_start) ''sqlite'' (Some (fresh_db empty_db)) = (Inr (), Some db)"
  by (simp add: Migrate_def demo_sqlite ensureMigrationsTable_def demo_start_listing faulty_def fresh_db_def
      migrateFile_def tx_bind_def tx_put_def migrationTx_def demo_versions tx_return_def
      tryInsertMigration_def applyScript_def Let_def table_get_def table_put_def)

lemma demo_started:
  obtains srv where "newServer demo_start demo_config = Inr srv" and "se_Driver srv = ''sqlite''"
proof -
  obtain db where m: "Migrate (su_Migrations demo_start) ''sqlite'' (Some (fresh_db empty_db)) = (Inr (), Some db)"
    by (rule demo_start_migrates)
  have e: "su_Getenv demo_start = (\<lambda>_. [])" "cf_Slack demo_config = \<lparr>cf_Enabled = False, cf_BotToken = [],
      cf_SigningSecret = [], cf_ApprovalChannel = []\<rparr>" "cf_PrivateKeyPath (cf_SigningKey demo_config) = []"
    "su_Random demo_start = Inr demo_seed" "su_Base demo_start = demo_service" "su_Prims demo_start = toy_prims"
    "cf_Driver (cf_DB demo_config) = []"
    by (simp_all add: demo_start_def demo_startup_def demo_config_def)
  have "\<exists>srv. newServer demo_start demo_config = Inr srv \<and> se_Driver srv = ''sqlite''"
    by (simp add: newServer_def Let_def e slackEnabled_def signingSecret_def setting_def openStore_def migrateOpened_def m
        configuredSigner_def NewAuthorizeService_def demo_service_def demo_priv_def demo_seed_def)
  with that show thesis by blast
qed

section \<open>Key files\<close>

definition demo_cli :: cli_env where
  "demo_cli =
    \<lparr>ce_Prims = toy_prims, ce_Getenv = (\<lambda>_. []), ce_Fetch = (\<lambda>_ _. Inl (Errorf ''offline'')),
     ce_Yaml = (\<lambda>_. Inr demo_policy), ce_GenerateKey = Inr (PublicOf demo_priv, demo_priv), ce_Float64 = Some,
     ce_Quote = json_quote, ce_Round = (\<lambda>s. s), ce_Read = (\<lambda>_. None), ce_Mkdir = (\<lambda>_. None), ce_Write = (\<lambda>_. None)\<rparr>"

definition no_files :: cli_world where
  "no_files = \<lparr>cw_Files = Map.empty, cw_Out = [], cw_Err = []\<rparr>"

lemma demo_key_flags:
  "parseFlags [(''private'', FString []), (''public'', FString []), (''format'', FString ''hex''), (''overwrite'', FBool False)]
     [''--private'', ''relia.key''] =
   Inr ([(''private'', FString ''relia.key''), (''public'', FString []), (''format'', FString ''hex''),
     (''overwrite'', FBool False)], [])"
  by code_simp

lemma demo_keys_gen:
  obtains w where "run demo_cli [''relia'', ''keys'', ''gen'', ''--private'', ''relia.key''] no_files = (0, w)"
proof -
  have f: "lower_ascii (trim_space ''hex'') = ''hex''" "path_dir ''relia.key'' = ''.''" by code_simp+
  have "\<exists>w. run demo_cli [''relia'', ''keys'', ''gen'', ''--private'', ''relia.key''] no_files = (0, w)"
    by (simp add: run_def handleKeys_def keysGen_def parseOrUsage_def demo_key_flags string_flag_def bool_flag_def
        demo_cli_def saveKey_def encodeKey_def f writeFile_def res_bind_def osWriteFile_def no_files_def Let_def)
  with that show thesis by blast
qed

end
