(* ===== verification/Sql_Facts.thy ===== *)
theory Sql_Facts
  imports Ledger_Invariant Sql_Store
begin

text \<open>
  What the SQLite schema guarantees while the gateway runs: one approval per idempotency key, and,
  on a connection that enforces foreign keys, no dangling reference.
\<close>

section \<open>One approval per request\<close>

lemma sql_put_simps:
  "preserves P (tx_put (PutKey (sql_ledger cfg) a)) = preserves P (tx_put (sql_PutKey a))"
  "preserves P (tx_put (PutSlackOutbox (sql_ledger cfg) b)) = preserves P (tx_put (sql_PutSlackOutbox (sc_fk cfg) b))"
  "preserves P (tx_put (PutPolicyVersion (sql_ledger cfg) c)) = preserves P (tx_put (sql_PutPolicyVersion c))"
  "preserves P (tx_put (PutContext (sql_ledger cfg) d)) = preserves P (tx_put (sql_PutContext d))"
  "preserves P (tx_put (PutDecision (sql_ledger cfg) e)) = preserves P (tx_put (sql_PutDecision (sc_fk cfg) e))"
  "preserves P (tx_put (PutReceipt (sql_ledger cfg) f)) = preserves P (tx_put (sql_PutReceipt (sc_fk cfg) f))"
  "preserves P (tx_put (PutApproval (sql_ledger cfg) g)) = preserves P (tx_put (sql_PutApproval (sc_fk cfg) g))"
  "preserves P (tx_put (PutIdempotencyKey (sql_ledger cfg) h)) =
     preserves P (tx_put (sql_PutIdempotencyKey (sc_fk cfg) h))"
  by (simp_all add: sql_ledger_def)

lemmas sql_put_defs = sql_PutKey_def sql_PutSlackOutbox_def sql_PutPolicyVersion_def sql_PutContext_def
  sql_PutDecision_def sql_PutReceipt_def sql_PutIdempotencyKey_def

lemma unique_invariant: "ledger_invariant (sql_ledger cfg) approvals_unique"
proof
  show "Rollback (sql_ledger cfg) s s' = s \<or> Rollback (sql_ledger cfg) s s' = s'" for s s'
    by (simp add: sql_ledger_def sql_Rollback_def)
  show "preserves approvals_unique (tx_put (PutApproval (sql_ledger cfg) g))" for g
    unfolding sql_put_simps by (rule preserves_put) (rule approvals_unique_PutApproval)
qed (unfold sql_put_simps; rule preserves_put;
    auto simp: sql_put_defs approvals_unique_def res_bind_Inr_iff Let_def split: if_splits option.splits)+

interpretation unique: ledger_invariant "sql_ledger cfg" approvals_unique
  by (rule unique_invariant)

section \<open>Referential integrity\<close>

definition present :: "'r table \<Rightarrow> string \<Rightarrow> bool" where
  "present t k \<longleftrightarrow> table_get t k \<noteq> None"

definition present_opt :: "'r table \<Rightarrow> string option \<Rightarrow> bool" where
  "present_opt t k \<longleftrightarrow> (case k of None \<Rightarrow> True | Some k' \<Rightarrow> present t k')"

definition decision_refs :: "sql_state \<Rightarrow> decision_rec \<Rightarrow> bool" where
  "decision_refs s d \<longleftrightarrow>
     present (ss_contexts s) (ld_ContextID d) \<and> present (ss_policy_versions s) (ld_PolicyHash d)"

definition receipt_refs_ok :: "sql_state \<Rightarrow> receipt_rec \<Rightarrow> bool" where
  "receipt_refs_ok s x \<longleftrightarrow>
     present (ss_idempotency_keys s) (lr_IdemKey x) \<and> present_opt (ss_receipts s) (lr_SupersedesReceiptID x) \<and>
     present (ss_contexts s) (lr_ContextID x) \<and> present (ss_decisions s) (lr_DecisionID x) \<and>
     present (ss_policy_versions s) (lr_PolicyHash x) \<and> present_opt (ss_approvals s) (lr_ApprovalID x) \<and>
     present (ss_keys s) (lr_KeyID x)"

definition idem_refs :: "sql_state \<Rightarrow> idem_rec \<Rightarrow> bool" where
  "idem_refs s i \<longleftrightarrow>
     present_opt (ss_approvals s) (ik_ApprovalID i) \<and> present_opt (ss_receipts s) (ik_LatestReceiptID i) \<and>
     present_opt (ss_receipts s) (ik_FinalReceiptID i)"

definition no_dangling :: "sql_state \<Rightarrow> bool" where
  "no_dangling s \<longleftrightarrow>
     (\<forall>d \<in> ran (table_get (ss_decisions s)). decision_refs s d) \<and>
     (\<forall>x \<in> ran (table_get (ss_receipts s)). receipt_refs_ok s x) \<and>
     (\<forall>i \<in> ran (table_get (ss_idempotency_keys s)). idem_refs s i) \<and>
     (\<forall>a \<in> ran (table_get (ss_approvals s)). present (ss_idempotency_keys s) (la_IdemKey a)) \<and>
     (\<forall>r \<in> ran (table_get (ss_slack_outbox s)). present (ss_approvals s) (so_ApprovalID r))"

text \<open>Puts never remove a key.\<close>

lemma present_put [simp]: "present (table_put k r t) j \<longleftrightarrow> j = k \<or> present t j"
  by (simp add: present_def)

lemma present_insert_new [simp]: "present (table_insert_new k r t) j \<longleftrightarrow> j = k \<or> present t j"
  by (auto simp: present_def table_get_insert_new split: option.splits)

lemma present_upsert [simp]: "present (table_upsert k r u t) j \<longleftrightarrow> j = k \<or> present t j"
  by (auto simp: present_def table_get_upsert)

lemma present_opt_simps [simp]: "present_opt t None" "present_opt t (Some k) = present t k"
  by (simp_all add: present_opt_def)

lemma present_opt_put [simp]: "present_opt t j \<Longrightarrow> present_opt (table_put k r t) j"
  by (cases j) auto

lemma references_present [simp]: "references True t (Some k) = present t k"
  "references True t k' = present_opt t k'"
  by (auto simp: references_def present_def present_opt_def split: option.splits)

lemma ran_put: "r \<in> ran (m(k \<mapsto> x)) \<Longrightarrow> r = x \<or> r \<in> ran m"
  by (auto simp: ran_def split: if_splits)

lemma ran_insert_new: "r \<in> ran (table_get (table_insert_new k x t)) \<Longrightarrow> r = x \<or> r \<in> ran (table_get t)"
  by (auto simp: table_get_insert_new ran_def split: option.splits if_splits)

lemma ran_upsert: "r \<in> ran (table_get (table_upsert k x u t)) \<Longrightarrow>
    r = x \<or> (\<exists>q. r = u q) \<or> r \<in> ran (table_get t)"
  by (auto simp: table_get_upsert ran_def split: option.splits if_splits)

lemmas refs_defs = no_dangling_def decision_refs_def receipt_refs_ok_def idem_refs_def

lemma dangling_keep:
  assumes "no_dangling s"
  shows "sql_PutKey a s = Inr t \<Longrightarrow> no_dangling t"
    and "sql_PutPolicyVersion c s = Inr t \<Longrightarrow> no_dangling t"
    and "sql_PutContext d s = Inr t \<Longrightarrow> no_dangling t"
    and "sql_PutDecision True e s = Inr t \<Longrightarrow> no_dangling t"
  using assms
  by (auto simp: sql_put_defs refs_defs res_bind_Inr_iff split: option.splits dest!: ran_put)

lemma dangling_receipt:
  assumes "no_dangling s" and "sql_PutReceipt True x s = Inr t"
  shows "no_dangling t"
  using assms
  by (auto simp: sql_put_defs refs_defs res_bind_Inr_iff Let_def split: option.splits if_splits dest!: ran_put)

lemma dangling_approval:
  assumes "no_dangling s" and "sql_PutApproval True a s = Inr t"
  shows "no_dangling t"
proof (cases "table_get (ss_approvals s) (la_ApprovalID a)")
  case (Some old)
  then have "old \<in> ran (table_get (ss_approvals s))" by (auto simp: ran_def)
  with assms Some show ?thesis
    by (auto simp: sql_PutApproval_def refs_defs sql_updateApproval_def split: if_splits dest!: ran_put)
next
  case None
  with assms show ?thesis
    by (auto simp: sql_PutApproval_def refs_defs res_bind_Inr_iff split: if_splits dest!: ran_put)
qed

lemma dangling_outbox:
  assumes "no_dangling s" and "sql_PutSlackOutbox True r s = Inr t"
  shows "no_dangling t"
proof (cases "table_get (ss_slack_outbox s) (so_NotificationID r)")
  case (Some old)
  then have "old \<in> ran (table_get (ss_slack_outbox s))" by (auto simp: ran_def)
  with assms Some show ?thesis
    by (auto simp: sql_PutSlackOutbox_def refs_defs sql_updateOutbox_def split: if_splits dest!: ran_put)
next
  case None
  with assms show ?thesis
    by (auto simp: sql_PutSlackOutbox_def refs_defs res_bind_Inr_iff split: if_splits dest!: ran_put)
qed

lemma dangling_idem:
  assumes "no_dangling s" and "sql_PutIdempotencyKey True i s = Inr t"
  shows "no_dangling t"
  using assms
  by (auto simp: sql_PutIdempotencyKey_def refs_defs res_bind_Inr_iff split: if_splits dest!: ran_upsert)

lemma dangling_invariant: "sc_fk cfg \<Longrightarrow> ledger_invariant (sql_ledger cfg) no_dangling"
  by unfold_locales
    (unfold sql_put_simps,
      auto intro!: preserves_put intro: dangling_keep dangling_receipt dangling_approval dangling_outbox
        dangling_idem simp: sql_ledger_def sql_Rollback_def)

interpretation dangling: ledger_invariant "sql_ledger default_config" no_dangling
  by (rule dangling_invariant) (simp add: default_config_def)

lemma no_dangling_empty [simp]: "no_dangling empty_db"
  by (simp add: no_dangling_def empty_db_def ran_def)

end
