(* ===== verification/Status_Types.thy ===== *)
theory Status_Types
  imports Ledger_Invariant Receipt_Facts
begin

text \<open>
  The typing of the status columns.  The rows keep statuses as strings; on every ledger, and whatever is
  interleaved, they are the strings of the enumerations of \<open>internal/api/state.go\<close> and
  \<open>pkg/types/receipt.go\<close>, so the branches for unknown statuses are never taken.
\<close>

section \<open>Well-typed rows\<close>

definition outbox_typed :: "slack_outbox_rec \<Rightarrow> bool" where
  "outbox_typed o' \<longleftrightarrow> so_Status o' \<in> {''pending'', ''sent''}"

definition approval_typed :: "approval_rec \<Rightarrow> bool" where
  "approval_typed a \<longleftrightarrow> approval_parse (la_Status a) \<noteq> None"

definition idem_typed :: "idem_rec \<Rightarrow> bool" where
  "idem_typed i \<longleftrightarrow> idem_parse (ik_Status i) \<noteq> None"

definition typed :: "ledger_view \<Rightarrow> bool" where
  "typed v \<longleftrightarrow>
     (\<forall>k i. lv_idem v k = Some i \<longrightarrow> idem_typed i) \<and>
     (\<forall>k a. lv_approvals v k = Some a \<longrightarrow> approval_typed a) \<and>
     (\<forall>k r. lv_receipts v k = Some r \<longrightarrow> validOutcome (lr_OutcomeStatus r)) \<and>
     (\<forall>k o'. lv_outbox v k = Some o' \<longrightarrow> outbox_typed o')"

fun pc_typed :: "pc \<Rightarrow> bool" where
  "pc_typed (PReadyCommit x role ttl) = validOutcome (sr_OutcomeStatus x)"
| "pc_typed (PCommit p) = validOutcome (sr_OutcomeStatus (pp_Base p))"
| "pc_typed (PPersist i x creds) = validOutcome (sr_OutcomeStatus x)"
| "pc_typed _ = True"

definition job_typed :: "outbox_job \<Rightarrow> bool" where
  "job_typed j \<longleftrightarrow> outbox_typed (oj_Rec j) \<and> (\<forall>a. oj_Approval j = Some a \<longrightarrow> approval_typed a)"

definition gw_typed :: "('s \<Rightarrow> ledger_view) \<Rightarrow> 's gateway \<Rightarrow> bool" where
  "gw_typed view g \<longleftrightarrow> typed (view (gw_Store g)) \<and>
     (\<forall>t th. gw_Threads g t = Some th \<longrightarrow> pc_typed (th_Pc th)) \<and>
     (\<forall>j. gw_Job g = Some j \<longrightarrow> job_typed j)"

lemma typed_literals [simp]:
  "idem_typed (i\<lparr>ik_Status := idem_str x, ik_LatestReceiptID := a, ik_UpdatedAt := b\<rparr>)"
  "idem_typed (i\<lparr>ik_Status := idem_str x, ik_LatestReceiptID := a, ik_FinalReceiptID := f, ik_UpdatedAt := b\<rparr>)"
  "approval_typed (y\<lparr>la_Status := approval_str z, la_UpdatedAt := b\<rparr>)"
  "idem_typed (decidedIdem d st r i)"
  "idem_typed (initialIdem c p)" "approval_typed (approvalRecOf c p)" "outbox_typed (outboxRecOf sv c p)"
  "approval_typed (postedApproval now ch ts y) = approval_typed y"
  by (simp_all add: idem_typed_def approval_typed_def outbox_typed_def decidedIdem_def initialIdem_def
      approvalRecOf_def outboxRecOf_def postedApproval_def Let_def)

lemma outbox_typed_updates [simp]:
  "outbox_typed (markSent now r)" "outbox_typed r \<Longrightarrow> outbox_typed (failedAttempt now e r)"
  by (simp_all add: outbox_typed_def markSent_def failedAttempt_def Let_def)

lemma made_typed: "MakeReceipt pr nfc i sg = Inr x \<Longrightarrow> validOutcome (sr_OutcomeStatus x)"
  using MakeReceipt_fields(5,10) by metis

lemma prepare_typed: "prepare sv c k = Inr p \<Longrightarrow> validOutcome (sr_OutcomeStatus (pp_Base p))"
  by (auto simp: prepare_def res_bind_Inr_iff Let_def dest: made_typed)

lemma readyPlan_typed: "readyPlan sv L c k i s = Inr (x, role, ttl) \<Longrightarrow> validOutcome (sr_OutcomeStatus x)"
  by (auto simp: readyPlan_def res_bind_Inr_iff Let_def split: option.splits if_splits dest: made_typed)

lemma mint_typed: "mintCredentials sv c k i role ttl = Inr (x, creds) \<Longrightarrow> validOutcome (sr_OutcomeStatus x)"
  by (auto simp: mintCredentials_def res_bind_Inr_iff dest: made_typed)

section \<open>Every operation keeps the types\<close>

context ledger_contract
begin

abbreviation keeps_types :: "('s, 'b) tx \<Rightarrow> bool" where
  "keeps_types \<equiv> preserves (\<lambda>s. typed (view s))"

lemma types_others:
  "keeps_types (tx_put (PutKey L a))" "keeps_types (tx_put (PutPolicyVersion L c))"
  "keeps_types (tx_put (PutContext L d))" "keeps_types (tx_put (PutDecision L e))"
proof -
  show "keeps_types (tx_put (PutKey L a))"
    by (rule preserves_put, drule put_key) (auto simp: typed_def)
  show "keeps_types (tx_put (PutPolicyVersion L c))"
    by (rule preserves_put, drule put_policy) (auto simp: typed_def)
  show "keeps_types (tx_put (PutContext L d))"
    by (rule preserves_put, drule put_context) (auto simp: typed_def)
  show "keeps_types (tx_put (PutDecision L e))"
    by (rule preserves_put, drule put_decision) (auto simp: typed_def)
qed

lemma types_idem: "idem_typed i \<Longrightarrow> keeps_types (tx_put (PutIdempotencyKey L i))"
  by (rule preserves_put, drule put_idem)
    (auto simp: typed_def idem_typed_def dest: idem_merge_fields split: if_splits)

lemma types_approval: "approval_typed a \<Longrightarrow> keeps_types (tx_put (PutApproval L a))"
  by (rule preserves_put, drule put_approval)
    (auto simp: typed_def approval_typed_def approval_merge_def split: if_splits)

lemma outbox_merged_typed: "outbox_merge old r r' \<Longrightarrow> outbox_typed r \<Longrightarrow> outbox_typed r'"
  by (simp add: outbox_typed_def outbox_merge_def)

lemma types_outbox: "outbox_typed r \<Longrightarrow> keeps_types (tx_put (PutSlackOutbox L r))"
  by (rule preserves_put, drule put_outbox)
    (auto simp: typed_def outbox_merged_typed split: if_splits)

lemma types_receipt:
  "validOutcome (sr_OutcomeStatus x) \<Longrightarrow> keeps_types (tx_put (PutReceipt L (receiptRecordFromStored x)))"
proof (rule preserves_put, drule put_receipt)
  fix s t
  assume x: "validOutcome (sr_OutcomeStatus x)" and a: "typed (view s)"
    and "\<exists>r'. kept_or_new receipt_like (lv_receipts (view s) (lr_ReceiptID (receiptRecordFromStored x)))
          (receiptRecordFromStored x) r' \<and>
        view t = (view s)\<lparr>lv_receipts := (lv_receipts (view s))(lr_ReceiptID (receiptRecordFromStored x) \<mapsto> r')\<rparr>"
  then obtain r' where r': "receipt_like (receiptRecordFromStored x) r' \<or>
      lv_receipts (view s) (lr_ReceiptID (receiptRecordFromStored x)) = Some r'"
    and t: "view t = (view s)\<lparr>lv_receipts := (lv_receipts (view s))(lr_ReceiptID (receiptRecordFromStored x) \<mapsto> r')\<rparr>"
    by (auto simp: kept_or_new_def)
  have "validOutcome (lr_OutcomeStatus r')"
    using r'
  proof
    assume "receipt_like (receiptRecordFromStored x) r'"
    from receipt_like_fields(7) [OF this] x show ?thesis by (simp add: receiptRecordFromStored_def)
  qed (use a in \<open>auto simp: typed_def\<close>)
  with a t show "typed (view t)" by (auto simp: typed_def)
qed

lemma types_signing_key: "keeps_types (putSigningKey sv L c)"
  unfolding putSigningKey_def by (auto intro: types_others preserves_return split: option.splits)

lemmas types_rules = preserves_return preserves_fail preserves_get preserves_bind types_others types_idem
  types_approval types_outbox types_receipt types_signing_key

text \<open>The row of the request is carried through the first transaction: it is typed whatever is added to it.\<close>

lemma yields_bind:
  assumes "preserves P m" and "\<And>s. wp m (\<lambda>r t. \<forall>a. r = Inr a \<longrightarrow> V a) s"
    and "\<And>a. V a \<Longrightarrow> preserves P (f a)"
  shows "preserves P (tx_bind m f)"
  unfolding preserves_def wp_bind
proof (intro allI impI)
  fix s
  assume "P s"
  show "wp m (\<lambda>r t. case r of Inl e \<Rightarrow> P t | Inr a \<Rightarrow> wp (f a) (\<lambda>_. P) t) s"
  proof (rule wpI)
    fix r t
    assume m: "m s = (r, t)"
    from preservesD [OF assms(1) m \<open>P s\<close>] wpD [OF assms(2) m] assms(3)
    show "case r of Inl e \<Rightarrow> P t | Inr a \<Rightarrow> wp (f a) (\<lambda>_. P) t"
      by (simp add: preserves_def split: sum.split)
  qed
qed

definition row_of :: "call \<Rightarrow> prepared \<Rightarrow> idem_rec \<Rightarrow> bool" where
  "row_of c p i \<longleftrightarrow> ik_Status i = ik_Status (initialIdem c p)"

lemma row_of_typed:
  "row_of c p i \<Longrightarrow> idem_typed (i\<lparr>ik_LatestReceiptID := a\<rparr>)"
  "row_of c p i \<Longrightarrow> idem_typed (i\<lparr>ik_LatestReceiptID := a, ik_FinalReceiptID := f\<rparr>)"
  by (simp_all add: row_of_def idem_typed_def initialIdem_def)

lemma pendingTx_types: "keeps_types (pendingTx sv L c p)"
proof -
  have "idem_typed ((initialIdem c p)\<lparr>ik_ApprovalID := a\<rparr>)" for a
    by (simp add: idem_typed_def initialIdem_def)
  then show ?thesis
    unfolding pendingTx_def Let_def
    by (intro preserves_bind types_approval preserves_return types_idem)
      (auto intro: types_outbox preserves_return)
qed

lemma pendingTx_row: "wp (pendingTx sv L c p) (\<lambda>r t. \<forall>i. r = Inr i \<longrightarrow> row_of c p i) s"
  by (auto simp: pendingTx_def wp_rules wp_put row_of_def Let_def split: sum.splits)

lemma firstTx_types:
  assumes "validOutcome (sr_OutcomeStatus (pp_Base p))"
  shows "keeps_types (firstTx sv L c p)"
  unfolding firstTx_def Let_def
  apply (rule preserves_bind [OF types_signing_key], rule preserves_bind [OF types_others(2)],
      rule preserves_bind [OF types_others(3)], rule preserves_bind [OF types_others(4)],
      rule preserves_bind [OF types_idem [OF typed_literals(5)]])
  apply (rule yields_bind [where V = "row_of c p"])
    apply (simp add: pendingTx_types preserves_return)
   apply (cases "pp_Action p = ActionReturnPending")
    apply (simp add: pendingTx_row)
   apply (simp add: wp_return row_of_def)
  apply (intro preserves_bind types_receipt assms)
  apply (auto intro!: types_idem row_of_typed split: option.splits)
  done

lemma readyTx_types: "validOutcome (sr_OutcomeStatus x) \<Longrightarrow> keeps_types (readyTx sv L c k x)"
  unfolding readyTx_def by (auto intro!: types_rules simp: idem_typed_def split: option.splits)

lemma finalTx_types: "validOutcome (sr_OutcomeStatus x) \<Longrightarrow> keeps_types (finalTx sv L c k x)"
  unfolding finalTx_def by (auto intro!: types_rules simp: idem_typed_def split: option.splits)

lemma approveTx_types: "keeps_types (approveTx sv L a st c)"
proof -
  have "keeps_types (applyApproval sv L a st c ap)" for ap
    unfolding applyApproval_def
    by (auto intro!: types_rules split: option.splits sum.splits) (erule made_typed)
  then show ?thesis
    unfolding approveTx_def by (auto intro!: types_rules split: option.splits)
qed

lemma tx_types: "keeps_types fn \<Longrightarrow> WithTx L fn s = (r, t) \<Longrightarrow> typed (view s) \<Longrightarrow> typed (view t)"
  by (rule preservesD [OF preserves_tx])

section \<open>The outbox\<close>

lemma best_effort_types: "keeps_types (tx_put p) \<Longrightarrow> typed (view s) \<Longrightarrow> typed (view (put_best_effort p s))"
  by (auto simp: put_best_effort_def preserves_def wp_put split: sum.splits)

lemma put_outbox_types:
  "outbox_typed r \<Longrightarrow> tx_put (PutSlackOutbox L r) s = (x, t) \<Longrightarrow> typed (view s) \<Longrightarrow> typed (view t)"
  by (rule preservesD [OF types_outbox])

lemma writeRow_types:
  assumes "typed (view s)" and "outbox_typed rec" and "\<forall>a. approval = Some a \<longrightarrow> approval_typed a"
    and "writeRow L env now n rec approval s = (r, t)"
  shows "typed (view t)"
proof -
  have "typed (view (case approval of None \<Rightarrow> s
      | Some a \<Rightarrow> put_best_effort (PutApproval L (postedApproval now ch ts a)) s))" for ch ts
    using assms(1,3) by (auto intro!: best_effort_types types_approval split: option.splits)
  with assms show ?thesis
    unfolding writeRow_def
    by (auto split: if_splits option.splits sum.splits
        intro: put_outbox_types [OF outbox_typed_updates(1)]
          put_outbox_types [OF outbox_typed_updates(2) [OF assms(2)]])
qed

lemma found_approval_typed: "typed (view s) \<Longrightarrow> GetApproval L k s = Some a \<Longrightarrow> approval_typed a"
  by (simp add: typed_def get_approval)

lemma due_typed: "typed (view s) \<Longrightarrow> ListSlackOutboxDue L now n s = Inr due \<Longrightarrow> r \<in> set due \<Longrightarrow> outbox_typed r"
  using list_due [of now n s due r] by (simp add: outbox_typed_def)

lemma processRows_types:
  "typed (view s) \<Longrightarrow> \<forall>r \<in> set due. outbox_typed r \<Longrightarrow> processRows L env now n p due s = (x, t) \<Longrightarrow> typed (view t)"
proof (induction due arbitrary: n p s)
  case (Cons rec due)
  obtain r u where one: "processRow L env now n rec s = (r, u)" by fastforce
  then have "writeRow L env now n rec (GetApproval L (so_ApprovalID rec) s) s = (r, u)"
    by (simp add: processRow_def tx_bind_get)
  from writeRow_types [OF Cons.prems(1) _ _ this] found_approval_typed [OF Cons.prems(1)] Cons.prems(2)
  have "typed (view u)" by auto
  with one Cons show ?case by (auto split: if_splits sum.splits)
qed simp

lemma kickOutbox_types:
  assumes "typed (view s)"
  shows "typed (view (kickOutbox sv L c p s))"
proof -
  have "typed (view (snd (processRows L x now n m due s)))" if "\<forall>r \<in> set due. outbox_typed r" for x now n m due
    using processRows_types [OF assms that, of x now n m, OF prod.collapse [symmetric]] .
  with assms due_typed [OF assms] show ?thesis
    by (auto simp: kickOutbox_def ProcessOutboxDue_def Let_def split: option.splits sum.splits)
qed

section \<open>The whole gateway\<close>

lemma auth_step_types:
  assumes "typed (view s)" and "pc_typed pc" and "auth_step sv L c k pc s = ((pc', evs), t)"
  shows "typed (view t) \<and> pc_typed pc'"
proof (cases pc)
  case PLookup
  with assms show ?thesis
    by (auto simp: lookupStep_def dest: prepare_typed split: option.splits sum.splits idem_status.splits)
next
  case (PReady i)
  with assms show ?thesis by (auto dest: readyPlan_typed split: sum.splits)
next
  case (PReadyCommit x role ttl)
  with assms tx_types [OF readyTx_types] show ?thesis by (auto split: prod.splits sum.splits)
next
  case (PRetry i)
  with assms show ?thesis by (auto split: sum.splits)
next
  case (PCommit p)
  with assms tx_types [OF firstTx_types] show ?thesis by (auto split: prod.splits sum.splits)
next
  case (PLost e)
  with assms show ?thesis by (auto split: option.splits)
next
  case (PKick p)
  with assms kickOutbox_types show ?thesis by (auto simp: firstPlan_def split: if_splits)
next
  case (PFinalize x role ttl)
  with assms show ?thesis by (auto simp: mintStep_def dest: mint_typed split: sum.splits)
next
  case (PPersist i x creds)
  with assms tx_types [OF finalTx_types] show ?thesis
    by (auto simp: persistIssuance_def split: prod.splits sum.splits)
qed (use assms in auto)

lemma gw_typed_step:
  assumes "gw_typed view g" and "gw_step sv L g g'"
  shows "gw_typed view g'"
  using assms(2)
proof (cases rule: gw_step.cases)
  case (advance t th pc' evs s')
  from auth_step_types [OF _ _ advance(3)] assms(1) advance show ?thesis
    by (auto simp: gw_typed_def)
next
  case (approve approvalID status createdAt r s')
  with tx_types [OF approveTx_types] assms(1) show ?thesis
    by (auto simp: gw_typed_def Approve_def split: option.splits approval_status.splits)
next
  case (outbox_read now limit due rec env n)
  with assms(1) show ?thesis
    by (auto simp: gw_typed_def job_typed_def intro: due_typed found_approval_typed)
next
  case (outbox_write j r s')
  with assms(1) writeRow_types [OF _ _ _ outbox_write(3)] show ?thesis
    by (auto simp: gw_typed_def job_typed_def)
qed (use assms(1) in \<open>auto simp: gw_typed_def split: if_splits\<close>)

theorem gw_typed_reach:
  assumes "view s = empty_view" and "gw_reach sv L (gw_init s) g"
  shows "gw_typed view g"
  using assms(2)
proof induction
  case reach_refl
  show ?case by (simp add: gw_typed_def gw_init_def assms(1) typed_def empty_view_def)
next
  case (reach_step g g')
  then show ?case by (blast intro: gw_typed_step)
qed

end

end
