(* ===== verification/Cli_Gateway.thy ===== *)
theory Cli_Gateway
  imports Cli_Facts Http_Runs
begin

text \<open>
  The command-line client against the gateway: what \<open>writeJSON\<close> encodes is what \<open>relia verify\<close> decodes,
  so the client reports a stored receipt as the gateway sees it.
\<close>

section \<open>Values that survive the wire\<close>

text \<open>Trees whose numbers the client can read, and values that are encoded as such.\<close>

fun readable :: "(string \<Rightarrow> string option) \<Rightarrow> jval \<Rightarrow> bool" where
  "readable fl (JNum n) \<longleftrightarrow> number_literal n \<and> fl n \<noteq> None"
| "readable fl (JArr vs) \<longleftrightarrow> (\<forall>v \<in> set vs. readable fl v)"
| "readable fl (JObj kvs) \<longleftrightarrow> (\<forall>kv \<in> set kvs. readable fl (snd kv))"
| "readable fl _ \<longleftrightarrow> True"

lemma readable_numbers: "readable fl j \<Longrightarrow> json_numbers j"
  by (induction fl j rule: readable.induct) auto

lemma readable_sanitize [simp]: "readable fl (json_sanitize j) = readable fl j"
  by (induction fl j rule: readable.induct) auto

lemma those_total: "\<forall>x \<in> set xs. \<exists>y. f x = Some y \<Longrightarrow> \<exists>ys. those (map f xs) = Some ys"
  by (induction xs) auto

lemma readable_any: "readable fl j \<Longrightarrow> \<exists>g. any_of_json fl j = Some g"
proof (induction fl j rule: readable.induct)
  case (2 fl vs)
  then show ?case using those_total [of vs "any_of_json fl"] by auto
next
  case (3 fl kvs)
  then have "\<forall>kv \<in> set kvs. \<exists>y. (case kv of (k, v) \<Rightarrow> map_option (Pair k) (any_of_json fl v)) = Some y"
    by fastforce
  from those_total [OF this] show ?case by auto
qed auto

definition sendable :: "(string \<Rightarrow> string option) \<Rightarrow> goval \<Rightarrow> bool" where
  "sendable fl v \<longleftrightarrow> (\<exists>j. goval_json v = Inr j \<and> readable fl j)"

lemma sendable_simps [simp]:
  "sendable fl (VStr s)" "sendable fl (VBool b)" "sendable fl VNil" "sendable fl VNilMap"
  by (simp_all add: sendable_def)

lemma sendable_slice:
  assumes "\<forall>v \<in> set vs. sendable fl v"
  shows "sendable fl (VSlice vs)"
proof -
  from assms obtain f where f: "\<forall>v \<in> set vs. goval_json v = Inr (f v) \<and> readable fl (f v)"
    unfolding sendable_def by metis
  then have "res_mapM goval_json vs = Inr (map f vs)" by (intro res_mapM_Inr) auto
  with f show ?thesis by (auto simp: sendable_def)
qed

lemma sendable_map:
  assumes "\<forall>kv \<in> set kvs. sendable fl (snd kv)"
  shows "\<exists>ms. goval_json (VMap kvs) = Inr (JObj ms) \<and> readable fl (JObj ms)"
proof -
  from assms obtain f where f: "\<forall>kv \<in> set kvs. goval_json (snd kv) = Inr (f kv) \<and> readable fl (f kv)"
    unfolding sendable_def by metis
  let ?ms = "map (\<lambda>kv. (fst kv, f kv)) (sort_key fst kvs)"
  have "res_mapM (\<lambda>kv. res_bind (goval_json (snd kv)) (\<lambda>j. Inr (fst kv, j))) (sort_key fst kvs) = Inr ?ms"
    using f by (intro res_mapM_Inr) auto
  with f show ?thesis by (intro exI [of _ ?ms]) auto
qed

lemma sendable_VMap: "\<forall>kv \<in> set kvs. sendable fl (snd kv) \<Longrightarrow> sendable fl (VMap kvs)"
  using sendable_map [of kvs fl] unfolding sendable_def by metis

text \<open>What the gateway decoded from a stored body it can send, when its floats print as literals.\<close>

definition floats_read :: "(string \<Rightarrow> string option) \<Rightarrow> (string \<Rightarrow> string option) \<Rightarrow> bool" where
  "floats_read server client \<longleftrightarrow>
     (\<forall>n m. server n = Some m \<longrightarrow> number_literal m \<and> client m \<noteq> None)"

lemma those_Some_in: "those xs = Some ys \<Longrightarrow> y \<in> set ys \<Longrightarrow> Some y \<in> set xs"
  by (induction xs arbitrary: ys) (auto split: option.splits)

lemma last_wins_in: "kv \<in> set (last_wins kvs) \<Longrightarrow> kv \<in> set kvs"
proof -
  have "set (AList.clearjunk xs) \<subseteq> set xs" for xs :: "(string \<times> 'b) list"
    by (induction xs rule: AList.clearjunk.induct) (auto simp: AList.delete_eq)
  from this [of "rev kvs"] show "kv \<in> set (last_wins kvs) \<Longrightarrow> kv \<in> set kvs" unfolding last_wins_def by auto
qed

lemma update_in: "kv \<in> set (AList.update k v kvs) \<Longrightarrow> kv = (k, v) \<or> kv \<in> set kvs"
  by (induction kvs) (auto split: if_splits)

lemma any_sendable: "floats_read server client \<Longrightarrow> any_of_json server j = Some v \<Longrightarrow> sendable client v"
proof (induction server j arbitrary: v rule: any_of_json.induct)
  case (3 float64 n)
  then show ?case by (auto simp: floats_read_def sendable_def)
next
  case (5 float64 vs)
  then obtain gs where g: "v = VSlice gs" "those (map (any_of_json float64) vs) = Some gs" by auto
  have "sendable client x" if "x \<in> set gs" for x
    using those_Some_in [OF g(2) that] 5 by auto
  with g(1) show ?case by (simp add: sendable_slice)
next
  case (6 float64 kvs)
  then obtain ms where m: "v = VMap (last_wins ms)"
    "those (map (\<lambda>(k, v). map_option (Pair k) (any_of_json float64 v)) kvs) = Some ms" by auto
  have "sendable client (snd kv)" if "kv \<in> set (last_wins ms)" for kv
  proof -
    from those_Some_in [OF m(2) last_wins_in [OF that]] obtain k t where
      t: "(k, t) \<in> set kvs" "any_of_json float64 t = Some (snd kv)"
      by (auto simp: map_option_case split: option.splits)
    from 6(1) [OF t(1) refl 6(2) t(2)] show ?thesis .
  qed
  with m(1) show ?case by (simp add: sendable_VMap)
qed auto

lemma decoded_map:
  assumes "floats_read server client" and "decode_any_map server VNilMap j = Some body"
  shows "body = VNilMap \<or> (\<exists>kvs. body = VMap kvs \<and> (\<forall>kv \<in> set kvs. sendable client (snd kv)))"
proof (cases j)
  case (JObj kvs)
  with assms(2) obtain v where v: "any_of_json server (JObj kvs) = Some v"
    and body: "body = VMap (last_wins (rev (entries v)))" by (auto simp: entries_def)
  then obtain ms where m: "v = VMap (last_wins ms)"
    "those (map (\<lambda>(k, v). map_option (Pair k) (any_of_json server v)) kvs) = Some ms" by auto
  have "sendable client (snd kv)" if "kv \<in> set (last_wins (rev (entries v)))" for kv
  proof -
    from last_wins_in [OF that] m(1) have "kv \<in> set (last_wins ms)" by (simp add: entries_def)
    from those_Some_in [OF m(2) last_wins_in [OF this]] obtain t where "any_of_json server t = Some (snd kv)"
      by (auto simp: map_option_case split: option.splits)
    from any_sendable [OF assms(1) this] show ?thesis .
  qed
  with body show ?thesis by blast
qed (use assms(2) in auto)

lemma integrity_sendable: "sendable fl (integrityOf r)"
  unfolding integrityOf_def by (intro sendable_VMap ballI) (auto intro!: sendable_slice sendable_VMap)

lemma shown_sendable:
  assumes "floats_read server client" and "shownReceipt server r = Inr body"
  shows "\<exists>j. goval_json body = Inr j \<and> readable client j \<and> (j = JNull \<or> (\<exists>ms. j = JObj ms))"
proof (cases "Option.bind (json_parse (lr_BodyJSON r)) (decode_any_map server VNilMap)")
  case None
  with assms(2) show ?thesis by (simp add: shownReceipt_def)
next
  case (Some b)
  then obtain t where "decode_any_map server VNilMap t = Some b" by (auto split: Option.bind_splits)
  from decoded_map [OF assms(1) this] Some assms(2) obtain kvs where
    k: "\<forall>kv \<in> set kvs. sendable client (snd kv)" "b = VMap kvs"
    and body: "body = VMap (AList.update ''integrity'' (integrityOf (verifiedPart r)) kvs)"
    by (auto simp: shownReceipt_def entries_def split: if_splits)
  have "sendable client (snd kv)" if "kv \<in> set (AList.update ''integrity'' (integrityOf (verifiedPart r)) kvs)" for kv
    using that k(1) integrity_sendable by (auto dest: update_in)
  from sendable_map [of _ client, OF ballI, OF this] body show ?thesis by blast
qed

section \<open>The answer and its reader\<close>

text \<open>\<open>writeJSON\<close> on the wire: the document, not escaped for HTML, and a newline.\<close>

definition encodedAnswer :: "response \<Rightarrow> (string \<times> nat) res" where
  "encodedAnswer r =
    (case hs_Payload r of
       PAny v \<Rightarrow> res_bind (goval_json v) (\<lambda>j. Inr (ln (json_text False j), nat (hs_Status r)))
     | _ \<Rightarrow> Inl (Errorf ''not a JSON answer''))"

definition validTree :: "string \<Rightarrow> string \<Rightarrow> string list \<Rightarrow> jval \<Rightarrow> jval" where
  "validTree receiptID grade reasons body = JObj
    [(''grade'', JStr grade), (''grade_info'', JObj [(''reasons'', JArr (map JStr reasons))]), (''receipt'', body),
     (''receipt_id'', JStr receiptID), (''valid'', JBool True)]"

lemma validTree_json:
  assumes "goval_json body = Inr j"
  shows "goval_json (VMap [(''receipt_id'', VStr receiptID), (''valid'', VBool True), (''grade'', VStr grade),
      (''grade_info'', VMap [(''reasons'', VSlice (map VStr reasons))]), (''receipt'', body)]) =
    Inr (validTree receiptID grade reasons j)"
proof -
  have "res_mapM goval_json (map VStr reasons) = Inr (map JStr reasons)"
    by (induction reasons) simp_all
  with assms show ?thesis by (simp add: validTree_def insort_key_def)
qed

lemma client_reads:
  assumes "readable (ce_Float64 env) j" and "j = JNull \<or> (\<exists>ms. j = JObj ms)"
  shows "\<exists>g. readVerified env (ln (json_text False (validTree receiptID grade reasons j))) =
    Some \<lparr>vd_ReceiptID = sanitize receiptID, vd_Valid = True, vd_Error = [], vd_Grade = sanitize grade, vd_Receipt = g\<rparr>"
proof -
  let ?tree = "validTree receiptID grade reasons j"
  let ?ms = "[(''grade'', JStr (sanitize grade)),
    (''grade_info'', JObj [(''reasons'', JArr (map (\<lambda>s. JStr (sanitize s)) reasons))]), (''receipt'', json_sanitize j),
    (''receipt_id'', JStr (sanitize receiptID)), (''valid'', JBool True)]"
  have "json_numbers ?tree" using readable_numbers [OF assms(1)] by (simp add: validTree_def)
  from json_parse_print_line [OF this] have parse: "json_parse (ln (json_text False ?tree)) = Some (JObj ?ms)"
    by (simp add: ln_def validTree_def)
  obtain g where g: "decode_any_map (ce_Float64 env) VNilMap (json_sanitize j) = Some g"
  proof (cases "j = JNull")
    case True
    with that show thesis by simp
  next
    case False
    with assms(2) obtain ms where ms: "json_sanitize j = JObj ms" by auto
    have "readable (ce_Float64 env) (json_sanitize j)" using assms(1) by simp
    from readable_any [OF this] ms obtain v where "any_of_json (ce_Float64 env) (JObj ms) = Some v" by auto
    with that ms show thesis by (simp del: any_of_json.simps)
  qed
  have folds: "fold_name ''grade'' = ''GRADE''" "fold_name ''grade_info'' = ''GRADE_INFO''"
    "fold_name ''receipt'' = ''RECEIPT''" "fold_name ''receipt_id'' = ''RECEIPT_ID''" "fold_name ''valid'' = ''VALID''"
    "fold_name ''error'' = ''ERROR''"
    by (simp_all add: upper_ascii_letters)
  have fields: "field_values ''receipt_id'' ?ms = [JStr (sanitize receiptID)]"
    "field_values ''valid'' ?ms = [JBool True]" "field_values ''error'' ?ms = []"
    "field_values ''grade'' ?ms = [JStr (sanitize grade)]" "field_values ''receipt'' ?ms = [json_sanitize j]"
    by (simp_all add: field_values_def folds del: fold_name.simps)
  show ?thesis
    using g by (simp add: readVerified_def unmarshal_struct_def parse decodeVerified_def string_field_def bool_field_def
        any_map_field_def fields)
qed

text \<open>The client asks the gateway of its address, with its token.\<close>

definition asks :: "cli_env \<Rightarrow> string \<Rightarrow> response \<Rightarrow> bool" where
  "asks env receiptID answer \<longleftrightarrow>
     httpGet env (envOrDefault env ''RELIA_ADDR'' ''http://localhost:8080'' @ ''/v1/verify/'' @ receiptID)
       (envOrDefault env ''RELIA_TOKEN'' (ce_Getenv env ''RELIA_DEV_TOKEN'')) = encodedAnswer answer"

lemma withRefs_extends: "\<exists>more. withRefs env receipt text0 = text0 @ more"
  by (auto simp: withRefs_def Let_def)

lemma showVerified_valid:
  assumes "readVerified env body = Some v" and "vd_Valid v"
  shows "\<exists>more. showVerified env body 200 w = (0, put_out (ln (''valid=true receipt_id='' @ vd_ReceiptID v @ more)) w)"
proof -
  obtain text0 where shown: "showVerified env body 200 w = (0, put_out (ln (withRefs env (vd_Receipt v) text0)) w)"
    and more: "\<exists>more. text0 = ''valid=true receipt_id='' @ vd_ReceiptID v @ more"
    using assms by (auto simp: showVerified_def Let_def)
  from more withRefs_extends [of env "vd_Receipt v" text0] shown show ?thesis by auto
qed

lemma verify_reports:
  assumes "asks env receiptID (writeJSON 200 (PAny (VMap [(''receipt_id'', VStr receiptID), (''valid'', VBool True),
      (''grade'', VStr grade), (''grade_info'', VMap [(''reasons'', VSlice (map VStr reasons))]), (''receipt'', body)])))"
    and "goval_json body = Inr j" and "readable (ce_Float64 env) j" and "j = JNull \<or> (\<exists>ms. j = JObj ms)"
    and "receiptID = [] \<or> hd receiptID \<noteq> CHR ''-''"
  shows "\<exists>more. run env [name, ''verify'', receiptID] w =
    (0, put_out (ln (''valid=true receipt_id='' @ sanitize receiptID @ more)) w)"
proof -
  have get: "httpGet env (envOrDefault env ''RELIA_ADDR'' ''http://localhost:8080'' @ ''/v1/verify/'' @ receiptID)
      (envOrDefault env ''RELIA_TOKEN'' (ce_Getenv env ''RELIA_DEV_TOKEN'')) =
    Inr (ln (json_text False (validTree receiptID grade reasons j)), 200)"
    using assms(1) validTree_json [OF assms(2)] by (simp add: asks_def encodedAnswer_def writeJSON_def)
  obtain v where v: "readVerified env (ln (json_text False (validTree receiptID grade reasons j))) = Some v"
    and "vd_Valid v" "vd_ReceiptID v = sanitize receiptID"
    using client_reads [OF assms(3,4)] by fastforce
  with showVerified_valid [OF v, of w] get show ?thesis
    by (auto simp: run_def handleVerify_def plain_argument_first [OF assms(5)] addrFlag_def tokenFlag_def string_flag_def
        bool_flag_def)
qed

text \<open>The identifiers of receipts are plain text and look like no flag.\<close>

lemma digest_plain: "sanitize (DigestWithPrefix p b) = DigestWithPrefix p b" "hd (DigestWithPrefix p b) \<noteq> CHR ''-''"
proof -
  have "ascii (hex_encode s)" for s
    using hex_encode_graphic [of s] by (auto simp: ascii_def list_all_iff graphic_def)
  then show "sanitize (DigestWithPrefix p b) = DigestWithPrefix p b"
    by (intro sanitize_ascii) (simp add: DigestWithPrefix_def DigestHex_def)
qed (simp add: DigestWithPrefix_def)

lemma client_confirms:
  assumes "hd_Service h = Some (sv, L)" and "hd_Auth h 0 r = Inr c" and "hq_Path r = ''/v1/verify/'' @ rid"
    and "rid = DigestWithPrefix (sv_Prims sv) (lr_BodyJSON rec)" and "GetReceipt L rid s = Some rec"
    and "known_receipt sv L pub rec s" and "asks env rid (HandleVerify e h r s)"
    and "floats_read (pe_Float64 (he_Pack e)) (ce_Float64 env)"
  shows "\<exists>more. run env [name, ''verify'', rid] w = (0, put_out (ln (''valid=true receipt_id='' @ rid @ more)) w)"
proof -
  have id: "rid \<noteq> []" using assms(4) by (simp add: DigestWithPrefix_def)
  obtain grade reasons body where shown: "shownReceipt (pe_Float64 (he_Pack e)) rec = Inr body"
    and answer: "HandleVerify e h r s = writeJSON 200 (PAny (VMap [(''receipt_id'', VStr rid), (''valid'', VBool True),
      (''grade'', VStr grade), (''grade_info'', VMap [(''reasons'', VSlice (map VStr reasons))]), (''receipt'', body)]))"
    using HandleVerify_valid [OF assms(1-3) id assms(5,6)] by blast
  obtain j where j: "goval_json body = Inr j" "readable (ce_Float64 env) j" "j = JNull \<or> (\<exists>ms. j = JObj ms)"
    using shown_sendable [OF assms(8) shown] by blast
  have "rid = [] \<or> hd rid \<noteq> CHR ''-''" "sanitize rid = rid"
    unfolding assms(4) using digest_plain by blast+
  with verify_reports [OF assms(7) [unfolded answer] j] show ?thesis by metis
qed

end
