(* ===== verification/Spec2Isabelle.thy ===== *)
theory Spec2Isabelle
  imports Start_Demo Sql_Facts Status_Types Cli_Gateway
begin

text \<open>
  Relia is a gateway that hands out short-lived cloud credentials to automation workloads.  A
  workload sends the action it wants to perform; the gateway evaluates a policy, asks a person
  when the policy says so, mints credentials through a broker, and leaves a signed receipt of every
  step in a ledger.  This development models its Go sources (\<open>internal/\<close>, \<open>pkg/\<close>, \<open>cmd/\<close>) and states what
  makes them correct.

  The parts and their theories, in the order they build on one another:

  \<^item> \<open>Go_Prelude\<close>, \<open>Go_Json\<close>, \<open>Go_Base64\<close>, \<open>Go_Struct\<close>, \<open>Go_Decode\<close>, \<open>Go_Time\<close>,
    \<open>Go_Http\<close>, \<open>Go_Path\<close>, \<open>Go_Flag\<close>: what the sources use of Go and its
    standard library.  Errors are values of \<open>goerr\<close> in a sum (\<open>res\<close>), a Go string is a list of
    bytes, stateful code is a function from the state to a result and a new state (\<open>tx\<close>).
    \<open>json_print\<close> and \<open>json_parse\<close> are \<open>encoding/json\<close> with its escaping and its repair of invalid
    UTF-8; \<open>json_parse\<close> runs on fuel, twice the length of the input plus two, which is enough for every
    document that is printed (\<open>json_parse_print\<close> only asks that numbers are number literals).  \<open>Go_Struct\<close> is the decoding of objects
    into structs with case-folded names, \<open>Go_Decode\<close> the decoding of slices and of \<open>any\<close>, of the first
    value of a stream, and the decoding whose error is ignored; \<open>Go_Http\<close> has requests, responses and forms.  \<open>Go_Time\<close> is the RFC 3339 rendering of an instant;
    a duration is a 64-bit word.  \<open>Go_Path\<close> is \<open>path/filepath\<close>, \<open>Go_Flag\<close> the parser of the \<open>flag\<close> package.
  \<^item> \<open>Go_Types\<close>, \<open>Record_Json\<close>, \<open>Record_Decode\<close> (\<open>pkg/types\<close>): the records and their JSON, both ways; a dynamic Go value is \<open>goval\<close>.
  \<^item> \<open>Canonical\<close>, \<open>Signing_View\<close> (\<open>internal/crypto/canonical.go\<close>): canonical JSON.  The lemmas show that
    the bytes ignore the iteration order of maps, parse to the normalised tree of the value, and so
    determine it (\<open>same_repr\<close> is equality up to Unicode normalisation and dropped nil entries).
  \<^item> \<open>Crypto\<close> (\<open>sign.go\<close>, \<open>keys.go\<close>, \<open>ed25519_files.go\<close>): SHA-256 and Ed25519 are parameters (\<open>prims\<close>),
    their documented behaviour is \<open>prims_laws\<close>; nothing assumes that SHA-256 is injective, the facts
    about identifiers name the collision they exclude (\<open>collides\<close>).
  \<^item> \<open>Policy\<close> (\<open>internal/policy\<close>): types, engine, loader; \<open>verdict_spec\<close> is the declarative reading.
  \<^item> \<open>Builders\<close> (\<open>internal/context\<close>, \<open>internal/decision\<close>), \<open>Idem_Key\<close> (\<open>internal/api/authorize.go\<close>), \<open>Receipt\<close>
    and \<open>Receipt_Facts\<close> (\<open>internal/ledger/receipt.go\<close>, \<open>verify.go\<close>): what is digested, signed and
    verified, and that an identifier binds its content.
  \<^item> \<open>Ledger_Store\<close> (\<open>internal/ledger/store.go\<close>): the rows, the store interface as a record of operations
    (\<open>ledger\<close>), and the contract of a store as the locales \<open>ledger_contract\<close>, \<open>atomic_ledger\<close> (a failed
    transaction changes nothing) and \<open>exact_ledger\<close> (rows come back as they were put) over
    an abstract view of maps.  \<open>Memory_Store\<close> (\<open>memory_store.go\<close>) interprets the first and the last, \<open>Sql_Store\<close>
    (\<open>sqlstore\<close> with the schema of \<open>migrations/sqlite\<close>) all three, \<open>Pg_Store\<close> (\<open>pgstore\<close> with the schema of
    \<open>migrations/postgres\<close>) the first two: it keeps times and documents as the database renders them,
    and receipts do not survive that.  \<open>Sql_Facts\<close> adds the invariants of the constraints, \<open>Pg_Demo\<close> a
    concrete database and a run on it.
  \<^item> \<open>Migrations\<close> (\<open>migrate.go\<close>): the scripts of a directory, each in a transaction with the record of its
    version; the environment says where the database fails.  The lemmas show that after any number of
    attempts the schema is that of a prefix of the scripts.
  \<^item> \<open>Slack_Outbox\<close> (\<open>internal/slack/outbox.go\<close>): the notification worker and its backoff.
  \<^item> \<open>Slack_Handler\<close> (\<open>verify.go\<close>, \<open>handler.go\<close>) and \<open>Slack_Client\<close> (\<open>message.go\<close>, \<open>client.go\<close>): the
    endpoint that receives the pressed buttons, and the message that has them.
  \<^item> \<open>Grade\<close> (\<open>internal/grade\<close>), \<open>Pack\<close> (\<open>internal/pack\<close>), \<open>Auth\<close> (\<open>internal/auth\<close>), \<open>Aws_Broker\<close>
    (\<open>internal/aws\<close>), \<open>Gateway_Config\<close> (\<open>internal/config\<close>, \<open>newServer\<close> and \<open>run\<close> of \<open>cmd/relia-gateway\<close>): the
    quality of a receipt, the audit pack, identities, brokers, and how a server is put together.
  \<^item> \<open>Api_State\<close> (\<open>state.go\<close>, \<open>decision_flow.go\<close>, \<open>authorize_flow.go\<close>) and \<open>Authorize_Service\<close>
    (\<open>authorize_service.go\<close>): the state machine and the service.  A \<open>service\<close> is the configuration,
    a \<open>call\<close> is one request with everything it takes from outside: the clock, the random approval
    identifier, the broker and Slack.  \<open>Authorize_Steps\<close> cuts \<open>Authorize\<close> at its accesses to the
    ledger and the broker.
  \<^item> \<open>Ledger_Logic\<close> is the weakest-precondition calculus of ledger programs, \<open>Service_Facts\<close> and
    \<open>Approval_Flow\<close> the functional facts, \<open>Service_Liveness\<close> the conditions under which a call answers.
  \<^item> \<open>Concurrent_Gateway\<close>: many calls, approvals, outbox passes and crashes interleaved on one ledger
    (\<open>gw_step\<close>, \<open>gw_reach\<close>) with a log of events.  \<open>Ledger_Invariant\<close> lifts an invariant of the
    puts to reachable gateways, \<open>Ledger_Audit\<close> keeps the receipts verified, \<open>Status_Types\<close> the status
    columns typed, \<open>Gateway_Runs\<close> builds
    runs, \<open>Demo\<close> is the concrete service that the witnesses use.
  \<^item> \<open>Http_Handlers\<close> and \<open>Http_Pages\<close> (\<open>handlers.go\<close>, \<open>verify\_page.go\<close>, \<open>router.go\<close>): the HTTP interface; a
    handler gives a response and a ledger, the payload of a response is the value that is encoded or
    rendered.  \<open>Http_Facts\<close> shows what the handlers promise, \<open>Http_Runs\<close> that a sequence of requests is a
    run of the gateway, \<open>Http_Demo\<close> has the requests of the witnesses.
  \<^item> \<open>Cli\<close> (\<open>cmd/relia-cli\<close>): the commands as functions from the arguments and a world of files and
    output to an exit code and a world.  \<open>Cli_Facts\<close> shows what they promise, \<open>Cli_Gateway\<close> that
    the client reads what the gateway writes; \<open>Start_Demo\<close> has the runs of the witnesses.

  The properties below are grouped the same way: who gets credentials, the HTTP interface, the
  ledger, the engine, receipts, identifiers, canonical JSON, steps, the outbox, authentication, grades
  and packs, keys, the schema.

  Bounds and fuel: five steps always finish a call (\<open>steps_refine_call\<close>, \<open>calls_end\<close>); the loops of the code are
  structural recursions on the list they range over, and the flag parser consumes an argument in every
  round.  Counters that Go keeps in an \<open>int\<close> are
  integers, except durations and the exponents of RSA keys, which are 64-bit words, and the seconds of
  \<open>time.Unix\<close>, which wrap around at 64 bits.

  Not modelled, or only as parameters: YAML parsing, Unicode normalisation, SHA-256, Ed25519, the
  file system, the clock, random numbers and the network, all outside \<open>src\<close>; driver errors of the
  databases and the opening of connections; the lock of the in-memory store (the steps of the model are its critical
  sections); log output; the JWT library, the AWS SDK, the zip format and the rendering of the two HTML
  templates; of \<open>net/http\<close> the wire format, the methods (the router ignores them) and the target of a
  redirection.
  Of the sources themselves \<open>LoadSchema\<close> (only tests call it), the opening and closing of databases, the
  two HTML templates and the \<open>main\<close> functions are left out; what a migration script does to the
  schema is a parameter of \<open>Migrations\<close>, and the tables of the stores have the constraints of the scripts
  written out.
\<close>

section \<open>Who gets credentials\<close>

text \<open>
  C1: whatever calls, crashes, approvals and outbox passes are interleaved on the in-memory store,
  credentials are handed out for a request only after the policy was evaluated to allow it or a
  person approved it.
\<close>

theorem memory_mints_authorised:
  assumes "mem_order_ok ord"
    and "gw_reach sv (mem_ledger ord) (gw_init NewInMemoryStore) g"
    and "gw_Log g = pre @ EvMinted k # post"
  shows "(\<exists>approvalID. EvApproved k approvalID \<in> set pre) \<or>
    (\<exists>p i. EvEvaluated k p i \<in> set pre \<and> verdict_spec p i = ''allow'')"
  using ledger_contract.minted_authorised [OF mem_contract [OF assms(1)] mem_view_empty assms(2,3)]
  by (simp add: authorised_def)

theorem memory_mints_authorised_witness:
  "\<exists>g pre k post. gw_reach demo_service (mem_ledger insertion_order) (gw_init NewInMemoryStore) g \<and>
     gw_Log g = pre @ EvMinted k # post \<and>
     ((\<exists>approvalID. EvApproved k approvalID \<in> set pre) \<or>
      (\<exists>p i. EvEvaluated k p i \<in> set pre \<and> verdict_spec p i = ''allow''))"
proof -
  obtain g k where g: "gw_reach demo_service (mem_ledger insertion_order) (gw_init NewInMemoryStore) g"
    and log: "EvMinted k \<in> set (gw_Log g)"
    using demo_mints by blast
  from log obtain pre post where "gw_Log g = pre @ EvMinted k # post" by (meson split_list)
  with memory_mints_authorised [OF insertion_order_ok g this] g show ?thesis by blast
qed

text \<open>C2: the same on the SQLite ledger, with or without foreign keys enforced.\<close>

theorem sqlite_mints_authorised:
  assumes "sql_config_ok cfg"
    and "gw_reach sv (sql_ledger cfg) (gw_init empty_db) g"
    and "gw_Log g = pre @ EvMinted k # post"
  shows "(\<exists>approvalID. EvApproved k approvalID \<in> set pre) \<or>
    (\<exists>p i. EvEvaluated k p i \<in> set pre \<and> verdict_spec p i = ''allow'')"
  using ledger_contract.minted_authorised
    [OF atomic_ledger.axioms(1) [OF sql_contract [OF assms(1)]] sql_view_empty assms(2,3)]
  by (simp add: authorised_def)

theorem sqlite_mints_authorised_witness:
  "\<exists>g k p i. gw_reach demo_service (sql_ledger default_config) (gw_init empty_db) g \<and>
     gw_Log g = [EvEvaluated k p i] @ EvMinted k # [] \<and>
     ((\<exists>approvalID. EvApproved k approvalID \<in> set [EvEvaluated k p i]) \<or>
      (\<exists>p' i'. EvEvaluated k p' i' \<in> set [EvEvaluated k p i] \<and> verdict_spec p' i' = ''allow''))"
proof -
  obtain g k p i where g: "gw_reach demo_service (sql_ledger default_config) (gw_init empty_db) g"
    and log: "gw_Log g = [EvEvaluated k p i] @ EvMinted k # []"
    using demo_mints_sqlite by auto
  from sqlite_mints_authorised [OF default_config_ok g log] g log show ?thesis by blast
qed







text \<open>
  C6: an approval that has been decided stays as it is on SQLite, whoever calls \<open>Approve\<close> again and
  whatever they ask for: approvals, idempotency keys and receipts are unchanged.
\<close>

theorem sqlite_decision_final:
  assumes "sql_config_ok cfg" and "sql_GetApproval approvalID s = Some a"
    and "la_Status a = ''approved'' \<or> la_Status a = ''denied''"
    and "Approve sv (sql_ledger cfg) approvalID status createdAt s = (r, t)"
  shows "sql_GetApproval k t = sql_GetApproval k s \<and>
    sql_GetIdempotencyKey k t = sql_GetIdempotencyKey k s \<and> sql_GetReceipt k t = sql_GetReceipt k s"
proof -
  have "lv_approvals (sql_view s) approvalID = Some a" "\<not> open_approval a"
    using assms(2,3) by (auto simp: sql_view_def sql_GetApproval_def open_approval_def)
  from ledger_contract.approval_final [OF atomic_ledger.axioms(1) [OF sql_contract [OF assms(1)]] this assms(4)]
  show ?thesis by (simp add: sql_view_def sql_GetApproval_def sql_GetIdempotencyKey_def sql_GetReceipt_def)
qed

definition decided_db :: sql_state where
  "decided_db = empty_db\<lparr>ss_approvals := [(''a1'',
     \<lparr>la_ApprovalID = ''a1'', la_IdemKey = ''k1'', la_Status = ''denied'', la_SlackChannel = None,
      la_SlackMsgTS = None, la_ApprovedBy = None, la_ApprovedAt = None, la_CreatedAt = [], la_UpdatedAt = []\<rparr>)]\<rparr>"

theorem sqlite_decision_final_witness:
  "\<exists>r t. Approve demo_service (sql_ledger default_config) ''a1'' ''approved'' [] decided_db = (r, t) \<and>
     sql_GetApproval ''a1'' t = sql_GetApproval ''a1'' decided_db"
proof -
  obtain r t where r: "Approve demo_service (sql_ledger default_config) ''a1'' ''approved'' [] decided_db = (r, t)"
    by fastforce
  have "\<exists>a. sql_GetApproval ''a1'' decided_db = Some a \<and> (la_Status a = ''approved'' \<or> la_Status a = ''denied'')"
    by (simp add: sql_GetApproval_def decided_db_def table_get_def)
  with sqlite_decision_final [OF default_config_ok _ _ r] r show ?thesis by blast
qed

text \<open>
  C7: the broker is not asked.  When the ledger has no row for the request and the policy does not
  allow it, or the row is neither ready for issuance nor being issued, the answer and the ledger
  are the same whatever the broker would do.
\<close>

theorem broker_irrelevant:
  assumes "ComputeIdemKey (sv_Prims sv) (sv_NFC sv) (cl_Claims c) (cl_Req c) = Inr k"
    and "case GetIdempotencyKey L k s of
        None \<Rightarrow> (\<forall>loaded. LoadPolicy (sv_Prims sv) (sv_Yaml sv) (sv_ReadFile sv) (sv_PolicyPath sv) = Inr loaded \<longrightarrow>
                  d_Verdict (Evaluate (lp_Policy loaded) (lp_Hash loaded) (policyInput (cl_Req c))) \<noteq> ''allow'')
      | Some i \<Rightarrow> ik_Status i \<noteq> ''approved_ready'' \<and> ik_Status i \<noteq> ''issuing''"
  shows "Authorize sv L (c\<lparr>cl_Broker := b\<rparr>) s = Authorize sv L c s"
  using assms(2)
  by (intro broker_not_consulted [OF assms(1)]) (auto simp: may_issue_def Evaluate_verdict split: option.splits)

theorem broker_irrelevant_witness:
  "\<exists>k. ComputeIdemKey (sv_Prims demo_service) (sv_NFC demo_service) (cl_Claims (demo_call ''destroy''))
       (cl_Req (demo_call ''destroy'')) = Inr k \<and>
     (\<forall>b. Authorize demo_service (mem_ledger insertion_order) ((demo_call ''destroy'')\<lparr>cl_Broker := b\<rparr>) NewInMemoryStore =
       Authorize demo_service (mem_ledger insertion_order) (demo_call ''destroy'') NewInMemoryStore)"
proof -
  obtain k where k: "ComputeIdemKey (sv_Prims demo_service) (sv_NFC demo_service)
      (cl_Claims (demo_call ''destroy'')) (cl_Req (demo_call ''destroy'')) = Inr k"
    using demo_key [of "''destroy''"] by auto
  have "LoadPolicy (sv_Prims demo_service) (sv_Yaml demo_service) (sv_ReadFile demo_service)
      (sv_PolicyPath demo_service) = Inr demo_loaded"
    using demo_serviceable by (simp add: serviceable_def)
  with broker_irrelevant [OF k, of "mem_ledger insertion_order" NewInMemoryStore] k demo_verdict(3)
  show ?thesis by (simp add: store_simps Evaluate_verdict)
qed

section \<open>Requests get an answer\<close>





section \<open>The HTTP interface\<close>

text \<open>
  C10: the server refines the gateway.  Whatever sequence of HTTP requests a handler over one service
  serves, the ledger it ends with is the ledger of a reachable gateway, so every invariant of the
  gateway is one of the server.
\<close>

theorem http_refines_gateway:
  assumes "gateway_handler sv L h"
  shows "\<exists>g. gw_reach sv L (gw_init s) g \<and> gw_Store g = serve_all h reqs s"
  by (rule serve_all_init [OF assms])

theorem http_refines_gateway_witness:
  "\<exists>g. gw_reach demo_service (mem_ledger insertion_order) (gw_init NewInMemoryStore) g \<and>
     (\<exists>rid rec. mem_GetReceipt rid (gw_Store g) = Some rec)"
proof -
  from http_refines_gateway [OF demo_gateway, of "mem_ledger insertion_order" NewInMemoryStore
      "[(demo_env, demo_authorize ''apply'')]"] demo_receipt_stored
  show ?thesis by metis
qed



text \<open>
  C12: every receipt is reported as valid.  After any sequence of HTTP requests to a gateway on the
  in-memory store, an authenticated request for a stored receipt is answered with \<open>"valid": true\<close>, and
  so is the public page when it is enabled.
\<close>

theorem http_receipts_valid:
  assumes "mem_order_ok ord" and "prims_laws (sv_Prims sv)" and "signer_for (sv_Prims sv) (sv_Signer sv) pub"
    and "sv_PublicKey sv = Some pub" and "gateway_handler sv (mem_ledger ord) h"
    and "mem_GetReceipt rid (serve_all h reqs NewInMemoryStore) = Some rec"
    and "hd_Auth h 0 r = Inr c" and "hq_Path r = ''/v1/verify/'' @ rid"
    and "hd_PublicVerify h" and "hq_Path r' = ''/verify/'' @ rid"
  shows "(\<exists>grade reasons body. HandleVerify e h r (serve_all h reqs NewInMemoryStore) = writeJSON 200 (PAny (VMap
      [(''receipt_id'', VStr rid), (''valid'', VBool True), (''grade'', VStr grade),
       (''grade_info'', VMap [(''reasons'', VSlice (map VStr reasons))]), (''receipt'', body)]))) \<and>
    (\<exists>v. HandleVerifyPage e h r' (serve_all h reqs NewInMemoryStore) = pageResponse v \<and> vw_Valid v \<and>
       vw_Error v = [] \<and> vw_ReceiptID v = rid)"
proof -
  have k: "key_pair_of sv pub" using assms(2-4) by (simp add: key_pair_of_def)
  note known = stored_known [OF assms(1) k assms(4-6)]
  have id: "rid \<noteq> []" using known(2) by (simp add: DigestWithPrefix_def)
  from HandleVerify_valid [OF known(4) assms(7,8) id known(3,1)] HandleVerifyPage_valid [OF known(4) assms(9,10) id known(3,1)]
  show ?thesis by blast
qed

theorem http_receipts_valid_witness:
  "\<exists>rid v. HandleVerifyPage demo_env (demo_handler (mem_ledger insertion_order)) (demo_http (''/verify/'' @ rid) [])
     (serve_all (demo_handler (mem_ledger insertion_order)) [(demo_env, demo_authorize ''apply'')] NewInMemoryStore) =
     pageResponse v \<and> vw_Valid v"
proof -
  let ?h = "demo_handler (mem_ledger insertion_order)"
  let ?s = "serve_all ?h [(demo_env, demo_authorize ''apply'')] NewInMemoryStore"
  obtain rid rec where "mem_GetReceipt rid ?s = Some rec"
    using demo_receipt_stored by blast
  then show ?thesis
    using http_receipts_valid [OF insertion_order_ok demo_key_pair demo_gateway, of rid
        "[(demo_env, demo_authorize ''apply'')]" rec "demo_http (''/v1/verify/'' @ rid) []" demo_claims
        "demo_http (''/verify/'' @ rid) []" demo_env]
    by (auto simp: demo_http_def demo_handler_def)
qed

text \<open>
  C13: the command-line client agrees.  After any sequence of HTTP requests to a gateway on the in-memory
  store, \<open>relia verify\<close> with the identifier of a stored receipt, when its request is answered by the
  gateway, prints \<open>valid=true\<close> with the identifier and exits with 0.  The floats that the gateway prints
  are taken to be number literals that the client can read.
\<close>

theorem client_confirms_receipts:
  assumes "mem_order_ok ord" and "prims_laws (sv_Prims sv)" and "signer_for (sv_Prims sv) (sv_Signer sv) pub"
    and "sv_PublicKey sv = Some pub" and "gateway_handler sv (mem_ledger ord) h"
    and "mem_GetReceipt rid (serve_all h reqs NewInMemoryStore) = Some rec"
    and "hd_Auth h 0 r = Inr c" and "hq_Path r = ''/v1/verify/'' @ rid"
    and "asks env rid (HandleVerify e h r (serve_all h reqs NewInMemoryStore))"
    and "floats_read (pe_Float64 (he_Pack e)) (ce_Float64 env)"
  shows "\<exists>more. run env [name, ''verify'', rid] w = (0, put_out (ln (''valid=true receipt_id='' @ rid @ more)) w)"
proof -
  have k: "key_pair_of sv pub" using assms(2-4) by (simp add: key_pair_of_def)
  note known = stored_known [OF assms(1) k assms(4-6)]
  show ?thesis by (rule client_confirms [OF known(4) assms(7,8) known(2,3,1) assms(9,10)])
qed

theorem client_confirms_receipts_witness:
  "\<exists>rid env more. run env [''relia'', ''verify'', rid] no_files =
     (0, put_out (ln (''valid=true receipt_id='' @ rid @ more)) no_files)"
proof -
  let ?h = "demo_handler (mem_ledger insertion_order)"
  let ?reqs = "[(demo_env, demo_authorize ''apply'')]"
  let ?s = "serve_all ?h ?reqs NewInMemoryStore"
  obtain rid rec where rec: "mem_GetReceipt rid ?s = Some rec"
    using demo_receipt_stored by blast
  let ?r = "demo_http (''/v1/verify/'' @ rid) []"
  let ?e = "demo_env\<lparr>he_Pack := demo_pack\<lparr>pe_Float64 := (\<lambda>n. if number_literal n then Some n else None)\<rparr>\<rparr>"
  let ?env = "demo_cli\<lparr>ce_Fetch := (\<lambda>_ _. encodedAnswer (HandleVerify ?e ?h ?r ?s))\<rparr>"
  have ask: "asks ?env rid (HandleVerify ?e ?h ?r ?s)" by (simp add: asks_def httpGet_def)
  have fl: "floats_read (pe_Float64 (he_Pack ?e)) (ce_Float64 ?env)"
    by (simp add: floats_read_def demo_cli_def)
  have auth: "hd_Auth ?h 0 ?r = Inr demo_claims" "hq_Path ?r = ''/v1/verify/'' @ rid"
    by (auto simp: demo_http_def demo_handler_def)
  from client_confirms_receipts [OF insertion_order_ok demo_key_pair demo_gateway rec auth ask fl] show ?thesis by blast
qed

text \<open>
  C18: an intent with a number is refused.  When the decoded intent holds a JSON number at any depth, the
  authorization endpoint answers 400 and leaves the ledger alone, whatever the policy says.
\<close>

theorem numeric_intent_refused:
  assumes "hd_Service h = Some (sv, L)" and "hd_Auth h 0 r = Inr c0" and "hd_Auth h 1 r = Inr c"
    and "readRequest (pe_Float64 (he_Pack e)) r = Some q" and "has_float (aq_Intent q)"
  shows "\<exists>msg. HandleAuthorize e h r s = (writeError 400 msg, s)"
proof -
  obtain err where "ComputeIdemKey (sv_Prims sv) (sv_NFC sv) (actorOf c) q = Inl err"
    using ComputeIdemKey_float [OF assms(5)] by blast
  then have "Authorize sv L (callOf e c q) s = (Inl err, s)" by (simp add: Authorize_def callOf_def)
  with assms(1-4) show ?thesis by (auto simp: HandleAuthorize_def ensureAuth_def answerOf_def)
qed

theorem numeric_intent_refused_witness:
  "\<exists>msg. HandleAuthorize demo_env (demo_handler (mem_ledger insertion_order)) demo_numeric NewInMemoryStore =
     (writeError 400 msg, NewInMemoryStore)"
proof -
  obtain q where q: "readRequest (pe_Float64 (he_Pack demo_env)) demo_numeric = Some q" "has_float (aq_Intent q)"
    by (rule demo_numeric_read)
  show ?thesis by (rule numeric_intent_refused [OF _ _ _ q]) (simp_all add: demo_handler_def)
qed

text \<open>
  C14: a button decides.  Pressing either button of the message that was posted for an approval, with
  Slack's signature and a timestamp at most five minutes away, calls \<open>Approve\<close> for that approval with
  the status the button stands for, and the answer says whether it succeeded.
\<close>

theorem slack_button_decides:
  assumes "BuildApprovalMessage m = Inr b" and "postBody float64 channel b = Inr body"
    and "json_parse body = Some j" and "(Some (JStr action), Some (JStr v)) \<in> set (jbuttons j)"
    and "ih_Approver ih = Some approver" and "pressed pr (ih_SigningSecret ih) ts action v r"
    and "\<bar>now1 - 1000000000 * ts\<bar> \<le> 300000000000" and "plausible_clock now1"
  shows "action = ''approve'' \<and> HandleInteractions pr ih now1 now2 r s =
      pressAnswer (approver (sanitize (am_ApprovalID m)) ''approved'' (rfc3339 now2) s) \<or>
    action = ''deny'' \<and> HandleInteractions pr ih now1 now2 r s =
      pressAnswer (approver (sanitize (am_ApprovalID m)) ''denied'' (rfc3339 now2) s)"
proof -
  have "action = ''approve'' \<or> action = ''deny''" and v: "v = sanitize (am_ApprovalID m)"
    using posted_buttons [OF assms(1,2)] assms(3,4) by auto
  moreover from this(1) have "sanitize action = action" "action \<noteq> []" by auto
  note pressed_decides [OF assms(5-8) this, of now2 s]
  ultimately show ?thesis by (auto simp: actionStatus_def)
qed

theorem slack_button_decides_witness:
  "HandleInteractions toy_prims (demo_slack (mem_ledger insertion_order)) 0 0 demo_press NewInMemoryStore =
     pressAnswer (Approve demo_service (mem_ledger insertion_order) ''approval-1'' ''approved'' (rfc3339 0) NewInMemoryStore)"
proof -
  let ?L = "mem_ledger insertion_order"
  have r: "pressed toy_prims (ih_SigningSecret (demo_slack ?L)) 0 ''approve'' ''approval-1'' demo_press"
    using demo_pressed [of ?L] by (simp add: demo_env_def demo_pack_def)
  obtain b body j where m: "BuildApprovalMessage demo_message = Inr b" "postBody (\<lambda>n. None) ''C1'' b = Inr body"
    "json_parse body = Some j" "(Some (JStr ''approve''), Some (JStr ''approval-1'')) \<in> set (jbuttons j)"
    by (rule demo_message_buttons)
  show ?thesis
    using slack_button_decides [OF m, of "demo_slack ?L", OF _ r, of "Approve demo_service ?L" 0 0 NewInMemoryStore]
    by (simp add: demo_slack_def plausible_clock_def demo_message_def)
qed

text \<open>
  C15: a server that is started without Slack decides for anybody.  When neither the environment nor the
  configuration names a signing secret, the server is built with the Slack endpoint installed, and any
  request that names an approval approves it: no header is looked at.
\<close>

theorem unsigned_request_approves:
  assumes "newServer su cfg = Inr srv" and "signingSecret (su_Getenv su) cfg = []"
    and "hq_Body r = Inr (interaction_body ''approve'' approvalID)"
  shows "HandleInteractions pr (slackHandlerOf srv L) now1 now2 r s =
    pressAnswer (Approve (se_Service srv) L (sanitize approvalID) ''approved'' (rfc3339 now2) s)"
proof -
  have "ih_SigningSecret (slackHandlerOf srv L) = []"
    using assms(2) by (auto simp: slackHandlerOf_def intro: newServer_Inr [OF assms(1)])
  from unsigned_decides [OF this _ assms(3)] show ?thesis
    by (simp add: slackHandlerOf_def actionStatus_def)
qed

theorem unsigned_request_approves_witness:
  "\<exists>srv s t. newServer demo_startup demo_config = Inr srv \<and>
     HandleInteractions toy_prims (slackHandlerOf srv (mem_ledger insertion_order)) 0 0
       (demo_http ''/v1/slack/interactions'' (interaction_body ''approve'' ''approval-1'')) s = (200, t) \<and> t \<noteq> s"
proof -
  let ?L = "mem_ledger insertion_order"
  obtain srv where srv: "newServer demo_startup demo_config = Inr srv" "se_Service srv = demo_service"
    "signingSecret (su_Getenv demo_startup) demo_config = []" by (rule demo_server)
  obtain s t rid where a: "Approve demo_service ?L ''approval-1'' ''approved'' (rfc3339 0) s = (Inr rid, t)" "t \<noteq> s"
    by (rule demo_approves)
  have "HandleInteractions toy_prims (slackHandlerOf srv ?L) 0 0
      (demo_http ''/v1/slack/interactions'' (interaction_body ''approve'' ''approval-1'')) s = (200, t)"
    by (subst unsigned_request_approves [OF srv(1,3), of _ "''approval-1''"])
      (simp_all add: demo_http_def pressAnswer_def a(1) srv(2))
  with srv(1) a(2) show ?thesis by blast
qed

section \<open>The ledger of a running gateway\<close>



text \<open>C22: on SQLite no two approvals of a running gateway belong to the same idempotency key.\<close>

theorem sqlite_one_approval:
  assumes "gw_reach sv (sql_ledger cfg) (gw_init empty_db) g"
    and "sql_GetApproval i (gw_Store g) = Some a" and "sql_GetApproval j (gw_Store g) = Some b"
    and "la_IdemKey a = la_IdemKey b"
  shows "i = j"
  using ledger_invariant.keep_reach [OF unique_invariant approvals_unique_empty assms(1)] assms(2-4)
  by (auto simp: approvals_unique_def sql_GetApproval_def)

theorem sqlite_one_approval_witness:
  "\<exists>g i j a b. gw_reach demo_service (sql_ledger default_config) (gw_init empty_db) g \<and>
     sql_GetApproval i (gw_Store g) = Some a \<and> sql_GetApproval j (gw_Store g) = Some b \<and>
     la_IdemKey a = la_IdemKey b \<and> i = j"
proof -
  from demo_waits_sqlite obtain g a where g: "gw_reach demo_service (sql_ledger default_config) (gw_init empty_db) g"
    and a: "sql_GetApproval ''approval-1'' (gw_Store g) = Some a" by blast
  from sqlite_one_approval [OF g a a refl] g a show ?thesis by blast
qed

text \<open>
  C23: on a SQLite connection that enforces foreign keys, no row of a running gateway refers to a
  missing one: decisions, receipts, idempotency keys, approvals and outbox rows find everything they
  name.
\<close>

theorem sqlite_no_dangling:
  assumes "sc_fk cfg" and "gw_reach sv (sql_ledger cfg) (gw_init empty_db) g"
  shows "no_dangling (gw_Store g)"
  by (rule ledger_invariant.keep_reach [OF dangling_invariant [OF assms(1)] no_dangling_empty assms(2)])

theorem sqlite_no_dangling_witness:
  "\<exists>g a. gw_reach demo_service (sql_ledger default_config) (gw_init empty_db) g \<and>
     sql_GetApproval ''approval-1'' (gw_Store g) = Some a \<and> no_dangling (gw_Store g)"
proof -
  from demo_waits_sqlite obtain g a where g: "gw_reach demo_service (sql_ledger default_config) (gw_init empty_db) g"
    and a: "sql_GetApproval ''approval-1'' (gw_Store g) = Some a" by blast
  from sqlite_no_dangling [OF _ g] g a show ?thesis by (auto simp: default_config_def)
qed

text \<open>
  C20: PostgreSQL does not keep receipts.  A database that renders \<open>jsonb\<close> with a space after the first
  colon of an object stores for a new receipt a row whose body is not the signed one, and its
  verification fails with the digest mismatch, unless SHA-256 collides on the two bodies.
\<close>

theorem postgres_receipt_altered:
  assumes "jsonb_spaced (pg_jsonb cfg)" and "nfc_laws nfc" and "MakeReceipt pr nfc i sg = Inr r"
    and "table_get (ss_receipts s) (sr_ReceiptID r) = None"
    and "pg_PutReceipt cfg (receiptRecordFromStored r) s = Inr s'"
  shows "\<exists>row. pg_GetReceipt (sr_ReceiptID r) s' = Some row \<and> lr_BodyJSON row \<noteq> sr_BodyJSON r \<and>
    (VerifyReceipt pr (storedFromRecord row) pub = Inl ErrReceiptDigestMismatch \<or>
     collides pr (lr_BodyJSON row) (sr_BodyJSON r))"
  by (rule pg_receipt_altered [OF assms(1-3,5,4)])

theorem postgres_receipt_altered_witness:
  "\<exists>i r s row. MakeReceipt (sv_Prims demo_service) (sv_NFC demo_service) i (sv_Signer demo_service) = Inr r \<and>
     pg_PutReceipt demo_pg (receiptRecordFromStored r) demo_db = Inr s \<and>
     pg_GetReceipt (sr_ReceiptID r) s = Some row \<and> lr_BodyJSON row \<noteq> sr_BodyJSON r"
proof -
  obtain i r s where r: "MakeReceipt (sv_Prims demo_service) (sv_NFC demo_service) i (sv_Signer demo_service) = Inr r"
    and s: "pg_PutReceipt demo_pg (receiptRecordFromStored r) demo_db = Inr s"
    by (rule demo_pg_stores)
  have d: "jsonb_spaced (pg_jsonb demo_pg)" "nfc_laws (sv_NFC demo_service)"
    "table_get (ss_receipts demo_db) (sr_ReceiptID r) = None"
    by (simp_all add: demo_pg_def demo_jsonb_spaced demo_service_def demo_db_def empty_db_def table_get_def)
  from postgres_receipt_altered [OF d(1,2) r d(3) s] r s show ?thesis by blast
qed

text \<open>
  C21: the status columns are typed.  Whatever is interleaved on the in-memory store, every stored status
  of an idempotency key, an approval, a receipt and a notification is one of the enumerated strings.
\<close>

theorem memory_statuses_typed:
  assumes "mem_order_ok ord"
    and "gw_reach sv (mem_ledger ord) (gw_init NewInMemoryStore) g"
  shows "(mem_GetIdempotencyKey k (gw_Store g) = Some i \<longrightarrow> (\<exists>st. ik_Status i = idem_str st)) \<and>
    (mem_GetApproval k (gw_Store g) = Some a \<longrightarrow> (\<exists>st. la_Status a = approval_str st)) \<and>
    (mem_GetReceipt k (gw_Store g) = Some r \<longrightarrow> validOutcome (lr_OutcomeStatus r)) \<and>
    (mem_GetSlackOutbox k (gw_Store g) = Some n \<longrightarrow> so_Status n = ''pending'' \<or> so_Status n = ''sent'')"
proof -
  from ledger_contract.gw_typed_reach [OF mem_contract [OF assms(1)] mem_view_empty assms(2)]
  have "typed (mem_view (gw_Store g))" by (simp add: gw_typed_def)
  then show ?thesis
    by (auto simp: typed_def mem_view_def mem_GetIdempotencyKey_def mem_GetApproval_def mem_GetReceipt_def
        mem_GetSlackOutbox_def idem_typed_def approval_typed_def outbox_typed_def idem_parse_Some approval_parse_Some)
qed

theorem memory_statuses_typed_witness:
  "\<exists>g a st. gw_reach demo_service (mem_ledger insertion_order) (gw_init NewInMemoryStore) g \<and>
     mem_GetApproval ''approval-1'' (gw_Store g) = Some a \<and> la_Status a = approval_str st"
proof -
  from demo_decides [of ApprovalDenied] obtain g k where g: "demo_reach g"
    and w: "waits_for (mem_view (gw_Store g)) k (cl_ApprovalID (demo_call ''apply''))" by auto
  from w obtain a where "mem_GetApproval ''approval-1'' (gw_Store g) = Some a"
    by (auto simp: waits_for_def mem_view_def mem_GetApproval_def demo_call_def)
  with memory_statuses_typed [OF insertion_order_ok g, of "''approval-1''" _ a] g show ?thesis by blast
qed

section \<open>Policy decisions\<close>


section \<open>Receipts\<close>

text \<open>
  C25: altering the body of a verified receipt under the same identifier is detected, whatever the
  digest, the signature and the key of the altered one, unless the two bodies are a SHA-256 collision.
\<close>

theorem tampering_detected:
  assumes "VerifyReceipt pr r pub = Inr ()" and "sr_BodyJSON r' \<noteq> sr_BodyJSON r"
    and "sr_ReceiptID r' = sr_ReceiptID r"
  shows "VerifyReceipt pr r' pub' = Inl ErrReceiptDigestMismatch \<or>
    pr_sha256 pr (sr_BodyJSON r') = pr_sha256 pr (sr_BodyJSON r)"
  using tampered_body [OF assms] by (auto simp: collides_def)

theorem tampering_detected_witness:
  "\<exists>r. VerifyReceipt toy_prims r demo_seed = Inr () \<and>
     VerifyReceipt toy_prims (r\<lparr>sr_BodyJSON := ''y''\<rparr>) demo_seed = Inl ErrReceiptDigestMismatch"
proof -
  define r where "r = \<lparr>sr_ReceiptID = DigestWithPrefix toy_prims ''x'', sr_BodyDigest = DigestWithPrefix toy_prims ''x'',
    sr_BodyJSON = ''x'', sr_KeyID = [], sr_Sig = demo_seed @ pr_sha256 toy_prims ''x'', sr_IdemKey = [], sr_CreatedAt = [],
    sr_SupersedesReceiptID = None, sr_ContextID = [], sr_DecisionID = [], sr_OutcomeStatus = [], sr_ApprovalID = None,
    sr_PolicyHash = [], sr_Final = False, sr_ExpiresAt = None\<rparr>"
  have ok: "VerifyReceipt toy_prims r demo_seed = Inr ()"
    by (simp add: VerifyReceipt_Inr r_def VerifyEd25519_def DigestBytes_def toy_prims_def demo_seed_def)
  have "pr_sha256 toy_prims ''y'' \<noteq> pr_sha256 toy_prims ''x''" by (simp add: toy_prims_def)
  with tampering_detected [OF ok, of "r\<lparr>sr_BodyJSON := ''y''\<rparr>" demo_seed] ok show ?thesis
    by (intro exI [of _ r]) (simp add: r_def)
qed



text \<open>
  C27: the references of a receipt, to the context, the decision and the interaction, survive the round
  trip through its canonical body, up to NFC and invalid UTF-8; references that are empty read back as
  absent.  The turn index has to fit an \<open>int64\<close>.
\<close>

theorem receipt_references_roundtrip:
  assumes "nfc_laws nfc" and "MakeReceipt pr nfc i sg = Inr r"
    and "\<forall>x. mi_InteractionRef i = Some x \<longrightarrow> - (2 ^ 63) \<le> ir_TurnIndex x \<and> ir_TurnIndex x < 2 ^ 63"
  shows "receiptRefsFromBody (sr_BodyJSON r) =
      (case mi_Refs i of None \<Rightarrow> None
       | Some x \<Rightarrow> if rf_Context x = None \<and> rf_Decision x = None then None else Some (norm_refs nfc x)) \<and>
    interactionRefFromBody (sr_BodyJSON r) =
      (case mi_InteractionRef i of None \<Rightarrow> None
       | Some x \<Rightarrow> if x = zero_interaction_ref then None else Some (norm_interaction_ref nfc x))"
proof -
  obtain b where "Canonicalize nfc (VMap (receiptBody (effective_input i))) = Inr b" "sr_BodyJSON r = b"
    by (rule MakeReceipt_Inr [OF assms(2)])
  with refs_roundtrip [OF assms(1), of "effective_input i"]
    interaction_ref_roundtrip [OF assms(1), of "effective_input i"] assms(3) show ?thesis by simp
qed

theorem receipt_references_roundtrip_witness:
  "\<exists>i r x. MakeReceipt (sv_Prims demo_service) (sv_NFC demo_service) i (sv_Signer demo_service) = Inr r \<and>
     receiptRefsFromBody (sr_BodyJSON r) = Some (norm_refs (\<lambda>s. s) demo_refs) \<and>
     interactionRefFromBody (sr_BodyJSON r) = Some x \<and> ir_TurnIndex x = 7"
proof -
  obtain i r where r: "MakeReceipt (sv_Prims demo_service) (sv_NFC demo_service) i (sv_Signer demo_service) = Inr r"
    and i: "mi_Refs i = Some demo_refs" "mi_InteractionRef i = Some demo_interaction" by (rule demo_references)
  have nfc: "sv_NFC demo_service = (\<lambda>s. s)" by (simp add: demo_service_def)
  have "demo_interaction \<noteq> zero_interaction_ref" "ir_TurnIndex (norm_interaction_ref (\<lambda>s. s) demo_interaction) = 7"
    by (simp_all add: demo_interaction_def zero_interaction_ref_def norm_interaction_ref_def)
  with receipt_references_roundtrip [OF _ r] r i nfc show ?thesis
    by (auto simp: demo_refs_def demo_interaction_def)
qed

section \<open>Identifiers\<close>



section \<open>Canonical JSON\<close>

text \<open>
  C29: the canonical bytes do not depend on the order in which the maps of a value list their entries,
  at any depth; in particular a value is rejected in one order only if it is in every order.
\<close>

theorem canonical_order_irrelevant:
  assumes "gv_perm v w"
  shows "Canonicalize nfc v = Canonicalize nfc w"
  using writeValue_perm [OF assms] by (simp add: Canonicalize_def)

theorem canonical_order_irrelevant_witness:
  "Canonicalize (\<lambda>s. s) (VMap [(''a'', VInt 1), (''b'', VBool True)]) =
   Canonicalize (\<lambda>s. s) (VMap [(''b'', VBool True), (''a'', VInt 1)])"
proof -
  have "gv_perm (VMap [(''a'', VInt 1), (''b'', VBool True)]) (VMap [(''b'', VBool True), (''a'', VInt 1)])"
    by (rule perm_map [of _ "[(''a'', VInt 1), (''b'', VBool True)]"]) (simp_all add: perm_refl)
  then show ?thesis by (rule canonical_order_irrelevant)
qed

text \<open>
  C30: the canonical bytes are JSON that determines the value: they parse, and parse to the normalised
  tree of the value, so two values with the same bytes have the same tree.
\<close>

theorem canonical_parses:
  assumes "nfc_laws nfc" and "Canonicalize nfc v = Inr b"
  shows "\<exists>t. canon_tree nfc v = Inr t \<and> json_parse b = Some (json_sanitize t) \<and>
    (\<forall>w. Canonicalize nfc w = Inr b \<longrightarrow> (\<exists>u. canon_tree nfc w = Inr u \<and> json_sanitize u = json_sanitize t))"
proof -
  from Canonicalize_parse [OF assms] obtain t where "canon_tree nfc v = Inr t" "json_parse b = Some (json_sanitize t)"
    by blast
  with Canonicalize_parse [OF assms(1)] show ?thesis by fastforce
qed

theorem canonical_parses_witness:
  "\<exists>t. canon_tree (\<lambda>s. s) (VStr ''a'') = Inr t \<and> json_parse (json_quote ''a'') = Some (json_sanitize t)"
proof -
  have "Canonicalize (\<lambda>s. s) (VStr ''a'') = Inr (json_quote ''a'')"
    by (simp add: Canonicalize_def writeString_def)
  from canonical_parses [OF nfc_laws_id this] show ?thesis by blast
qed

section \<open>Steps and calls\<close>






section \<open>Slack notifications\<close>

text \<open>
  C32: the outbox worker decides nothing.  After any number of ticks on the in-memory store, contexts,
  decisions, receipts, policies, keys and idempotency keys are the same, and so are the status and
  the idempotency key of every approval.
\<close>

theorem outbox_worker_keeps_decisions:
  assumes "mem_order_ok ord" and "gw_reach sv (mem_ledger ord) (gw_init NewInMemoryStore) g"
  shows "same_decisions (mem_view (gw_Store g)) (mem_view (RunOutboxWorker (mem_ledger ord) ticks (gw_Store g)))"
proof -
  note c = mem_contract [OF assms(1)]
  from ledger_contract.RunOutboxWorker_same [OF c ledger_contract.gw_keyed_reach [OF c mem_view_empty assms(2)]]
  show ?thesis by blast
qed

theorem outbox_worker_keeps_decisions_witness:
  "\<exists>g. gw_reach demo_service (mem_ledger insertion_order) (gw_init NewInMemoryStore) g \<and>
     mem_GetApproval ''approval-1'' (gw_Store g) \<noteq> None \<and>
     (\<forall>ticks. same_decisions (mem_view (gw_Store g))
        (mem_view (RunOutboxWorker (mem_ledger insertion_order) ticks (gw_Store g))))"
proof -
  from demo_waits obtain g k where g: "demo_reach g"
    and "waits_for (mem_view (gw_Store g)) k (cl_ApprovalID (demo_call ''apply''))" by blast
  then have "mem_GetApproval ''approval-1'' (gw_Store g) \<noteq> None"
    by (auto simp: waits_for_def mem_view_def mem_GetApproval_def demo_call_def)
  with outbox_worker_keeps_decisions [OF insertion_order_ok g] g show ?thesis by blast
qed








section \<open>Authentication, grades and packs\<close>



text \<open>
  C36: the best grade means that nothing is missing: the receipt verifies, it names a policy and so does the
  decision when there is one, the evidence of the context has a plan digest and a diff URL, the grant
  has a role and a positive lifetime, and an approval that was required was given.
\<close>

theorem grade_A:
  "gr_Grade (GradeEvaluate order i) = ''A'' \<longleftrightarrow> gi_Valid i \<and>
    (let body = unmarshal_lenient lenientGraded zero_graded (sr_BodyJSON (gi_Receipt i)) in
      (rp_PolicyHash (gb_Policy body) \<noteq> [] \<or> sr_PolicyHash (gi_Receipt i) \<noteq> []) \<and>
      pred_option (\<lambda>d. dp_PolicyHash (dc_Policy d) \<noteq> []) (gi_Decision i) \<and>
      pred_option (\<lambda>c. \<not> blank (ce_PlanDigest (cx_Evidence c)) \<and> \<not> blank (ce_DiffURL (cx_Evidence c))) (gi_Context i) \<and>
      (case gb_CredentialGrant body of None \<Rightarrow> False | Some g \<Rightarrow> \<not> blank (cg_RoleARN g) \<and> 0 < cg_TTLSeconds g) \<and>
      (approvalApproved body \<or>
       pred_option (\<lambda>a. \<not> rap_Required a) (gb_Approval body) \<and>
       pred_option (\<lambda>d. \<not> dc_RequiresApproval d) (gi_Decision i)))"
proof (cases "gi_Valid i")
  case True
  let ?body = "unmarshal_lenient lenientGraded zero_graded (sr_BodyJSON (gi_Receipt i))"
  have "gr_Grade (GradeEvaluate order i) = ''A'' \<longleftrightarrow> missingOf i ?body = []"
    using True gradeOf_A by (simp add: GradeEvaluate_def Let_def)
  with True show ?thesis
    unfolding missingOf_Nil ball_simps missingOf_mem Let_def
    by (cases "gi_Decision i"; cases "gi_Context i"; cases "gb_CredentialGrant ?body"; cases "gb_Approval ?body")
      (auto simp: grantLacks_def approvalRequired_def)
qed (simp add: GradeEvaluate_def)

theorem grade_A_witness:
  "gr_Grade (GradeEvaluate rev demo_graded) = ''A'' \<and>
   gr_Grade (GradeEvaluate rev (demo_graded\<lparr>gi_Context := Some zero_context\<rparr>)) \<noteq> ''A''"
proof
  show "gr_Grade (GradeEvaluate rev demo_graded) = ''A''"
    unfolding grade_A Let_def demo_graded_body
    by (simp add: demo_graded_def demo_not_blank approvalApproved_def equal_fold_def)
  have "\<not> pred_option (\<lambda>c. \<not> blank (ce_PlanDigest (cx_Evidence c)) \<and> \<not> blank (ce_DiffURL (cx_Evidence c)))
      (gi_Context (demo_graded\<lparr>gi_Context := Some zero_context\<rparr>))"
    by (simp add: zero_context_def blank_def)
  then show "gr_Grade (GradeEvaluate rev (demo_graded\<lparr>gi_Context := Some zero_context\<rparr>)) \<noteq> ''A''"
    unfolding grade_A Let_def by blast
qed

text \<open>
  C35: a pack can be checked.  Its files have different names; \<open>sha256sums.txt\<close> lists the digest of
  every other file and \<open>manifest.json\<close> those of the documents with their sizes; but the policy file is
  the policy that the receipt's hash was taken of only when this ends in exactly one newline.
\<close>

theorem pack_checks:
  assumes "BuildFiles e i baseURL = Inr files"
  shows "distinct (map fst files) \<and>
    fileBytes files ''sha256sums.txt'' = concat (map (checksumLine (pe_Prims e) files)
      (sort (filter (\<lambda>n. n \<noteq> ''sha256sums.txt'') (map fst files)))) \<and>
    (\<exists>m. fileBytes files ''manifest.json'' = line (marshalIndent (manifestJson m)) \<and>
       mf_Files m = map (\<lambda>n. \<lparr>pf_Name = n, pf_SHA256 = DigestWithPrefix (pe_Prims e) (fileBytes files n),
                              pf_SizeBytes = length (fileBytes files n)\<rparr>)
         (sort (filter (\<lambda>n. n \<noteq> ''manifest.json'' \<and> n \<noteq> ''sha256sums.txt'') (map fst files)))) \<and>
    (fileBytes files ''policy.yaml'' = pi_Policy i \<longleftrightarrow>
      (\<exists>p. pi_Policy i = p @ [CHR 0x0A] \<and> (p = [] \<or> last p \<noteq> CHR 0x0A)))"
  using BuildFiles_distinct [OF assms] checksums_cover [OF assms] manifest_lists_files [OF assms]
    pack_policy [OF assms] policyFile_same by metis

theorem pack_checks_witness:
  "\<exists>files. BuildFiles demo_pack demo_pack_input [] = Inr files \<and> fileBytes files ''policy.yaml'' \<noteq> pi_Policy demo_pack_input"
proof -
  obtain files where f: "BuildFiles demo_pack demo_pack_input [] = Inr files" using demo_files by blast
  have "\<not> (\<exists>p. pi_Policy demo_pack_input = p @ [CHR 0x0A] \<and> (p = [] \<or> last p \<noteq> CHR 0x0A))"
    by (auto simp: demo_pack_input_def dest: arg_cong [where f = last])
  with pack_checks [OF f] f show ?thesis by blast
qed

section \<open>Keys\<close>

text \<open>
  C39: a key file that holds the seed in bare hexadecimal is read as the seed only when a newline follows;
  without it the 64 characters themselves are taken for a private key.
\<close>

theorem hex_seed_file:
  assumes "length seed = 32"
  shows "LoadEd25519PrivateKey p (Inr (hex_encode seed @ [CHR 0x0A])) =
      Inr (NewKeyFromSeed p seed, PublicOf (NewKeyFromSeed p seed)) \<and>
    LoadEd25519PrivateKey p (Inr (hex_encode seed)) = Inr (hex_encode seed, drop 32 (hex_encode seed))"
  using assms decodeBytes_hex_newline [OF assms] decodeBytes_hex_bare [OF assms]
  by (simp_all add: LoadEd25519PrivateKey_def PublicOf_def Let_def)

theorem hex_seed_file_witness:
  "LoadEd25519PrivateKey toy_prims (Inr (hex_encode demo_seed)) = Inr (hex_encode demo_seed, drop 32 (hex_encode demo_seed))"
  by (rule conjunct2 [OF hex_seed_file]) (simp add: demo_seed_def)

text \<open>
  C40: a generated key can be used.  When \<open>relia keys gen\<close> exits with 0 and the public key goes to another
  file, the gateway reads from the private key file the key that was generated; a new file is created
  with mode 0600, and a file that was overwritten keeps its mode.  A raw seed must not look like
  white space or an encoding prefix.
\<close>

theorem generated_key_loads:
  assumes "run env (name # ''keys'' # ''gen'' # args) w = (0, w')"
    and "ce_GenerateKey env = Inr (PublicOf priv, priv)" and "priv = NewKeyFromSeed (ce_Prims env) seed"
    and "length seed = 32"
    and "parseFlags [(''private'', FString []), (''public'', FString []), (''format'', FString ''hex''),
       (''overwrite'', FBool False)] args = Inr (fs, rest)"
    and "string_flag fs ''public'' \<noteq> string_flag fs ''private''"
    and "lower_ascii (trim_space (string_flag fs ''format'')) = ''raw'' \<Longrightarrow> raw_readable seed"
    and "ce_Read env (string_flag fs ''private'') = None"
  shows "LoadEd25519PrivateKey (ce_Prims env) (readFile env w' (string_flag fs ''private'')) = Inr (priv, PublicOf priv) \<and>
    map_option fst (cw_Files w' (string_flag fs ''private'')) =
      Some (case cw_Files w (string_flag fs ''private'') of None \<Rightarrow> 384 | Some (mode, _) \<Rightarrow> mode)"
proof -
  have gen: "keysGen env args w = (0, w')" using assms(1) by (simp add: run_def handleKeys_def)
  have seed: "take 32 priv = seed" using assms(3,4) by (simp add: NewKeyFromSeed_def)
  obtain bytes where b: "encodeKey env seed (string_flag fs ''format'') = Inr bytes"
    and f: "cw_Files w' (string_flag fs ''private'') = Some (modeOf w (string_flag fs ''private'') 384, bytes)"
    using keysGen_written [OF gen assms(2)] assms(5,6) unfolding seed by auto
  from encodeKey_loads [OF b assms(4,7)] assms(3,4,8) f show ?thesis
    by (simp add: readFile_def LoadEd25519PrivateKey_def modeOf_def Let_def)
qed

theorem generated_key_loads_witness:
  "\<exists>w. run demo_cli [''relia'', ''keys'', ''gen'', ''--private'', ''relia.key''] no_files = (0, w) \<and>
     LoadEd25519PrivateKey toy_prims (readFile demo_cli w ''relia.key'') = Inr (demo_priv, PublicOf demo_priv)"
proof -
  obtain w where w: "run demo_cli [''relia'', ''keys'', ''gen'', ''--private'', ''relia.key''] no_files = (0, w)"
    by (rule demo_keys_gen)
  have env: "ce_GenerateKey demo_cli = Inr (PublicOf demo_priv, demo_priv)" "ce_Prims demo_cli = toy_prims"
    "ce_Read demo_cli path = None" "demo_priv = NewKeyFromSeed (ce_Prims demo_cli) demo_seed" "length demo_seed = 32" for path
    by (simp_all add: demo_cli_def demo_priv_def demo_seed_def)
  have "lower_ascii (trim_space ''hex'') = ''hex''" by code_simp
  with generated_key_loads [OF w env(1,4,5) demo_key_flags] w env(2,3) show ?thesis
    by (auto simp: string_flag_def)
qed

section \<open>The schema\<close>

text \<open>
  C17: migrations run in order, each once.  However often the migrations of a driver are attempted on a
  database without recorded versions, each attempt failing anywhere or not at all, the schema is the
  result of the first so many scripts of the directory in the order of their names, each executed once,
  and exactly their versions are recorded.
\<close>

theorem migrations_in_order:
  assumes "migrationConfig driver = Inr (dir, table)" and "me_ReadDir env dir = Inr es"
    and "distinct (map fst es)" and "\<forall>e \<in> set es. plain_name (fst e)"
    and "listMigrationFiles env dir = Inr files"
    and "\<forall>env' \<in> set envs. same_files env env'" and "recorded table db = {}"
  shows "\<exists>n db'. attempts driver envs (Some db) = Some db' \<and> n \<le> length files \<and>
    execFiles env (take n files) (md_Schema db) = Inr (md_Schema db') \<and>
    recorded table db' = fileVersion ` set (take n files) \<and> distinct (map fileVersion files)"
proof -
  have dir: "dir \<noteq> []" using assms(1) by (auto simp: migrationConfig_def split: if_splits)
  note d = listed_versions [OF assms(5,2) dir assms(3,4)]
  have "migrated_by env table (md_Schema db) (take 0 files) db" using assms(7) by (simp add: migrated_by_def)
  from attempts_prefix [OF assms(1,5) d assms(6) this] d show ?thesis by (auto simp: migrated_by_def)
qed

theorem migrations_in_order_witness:
  "\<exists>n db'. attempts ''sqlite'' [demo_scripts demo_fault] (Some (fresh_db [])) = Some db' \<and> n \<le> 2 \<and>
     md_Schema db' = [''migrations/sqlite/0001_init.sql''] \<and>
     recorded ''schema_migrations'' db' = fileVersion ` set (take n
       [''migrations/sqlite/0001_init.sql'', ''migrations/sqlite/0002_slack_outbox.sql''])"
proof -
  let ?e = "demo_scripts demo_fault" and ?es = "[demo_scripts demo_fault]"
  obtain db where "attempts ''sqlite'' ?es (Some (fresh_db [])) = Some db" "md_Schema db = [''migrations/sqlite/0001_init.sql'']"
    by (rule demo_first_attempt) simp
  moreover have "\<exists>n db'. attempts ''sqlite'' ?es (Some (fresh_db [])) = Some db' \<and>
      n \<le> length [''migrations/sqlite/0001_init.sql'', ''migrations/sqlite/0002_slack_outbox.sql''] \<and>
      recorded ''schema_migrations'' db' = fileVersion ` set (take n
       [''migrations/sqlite/0001_init.sql'', ''migrations/sqlite/0002_slack_outbox.sql''])"
    using migrations_in_order [OF demo_sqlite _ demo_directory demo_listing, of demo_fault ?es "fresh_db []"]
    by (auto simp: demo_same recorded_def fresh_db_def)
  ultimately show ?thesis by (auto simp: numeral_2_eq_2)
qed

text \<open>
  C16: a gateway that starts has the whole schema.  When earlier starts, failed or not, left a database
  that had no versions recorded at first, and \<open>newServer\<close> succeeds on it, then all scripts of the
  directory have been executed on it in order, each once over all starts; a later start with the same
  scripts and no failure changes nothing.
\<close>

theorem gateway_schema:
  assumes "newServer su cfg = Inr srv" and "su_OpenDB su (se_Driver srv) (se_DSN srv) = Inr opened"
    and "attempts (se_Driver srv) envs (Some db) = Some opened"
    and "\<forall>env \<in> set envs. same_files (su_Migrations su) env"
    and "migrationConfig (se_Driver srv) = Inr (dir, table)" and "recorded table db = {}"
    and "me_ReadDir (su_Migrations su) dir = Inr es"
    and "distinct (map fst es)" and "\<forall>e \<in> set es. plain_name (fst e)"
    and "listMigrationFiles (su_Migrations su) dir = Inr files"
    and "same_files (su_Migrations su) later" and "\<And>p. me_Fault later p = None"
  shows "execFiles (su_Migrations su) files (md_Schema db) = Inr (md_Schema (se_DB srv)) \<and>
    recorded table (se_DB srv) = fileVersion ` set files \<and>
    Migrate later (se_Driver srv) (Some (se_DB srv)) = (Inr (), Some (se_DB srv))"
proof -
  let ?env = "su_Migrations su"
  have dir: "dir \<noteq> []" using assms(5) by (auto simp: migrationConfig_def split: if_splits)
  note d = listed_versions [OF assms(10,7) dir assms(8,9)]
  have m: "Migrate ?env (se_Driver srv) (Some opened) = (Inr (), Some (se_DB srv))"
    using newServer_migrated [OF assms(1)] assms(2) by auto
  have "migrated_by ?env table (md_Schema db) (take 0 files) db" using assms(6) by (simp add: migrated_by_def)
  from attempts_prefix [OF assms(5,10) d assms(4) this] assms(3) obtain n where
    n: "n \<le> length files" "migrated_by ?env table (md_Schema db) (take n files) opened" by auto
  have same: "same_files ?env ?env" by (simp add: same_files_def)
  from Migrate_prefix [OF assms(5,10) d same n(2,1) m] have "migrated_by ?env table (md_Schema db) files (se_DB srv)"
    by auto
  with Migrate_again [OF m assms(11,12)] show ?thesis by (simp add: migrated_by_def)
qed

theorem gateway_schema_witness:
  "\<exists>srv. newServer demo_start demo_config = Inr srv \<and>
     recorded ''schema_migrations'' (se_DB srv) = fileVersion ` set
       [''migrations/sqlite/0001_init.sql'', ''migrations/sqlite/0002_slack_outbox.sql''] \<and>
     Migrate (su_Migrations demo_start) ''sqlite'' (Some (se_DB srv)) = (Inr (), Some (se_DB srv))"
proof -
  obtain srv where s: "newServer demo_start demo_config = Inr srv" and d: "se_Driver srv = ''sqlite''"
    by (rule demo_started)
  have open_db: "su_OpenDB demo_start (se_Driver srv) (se_DSN srv) = Inr (fresh_db empty_db)"
    and first: "attempts (se_Driver srv) [] (Some (fresh_db empty_db)) = Some (fresh_db empty_db)"
    and fresh: "recorded ''schema_migrations'' (fresh_db empty_db) = {}"
    and same: "same_files (su_Migrations demo_start) (su_Migrations demo_start)"
    by (simp_all add: recorded_def fresh_db_def same_files_def)
  have "me_ReadDir (su_Migrations demo_start) ''migrations/sqlite'' = Inr demo_files" by simp
  from gateway_schema [OF s open_db first _ _ fresh this demo_directory demo_start_listing same] s d
  show ?thesis by (auto simp: demo_sqlite)
qed

end
